(* ===== verification/Prelude.thy ===== *)
theory Prelude
  imports Main "HOL-Library.AList" "HOL-Library.Char_ord" "HOL-Library.List_Lexorder"
begin

text \<open>
  Shared vocabulary of the development: Python exceptions as values, the sequencing of
  steps that may raise, Python's \<open>or\<close> on optional strings, the process environment, and
  the decimal notation of integers.

  A Python \<open>str\<close> is modelled by its UTF-8 encoding, a list of \<^typ>\<open>char\<close> (each
  \<^typ>\<open>char\<close> one byte). Concatenation, equality, formatting and the comparison of
  code points are faithful under that encoding, and \<open>bytes(s, 'utf-8')\<close> is the identity.
\<close>

section \<open>Exceptions and steps that may raise\<close>

text \<open>
  The exceptions the modelled code can raise. \<open>Unmodelled\<close> is no Python exception: it
  marks the few inputs whose behaviour the model leaves open (each definition that uses it
  says which), so that no theorem about a normal result can rest on them.
\<close>

datatype pyexn =
    KeyError string
  | TypeError
  | ValueError string
  | AttributeError
  | IndexError
  | OverflowError
  | JSONDecodeError
  | UnicodeDecodeError
  | ClientError string
  | ApiException string
  | TimeoutError string
  | FileNotFoundError
  | PyException "string list"
  | SupersetException string
  | NameError string
  | ImportError string
  | SystemExit nat
  | External string
  | Unmodelled

definition bindE :: "'e + 'a \<Rightarrow> ('a \<Rightarrow> 'e + 'b) \<Rightarrow> 'e + 'b" where
  "bindE m f = (case m of Inl e \<Rightarrow> Inl e | Inr x \<Rightarrow> f x)"

named_theorems py_simps \<open>rewriting of the Python-level operations\<close>

lemma bindE_Inl [simp, py_simps]: "bindE (Inl e) f = Inl e"
  by (simp add: bindE_def)

lemma bindE_Inr [simp, py_simps]: "bindE (Inr x) f = f x"
  by (simp add: bindE_def)

lemma bindE_eq_Inr: "bindE m f = Inr y \<longleftrightarrow> (\<exists>x. m = Inr x \<and> f x = Inr y)"
  by (cases m) simp_all

lemma bindE_ex_Inr: "(\<exists>y. bindE m f = Inr y) \<longleftrightarrow> (\<exists>x. m = Inr x \<and> (\<exists>y. f x = Inr y))"
  by (cases m) simp_all

lemma bindE_eq_Inl: "bindE m f = Inl e \<longleftrightarrow> m = Inl e \<or> (\<exists>x. m = Inr x \<and> f x = Inl e)"
  by (cases m) auto

lemma bindE_assoc: "bindE (bindE m f) g = bindE m (\<lambda>x. bindE (f x) g)"
  by (cases m) simp_all

lemma bindE_cong [fundef_cong]:
  "m = m' \<Longrightarrow> (\<And>x. m' = Inr x \<Longrightarrow> f x = f' x) \<Longrightarrow> bindE m f = bindE m' f'"
  by (cases m') simp_all

section \<open>Python's \<open>or\<close> on optional strings\<close>

text \<open>
  \<open>None\<close> and the empty string are false; \<open>a or b\<close> is \<open>a\<close> when \<open>a\<close> is true and
  evaluates \<open>b\<close> otherwise. \<open>str_orE\<close> is the form whose right operand may raise: it
  raises only when it is evaluated.
\<close>

fun truthy :: "string option \<Rightarrow> bool" where
  "truthy (Some (c # cs)) = True"
| "truthy _ = False"

fun str_or :: "string option \<Rightarrow> string \<Rightarrow> string" where
  "str_or (Some (c # cs)) d = c # cs"
| "str_or _ d = d"

fun opt_or :: "string option \<Rightarrow> string option \<Rightarrow> string option" where
  "opt_or (Some (c # cs)) d = Some (c # cs)"
| "opt_or _ d = d"

fun str_orE :: "string option \<Rightarrow> pyexn + string \<Rightarrow> pyexn + string" where
  "str_orE (Some (c # cs)) d = Inr (c # cs)"
| "str_orE _ d = d"

lemma truthy_iff: "truthy v \<longleftrightarrow> (\<exists>s. v = Some s \<and> s \<noteq> [])"
  by (cases v rule: truthy.cases) auto

lemma str_or_conv: "str_or v d = (if truthy v then the v else d)"
  by (cases v rule: truthy.cases) simp_all

lemma opt_or_conv: "opt_or v d = (if truthy v then v else d)"
  by (cases v rule: truthy.cases) simp_all

lemma str_orE_conv: "str_orE v d = (if truthy v then Inr (the v) else d)"
  by (cases v rule: truthy.cases) simp_all

lemmas or_conv = str_or_conv opt_or_conv str_orE_conv

section \<open>The process environment\<close>

type_synonym environ = "string \<rightharpoonup> string"

text \<open>\<open>os.environ.get(k, d)\<close>, and \<open>os.environ[k]\<close>, which raises.\<close>

definition env_get_or :: "environ \<Rightarrow> string \<Rightarrow> string \<Rightarrow> string" where
  "env_get_or env k d = (case env k of None \<Rightarrow> d | Some v \<Rightarrow> v)"

definition env_item :: "environ \<Rightarrow> string \<Rightarrow> pyexn + string" where
  "env_item env k = (case env k of None \<Rightarrow> Inl (KeyError k) | Some v \<Rightarrow> Inr v)"

text \<open>Text files by path; \<open>open(path).read()\<close> of one that is not there raises.\<close>

type_synonym files = "string \<rightharpoonup> string"

definition read_file :: "files \<Rightarrow> string \<Rightarrow> pyexn + string" where
  "read_file fs path = (case fs path of None \<Rightarrow> Inl FileNotFoundError | Some s \<Rightarrow> Inr s)"

section \<open>\<open>startswith\<close> and \<open>endswith\<close>\<close>

definition starts_with :: "string \<Rightarrow> string \<Rightarrow> bool" where
  "starts_with s p = (take (length p) s = p)"

definition ends_with :: "string \<Rightarrow> string \<Rightarrow> bool" where
  "ends_with s p = (length p \<le> length s \<and> drop (length s - length p) s = p)"

lemma starts_with_iff: "starts_with s p \<longleftrightarrow> (\<exists>r. s = p @ r)"
  unfolding starts_with_def by (metis append_eq_conv_conj append_take_drop_id)

lemma ends_with_iff: "ends_with s p \<longleftrightarrow> (\<exists>r. s = r @ p)"
proof
  assume "ends_with s p"
  then have "s = take (length s - length p) s @ p"
    unfolding ends_with_def by (metis append_take_drop_id)
  then show "\<exists>r. s = r @ p" ..
qed (auto simp: ends_with_def)

text \<open>\<open>os.path.basename\<close>.\<close>

definition basename :: "string \<Rightarrow> string" where
  "basename p = rev (takeWhile (\<lambda>c. c \<noteq> CHR ''/'') (rev p))"

section \<open>Searching and splitting\<close>

text \<open>\<open>cut p s\<close>: what stands in front of and behind the first \<open>p\<close> in \<open>s\<close>.\<close>

fun cut :: "string \<Rightarrow> string \<Rightarrow> (string \<times> string) option" where
  "cut p s = (if starts_with s p then Some ([], drop (length p) s)
     else case s of [] \<Rightarrow> None | c # cs \<Rightarrow> map_option (apfst ((#) c)) (cut p cs))"

declare cut.simps [simp del]

lemma cut_Some: "cut p s = Some (a, r) \<Longrightarrow> s = a @ p @ r"
proof (induction p s arbitrary: a r rule: cut.induct)
  case (1 p s)
  show ?case
  proof (cases "starts_with s p")
    case True
    with "1.prems" show ?thesis by (auto simp: cut.simps [of p s] starts_with_iff)
  next
    case False
    with 1 show ?thesis by (auto simp: cut.simps [of p s] apfst_def map_prod_def split: list.splits)
  qed
qed

lemma cut_None: "cut p s = None \<longleftrightarrow> (\<nexists>a r. s = a @ p @ r)"
proof (induction s)
  case Nil
  then show ?case by (auto simp: cut.simps [of p "[]"] starts_with_iff)
next
  case (Cons c cs)
  have "(\<exists>a r. c # cs = a @ p @ r) \<longleftrightarrow> starts_with (c # cs) p \<or> (\<exists>a r. cs = a @ p @ r)"
    unfolding starts_with_iff by (metis Cons_eq_append_conv append_Cons append_Nil)
  then show ?case using Cons by (auto simp: cut.simps [of p "c # cs"])
qed

definition contains :: "string \<Rightarrow> string \<Rightarrow> bool" where
  "contains p s = (cut p s \<noteq> None)"

text \<open>\<open>s.split(p)\<close> for a separator that is not empty.\<close>

function split_at :: "string \<Rightarrow> string \<Rightarrow> string list" where
  "split_at p s = (case cut p s of
     None \<Rightarrow> [s] | Some (a, r) \<Rightarrow> if p = [] then [s] else a # split_at p r)"
  by pat_completeness auto
termination
  by (relation "measure (\<lambda>(p, s). length s)") (auto dest!: cut_Some)

declare split_at.simps [simp del]

lemma split_at_nonempty [simp]: "split_at p s \<noteq> []"
  by (simp add: split_at.simps [of p s] split: option.split)

text \<open>\<open>os.path.join\<close> on a POSIX system.\<close>

definition path_join2 :: "string \<Rightarrow> string \<Rightarrow> string" where
  "path_join2 a b = (if starts_with b ''/'' then b
     else if a = [] \<or> ends_with a ''/'' then a @ b else a @ ''/'' @ b)"

definition path_join :: "string \<Rightarrow> string list \<Rightarrow> string" where
  "path_join a bs = foldl path_join2 a bs"

section \<open>Encodings\<close>

text \<open>
  What a reader and a writer of texts promise each other: on good values, reading back what was
  written gives the value. Different good values then have different texts.
\<close>

locale codec =
  fixes encode :: "'a \<Rightarrow> string" and decode :: "string \<Rightarrow> 'r" and result :: "'a \<Rightarrow> 'r" and good :: "'a \<Rightarrow> bool"
  assumes decode_encode: "good v \<Longrightarrow> decode (encode v) = result v"
    and result_inj: "result v = result w \<Longrightarrow> v = w"
begin

lemma encode_inj: "good v \<Longrightarrow> good w \<Longrightarrow> encode v = encode w \<longleftrightarrow> v = w"
  by (metis decode_encode result_inj)

end

section \<open>Steps on a world\<close>

text \<open>
  A call that changes a world and may raise: the exception or the result, and the world after
  it. \<open>bindS\<close> runs the second step only when the first one has returned.
\<close>

type_synonym ('w, 'a) step_on = "'w \<Rightarrow> (pyexn + 'a) \<times> 'w"

definition returnS :: "'a \<Rightarrow> ('w, 'a) step_on" where
  "returnS x w = (Inr x, w)"

definition raiseS :: "pyexn \<Rightarrow> ('w, 'a) step_on" where
  "raiseS e w = (Inl e, w)"

definition bindS :: "('w, 'a) step_on \<Rightarrow> ('a \<Rightarrow> ('w, 'b) step_on) \<Rightarrow> ('w, 'b) step_on" where
  "bindS m f w = (case m w of (Inl e, w') \<Rightarrow> (Inl e, w') | (Inr x, w') \<Rightarrow> f x w')"

definition lift :: "pyexn + 'a \<Rightarrow> ('w, 'a) step_on" where
  "lift r w = (r, w)"

lemma stepS_simps [simp, py_simps]:
  "returnS x w = (Inr x, w)"
  "raiseS e w = (Inl e, w)"
  by (simp_all add: returnS_def raiseS_def)

lemma bindS_Inr: "m w = (Inr x, w') \<Longrightarrow> bindS m f w = f x w'"
  by (simp add: bindS_def)

lemma bindS_Inl: "m w = (Inl e, w') \<Longrightarrow> bindS m f w = (Inl e, w')"
  by (simp add: bindS_def)

lemma bindS_assoc: "bindS (bindS m f) g = bindS m (\<lambda>x. bindS (f x) g)"
  by (intro ext) (simp add: bindS_def split: prod.split sum.split)

lemma bindS_iff:
  "bindS m f w = (r, w') \<longleftrightarrow>
   (\<exists>e. m w = (Inl e, w') \<and> r = Inl e) \<or> (\<exists>x v. m w = (Inr x, v) \<and> f x v = (r, w'))"
  by (auto simp: bindS_def split: prod.splits sum.splits)

lemma bindS_const:
  "bindS (returnS x) f = f x" "bindS (lift (Inr x)) f = f x" "bindS (lift (Inl e)) f = raiseS e"
  by (simp_all add: fun_eq_iff bindS_def lift_def)

text \<open>
  \<open>step_rel R m\<close>: whether the step returns or raises, the world after it is related to the
  world before. A preorder is kept by any sequence of steps that keep it.
\<close>

definition step_rel :: "('w \<Rightarrow> 'w \<Rightarrow> bool) \<Rightarrow> ('w, 'a) step_on \<Rightarrow> bool" where
  "step_rel R m \<longleftrightarrow> (\<forall>w. R w (snd (m w)))"

named_theorems step_rels \<open>steps that keep a relation\<close>

lemma step_relD: "step_rel R m \<Longrightarrow> m w = (r, w') \<Longrightarrow> R w w'"
  unfolding step_rel_def by (metis snd_conv)

lemma step_rel_bindS [step_rels]:
  assumes "transp R" and "step_rel R m" and "\<And>x. step_rel R (f x)"
  shows "step_rel R (bindS m f)"
  unfolding step_rel_def
proof
  fix w
  obtain r w' where m: "m w = (r, w')" by fastforce
  then have "R w w'" using assms(2) by (auto dest: step_relD)
  moreover have "R w' (snd (f x w'))" for x using assms(3) [of x] by (simp add: step_rel_def)
  ultimately show "R w (snd (bindS m f w))"
    using m assms(1) by (cases r) (auto simp: bindS_def dest: transpD)
qed

lemma step_rel_const [step_rels]:
  assumes "reflp R"
  shows "step_rel R (returnS x)" and "step_rel R (raiseS e)" and "step_rel R (lift v)"
  using assms by (auto simp: step_rel_def returnS_def raiseS_def lift_def dest: reflpD)

lemma step_rel_lift:
  assumes "reflp R" and "\<And>x. v = Inr x \<Longrightarrow> step_rel R (f x)"
  shows "step_rel R (bindS (lift v) f)"
  using assms by (cases v) (auto simp: bindS_const step_rel_def raiseS_def dest: reflpD)

lemma step_rel_if [step_rels]: "step_rel R a \<Longrightarrow> step_rel R b \<Longrightarrow> step_rel R (if c then a else b)"
  by simp

section \<open>Decimal notation\<close>

definition is_digit :: "char \<Rightarrow> bool" where
  "is_digit c = (48 \<le> (of_char c :: nat) \<and> (of_char c :: nat) \<le> 57)"

definition digit_val :: "char \<Rightarrow> nat" where
  "digit_val c = of_char c - 48"

definition digit_char :: "nat \<Rightarrow> char" where
  "digit_char d = char_of (48 + d)"

fun show_nat :: "nat \<Rightarrow> string" where
  "show_nat n = (if n < 10 then [digit_char n] else show_nat (n div 10) @ [digit_char (n mod 10)])"

declare show_nat.simps [simp del]

definition show_int :: "int \<Rightarrow> string" where
  "show_int i = (if i < 0 then ''-'' @ show_nat (nat (- i)) else show_nat (nat i))"

definition dec_val :: "string \<Rightarrow> nat" where
  "dec_val ds = foldl (\<lambda>a c. 10 * a + digit_val c) 0 ds"

lemma of_char_digit_char: "d < 10 \<Longrightarrow> (of_char (digit_char d) :: nat) = 48 + d"
  by (simp add: digit_char_def of_char_of)

lemma is_digit_digit_char [simp]: "d < 10 \<Longrightarrow> is_digit (digit_char d)"
  by (simp add: is_digit_def of_char_digit_char)

lemma digit_val_digit_char [simp]: "d < 10 \<Longrightarrow> digit_val (digit_char d) = d"
  by (simp add: digit_val_def of_char_digit_char)

lemma show_nat_digits: "\<forall>c \<in> set (show_nat n). is_digit c"
proof (induction n rule: show_nat.induct)
  case (1 n)
  then show ?case
    by (cases "n < 10") (auto simp: show_nat.simps [of n])
qed

lemma show_nat_nonempty [simp]: "show_nat n \<noteq> []"
  by (simp add: show_nat.simps [of n])

lemma dec_val_show_nat: "dec_val (show_nat n) = n"
proof (induction n rule: show_nat.induct)
  case (1 n)
  then show ?case
    by (cases "n < 10") (simp_all add: show_nat.simps [of n] dec_val_def)
qed

text \<open>A decimal never starts with a superfluous zero.\<close>

lemma show_nat_hd: "hd (show_nat n) = CHR ''0'' \<Longrightarrow> n = 0"
proof (induction n rule: show_nat.induct)
  case (1 n)
  show ?case
  proof (cases "n < 10")
    case True
    with "1.prems" have "of_char (digit_char n) = (of_char (CHR ''0'') :: nat)"
      by (simp add: show_nat.simps [of n])
    with True show ?thesis by (simp add: of_char_digit_char)
  next
    case False
    with "1.prems" have "hd (show_nat (n div 10)) = CHR ''0''"
      by (simp add: show_nat.simps [of n])
    with False "1.IH" have "n div 10 = 0" by simp
    with False show ?thesis by simp
  qed
qed

section \<open>\<open>int(s)\<close> on a string\<close>

text \<open>
  Surrounding white space, an optional sign, digits with single underscores between them;
  anything else raises \<open>ValueError\<close>. (Digits outside ASCII are not modelled.)
\<close>

definition is_space :: "char \<Rightarrow> bool" where
  "is_space c = (c = CHR '' '' \<or> (9 \<le> (of_char c :: nat) \<and> (of_char c :: nat) \<le> 13) \<or>
      (28 \<le> (of_char c :: nat) \<and> (of_char c :: nat) \<le> 31))"

definition strip :: "string \<Rightarrow> string" where
  "strip s = rev (dropWhile is_space (rev (dropWhile is_space s)))"

fun int_digits :: "nat \<Rightarrow> string \<Rightarrow> nat option" where
  "int_digits acc [] = Some acc"
| "int_digits acc (c # cs) =
     (if is_digit c then int_digits (10 * acc + digit_val c) cs
      else if c = CHR ''_'' then
        (case cs of [] \<Rightarrow> None
         | d # ds \<Rightarrow> if is_digit d then int_digits (10 * acc + digit_val d) ds else None)
      else None)"

fun int_unsigned :: "string \<Rightarrow> nat option" where
  "int_unsigned [] = None"
| "int_unsigned (c # cs) = (if is_digit c then int_digits (digit_val c) cs else None)"

definition py_int :: "string \<Rightarrow> pyexn + int" where
  "py_int s =
     (let t = strip s;
          r = (case t of [] \<Rightarrow> None
               | c # cs \<Rightarrow>
                   if c = CHR ''-'' then map_option (\<lambda>n. - int n) (int_unsigned cs)
                   else if c = CHR ''+'' then map_option int (int_unsigned cs)
                   else map_option int (int_unsigned t))
      in case r of None \<Rightarrow> Inl (ValueError ''invalid literal for int()'') | Some i \<Rightarrow> Inr i)"

lemma int_digits_foldl:
  "\<forall>c \<in> set ds. is_digit c \<Longrightarrow>
   int_digits acc ds = Some (foldl (\<lambda>a c. 10 * a + digit_val c) acc ds)"
  by (induction ds arbitrary: acc) simp_all

lemma int_unsigned_show_nat: "int_unsigned (show_nat n) = Some n"
proof -
  obtain c cs where s: "show_nat n = c # cs"
    using show_nat_nonempty [of n] by (cases "show_nat n") auto
  have "int_digits (digit_val c) cs = Some (foldl (\<lambda>a c. 10 * a + digit_val c) (digit_val c) cs)"
    using show_nat_digits [of n] s by (intro int_digits_foldl) simp
  moreover have "foldl (\<lambda>a c. 10 * a + digit_val c) (digit_val c) cs = n"
    using dec_val_show_nat [of n] by (simp add: dec_val_def s)
  ultimately show ?thesis
    using show_nat_digits [of n] by (simp add: s)
qed

lemma digit_not_space: "is_digit c \<Longrightarrow> \<not> is_space c"
  by (auto simp: is_digit_def is_space_def)

lemma digit_not_sign: "is_digit c \<Longrightarrow> c \<noteq> CHR ''-'' \<and> c \<noteq> CHR ''+''"
  by (auto simp: is_digit_def)

lemma strip_digits: "\<forall>c \<in> set s. is_digit c \<Longrightarrow> strip s = s"
proof -
  assume d: "\<forall>c \<in> set s. is_digit c"
  have *: "dropWhile is_space t = t" if "\<forall>c \<in> set t. is_digit c" for t
    using that by (cases t) (auto simp: digit_not_space)
  show ?thesis using d by (simp add: strip_def *)
qed

lemma py_int_show_nat: "py_int (show_nat n) = Inr (int n)"
proof -
  obtain c cs where s: "show_nat n = c # cs"
    using show_nat_nonempty [of n] by (cases "show_nat n") auto
  have "is_digit c" using show_nat_digits [of n] by (simp add: s)
  then show ?thesis
    using strip_digits [OF show_nat_digits, of n] int_unsigned_show_nat [of n]
    by (simp add: py_int_def Let_def s digit_not_sign)
qed

end
