(* ===== verification/PyFloat.thy ===== *)
theory PyFloat
  imports Complex_Main Prelude
begin

text \<open>
  Python's floats where the code divides: binary64 values as the rationals they are, with every
  operation rounded to the nearest value, ties to even. A result of a magnitude of \<open>2 ^ 1024\<close> or
  more is \<open>OverflowError\<close>. (Python raises it at once for a division of integers; a sum
  that overflows is an infinity there, which raises the same exception when it is made an
  integer. Subnormal results keep their full precision here.)
\<close>

section \<open>Rounding\<close>

definition pow2 :: "int \<Rightarrow> rat" where
  "pow2 e = (if 0 \<le> e then 2 ^ nat e else 1 / 2 ^ nat (- e))"

definition round_even :: "rat \<Rightarrow> int" where
  "round_even x = (let f = \<lfloor>x\<rfloor>; d = x - of_int f
     in if d < 1 / 2 then f else if 1 / 2 < d then f + 1 else if even f then f else f + 1)"

text \<open>The binary exponent of a positive number.\<close>

fun nlog2 :: "nat \<Rightarrow> nat" where
  "nlog2 n = (if n < 2 then 0 else Suc (nlog2 (n div 2)))"

declare nlog2.simps [simp del]

definition ilog2 :: "rat \<Rightarrow> int" where
  "ilog2 x = (if 1 \<le> x then int (nlog2 (nat \<lfloor>x\<rfloor>))
     else - int (nlog2 (nat (\<lceil>1 / x\<rceil> - 1))) - 1)"

definition round53 :: "rat \<Rightarrow> rat" where
  "round53 x = (let u = pow2 (ilog2 x - 52) in of_int (round_even (x / u)) * u)"

definition round_signed :: "rat \<Rightarrow> rat" where
  "round_signed x = (if x = 0 then 0 else if x < 0 then - round53 (- x) else round53 x)"

definition fl :: "rat \<Rightarrow> pyexn + rat" where
  "fl x = (let r = round_signed x in if \<bar>r\<bar> < 2 ^ 1024 then Inr r else Inl OverflowError)"

text \<open>\<open>int(x)\<close> of a float: the part after the point is dropped, also of a negative one.\<close>

definition trunc :: "rat \<Rightarrow> int" where
  "trunc x = (if x < 0 then \<lceil>x\<rceil> else \<lfloor>x\<rfloor>)"

section \<open>The error of rounding\<close>

lemma pow2_pos [simp]: "0 < pow2 e"
  by (simp add: pow2_def)

lemma pow2_powi: "pow2 e = 2 powi e"
proof (cases "0 \<le> e")
  case True
  then show ?thesis unfolding pow2_def power_int_def by simp
next
  case False
  then show ?thesis unfolding pow2_def power_int_def by (simp only: if_False inverse_eq_divide power_one_over)
qed

lemma pow2_add: "pow2 (a + b) = pow2 a * pow2 b"
  unfolding pow2_powi by (rule power_int_add) simp

lemma round_even_error: "\<bar>of_int (round_even x) - x\<bar> \<le> 1 / 2"
proof -
  have "of_int \<lfloor>x\<rfloor> \<le> x" "x < of_int \<lfloor>x\<rfloor> + 1" by linarith+
  then show ?thesis unfolding round_even_def Let_def abs_if of_int_add
    by (simp split: if_splits; linarith)
qed

lemma nlog2_simps [simp]:
  "nlog2 (Suc 0) = 0"
  "nlog2 1 = 0"
  "nlog2 (numeral (Num.Bit0 k)) = Suc (nlog2 (numeral k))"
  "nlog2 (numeral (Num.Bit1 k)) = Suc (nlog2 (numeral k))"
  by (simp_all add: nlog2.simps [of "Suc 0"] nlog2.simps [of "numeral (Num.Bit0 k)"]
      nlog2.simps [of "numeral (Num.Bit1 k)"])

lemma nlog2_bounds: "0 < n \<Longrightarrow> 2 ^ nlog2 n \<le> n \<and> n < 2 * 2 ^ nlog2 n"
proof (induction n rule: nlog2.induct)
  case (1 n)
  show ?case
  proof (cases "n < 2")
    case True
    with 1 show ?thesis by (simp add: nlog2.simps [of n])
  next
    case False
    then have "2 ^ nlog2 (n div 2) \<le> n div 2 \<and> n div 2 < 2 * 2 ^ nlog2 (n div 2)"
      using 1 by simp
    then have "2 * 2 ^ nlog2 (n div 2) \<le> n \<and> n < 2 * (2 * 2 ^ nlog2 (n div 2))" by linarith
    then show ?thesis using False by (simp add: nlog2.simps [of n])
  qed
qed

lemma nlog2_bounds_rat:
  assumes "0 < n"
  shows "(2 :: rat) ^ nlog2 n \<le> of_nat n" "of_nat n + 1 \<le> (2 :: rat) * 2 ^ nlog2 n"
proof -
  have "2 ^ nlog2 n \<le> n" "n + 1 \<le> 2 * 2 ^ nlog2 n" using nlog2_bounds [OF assms] by linarith+
  then have "(of_nat (2 ^ nlog2 n) :: rat) \<le> of_nat n" "(of_nat (n + 1) :: rat) \<le> of_nat (2 * 2 ^ nlog2 n)"
    unfolding of_nat_le_iff .
  then show "(2 :: rat) ^ nlog2 n \<le> of_nat n" "of_nat n + 1 \<le> (2 :: rat) * 2 ^ nlog2 n"
    by (simp_all only: of_nat_power of_nat_mult of_nat_add of_nat_numeral of_nat_1)
qed

lemma ilog2_bounds:
  assumes x: "0 < x"
  shows "pow2 (ilog2 x) \<le> x \<and> x < 2 * pow2 (ilog2 x)"
proof (cases "1 \<le> x")
  case True
  let ?n = "nat \<lfloor>x\<rfloor>"
  have "1 \<le> \<lfloor>x\<rfloor>" using True by (simp add: le_floor_iff)
  then have f: "0 < ?n" and n: "of_nat ?n \<le> x" "x < of_nat ?n + 1" by (simp, linarith+)
  have "(2 :: rat) ^ nlog2 ?n \<le> x" "x < 2 * 2 ^ nlog2 ?n"
    using n nlog2_bounds_rat [OF f] by linarith+
  then show ?thesis using True by (simp add: pow2_def ilog2_def)
next
  case False
  let ?m = "nat (\<lceil>1 / x\<rceil> - 1)"
  have "1 < 1 / x" using False x by simp
  then have "1 < \<lceil>1 / x\<rceil>" by (simp add: less_ceiling_iff)
  then have m: "0 < ?m" and n: "of_nat ?m < 1 / x" "1 / x \<le> of_nat ?m + 1" by (simp, linarith+)
  have b: "(2 :: rat) ^ nlog2 ?m < 1 / x" "1 / x \<le> 2 * 2 ^ nlog2 ?m"
    using n nlog2_bounds_rat [OF m] by linarith+
  have "nat (1 + int k) = Suc k" for k by simp
  then have e: "pow2 (ilog2 x) = 1 / (2 * 2 ^ nlog2 ?m)"
    using False unfolding pow2_def ilog2_def by simp
  show ?thesis unfolding e using b x by (simp add: field_simps)
qed

lemma round53_error: "0 < x \<Longrightarrow> \<bar>round53 x - x\<bar> \<le> x / 2 ^ 53"
proof -
  assume x: "0 < x"
  let ?u = "pow2 (ilog2 x - 52)"
  have u: "0 < ?u" by simp
  have "\<bar>round53 x - x\<bar> = \<bar>(of_int (round_even (x / ?u)) - x / ?u) * ?u\<bar>"
    using u by (simp add: round53_def Let_def left_diff_distrib less_imp_neq [THEN not_sym])
  also have "\<dots> = \<bar>of_int (round_even (x / ?u)) - x / ?u\<bar> * ?u"
    unfolding abs_mult abs_of_pos [OF u] ..
  also have "\<dots> \<le> 1 / 2 * ?u" by (rule mult_right_mono [OF round_even_error less_imp_le [OF u]])
  also have "1 / 2 * ?u \<le> x / 2 ^ 53"
  proof -
    have "pow2 (ilog2 x) = ?u * pow2 52" by (simp flip: pow2_add)
    then have "?u * 2 ^ 52 \<le> x" using ilog2_bounds [OF x] by (simp add: pow2_def)
    then show ?thesis by simp
  qed
  finally show ?thesis .
qed

lemma round_signed_error: "\<bar>round_signed x - x\<bar> \<le> \<bar>x\<bar> / 2 ^ 53"
proof (cases "x < 0")
  case True
  have "\<bar>round_signed x - x\<bar> = \<bar>round53 (- x) - (- x)\<bar>"
    using True by (simp add: round_signed_def abs_if)
  also have "\<dots> \<le> - x / 2 ^ 53" using True by (intro round53_error) simp
  finally show ?thesis using True by simp
next
  case False
  then show ?thesis using round53_error [of x] by (auto simp: round_signed_def)
qed

lemma fl_error: "fl x = Inr y \<Longrightarrow> \<bar>y - x\<bar> \<le> \<bar>x\<bar> / 2 ^ 53"
  using round_signed_error [of x] by (auto simp: fl_def Let_def split: if_splits)

lemma fl_zero [simp]: "fl 0 = Inr 0"
  by (simp add: fl_def round_signed_def)

lemma fl_nonneg: "fl x = Inr y \<Longrightarrow> 0 \<le> x \<Longrightarrow> 0 \<le> y"
  using fl_error [of x y] by (simp add: abs_if split: if_splits)

lemma fl_le: "fl x = Inr y \<Longrightarrow> 0 \<le> x \<Longrightarrow> y \<le> x * (1 + 1 / 2 ^ 53)"
  using fl_error [of x y] by (simp add: abs_if algebra_simps split: if_splits)

text \<open>No overflow below \<open>2 ^ 1023\<close>.\<close>

lemma fl_small: "\<bar>x\<bar> \<le> 2 ^ 1023 \<Longrightarrow> \<exists>y. fl x = Inr y"
proof -
  assume x: "\<bar>x\<bar> \<le> 2 ^ 1023"
  have "\<bar>round_signed x - x\<bar> \<le> \<bar>x\<bar> / 2 ^ 53" by (rule round_signed_error)
  moreover have "\<bar>x\<bar> / 2 ^ 53 \<le> 2 ^ 970" using x by (simp add: field_simps flip: power_add)
  ultimately have "\<bar>round_signed x\<bar> \<le> 2 ^ 1023 + 2 ^ 970" using x by linarith
  moreover have "(2 :: rat) ^ 1023 + 2 ^ 970 < 2 ^ 1024" by simp
  ultimately have "\<bar>round_signed x\<bar> < 2 ^ 1024" by linarith
  then show ?thesis by (simp add: fl_def Let_def)
qed

lemma trunc_mono_bounds: "0 \<le> x \<Longrightarrow> x < of_int n \<Longrightarrow> 0 \<le> trunc x \<and> trunc x < n"
  by (simp add: trunc_def floor_less_iff)

section \<open>Exact results\<close>

lemma pow2_minus: "pow2 (- e) = 1 / pow2 e"
proof -
  have "pow2 (- e) * pow2 e = pow2 0" by (simp flip: pow2_add)
  also have "pow2 0 = 1" by (simp add: pow2_def)
  finally show ?thesis using pow2_pos [of e] by (simp add: eq_divide_eq less_imp_neq [THEN not_sym])
qed

lemma ilog2_less:
  assumes "0 < x" and "x < 2 ^ k"
  shows "ilog2 x < int k"
proof (rule ccontr)
  assume "\<not> ?thesis"
  then have "1 \<le> pow2 (ilog2 x - int k)" by (simp add: pow2_def)
  moreover have "pow2 (ilog2 x) = pow2 (int k) * pow2 (ilog2 x - int k)" by (simp flip: pow2_add)
  moreover have "pow2 (int k) = 2 ^ k" by (simp add: pow2_def)
  ultimately have "pow2 (ilog2 x) = 2 ^ k * pow2 (ilog2 x - int k)" "1 \<le> pow2 (ilog2 x - int k)"
    by simp_all
  then have "2 ^ k \<le> pow2 (ilog2 x)" by simp
  with ilog2_bounds [OF assms(1)] assms(2) show False by linarith
qed

lemma round_even_int [simp]: "round_even (of_int i) = i"
  by (simp add: round_even_def)

lemma round53_half:
  assumes "0 < i" and "i < 2 ^ 52"
  shows "round53 (of_int i / 2) = of_int i / 2"
proof -
  let ?x = "of_int i / 2 :: rat"
  let ?e = "51 - ilog2 ?x"
  have "(of_int i :: rat) < of_int (2 ^ 52)" using assms(2) by (simp only: of_int_less_iff)
  then have x: "0 < ?x" "?x < 2 ^ 51" using assms(1) by simp_all
  from ilog2_less [OF x] have e: "0 \<le> ?e" by simp
  have u: "pow2 (ilog2 ?x - 52) = 1 / (2 * pow2 ?e)"
    using pow2_minus [of "1 + ?e"] pow2_add [of 1 ?e] by (simp add: pow2_def [of 1])
  have "?x / pow2 (ilog2 ?x - 52) = of_int (i * 2 ^ nat ?e)"
    unfolding u using e by (simp add: pow2_def [of ?e])
  then have "round53 ?x = of_int (i * 2 ^ nat ?e) * pow2 (ilog2 ?x - 52)"
    unfolding round53_def Let_def by (simp only: round_even_int)
  also have "\<dots> = ?x" unfolding u using e by (simp add: pow2_def [of ?e])
  finally show ?thesis .
qed

lemma fl_half: "i < 2 ^ 52 \<Longrightarrow> fl (of_nat i / 2) = Inr (of_nat i / 2)"
proof (cases "i = 0")
  case False
  assume i: "i < 2 ^ 52"
  have "round53 (of_int (int i) / 2) = of_int (int i) / 2"
    using i False by (intro round53_half) simp_all
  then have r: "round_signed (of_nat i / 2) = of_nat i / 2"
    using False by (simp add: round_signed_def)
  have "(of_nat i :: rat) < of_nat (2 ^ 52)" using i by (simp only: of_nat_less_iff)
  then have "\<bar>of_nat i / 2 :: rat\<bar> < 2 ^ 1024" by simp
  then show ?thesis by (simp add: fl_def r)
qed simp

lemma fl_nat: "n < 2 ^ 51 \<Longrightarrow> fl (of_nat n) = Inr (of_nat n)"
  using fl_half [of "2 * n"] by simp

end
