(* ===== verification/PyRepr.thy ===== *)
theory PyRepr
  imports PyFloat
begin

text \<open>
  \<open>repr\<close> of the values JSON has besides the containers: a float, read from its literal, in the shortest
  decimal notation that is read back as the same binary64 value; and a text, between quotes, with escapes.
\<close>

section \<open>Reading a literal\<close>

datatype pyfloat = NaN | Infinite bool | Finite bool rat

definition pow10 :: "int \<Rightarrow> rat" where
  "pow10 e = (if 0 \<le> e then 10 ^ nat e else 1 / 10 ^ nat (- e))"

text \<open>The binary64 value nearest to a positive number, with its smallest exponent; none is an infinity.\<close>

definition binary64 :: "rat \<Rightarrow> rat option" where
  "binary64 x =
     (if x = 0 then Some 0
      else let u = pow2 (max (ilog2 x - 52) (- 1074)); r = of_int (round_even (x / u)) * u
        in if r < 2 ^ 1024 then Some r else None)"

definition literal_exponent :: "string \<Rightarrow> int" where
  "literal_exponent s = (case s of
     [] \<Rightarrow> 0
   | _ # e \<Rightarrow> if starts_with e ''-'' then - int (dec_val (tl e))
       else if starts_with e ''+'' then int (dec_val (tl e)) else int (dec_val e))"

definition literal_value :: "string \<Rightarrow> rat" where
  "literal_value s =
     (let whole = takeWhile is_digit s; r = dropWhile is_digit s;
          part = (if starts_with r ''.'' then takeWhile is_digit (tl r) else []);
          r = (if starts_with r ''.'' then dropWhile is_digit (tl r) else r)
      in of_nat (dec_val (whole @ part)) * pow10 (literal_exponent r - int (length part)))"

definition float_of_literal :: "string \<Rightarrow> pyfloat" where
  "float_of_literal s =
     (if s = ''NaN'' then NaN
      else let neg = starts_with s ''-''; m = (if neg then tl s else s)
        in if m = ''Infinity'' then Infinite neg
           else case binary64 (literal_value m) of None \<Rightarrow> Infinite neg | Some x \<Rightarrow> Finite neg x)"

section \<open>Writing a float\<close>

text \<open>The place of the first decimal digit of a positive number.\<close>

definition ilog10 :: "rat \<Rightarrow> int" where
  "ilog10 x = (if 1 \<le> x then int (length (show_nat (nat \<lfloor>x\<rfloor>))) - 1
     else - int (length (show_nat (nat (\<lceil>1 / x\<rceil> - 1)))))"

text \<open>The decimal number of \<open>n\<close> digits next to \<open>x\<close> that is read back as \<open>x\<close>: its digits and the place of its point.\<close>

definition decimal_of :: "rat \<Rightarrow> nat \<Rightarrow> (string \<times> int) option" where
  "decimal_of x n =
     (let e = ilog10 x - int n + 1; scale = pow10 e;
          low = nat \<lfloor>x / scale\<rfloor>; high = low + 1;
          reads = (\<lambda>c. binary64 (of_nat c * scale) = Some x);
          below = x - of_nat low * scale; above = of_nat high * scale - x;
          pick = (\<lambda>c. Some (show_nat c, int (length (show_nat c)) + e))
      in if reads low \<and> reads high
         then pick (if below < above \<or> below = above \<and> even low then low else high)
         else if reads low then pick low
         else if reads high then pick high
         else None)"

fun first_some :: "(nat \<Rightarrow> 'a option) \<Rightarrow> nat list \<Rightarrow> 'a option" where
  "first_some f [] = None"
| "first_some f (n # ns) = (case f n of Some y \<Rightarrow> Some y | None \<Rightarrow> first_some f ns)"

definition strip_zeros :: "string \<Rightarrow> string" where
  "strip_zeros ds = rev (dropWhile (\<lambda>c. c = CHR ''0'') (rev ds))"

definition shortest :: "rat \<Rightarrow> string \<times> int" where
  "shortest x = (case first_some (decimal_of x) [1..<18] of
     Some (ds, point) \<Rightarrow> (strip_zeros ds, point)
   | None \<Rightarrow> ([], 0))"

definition zeros :: "int \<Rightarrow> string" where
  "zeros n = replicate (nat n) (CHR ''0'')"

text \<open>From \<open>0.0001\<close> to below \<open>10 ^ 16\<close> without an exponent; an exponent has two digits at least.\<close>

definition place_point :: "string \<Rightarrow> int \<Rightarrow> string" where
  "place_point ds point =
     (if - 4 < point \<and> point \<le> 16 then
        (if point \<le> 0 then ''0.'' @ zeros (- point) @ ds
         else if nat point < length ds then take (nat point) ds @ ''.'' @ drop (nat point) ds
         else ds @ zeros (point - int (length ds)) @ ''.0'')
      else
        take 1 ds @ (if length ds = 1 then [] else ''.'' @ drop 1 ds) @ ''e'' @
        (let e = point - 1; digits = show_nat (nat \<bar>e\<bar>)
         in (if e < 0 then ''-'' else ''+'') @ (if length digits = 1 then ''0'' else []) @ digits))"

fun float_repr :: "pyfloat \<Rightarrow> string" where
  "float_repr NaN = ''nan''"
| "float_repr (Infinite neg) = (if neg then ''-inf'' else ''inf'')"
| "float_repr (Finite neg x) =
     (if neg then ''-'' else []) @ (if x = 0 then ''0.0'' else case shortest x of (ds, point) \<Rightarrow> place_point ds point)"

text \<open>The notation \<open>json.dumps\<close> uses: only the special values are spelled in another way.\<close>

fun json_float :: "pyfloat \<Rightarrow> string" where
  "json_float NaN = ''NaN''"
| "json_float (Infinite neg) = (if neg then ''-Infinity'' else ''Infinity'')"
| "json_float (Finite neg x) = float_repr (Finite neg x)"

end
