(* ===== verification/PyJson.thy ===== *)
theory PyJson
  imports Prelude PyRepr Unprintable
begin

text \<open>
  JSON values as the modelled code handles them: the values \<open>json.loads\<close> builds (\<open>dict\<close>,
  \<open>list\<close>, \<open>str\<close>, \<open>int\<close>, \<open>float\<close>, \<open>bool\<close>, \<open>None\<close>), Python's operations on them, and
  the two codecs \<open>json.dumps\<close> and \<open>json.loads\<close> with their round trip.

  A \<open>dict\<close> keeps its insertion order, so it is an association list; a \<open>float\<close> is kept as the
  text of its literal, which \<open>PyRepr\<close> reads.
\<close>

section \<open>Values and operations\<close>

datatype json =
    JNull
  | JBool bool
  | JInt int
  | JFloat string
  | JStr string
  | JList "json list"
  | JObj "(string \<times> json) list"

text \<open>\<open>x.get(k, d)\<close>: only a \<open>dict\<close> has a method \<open>get\<close>.\<close>

fun py_get :: "json \<Rightarrow> string \<Rightarrow> json \<Rightarrow> pyexn + json" where
  "py_get (JObj kvs) k d = Inr (case map_of kvs k of None \<Rightarrow> d | Some v \<Rightarrow> v)"
| "py_get _ k d = Inl AttributeError"

text \<open>\<open>x[k]\<close> with a string key.\<close>

fun py_item :: "json \<Rightarrow> string \<Rightarrow> pyexn + json" where
  "py_item (JObj kvs) k = (case map_of kvs k of None \<Rightarrow> Inl (KeyError k) | Some v \<Rightarrow> Inr v)"
| "py_item _ k = Inl TypeError"

text \<open>\<open>d[k] = v\<close> on a value read from JSON.\<close>

fun set_item :: "json \<Rightarrow> string \<Rightarrow> json \<Rightarrow> pyexn + json" where
  "set_item (JObj kvs) k v = Inr (JObj (AList.update k v kvs))"
| "set_item _ k v = Inl TypeError"

text \<open>
  \<open>len(x)\<close>. The length of a string counts code points: the bytes of its encoding that are
  not continuation bytes.
\<close>

definition is_cont :: "char \<Rightarrow> bool" where
  "is_cont c = (128 \<le> (of_char c :: nat) \<and> (of_char c :: nat) < 192)"

fun py_len :: "json \<Rightarrow> pyexn + nat" where
  "py_len (JObj kvs) = Inr (length kvs)"
| "py_len (JList xs) = Inr (length xs)"
| "py_len (JStr s) = Inr (length (List.filter (\<lambda>c. \<not> is_cont c) s))"
| "py_len _ = Inl TypeError"

text \<open>The truth value of a JSON value. A float is false when its literal is read as a zero.\<close>

definition float_is_zero :: "string \<Rightarrow> bool" where
  "float_is_zero s = (case float_of_literal s of Finite neg x \<Rightarrow> x = 0 | _ \<Rightarrow> False)"

fun py_bool :: "json \<Rightarrow> bool" where
  "py_bool JNull = False"
| "py_bool (JBool b) = b"
| "py_bool (JInt i) = (i \<noteq> 0)"
| "py_bool (JFloat s) = (\<not> float_is_zero s)"
| "py_bool (JStr s) = (s \<noteq> [])"
| "py_bool (JList xs) = (xs \<noteq> [])"
| "py_bool (JObj kvs) = (kvs \<noteq> [])"

section \<open>Texts and code points\<close>

fun utf8_decode :: "string \<Rightarrow> nat list" where
  "utf8_decode [] = []"
| "utf8_decode (c # cs) =
     (let b = (of_char c :: nat) in
      if b < 128 then b # utf8_decode cs
      else if b < 224 then
        (case cs of c1 # r \<Rightarrow> ((b - 192) * 64 + (of_char c1 - 128)) # utf8_decode r
         | [] \<Rightarrow> [])
      else if b < 240 then
        (case cs of c1 # c2 # r \<Rightarrow>
           ((b - 224) * 4096 + (of_char c1 - 128) * 64 + (of_char c2 - 128)) # utf8_decode r
         | _ \<Rightarrow> [])
      else
        (case cs of c1 # c2 # c3 # r \<Rightarrow>
           ((b - 240) * 262144 + (of_char c1 - 128) * 4096 + (of_char c2 - 128) * 64
             + (of_char c3 - 128)) # utf8_decode r
         | _ \<Rightarrow> []))"

definition utf8_encode :: "nat \<Rightarrow> string" where
  "utf8_encode n =
     (if n < 128 then [char_of n]
      else if n < 2048 then [char_of (192 + n div 64), char_of (128 + n mod 64)]
      else if n < 65536 then
        [char_of (224 + n div 4096), char_of (128 + n div 64 mod 64), char_of (128 + n mod 64)]
      else
        [char_of (240 + n div 262144), char_of (128 + n div 4096 mod 64),
         char_of (128 + n div 64 mod 64), char_of (128 + n mod 64)])"

definition hex_digit :: "nat \<Rightarrow> char" where
  "hex_digit d = (if d < 10 then char_of (48 + d) else char_of (87 + d))"

section \<open>\<open>str\<close> and \<open>repr\<close>\<close>

text \<open>
  \<open>repr\<close> of a text: between single quotes, or double ones when it has a single quote and no double one;
  \<open>shown\<close> says which code points beyond ASCII stand for themselves.
\<close>

definition hex_digits :: "nat \<Rightarrow> nat \<Rightarrow> string" where
  "hex_digits k n = map (\<lambda>i. hex_digit (n div 16 ^ i mod 16)) (rev [0..<k])"

definition repr_cp :: "(nat \<Rightarrow> bool) \<Rightarrow> char \<Rightarrow> nat \<Rightarrow> string" where
  "repr_cp shown q n =
     (if n = of_char q \<or> n = 0x5C then [CHR 0x5C, char_of n]
      else if n = 0x09 then [CHR 0x5C, CHR ''t'']
      else if n = 0x0A then [CHR 0x5C, CHR ''n'']
      else if n = 0x0D then [CHR 0x5C, CHR ''r'']
      else if n < 32 \<or> n = 127 then [CHR 0x5C, CHR ''x''] @ hex_digits 2 n
      else if n < 127 \<or> shown n then utf8_encode n
      else if n < 256 then [CHR 0x5C, CHR ''x''] @ hex_digits 2 n
      else if n < 65536 then [CHR 0x5C, CHR ''u''] @ hex_digits 4 n
      else [CHR 0x5C, CHR ''U''] @ hex_digits 8 n)"

definition str_repr :: "(nat \<Rightarrow> bool) \<Rightarrow> string \<Rightarrow> string" where
  "str_repr shown s =
     (let q = (if CHR 0x27 \<in> set s \<and> CHR 0x22 \<notin> set s then CHR 0x22 else CHR 0x27)
      in q # concat (map (repr_cp shown q) (utf8_decode s)) @ [q])"

fun repr_with :: "(nat \<Rightarrow> bool) \<Rightarrow> json \<Rightarrow> string"
  and repr_elems :: "(nat \<Rightarrow> bool) \<Rightarrow> json list \<Rightarrow> string"
  and repr_members :: "(nat \<Rightarrow> bool) \<Rightarrow> (string \<times> json) list \<Rightarrow> string"
where
  "repr_with shown JNull = ''None''"
| "repr_with shown (JBool b) = (if b then ''True'' else ''False'')"
| "repr_with shown (JInt i) = show_int i"
| "repr_with shown (JFloat s) = float_repr (float_of_literal s)"
| "repr_with shown (JStr s) = str_repr shown s"
| "repr_with shown (JList xs) = ''['' @ repr_elems shown xs @ '']''"
| "repr_with shown (JObj kvs) = ''{'' @ repr_members shown kvs @ ''}''"
| "repr_elems shown [] = []"
| "repr_elems shown [x] = repr_with shown x"
| "repr_elems shown (x # y # xs) = repr_with shown x @ '', '' @ repr_elems shown (y # xs)"
| "repr_members shown [] = []"
| "repr_members shown [(k, x)] = str_repr shown k @ '': '' @ repr_with shown x"
| "repr_members shown ((k, x) # p # kvs) =
     str_repr shown k @ '': '' @ repr_with shown x @ '', '' @ repr_members shown (p # kvs)"

text \<open>\<open>repr(x)\<close>, \<open>ascii(x)\<close>, and \<open>str(x)\<close>, which is also what an f-string puts in.\<close>

definition py_repr :: "json \<Rightarrow> string" where
  "py_repr = repr_with is_printable"

definition py_ascii :: "json \<Rightarrow> string" where
  "py_ascii = repr_with (\<lambda>n. False)"

fun py_format :: "json \<Rightarrow> string" where
  "py_format (JStr s) = s"
| "py_format v = py_repr v"

section \<open>Items\<close>

text \<open>
  \<open>x[i]\<close> with a number that is not negative (of a text, a code point), and \<open>k in x\<close>. What an object with numbers for
  keys would do does not occur.
\<close>

fun py_nth :: "json \<Rightarrow> nat \<Rightarrow> pyexn + json" where
  "py_nth (JList xs) i = (if i < length xs then Inr (xs ! i) else Inl IndexError)"
| "py_nth (JObj kvs) i = Inl (KeyError (show_nat i))"
| "py_nth (JStr s) i =
     (let cs = utf8_decode s in if i < length cs then Inr (JStr (utf8_encode (cs ! i))) else Inl IndexError)"
| "py_nth _ i = Inl TypeError"

fun py_in :: "string \<Rightarrow> json \<Rightarrow> pyexn + bool" where
  "py_in k (JObj kvs) = Inr (k \<in> fst ` set kvs)"
| "py_in k (JList xs) = Inr (JStr k \<in> set xs)"
| "py_in k (JStr s) = Inr (contains k s)"
| "py_in k _ = Inl TypeError"

text \<open>
  Looking a value up along a path of keys and list indexes, for statements about the
  manifests the code builds.
\<close>

datatype step = Key string | Idx nat

fun json_at :: "json \<Rightarrow> step list \<Rightarrow> json option" where
  "json_at v [] = Some v"
| "json_at (JObj kvs) (Key k # ps) = (case map_of kvs k of None \<Rightarrow> None | Some v \<Rightarrow> json_at v ps)"
| "json_at (JList xs) (Idx i # ps) = (if i < length xs then json_at (xs ! i) ps else None)"
| "json_at _ _ = None"

lemma json_at_append: "json_at v (ps @ qs) = Option.bind (json_at v ps) (\<lambda>w. json_at w qs)"
  by (induction v ps rule: json_at.induct) (auto split: option.splits)

fun str_at :: "json \<Rightarrow> step list \<Rightarrow> string option" where
  "str_at v ps = (case json_at v ps of Some (JStr s) \<Rightarrow> Some s | _ \<Rightarrow> None)"

section \<open>\<open>json.dumps\<close>\<close>

text \<open>
  The default separators and \<open>ensure_ascii=True\<close>: everything outside the printable ASCII
  range is written as an escape. The escapes are computed from the code points.
\<close>

definition u_escape :: "nat \<Rightarrow> string" where
  "u_escape n = [CHR 0x5C, CHR ''u'', hex_digit (n div 4096 mod 16), hex_digit (n div 256 mod 16),
     hex_digit (n div 16 mod 16), hex_digit (n mod 16)]"

definition esc_cp :: "nat \<Rightarrow> string" where
  "esc_cp n =
     (if n = 0x22 then [CHR 0x5C, CHR 0x22]
      else if n = 0x5C then [CHR 0x5C, CHR 0x5C]
      else if n = 0x0A then [CHR 0x5C, CHR ''n'']
      else if n = 0x0D then [CHR 0x5C, CHR ''r'']
      else if n = 0x09 then [CHR 0x5C, CHR ''t'']
      else if n = 0x0C then [CHR 0x5C, CHR ''f'']
      else if n = 0x08 then [CHR 0x5C, CHR ''b'']
      else if 32 \<le> n \<and> n < 127 then [char_of n]
      else if n < 65536 then u_escape n
      else u_escape (0xD800 + (n - 65536) div 1024) @ u_escape (0xDC00 + (n - 65536) mod 1024))"

definition quote :: "string \<Rightarrow> string" where
  "quote s = CHR 0x22 # concat (map esc_cp (utf8_decode s)) @ [CHR 0x22]"

fun dumps :: "json \<Rightarrow> string"
  and dumps_elems :: "json list \<Rightarrow> string"
  and dumps_members :: "(string \<times> json) list \<Rightarrow> string"
where
  "dumps JNull = ''null''"
| "dumps (JBool b) = (if b then ''true'' else ''false'')"
| "dumps (JInt i) = show_int i"
| "dumps (JFloat s) = json_float (float_of_literal s)"
| "dumps (JStr s) = quote s"
| "dumps (JList xs) = ''['' @ dumps_elems xs @ '']''"
| "dumps (JObj kvs) = ''{'' @ dumps_members kvs @ ''}''"
| "dumps_elems [] = []"
| "dumps_elems [x] = dumps x"
| "dumps_elems (x # y # xs) = dumps x @ '', '' @ dumps_elems (y # xs)"
| "dumps_members [] = []"
| "dumps_members [(k, x)] = quote k @ '': '' @ dumps x"
| "dumps_members ((k, x) # p # kvs) = quote k @ '': '' @ dumps x @ '', '' @ dumps_members (p # kvs)"

text \<open>\<open>json.dumps(v, sort_keys=True)\<close> prints every object with its keys in order.\<close>

fun sort_keys :: "json \<Rightarrow> json" where
  "sort_keys (JList xs) = JList (map sort_keys xs)"
| "sort_keys (JObj kvs) = JObj (sort_key fst (map (\<lambda>(k, v). (k, sort_keys v)) kvs))"
| "sort_keys v = v"

definition dumps_sorted :: "json \<Rightarrow> string" where
  "dumps_sorted v = dumps (sort_keys v)"

section \<open>\<open>json.loads\<close>\<close>

text \<open>White space between tokens.\<close>

definition is_ws :: "char \<Rightarrow> bool" where
  "is_ws c = (c = CHR '' '' \<or> c = CHR 0x0A \<or> c = CHR 0x0D \<or> c = CHR 0x09)"

definition skip_ws :: "string \<Rightarrow> string" where
  "skip_ws s = dropWhile is_ws s"

lemma length_skip_ws [simp]: "length (skip_ws s) \<le> length s"
  by (simp add: skip_ws_def length_dropWhile_le)

lemma skip_ws_Cons_length: 
  "skip_ws s = c # cs \<Longrightarrow> length cs < length s \<and> length (skip_ws cs) < length s"
  using length_skip_ws [of s] length_skip_ws [of cs] by (simp del: length_skip_ws)

subsection \<open>String literals\<close>

definition hex_val :: "char \<Rightarrow> nat option" where
  "hex_val c =
     (let n = (of_char c :: nat) in
      if 48 \<le> n \<and> n \<le> 57 then Some (n - 48)
      else if 97 \<le> n \<and> n \<le> 102 then Some (n - 87)
      else if 65 \<le> n \<and> n \<le> 70 then Some (n - 55)
      else None)"

definition hex4 :: "char \<Rightarrow> char \<Rightarrow> char \<Rightarrow> char \<Rightarrow> nat option" where
  "hex4 a b c d =
     (case (hex_val a, hex_val b, hex_val c, hex_val d) of
        (Some w, Some x, Some y, Some z) \<Rightarrow> Some (w * 4096 + x * 256 + y * 16 + z)
      | _ \<Rightarrow> None)"

definition simple_escape :: "char \<Rightarrow> char option" where
  "simple_escape c =
     (if c = CHR 0x22 \<or> c = CHR 0x5C \<or> c = CHR ''/'' then Some c
      else if c = CHR ''b'' then Some (CHR 0x08)
      else if c = CHR ''f'' then Some (CHR 0x0C)
      else if c = CHR ''n'' then Some (CHR 0x0A)
      else if c = CHR ''r'' then Some (CHR 0x0D)
      else if c = CHR ''t'' then Some (CHR 0x09)
      else None)"

definition prepend :: "'a list \<Rightarrow> ('a list \<times> 'b) option \<Rightarrow> ('a list \<times> 'b) option" where
  "prepend xs r = map_option (\<lambda>(ys, t). (xs @ ys, t)) r"

text \<open>
  \<open>p_escape\<close> reads an escape after its backslash: the text it stands for, and what follows.
  A high surrogate escape followed by a low one is one code point.
\<close>

definition p_low :: "nat \<Rightarrow> string \<Rightarrow> (nat \<times> string) option" where
  "p_low n s =
     (case s of
        b # u # h1 # h2 # h3 # h4 # r \<Rightarrow>
          (case hex4 h1 h2 h3 h4 of
             Some m \<Rightarrow>
               if 0xD800 \<le> n \<and> n \<le> 0xDBFF \<and> b = CHR 0x5C \<and> u = CHR ''u'' \<and> 0xDC00 \<le> m \<and> m \<le> 0xDFFF
               then Some (65536 + (n - 0xD800) * 1024 + (m - 0xDC00), r) else None
           | None \<Rightarrow> None)
      | _ \<Rightarrow> None)"

definition p_unicode :: "string \<Rightarrow> (string \<times> string) option" where
  "p_unicode s =
     (case s of
        h1 # h2 # h3 # h4 # r \<Rightarrow>
          (case hex4 h1 h2 h3 h4 of
             None \<Rightarrow> None
           | Some n \<Rightarrow>
               (case p_low n r of
                  Some (m, r') \<Rightarrow> Some (utf8_encode m, r')
                | None \<Rightarrow> Some (utf8_encode n, r)))
      | _ \<Rightarrow> None)"

definition p_escape :: "string \<Rightarrow> (string \<times> string) option" where
  "p_escape s =
     (case s of
        [] \<Rightarrow> None
      | e # es \<Rightarrow>
          (case simple_escape e of
             Some x \<Rightarrow> Some ([x], es)
           | None \<Rightarrow> if e = CHR ''u'' then p_unicode es else None))"

lemma p_low_length: "p_low n s = Some (m, r) \<Longrightarrow> length r < length s"
  by (auto simp: p_low_def split: list.splits option.splits if_splits)

lemma p_unicode_length: "p_unicode s = Some (x, r) \<Longrightarrow> length r < length s"
  by (auto simp: p_unicode_def split: list.splits option.splits if_splits dest: p_low_length)

lemma p_escape_length: "p_escape s = Some (x, r) \<Longrightarrow> length r < length s"
  by (auto simp: p_escape_def split: list.splits option.splits if_splits dest: p_unicode_length)

text \<open>
  \<open>p_str\<close> reads a string literal after its opening quote: its text up to the closing quote,
  and what follows. A raw control character is refused.
\<close>

function p_str :: "string \<Rightarrow> (string \<times> string) option" where
  "p_str [] = None"
| "p_str (c # cs) =
     (if c = CHR 0x22 then Some ([], cs)
      else if c = CHR 0x5C then
        (case p_escape cs of None \<Rightarrow> None | Some (x, r) \<Rightarrow> prepend x (p_str r))
      else if (of_char c :: nat) < 32 then None
      else prepend [c] (p_str cs))"
  by pat_completeness auto
termination
  by (relation "measure length") (auto dest: p_escape_length)

declare p_str.simps(2) [simp del]

lemma prepend_eq_Some: "prepend xs m = Some (t, r) \<longleftrightarrow> (\<exists>ys. m = Some (ys, r) \<and> t = xs @ ys)"
  by (auto simp: prepend_def)

lemma p_str_length: "p_str s = Some (t, r) \<Longrightarrow> length r < length s"
proof (induction s arbitrary: t r rule: p_str.induct)
  case 1
  then show ?case by simp
next
  case (2 c cs)
  consider "c = CHR 0x22" | "c = CHR 0x5C" | "c \<noteq> CHR 0x22" "c \<noteq> CHR 0x5C"
    by blast
  then show ?case
  proof cases
    case 1
    with "2.prems" show ?thesis by (simp add: p_str.simps)
  next
    case c: 2
    with "2.prems" obtain x q ys where q: "p_escape cs = Some (x, q)" "p_str q = Some (ys, r)"
      by (auto simp: p_str.simps prepend_eq_Some split: option.splits)
    have "length r < length q" using "2.IH"(1) c q by simp
    with p_escape_length [OF q(1)] show ?thesis by simp
  next
    case 3
    with "2.prems" obtain ys where "\<not> (of_char c :: nat) < 32" "p_str cs = Some (ys, r)"
      by (auto simp: p_str.simps prepend_eq_Some split: if_splits)
    with 3 "2.IH"(2) show ?thesis by fastforce
  qed
qed

subsection \<open>Numbers\<close>

text \<open>
  \<open>-?(0|[1-9][0-9]*)\<close>, then an optional fraction and an optional exponent; with either of
  them the value is a float, kept as its text.
\<close>

definition digits :: "string \<Rightarrow> string \<times> string" where
  "digits s = (takeWhile is_digit s, dropWhile is_digit s)"

definition p_frac :: "string \<Rightarrow> string \<times> string" where
  "p_frac s =
     (case s of [] \<Rightarrow> ([], s)
      | c # cs \<Rightarrow>
          (let (ds, r) = digits cs in
           if c = CHR ''.'' \<and> ds \<noteq> [] then (c # ds, r) else ([], s)))"

definition p_exp :: "string \<Rightarrow> string \<times> string" where
  "p_exp s =
     (case s of [] \<Rightarrow> ([], s)
      | c # cs \<Rightarrow>
          (let (sg, t) = (case cs of d # ds \<Rightarrow> if d = CHR ''+'' \<or> d = CHR ''-'' then ([d], ds) else ([], cs)
                          | [] \<Rightarrow> ([], cs));
               (ds, r) = digits t in
           if (c = CHR ''e'' \<or> c = CHR ''E'') \<and> ds \<noteq> [] then (c # sg @ ds, r) else ([], s)))"

definition p_natural :: "string \<Rightarrow> (string \<times> string) option" where
  "p_natural s =
     (case digits s of
        ([], _) \<Rightarrow> None
      | (d # ds, r) \<Rightarrow> if d = CHR ''0'' then Some ([d], ds @ r) else Some (d # ds, r))"

definition p_number :: "string \<Rightarrow> (json \<times> string) option" where
  "p_number s =
     (let (neg, t) = (case s of c # cs \<Rightarrow> if c = CHR ''-'' then (True, cs) else (False, s) | [] \<Rightarrow> (False, s)) in
      case p_natural t of
        None \<Rightarrow> None
      | Some (ds, r) \<Rightarrow>
          (let (f, r1) = p_frac r; (e, r2) = p_exp r1 in
           if f = [] \<and> e = []
           then Some (JInt (if neg then - int (dec_val ds) else int (dec_val ds)), r)
           else Some (JFloat ((if neg then ''-'' else []) @ ds @ f @ e), r2)))"

text \<open>\<open>word w v s\<close>: the value \<open>v\<close> if the text starts with \<open>w\<close>.\<close>

definition word :: "string \<Rightarrow> json \<Rightarrow> string \<Rightarrow> (json \<times> string) option" where
  "word w v s = (if take (length w) s = w then Some (v, drop (length w) s) else None)"

definition p_scalar :: "string \<Rightarrow> (json \<times> string) option" where
  "p_scalar s =
     (case s of
        [] \<Rightarrow> None
      | c # cs \<Rightarrow>
          if c = CHR ''n'' then word ''null'' JNull s
          else if c = CHR ''t'' then word ''true'' (JBool True) s
          else if c = CHR ''f'' then word ''false'' (JBool False) s
          else if c = CHR ''N'' then word ''NaN'' (JFloat ''NaN'') s
          else if c = CHR ''I'' then word ''Infinity'' (JFloat ''Infinity'') s
          else (case p_number s of
                  Some r \<Rightarrow> Some r
                | None \<Rightarrow> word ''-Infinity'' (JFloat ''-Infinity'') s))"

subsection \<open>Values\<close>

text \<open>A \<open>dict\<close> built from pairs in order: a repeated key keeps its place and takes the last value.\<close>

definition dict_of :: "(string \<times> json) list \<Rightarrow> (string \<times> json) list" where
  "dict_of ps = foldl (\<lambda>d (k, v). AList.update k v d) [] ps"

lemma dict_of_snoc: "dict_of (ps @ [(k, v)]) = AList.update k v (dict_of ps)"
  by (simp add: dict_of_def)

lemma dict_of_distinct: "distinct (map fst ps) \<Longrightarrow> dict_of ps = ps"
proof (induction ps rule: rev_induct)
  case Nil
  then show ?case by (simp add: dict_of_def)
next
  case (snoc p ps)
  obtain k v where p: "p = (k, v)" by (cases p)
  have "AList.update k v qs = qs @ [(k, v)]" if "k \<notin> fst ` set qs" for qs
    using that by (induction qs) auto
  with snoc p show ?case by (simp add: dict_of_snoc)
qed

text \<open>
  The three mutually recursive readers. \<open>p_elems\<close> and \<open>p_members\<close> read the rest of an array
  or object whose next token is an element or a key. The test on the lengths makes the
  recursion visibly terminating; the lemma \<open>reader_lengths\<close> below shows that it always succeeds.
\<close>

function (sequential) p_value :: "string \<Rightarrow> (json \<times> string) option"
  and p_elems :: "string \<Rightarrow> (json list \<times> string) option"
  and p_members :: "string \<Rightarrow> ((string \<times> json) list \<times> string) option"
where
  "p_value s =
     (case s of
        [] \<Rightarrow> None
      | c # cs \<Rightarrow>
          if c = CHR 0x22 then map_option (\<lambda>(t, r). (JStr t, r)) (p_str cs)
          else if c = CHR ''['' then
            (case skip_ws cs of
               [] \<Rightarrow> None
             | d # ds \<Rightarrow> if d = CHR '']'' then Some (JList [], ds)
                         else map_option (\<lambda>(xs, r). (JList xs, r)) (p_elems (skip_ws cs)))
          else if c = CHR ''{'' then
            (case skip_ws cs of
               [] \<Rightarrow> None
             | d # ds \<Rightarrow> if d = CHR ''}'' then Some (JObj [], ds)
                         else map_option (\<lambda>(ps, r). (JObj (dict_of ps), r)) (p_members (skip_ws cs)))
          else p_scalar s)"
| "p_elems s =
     (case p_value s of
        None \<Rightarrow> None
      | Some (x, r) \<Rightarrow>
          (case skip_ws r of
             [] \<Rightarrow> None
           | d # ds \<Rightarrow>
               if d = CHR '']'' then Some ([x], ds)
               else if d = CHR '','' \<and> length r < length s
                 then prepend [x] (p_elems (skip_ws ds))
               else None))"
| "p_members s =
     (case s of
        [] \<Rightarrow> None
      | c # cs \<Rightarrow>
          if c \<noteq> CHR 0x22 then None
          else
            (case p_str cs of
               None \<Rightarrow> None
             | Some (k, r) \<Rightarrow>
                 (case skip_ws r of
                    [] \<Rightarrow> None
                  | e # es \<Rightarrow>
                      if e \<noteq> CHR '':'' then None
                      else
                        (case p_value (skip_ws es) of
                           None \<Rightarrow> None
                         | Some (x, r') \<Rightarrow>
                             (case skip_ws r' of
                                [] \<Rightarrow> None
                              | d # ds \<Rightarrow>
                                  if d = CHR ''}'' then Some ([(k, x)], ds)
                                  else if d = CHR '','' \<and> length r' < length s
                                    then prepend [(k, x)] (p_members (skip_ws ds))
                                  else None)))))"
  by pat_completeness auto
termination
  by (relation "measure (case_sum (\<lambda>s. 2 * length s)
        (case_sum (\<lambda>s. 2 * length s + 1) (\<lambda>s. 2 * length s + 1)))")
     (auto dest!: skip_ws_Cons_length p_str_length)

declare p_value.simps [simp del] p_elems.simps [simp del] p_members.simps [simp del]

text \<open>Every reader consumes text, so the tests on lengths above never fail.\<close>

lemma digits_length: "digits s = (ds, r) \<Longrightarrow> length ds + length r = length s"
  by (auto simp: digits_def simp flip: length_append)

lemma p_natural_length: "p_natural s = Some (ds, r) \<Longrightarrow> length r < length s"
  by (auto simp: p_natural_def split: prod.splits list.splits if_splits dest: digits_length)

lemma p_frac_length: "p_frac s = (f, r) \<Longrightarrow> length r \<le> length s"
  by (auto simp: p_frac_def split: list.splits prod.splits if_splits dest: digits_length)

lemma p_exp_length: "p_exp s = (f, r) \<Longrightarrow> length r \<le> length s"
  by (auto simp: p_exp_def Let_def split: list.splits prod.splits if_splits dest!: digits_length)

lemma p_number_length: "p_number s = Some (v, r) \<Longrightarrow> length r < length s"
  by (auto simp: p_number_def Let_def split: list.splits prod.splits if_splits option.splits
      dest!: p_natural_length p_frac_length p_exp_length)

lemma word_length: "w \<noteq> [] \<Longrightarrow> word w v s = Some (x, r) \<Longrightarrow> length r < length s"
  by (auto simp: word_def split: if_splits) (metis length_drop take_eq_Nil2 diff_less length_greater_0_conv)

lemma p_scalar_length: "p_scalar s = Some (v, r) \<Longrightarrow> length r < length s"
  by (auto simp: p_scalar_def split: list.splits if_splits option.splits
      dest!: p_number_length dest: word_length [rotated])

text \<open>
  One step of each reader consumes text, given that the readers it calls do; the readers called
  are met on the rest of the text only.
\<close>

lemma p_value_consumes:
  assumes "p_value s = Some (v, r)"
    and elems: "\<And>cs xs. s = CHR ''['' # cs \<Longrightarrow> p_elems (skip_ws cs) = Some (xs, r) \<Longrightarrow>
      \<forall>ds. skip_ws cs \<noteq> CHR '']'' # ds \<Longrightarrow> length r < length (skip_ws cs)"
    and members: "\<And>cs kvs. s = CHR ''{'' # cs \<Longrightarrow> p_members (skip_ws cs) = Some (kvs, r) \<Longrightarrow>
      \<forall>ds. skip_ws cs \<noteq> CHR ''}'' # ds \<Longrightarrow> length r < length (skip_ws cs)"
  shows "length r < length s"
proof -
  have le: "length (skip_ws cs) \<le> length cs" for cs by simp
  obtain c cs where s: "s = c # cs" using assms(1) by (cases s) (auto simp: p_value.simps)
  consider "c = CHR ''[''" | "c = CHR ''{''" | "c \<noteq> CHR ''[''" "c \<noteq> CHR ''{''" by blast
  then show ?thesis
  proof cases
    case 1
    with assms(1) s le [of cs] elems [of cs] show ?thesis
      by (force simp: p_value.simps split: list.splits if_splits simp del: length_skip_ws)
  next
    case 2
    with assms(1) s le [of cs] members [of cs] show ?thesis
      by (force simp: p_value.simps split: list.splits if_splits simp del: length_skip_ws)
  next
    case 3
    with assms(1) s show ?thesis
      by (auto simp: p_value.simps split: if_splits dest: p_str_length p_scalar_length)
  qed
qed

lemma p_elems_consumes:
  assumes "p_elems s = Some (xs, r)"
    and val: "\<And>x q. p_value s = Some (x, q) \<Longrightarrow> length q < length s"
    and rest: "\<And>x q ds ys. p_value s = Some (x, q) \<Longrightarrow> skip_ws q = CHR '','' # ds \<Longrightarrow>
      p_elems (skip_ws ds) = Some (ys, r) \<Longrightarrow> length r < length (skip_ws ds)"
  shows "length r < length s"
proof -
  obtain x q d ds where v: "p_value s = Some (x, q)" and d: "skip_ws q = d # ds"
    using assms(1) by (auto simp: p_elems.simps [of s] split: option.splits list.splits)
  have lengths: "length q < length s" "length ds < length q" "length (skip_ws ds) < length q"
    using val [OF v] skip_ws_Cons_length [OF d] by simp_all
  show ?thesis
  proof (cases "d = CHR '']''")
    case True
    with assms(1) v d lengths show ?thesis by (simp add: p_elems.simps [of s])
  next
    case False
    with assms(1) v d obtain ys where "d = CHR '',''" "p_elems (skip_ws ds) = Some (ys, r)"
      by (auto simp: p_elems.simps [of s] prepend_eq_Some split: if_splits)
    with rest [OF v] d lengths show ?thesis by fastforce
  qed
qed

lemma p_members_consumes:
  assumes "p_members s = Some (kvs, r)"
    and val: "\<And>cs k q es x q'. s = CHR 0x22 # cs \<Longrightarrow> p_str cs = Some (k, q) \<Longrightarrow> skip_ws q = CHR '':'' # es \<Longrightarrow>
      p_value (skip_ws es) = Some (x, q') \<Longrightarrow> length q' < length (skip_ws es)"
    and rest: "\<And>cs k q es x q' ds ys. s = CHR 0x22 # cs \<Longrightarrow> p_str cs = Some (k, q) \<Longrightarrow>
      skip_ws q = CHR '':'' # es \<Longrightarrow> p_value (skip_ws es) = Some (x, q') \<Longrightarrow> skip_ws q' = CHR '','' # ds \<Longrightarrow>
      length q' < length s \<Longrightarrow>
      p_members (skip_ws ds) = Some (ys, r) \<Longrightarrow> length r < length (skip_ws ds)"
  shows "length r < length s"
proof -
  obtain cs k q es x q' d ds where
    s: "s = CHR 0x22 # cs" and k: "p_str cs = Some (k, q)" and e: "skip_ws q = CHR '':'' # es"
    and v: "p_value (skip_ws es) = Some (x, q')" and d: "skip_ws q' = d # ds"
    using assms(1) by (auto simp: p_members.simps [of s] split: option.splits list.splits if_splits)
  have "length q < length cs" "length (skip_ws es) < length q" "length q' < length (skip_ws es)"
    using p_str_length [OF k] skip_ws_Cons_length [OF e] val [OF s k e v] by simp_all
  then have q': "length q' < length s" using s by simp
  have ds: "length ds < length q'" "length (skip_ws ds) < length q'"
    using skip_ws_Cons_length [OF d] by simp_all
  show ?thesis
  proof (cases "d = CHR ''}''")
    case True
    with assms(1) s k e v d q' ds show ?thesis by (auto simp: p_members.simps)
  next
    case False
    with assms(1) s k e v d q' obtain ys where "d = CHR '',''" "p_members (skip_ws ds) = Some (ys, r)"
      by (auto simp: p_members.simps prepend_eq_Some split: if_splits)
    with rest [OF s k e v] d q' ds show ?thesis by fastforce
  qed
qed

lemma reader_lengths:
  shows p_value_length: "p_value s = Some (v, r) \<Longrightarrow> length r < length s"
  and p_elems_length: "p_elems s = Some (xs, r) \<Longrightarrow> length r < length s"
  and p_members_length: "p_members s = Some (kvs, r) \<Longrightarrow> length r < length s"
proof (induction s and s and s arbitrary: v r and xs r and kvs r rule: p_value_p_elems_p_members.induct)
  case (1 s)
  from "1.prems" show ?case
  proof (rule p_value_consumes)
    fix cs ys
    assume s: "s = CHR ''['' # cs" and e: "p_elems (skip_ws cs) = Some (ys, r)"
      and d: "\<forall>ds. skip_ws cs \<noteq> CHR '']'' # ds"
    from e obtain a as where as: "skip_ws cs = a # as"
      by (cases "skip_ws cs") (auto simp: p_elems.simps [of "[]"] p_value.simps)
    with d have "a \<noteq> CHR '']''" by blast
    with "1.IH"(1) [OF s _ _ as] e as show "length r < length (skip_ws cs)" by simp
  next
    fix cs ps
    assume s: "s = CHR ''{'' # cs" and e: "p_members (skip_ws cs) = Some (ps, r)"
      and d: "\<forall>ds. skip_ws cs \<noteq> CHR ''}'' # ds"
    from e obtain a as where as: "skip_ws cs = a # as"
      by (cases "skip_ws cs") (auto simp: p_members.simps [of "[]"])
    with d have "a \<noteq> CHR ''}''" by blast
    with "1.IH"(2) [OF s _ _ _ as] e as show "length r < length (skip_ws cs)" by simp
  qed
next
  case (2 s)
  from "2.prems" show ?case
  proof (rule p_elems_consumes)
    show "length q < length s" if "p_value s = Some (x, q)" for x q
      using "2.IH"(1) that .
    show "length r < length (skip_ws ds)"
      if v: "p_value s = Some (x, q)" and d: "skip_ws q = CHR '','' # ds" and "p_elems (skip_ws ds) = Some (ys, r)"
      for x q ds ys
      using "2.IH"(2) [OF v _ d] "2.IH"(1) [OF v] that(3) by simp
  qed
next
  case (3 s)
  from "3.prems" show ?case
  proof (rule p_members_consumes)
    show "length q' < length (skip_ws es)"
      if "s = CHR 0x22 # cs" "p_str cs = Some (k, q)" "skip_ws q = CHR '':'' # es"
        "p_value (skip_ws es) = Some (x, q')" for cs k q es x q'
      using "3.IH"(1) that by fastforce
    show "length r < length (skip_ws ds)"
      if "s = CHR 0x22 # cs" "p_str cs = Some (k, q)" "skip_ws q = CHR '':'' # es"
        "p_value (skip_ws es) = Some (x, q')" "skip_ws q' = CHR '','' # ds" "length q' < length s"
        "p_members (skip_ws ds) = Some (ys, r)" for cs k q es x q' ds ys
      using "3.IH"(2) that by fastforce
  qed
qed

text \<open>
  \<open>json.loads(s)\<close> on text, and on the bytes of a request body. Bytes that do not decode as
  UTF-8 raise \<open>UnicodeDecodeError\<close>; a leading byte order mark is dropped. A body in UTF-16 or
  UTF-32 (which \<open>json.loads\<close> recognises by its zero bytes or its byte order mark) is not
  modelled.
\<close>

definition loads :: "string \<Rightarrow> pyexn + json" where
  "loads s =
     (case p_value (skip_ws s) of
        None \<Rightarrow> Inl JSONDecodeError
      | Some (v, r) \<Rightarrow> if skip_ws r = [] then Inr v else Inl JSONDecodeError)"

fun utf8_ok :: "nat list \<Rightarrow> bool" where
  "utf8_ok [] = True"
| "utf8_ok (b # bs) =
     (let ok = (\<lambda>c. 128 \<le> c \<and> c < 192) in
      if b < 128 then utf8_ok bs
      else if 194 \<le> b \<and> b < 224 then
        (case bs of c # r \<Rightarrow> ok c \<and> utf8_ok r | [] \<Rightarrow> False)
      else if 224 \<le> b \<and> b < 240 then
        (case bs of c # d # r \<Rightarrow> ok c \<and> (b = 224 \<longrightarrow> 160 \<le> c) \<and> ok d \<and> utf8_ok r | _ \<Rightarrow> False)
      else if 240 \<le> b \<and> b < 245 then
        (case bs of c # d # e # r \<Rightarrow>
           ok c \<and> (b = 240 \<longrightarrow> 144 \<le> c) \<and> (b = 244 \<longrightarrow> c < 144) \<and> ok d \<and> ok e \<and> utf8_ok r
         | _ \<Rightarrow> False)
      else False)"

definition utf16_or_32 :: "string \<Rightarrow> bool" where
  "utf16_or_32 s =
     (case s of
        a # b # _ \<Rightarrow> a = CHR 0x00 \<or> b = CHR 0x00 \<or> (a = CHR 0xFE \<and> b = CHR 0xFF) \<or> (a = CHR 0xFF \<and> b = CHR 0xFE)
      | _ \<Rightarrow> False)"

definition strip_bom :: "string \<Rightarrow> string" where
  "strip_bom s = (if take 3 s = [CHR 0xEF, CHR 0xBB, CHR 0xBF] then drop 3 s else s)"

definition loads_bytes :: "string \<Rightarrow> pyexn + json" where
  "loads_bytes b =
     (if utf16_or_32 b then Inl Unmodelled
      else if \<not> utf8_ok (map of_char b) then Inl UnicodeDecodeError
      else loads (strip_bom b))"

section \<open>The round trip\<close>

text \<open>
  Values that survive it exactly: ASCII strings and keys, distinct keys in every object (as
  in every Python \<open>dict\<close>), no floats.
\<close>

definition ascii_char :: "char \<Rightarrow> bool" where
  "ascii_char c = ((of_char c :: nat) < 128)"

definition ascii :: "string \<Rightarrow> bool" where
  "ascii s = (\<forall>c \<in> set s. ascii_char c)"

fun wf_json :: "json \<Rightarrow> bool" where
  "wf_json (JStr s) = ascii s"
| "wf_json (JFloat s) = False"
| "wf_json (JList xs) = (\<forall>x \<in> set xs. wf_json x)"
| "wf_json (JObj kvs) = (distinct (map fst kvs) \<and> (\<forall>p \<in> set kvs. ascii (fst p) \<and> wf_json (snd p)))"
| "wf_json _ = True"

lemma ascii_Nil [simp]: "ascii []"
  by (simp add: ascii_def)

lemma ascii_Cons [simp]: "ascii (c # cs) \<longleftrightarrow> ascii_char c \<and> ascii cs"
  by (simp add: ascii_def)

lemma ascii_append [simp]: "ascii (xs @ ys) \<longleftrightarrow> ascii xs \<and> ascii ys"
  by (auto simp: ascii_def)

lemma ascii_char_Char [simp]: "ascii_char (Char b0 b1 b2 b3 b4 b5 b6 b7) \<longleftrightarrow> \<not> b7"
proof -
  have "(of_char (Char b0 b1 b2 b3 b4 b5 b6 b7) :: nat) =
      of_bool b0 + 2 * (of_bool b1 + 2 * (of_bool b2 + 2 * (of_bool b3 + 2 * (of_bool b4 +
      2 * (of_bool b5 + 2 * (of_bool b6 + 2 * of_bool b7))))))"
    by simp
  then show ?thesis
    by (cases b0; cases b1; cases b2; cases b3; cases b4; cases b5; cases b6; cases b7)
      (simp_all add: ascii_char_def)
qed

lemma utf8_decode_ascii: "ascii s \<Longrightarrow> utf8_decode s = map of_char s"
  by (induction s) (simp_all add: ascii_char_def Let_def)

lemma hex_val_hex_digit: "d < 16 \<Longrightarrow> hex_val (hex_digit d) = Some d"
  by (auto simp: hex_val_def hex_digit_def of_char_of Let_def)

lemma p_str_u_escape:
  assumes "n < 128"
  shows "p_str (u_escape n @ t) = prepend [char_of n] (p_str t)"
proof -
  have h: "hex4 (hex_digit 0) (hex_digit 0) (hex_digit (n div 16)) (hex_digit (n mod 16)) = Some n"
    using assms by (simp add: hex4_def hex_val_hex_digit)
  have l: "p_low n t = None"
    using assms by (simp add: p_low_def split: list.split option.split)
  have "p_escape (drop 1 (u_escape n @ t)) = Some ([char_of n], t)"
    using assms
    by (simp add: u_escape_def p_escape_def simple_escape_def p_unicode_def h l utf8_encode_def)
  then show ?thesis
    by (simp add: p_str.simps(2) u_escape_def)
qed

lemma p_str_plain:
  "c \<noteq> CHR 0x22 \<Longrightarrow> c \<noteq> CHR 0x5C \<Longrightarrow> 32 \<le> (of_char c :: nat) \<Longrightarrow> p_str (c # t) = prepend [c] (p_str t)"
  by (simp add: p_str.simps(2))

lemma p_str_simple:
  "simple_escape e = Some x \<Longrightarrow> p_str (CHR 0x5C # e # t) = prepend [x] (p_str t)"
  by (simp add: p_str.simps(2) p_escape_def)

lemma char_eq_of_char: "c = d \<longleftrightarrow> (of_char c :: nat) = of_char d"
  by simp

lemma p_str_esc_cp:
  assumes "ascii_char c"
  shows "p_str (esc_cp (of_char c) @ t) = prepend [c] (p_str t)"
proof -
  let ?n = "of_char c :: nat"
  have n: "?n < 128" "char_of ?n = c" using assms by (simp_all add: ascii_char_def)
  consider "c = CHR 0x22" | "c = CHR 0x5C" | "c = CHR 0x0A" | "c = CHR 0x0D" | "c = CHR 0x09"
    | "c = CHR 0x0C" | "c = CHR 0x08"
    | (plain) "?n \<notin> {0x22, 0x5C, 0x0A, 0x0D, 0x09, 0x0C, 0x08}" "32 \<le> ?n" "?n < 127"
    | (control) "?n \<notin> {0x22, 0x5C, 0x0A, 0x0D, 0x09, 0x0C, 0x08}" "\<not> (32 \<le> ?n \<and> ?n < 127)"
    by (auto simp: char_eq_of_char)
  then show ?thesis
  proof cases
    case plain
    then have "c \<noteq> CHR 0x22" "c \<noteq> CHR 0x5C" by auto
    with plain n show ?thesis by (simp add: esc_cp_def p_str_plain)
  next
    case control
    with n have "esc_cp ?n = u_escape ?n" by (auto simp: esc_cp_def)
    with n show ?thesis by (simp add: p_str_u_escape)
  qed (simp_all add: esc_cp_def p_str_simple simple_escape_def)
qed

lemma p_str_chars:
  "ascii s \<Longrightarrow> p_str (concat (map (\<lambda>c. esc_cp (of_char c)) s) @ CHR 0x22 # t) = Some (s, t)"
  by (induction s) (simp_all add: p_str.simps(2) [of "CHR 0x22"] p_str_esc_cp prepend_eq_Some)

lemma p_str_quote:
  "ascii s \<Longrightarrow> p_str (concat (map esc_cp (utf8_decode s)) @ CHR 0x22 # t) = Some (s, t)"
  using p_str_chars [of s t] by (simp add: utf8_decode_ascii comp_def)

lemma show_nat_0: "show_nat 0 = ''0''"
proof -
  have "digit_char 0 = CHR ''0''"
    unfolding char_eq_of_char by (simp add: of_char_digit_char)
  then show ?thesis by (simp add: show_nat.simps [of 0])
qed

text \<open>Numbers: the text after one must not continue it.\<close>

definition stops :: "string \<Rightarrow> bool" where
  "stops t = (case t of [] \<Rightarrow> True | c # cs \<Rightarrow> c = CHR '','' \<or> c = CHR '']'' \<or> c = CHR ''}'')"

lemma digits_show_nat: "stops t \<Longrightarrow> digits (show_nat n @ t) = (show_nat n, t)"
proof -
  assume t: "stops t"
  have "takeWhile is_digit t = []" "dropWhile is_digit t = t"
    using t by (auto simp: stops_def is_digit_def split: list.splits)
  with show_nat_digits [of n] show ?thesis
    by (auto simp: digits_def takeWhile_append dropWhile_append)
qed

lemma p_natural_show_nat: "stops t \<Longrightarrow> p_natural (show_nat n @ t) = Some (show_nat n, t)"
proof -
  assume t: "stops t"
  obtain d ds where s: "show_nat n = d # ds"
    using show_nat_nonempty [of n] by (cases "show_nat n") auto
  show ?thesis
  proof (cases "d = CHR ''0''")
    case True
    with s show_nat_hd [of n] have "n = 0" by simp
    then have "show_nat n = ''0''" by (simp add: show_nat_0)
    with digits_show_nat [OF t, of n] show ?thesis by (simp add: p_natural_def)
  next
    case False
    with digits_show_nat [OF t, of n] s show ?thesis by (simp add: p_natural_def)
  qed
qed

lemma p_frac_stops: "stops t \<Longrightarrow> p_frac t = ([], t)"
  by (auto simp: p_frac_def stops_def split: list.splits prod.splits)

lemma p_exp_stops: "stops t \<Longrightarrow> p_exp t = ([], t)"
  by (auto simp: p_exp_def stops_def Let_def split: list.splits prod.splits)

lemma p_number_show_int: "stops t \<Longrightarrow> p_number (show_int i @ t) = Some (JInt i, t)"
proof -
  assume t: "stops t"
  note p = p_natural_show_nat [OF t] p_frac_stops [OF t] p_exp_stops [OF t] dec_val_show_nat
  show ?thesis
  proof (cases "i < 0")
    case True
    then show ?thesis by (simp add: p_number_def show_int_def p)
  next
    case False
    obtain c cs where s: "show_nat (nat i) = c # cs"
      using show_nat_nonempty [of "nat i"] by (cases "show_nat (nat i)") auto
    have "is_digit c" using show_nat_digits [of "nat i"] by (simp add: s)
    with False p(1) [of "nat i"] dec_val_show_nat [of "nat i"] show ?thesis
      by (simp add: p_number_def show_int_def s p(2,3) digit_not_sign)
  qed
qed

text \<open>No value's text starts with white space or a closing bracket.\<close>

definition starts :: "string \<Rightarrow> bool" where
  "starts s = (case s of [] \<Rightarrow> False | c # cs \<Rightarrow> \<not> is_ws c \<and> c \<noteq> CHR '']'' \<and> c \<noteq> CHR ''}'')"

lemma starts_append [simp]: "starts s \<Longrightarrow> starts (s @ t)"
  by (auto simp: starts_def split: list.splits)

lemma skip_ws_starts [simp]: "starts s \<Longrightarrow> skip_ws s = s"
  by (auto simp: starts_def skip_ws_def split: list.splits)

lemma show_int_head:
  "\<exists>c cs. show_int i = c # cs \<and> (is_digit c \<or> c = CHR ''-'')"
proof -
  have "\<exists>c cs. show_nat n = c # cs \<and> is_digit c" for n
    using show_nat_digits [of n] show_nat_nonempty [of n] by (cases "show_nat n") auto
  from this [of "nat i"] show ?thesis by (auto simp: show_int_def)
qed

lemma digit_starts: "is_digit c \<or> c = CHR ''-'' \<Longrightarrow> starts (c # cs)"
  by (auto simp: starts_def is_ws_def is_digit_def)

lemma starts_dumps: "wf_json v \<Longrightarrow> starts (dumps v)"
proof (cases v)
  case (JInt i)
  obtain c cs where "show_int i = c # cs" "is_digit c \<or> c = CHR ''-''"
    using show_int_head by blast
  with JInt digit_starts [of c cs] show ?thesis by simp
qed (simp_all add: starts_def is_ws_def quote_def)

lemma starts_elems: "wf_json x \<Longrightarrow> starts (dumps_elems (x # xs))"
  by (cases xs) (simp_all add: starts_dumps)

lemma starts_members: "starts (dumps_members ((k, x) # kvs))"
  by (cases kvs) (simp_all add: starts_def quote_def is_ws_def)

lemma p_scalar_int: "stops t \<Longrightarrow> p_scalar (show_int i @ t) = Some (JInt i, t)"
proof -
  assume t: "stops t"
  obtain c cs where s: "show_int i = c # cs" and c: "is_digit c \<or> c = CHR ''-''"
    using show_int_head by blast
  have "c \<noteq> CHR ''n''" "c \<noteq> CHR ''t''" "c \<noteq> CHR ''f''" "c \<noteq> CHR ''N''" "c \<noteq> CHR ''I''"
    using c by (auto simp: is_digit_def)
  with p_number_show_int [OF t, of i] show ?thesis by (simp add: p_scalar_def s)
qed

lemma p_value_int: "stops t \<Longrightarrow> p_value (show_int i @ t) = Some (JInt i, t)"
proof -
  assume t: "stops t"
  obtain c cs where s: "show_int i = c # cs" and c: "is_digit c \<or> c = CHR ''-''"
    using show_int_head by blast
  have "c \<noteq> CHR 0x22" "c \<noteq> CHR ''[''" "c \<noteq> CHR ''{''"
    using c by (auto simp: is_digit_def)
  with p_scalar_int [OF t, of i] show ?thesis by (simp add: p_value.simps s)
qed

text \<open>One step of each reader.\<close>

lemma starts_cases [consumes 1]:
  assumes "starts s"
  obtains c cs where "s = c # cs" "c \<noteq> CHR '']''" "c \<noteq> CHR ''}''"
  using assms by (auto simp: starts_def split: list.splits)

lemma skip_ws_stop [simp]:
  "skip_ws (CHR '']'' # t) = CHR '']'' # t" "skip_ws (CHR ''}'' # t) = CHR ''}'' # t"
  "skip_ws (CHR '','' # t) = CHR '','' # t" "skip_ws (CHR '':'' # t) = CHR '':'' # t"
  by (simp_all add: skip_ws_def is_ws_def)

lemma skip_ws_space [simp]: "skip_ws (CHR '' '' # t) = skip_ws t"
  by (simp add: skip_ws_def is_ws_def)

lemma stops_bracket [simp]:
  "stops (CHR '']'' # t)" "stops (CHR ''}'' # t)" "stops (CHR '','' # t)" "stops []"
  by (simp_all add: stops_def)

lemma p_value_list:
  "starts s \<Longrightarrow> p_value (CHR ''['' # s) = map_option (\<lambda>(xs, r). (JList xs, r)) (p_elems s)"
proof -
  assume s: "starts s"
  from s skip_ws_starts [OF s] show ?thesis
    by (cases rule: starts_cases) (simp_all add: p_value.simps)
qed

lemma p_value_obj:
  "starts s \<Longrightarrow> p_value (CHR ''{'' # s) = map_option (\<lambda>(ps, r). (JObj (dict_of ps), r)) (p_members s)"
proof -
  assume s: "starts s"
  from s skip_ws_starts [OF s] show ?thesis
    by (cases rule: starts_cases) (simp_all add: p_value.simps)
qed

lemma p_elems_last: "p_value s = Some (x, CHR '']'' # t) \<Longrightarrow> p_elems s = Some ([x], t)"
  by (simp add: p_elems.simps)

lemma p_elems_more:
  "p_value s = Some (x, CHR '','' # CHR '' '' # r) \<Longrightarrow> Suc (Suc (length r)) < length s \<Longrightarrow> starts r \<Longrightarrow>
   p_elems s = prepend [x] (p_elems r)"
  by (simp add: p_elems.simps [of s])

lemma p_members_last:
  "ascii k \<Longrightarrow> starts w \<Longrightarrow> p_value w = Some (x, CHR ''}'' # t) \<Longrightarrow>
   p_members (quote k @ CHR '':'' # CHR '' '' # w) = Some ([(k, x)], t)"
  by (simp add: p_members.simps quote_def p_str_quote)

lemma p_members_more:
  "ascii k \<Longrightarrow> starts w \<Longrightarrow> p_value w = Some (x, CHR '','' # CHR '' '' # r) \<Longrightarrow>
   length r < length w \<Longrightarrow> starts r \<Longrightarrow>
   p_members (quote k @ CHR '':'' # CHR '' '' # w) = prepend [(k, x)] (p_members r)"
  by (subst p_members.simps) (simp add: quote_def p_str_quote)

lemma starts_length: "starts s \<Longrightarrow> 0 < length s"
  by (auto simp: starts_def split: list.splits)

lemma read_elems_more:
  assumes "wf_json x" and "p_value (dumps x @ CHR '','' # CHR '' '' # r) = Some (x, CHR '','' # CHR '' '' # r)"
    and "starts r"
  shows "p_elems (dumps x @ CHR '','' # CHR '' '' # r) = prepend [x] (p_elems r)"
  using assms starts_length [OF starts_dumps [OF assms(1)]] by (intro p_elems_more) simp_all

lemma read_members_more:
  assumes "ascii k" and "wf_json x"
    and "p_value (dumps x @ CHR '','' # CHR '' '' # r) = Some (x, CHR '','' # CHR '' '' # r)" and "starts r"
  shows "p_members (quote k @ CHR '':'' # CHR '' '' # dumps x @ CHR '','' # CHR '' '' # r) =
    prepend [(k, x)] (p_members r)"
  using assms starts_length [OF starts_dumps [OF assms(2)]]
  by (intro p_members_more) (simp_all add: starts_dumps)

lemma read_literals:
  "p_value (CHR ''['' # CHR '']'' # t) = Some (JList [], t)"
  "p_value (CHR ''{'' # CHR ''}'' # t) = Some (JObj [], t)"
  "p_value (''null'' @ t) = Some (JNull, t)"
  "p_value ((if b then ''true'' else ''false'') @ t) = Some (JBool b, t)"
  "ascii s \<Longrightarrow> p_value (quote s @ t) = Some (JStr s, t)"
  by (simp_all add: p_value.simps p_scalar_def word_def quote_def p_str_quote)

text \<open>
  The round trip, for all three readers at once and with any text after the value.
\<close>

lemma read_dumps:
  shows read_value: "wf_json v \<Longrightarrow> stops t \<Longrightarrow> p_value (dumps v @ t) = Some (v, t)"
  and read_elems: "xs \<noteq> [] \<Longrightarrow> \<forall>x \<in> set xs. wf_json x \<Longrightarrow>
    p_elems (dumps_elems xs @ CHR '']'' # t) = Some (xs, t)"
  and read_members: "kvs \<noteq> [] \<Longrightarrow> \<forall>p \<in> set kvs. ascii (fst p) \<and> wf_json (snd p) \<Longrightarrow>
    p_members (dumps_members kvs @ CHR ''}'' # t) = Some (kvs, t)"
proof (induction v and xs and kvs arbitrary: t and t and t rule: dumps_dumps_elems_dumps_members.induct)
  case (6 xs)
  then show ?case
    by (cases xs) (simp_all add: p_value_list starts_elems read_literals)
next
  case (7 kvs)
  then show ?case
    by (cases kvs) (auto simp add: p_value_obj starts_members dict_of_distinct read_literals)
next
  case (10 x y xs)
  then show ?case
    using read_elems_more [of x "dumps_elems (y # xs) @ CHR '']'' # t"]
    by (simp add: starts_elems prepend_def)
next
  case (13 k x p kvs)
  have "starts (dumps_members (p # kvs) @ CHR ''}'' # t)" by (cases p) (simp add: starts_members)
  with 13 show ?case
    using read_members_more [of k x "dumps_members (p # kvs) @ CHR ''}'' # t"]
    by (simp add: prepend_def)
qed (simp_all add: p_value_int p_elems_last p_members_last starts_dumps read_literals
    read_literals(3) [unfolded append_Cons append_Nil])

theorem loads_dumps: "wf_json v \<Longrightarrow> loads (dumps v) = Inr v"
  using read_value [of v "[]"] by (simp add: loads_def starts_dumps skip_ws_def [of "[]"])

section \<open>The text of a value is printable\<close>

definition printable :: "string \<Rightarrow> bool" where
  "printable s = (\<forall>c \<in> set s. 32 \<le> (of_char c :: nat) \<and> (of_char c :: nat) < 128)"

lemma printable_simps [simp]:
  "printable []"
  "printable (c # cs) \<longleftrightarrow> 32 \<le> (of_char c :: nat) \<and> (of_char c :: nat) < 128 \<and> printable cs"
  "printable (xs @ ys) \<longleftrightarrow> printable xs \<and> printable ys"
  by (auto simp: printable_def)

lemma printable_hex_digit: "d < 16 \<Longrightarrow> 32 \<le> (of_char (hex_digit d) :: nat) \<and> (of_char (hex_digit d) :: nat) < 128"
  by (simp add: hex_digit_def of_char_of)

lemma printable_esc_cp: "printable (esc_cp n)"
  by (auto simp: esc_cp_def u_escape_def of_char_of printable_hex_digit)

lemma printable_quote: "printable (quote s)"
proof -
  have "printable (concat (map esc_cp ns))" for ns
    by (induction ns) (simp_all add: printable_esc_cp)
  then show ?thesis by (simp add: quote_def)
qed

lemma printable_show_int: "printable (show_int i)"
proof -
  have "printable (show_nat n)" for n
    using show_nat_digits [of n] by (auto simp: printable_def is_digit_def)
  then show ?thesis by (simp add: show_int_def)
qed

lemma printable_dumps:
  shows "wf_json v \<Longrightarrow> printable (dumps v)"
    and "\<forall>x \<in> set xs. wf_json x \<Longrightarrow> printable (dumps_elems xs)"
    and "\<forall>p \<in> set kvs. wf_json (snd p) \<Longrightarrow> printable (dumps_members kvs)"
  by (induction v and xs and kvs rule: dumps_dumps_elems_dumps_members.induct)
    (simp_all add: printable_quote printable_show_int)

text \<open>Hence the bytes of a dumped object are read back as UTF-8.\<close>

lemma utf8_ok_ascii: "\<forall>n \<in> set ns. n < 128 \<Longrightarrow> utf8_ok ns"
  by (induction ns) (simp_all add: Let_def)

lemma loads_bytes_printable:
  assumes "printable s"
  shows "loads_bytes s = loads s"
proof -
  have c: "32 \<le> (of_char c :: nat) \<and> (of_char c :: nat) < 128" if "c \<in> set s" for c
    using assms that by (simp add: printable_def)
  have ne: "c \<noteq> CHR 0x00 \<and> c \<noteq> CHR 0xFE \<and> c \<noteq> CHR 0xFF \<and> c \<noteq> CHR 0xEF" if "c \<in> set s" for c
    using c [OF that] by auto
  have "\<not> utf16_or_32 s"
    using ne by (auto simp: utf16_or_32_def split: list.splits)
  moreover have "utf8_ok (map of_char s)"
    using c by (intro utf8_ok_ascii) auto
  moreover have "strip_bom s = s"
  proof (cases s)
    case (Cons a t)
    with ne have "a \<noteq> CHR 0xEF" by simp
    with Cons show ?thesis by (simp add: strip_bom_def)
  qed (simp add: strip_bom_def)
  ultimately show ?thesis by (simp add: loads_bytes_def)
qed

theorem loads_bytes_dumps: "wf_json v \<Longrightarrow> loads_bytes (dumps v) = Inr v"
  by (simp add: loads_bytes_printable printable_dumps loads_dumps)

text \<open>The two readers of JSON text, of a \<open>str\<close> and of a body of bytes, both invert the writer.\<close>

interpretation json_text: codec dumps loads Inr wf_json
  by unfold_locales (simp_all add: loads_dumps)

interpretation json_body: codec dumps loads_bytes Inr wf_json
  by unfold_locales (simp_all add: loads_bytes_dumps)

text \<open>Parts of a well-formed value are well-formed.\<close>

lemma wf_json_map_of: "wf_json (JObj kvs) \<Longrightarrow> map_of kvs k = Some v \<Longrightarrow> wf_json v"
  by (auto dest: map_of_SomeD)

lemma wf_py_get: "wf_json x \<Longrightarrow> wf_json d \<Longrightarrow> py_get x k d = Inr v \<Longrightarrow> wf_json v"
  by (cases x) (auto split: option.splits dest: map_of_SomeD)

lemma wf_py_item: "wf_json x \<Longrightarrow> py_item x k = Inr v \<Longrightarrow> wf_json v"
  by (cases x) (auto split: option.splits dest: map_of_SomeD)

end
