(* ===== verification/Contract.thy ===== *)
theory Contract
  imports PyJson
begin

text \<open>
  What the profile controllers share: the reading of the parent namespace, the count test
  behind the readiness status, the JSON webhook, and the vocabulary of Kubernetes objects.

  The interface of a controller to the metacontroller that calls it is stated as two
  locales. A controller answers a call with the objects it wants to exist; the metacontroller
  creates them and sends them back, grouped, with the next call. The locales say what the
  answer must satisfy for that loop to work, and prove once what follows from it.
\<close>

section \<open>Reading the parent\<close>

text \<open>
  \<open>parent.get("metadata", {}).get("name")\<close> and
  \<open>parent.get("metadata", {}).get("labels", {}).get("pipelines.kubeflow.org/enabled")\<close>.
\<close>

definition parent_name :: "json \<Rightarrow> pyexn + json" where
  "parent_name parent =
     bindE (py_get parent ''metadata'' (JObj [])) (\<lambda>m. py_get m ''name'' JNull)"

definition parent_enabled :: "json \<Rightarrow> pyexn + json" where
  "parent_enabled parent =
     bindE (py_get parent ''metadata'' (JObj [])) (\<lambda>m.
     bindE (py_get m ''labels'' (JObj [])) (\<lambda>l. py_get l ''pipelines.kubeflow.org/enabled'' JNull))"

section \<open>Readiness\<close>

text \<open>
  \<open>len(observed[k]) == n and ...\<close> over the groups in order: the first group with another
  count ends the chain, so the groups after it are not read.
\<close>

fun all_counts :: "json \<Rightarrow> (string \<times> nat) list \<Rightarrow> pyexn + bool" where
  "all_counts observed [] = Inr True"
| "all_counts observed ((k, n) # cs) =
     bindE (py_item observed k) (\<lambda>g.
     bindE (py_len g) (\<lambda>l. if l = n then all_counts observed cs else Inr False))"

definition ready_status :: "bool \<Rightarrow> json" where
  "ready_status b = JObj [(''kubeflow-pipelines-ready'', JStr (if b then ''True'' else ''False''))]"

text \<open>The lines the two calls of \<open>print\<close> write.\<close>

definition sync_log :: "json \<Rightarrow> json list \<Rightarrow> string list" where
  "sync_log parent resources =
     [''Received request:'' @ [CHR 0x0A] @ '' '' @ dumps_sorted parent,
      ''Desired resources except secrets:'' @ [CHR 0x0A] @ '' '' @ dumps_sorted (JList resources)]"

lemma all_counts_True:
  "all_counts observed cs = Inr True \<longleftrightarrow>
     (\<forall>(k, n) \<in> set cs. \<exists>g. py_item observed k = Inr g \<and> py_len g = Inr n)"
proof (induction cs)
  case Nil
  then show ?case by simp
next
  case (Cons c cs)
  obtain k n where c: "c = (k, n)" by (cases c)
  have "all_counts observed (c # cs) = Inr True \<longleftrightarrow>
      (\<exists>g. py_item observed k = Inr g \<and> py_len g = Inr n) \<and> all_counts observed cs = Inr True"
    by (auto simp: c bindE_eq_Inr split: if_splits)
  with Cons show ?case by (simp add: c)
qed

lemma all_counts_prefix:
  "all_counts observed cs = Inr True \<Longrightarrow>
   all_counts observed (cs @ ds) = all_counts observed ds"
  by (induction observed cs rule: all_counts.induct) (auto simp: bindE_eq_Inr split: if_splits)

text \<open>
  The chain raises exactly when every group before some group has its count and that group
  is missing or has no length.
\<close>

lemma all_counts_raises:
  "all_counts observed cs = Inl e \<longleftrightarrow>
     (\<exists>pre k n post. cs = pre @ (k, n) # post \<and> all_counts observed pre = Inr True \<and>
        bindE (py_item observed k) py_len = Inl e)"
  (is "_ \<longleftrightarrow> ?raises cs")
proof
  assume "all_counts observed cs = Inl e"
  then show "?raises cs"
  proof (induction cs)
    case (Cons c cs)
    obtain k n where c: "c = (k, n)" by (cases c)
    from Cons.prems consider "bindE (py_item observed k) py_len = Inl e"
      | "all_counts observed [c] = Inr True" "all_counts observed cs = Inl e"
      by (auto simp: c bindE_eq_Inl bindE_eq_Inr split: if_splits)
    then show ?case
    proof cases
      case 1
      then have "c # cs = [] @ (k, n) # cs \<and> all_counts observed [] = Inr True \<and>
          bindE (py_item observed k) py_len = Inl e" by (simp add: c)
      then show ?thesis by blast
    next
      case 2
      obtain pre k' n' post where r: "cs = pre @ (k', n') # post" "all_counts observed pre = Inr True"
          "bindE (py_item observed k') py_len = Inl e"
        using Cons.IH [OF 2(2)] by blast
      have "c # cs = (c # pre) @ (k', n') # post" "all_counts observed (c # pre) = Inr True"
        using r all_counts_prefix [OF 2(1), of pre] by simp_all
      with r(3) show ?thesis by blast
    qed
  qed simp
next
  assume "?raises cs"
  then show "all_counts observed cs = Inl e"
    by (auto simp: all_counts_prefix bindE_eq_Inl)
qed

section \<open>The webhook\<close>

text \<open>
  \<open>do_POST\<close> of every controller script: the body is read, the two named parts of the request
  go to \<open>sync\<close>, and its result is the body of the response. \<open>rfile.read(n)\<close> with a negative
  \<open>n\<close> reads to the end. An exception leaves the handler without a response.
\<close>

record http_request =
  content_length :: "string option"
  rfile :: string

record http_response =
  status_code :: nat
  response_headers :: "(string \<times> string) list"
  wfile :: string

definition request_length :: "http_request \<Rightarrow> pyexn + int" where
  "request_length req = (case content_length req of None \<Rightarrow> Inl TypeError | Some s \<Rightarrow> py_int s)"

definition read_bytes :: "int \<Rightarrow> string \<Rightarrow> string" where
  "read_bytes n s = (if n < 0 then s else take (nat n) s)"

definition request_body :: "http_request \<Rightarrow> pyexn + json" where
  "request_body req = bindE (request_length req) (\<lambda>n. loads_bytes (read_bytes n (rfile req)))"

definition body_parts :: "string \<Rightarrow> string \<Rightarrow> json \<Rightarrow> pyexn + json \<times> json" where
  "body_parts parent_key children_key observed =
     bindE (py_item observed parent_key) (\<lambda>p.
     bindE (py_item observed children_key) (\<lambda>c. Inr (p, c)))"

definition observed_parts :: "string \<Rightarrow> string \<Rightarrow> http_request \<Rightarrow> pyexn + json \<times> json" where
  "observed_parts parent_key children_key req = bindE (request_body req) (body_parts parent_key children_key)"

text \<open>What a handler does with the body once it is read, up to the answer that is written.\<close>

definition handle_body ::
  "string \<Rightarrow> string \<Rightarrow> (json \<Rightarrow> json \<Rightarrow> string list \<times> (pyexn + json)) \<Rightarrow> json \<Rightarrow> string list \<times> (pyexn + json)" where
  "handle_body parent_key children_key sync observed =
     (case body_parts parent_key children_key observed of Inl e \<Rightarrow> ([], Inl e) | Inr (p, c) \<Rightarrow> sync p c)"

definition json_response :: "json \<Rightarrow> http_response" where
  "json_response v =
     \<lparr>status_code = 200, response_headers = [(''Content-type'', ''application/json'')], wfile = dumps v\<rparr>"

definition webhook :: "(json \<Rightarrow> string list \<times> (pyexn + json)) \<Rightarrow> http_request \<Rightarrow> string list \<times> (pyexn + http_response)" where
  "webhook handle req =
     (case request_body req of
        Inl e \<Rightarrow> ([], Inl e)
      | Inr observed \<Rightarrow>
          (let (printed, result) = handle observed
           in (printed, bindE result (\<lambda>desired. Inr (json_response desired)))))"

lemma webhook_parts:
  "webhook (handle_body pk ck sync) req =
     (case observed_parts pk ck req of
        Inl e \<Rightarrow> ([], Inl e)
      | Inr (p, c) \<Rightarrow>
          (let (printed, result) = sync p c
           in (printed, bindE result (\<lambda>desired. Inr (json_response desired)))))"
  by (simp add: webhook_def handle_body_def observed_parts_def split: sum.split)

text \<open>
  The request of a client that posts the two parts as one JSON object and announces the
  length of the body; \<open>rest\<close> is what the connection carries after it.
\<close>

definition post_request :: "string \<Rightarrow> string \<Rightarrow> json \<Rightarrow> json \<Rightarrow> string \<Rightarrow> http_request" where
  "post_request parent_key children_key p c rest =
     (let body = dumps (JObj [(parent_key, p), (children_key, c)])
      in \<lparr>content_length = Some (show_nat (length body)), rfile = body @ rest\<rparr>)"

lemma observed_parts_post_request:
  assumes "wf_json p" and "wf_json c" and "ascii pk" and "ascii ck" and "pk \<noteq> ck"
  shows "observed_parts pk ck (post_request pk ck p c rest) = Inr (p, c)"
proof -
  let ?v = "JObj [(pk, p), (ck, c)]"
  define body where "body = dumps ?v"
  have "wf_json ?v" using assms by simp
  then have "loads_bytes body = Inr ?v" unfolding body_def by (rule json_body.decode_encode)
  moreover have "read_bytes (int (length body)) (body @ rest) = body"
    by (simp add: read_bytes_def)
  moreover have "post_request pk ck p c rest =
      \<lparr>content_length = Some (show_nat (length body)), rfile = body @ rest\<rparr>"
    by (simp add: post_request_def body_def Let_def del: dumps.simps)
  ultimately show ?thesis
    using \<open>pk \<noteq> ck\<close> by (simp add: observed_parts_def request_body_def body_parts_def request_length_def py_int_show_nat)
qed

lemma webhook_post_request:
  assumes "wf_json p" and "wf_json c" and "ascii pk" and "ascii ck" and "pk \<noteq> ck"
  shows "webhook (handle_body pk ck sync) (post_request pk ck p c rest) =
    (fst (sync p c), bindE (snd (sync p c)) (\<lambda>v. Inr (json_response v)))"
  using observed_parts_post_request [OF assms] by (simp add: webhook_parts split: prod.split)

text \<open>A request under other keys than the script reads is refused.\<close>

lemma webhook_wrong_key:
  assumes "wf_json p" and "wf_json c" and "ascii pk" and "ascii ck" and "pk \<noteq> ck"
    and "k \<noteq> pk" and "k \<noteq> ck"
  shows "webhook (handle_body k k' sync) (post_request pk ck p c rest) = ([], Inl (KeyError k))"
proof -
  have "request_body (post_request pk ck p c rest) = Inr (JObj [(pk, p), (ck, c)])"
    using json_body.decode_encode [of "JObj [(pk, p), (ck, c)]"] assms(1-5)
    by (simp add: request_body_def post_request_def Let_def request_length_def py_int_show_nat read_bytes_def
        del: dumps.simps length_append list.size)
  then have "observed_parts k k' (post_request pk ck p c rest) = Inl (KeyError k)"
    using assms(6,7) by (auto simp: observed_parts_def body_parts_def bindE_eq_Inr)
  then show ?thesis by (simp add: webhook_parts)
qed

section \<open>Kubernetes objects\<close>

definition res_kind :: "json \<Rightarrow> string option" where
  "res_kind r = str_at r [Key ''kind'']"

definition res_api_version :: "json \<Rightarrow> string option" where
  "res_api_version r = str_at r [Key ''apiVersion'']"

definition res_name :: "json \<Rightarrow> string option" where
  "res_name r = str_at r [Key ''metadata'', Key ''name'']"

definition res_namespace :: "json \<Rightarrow> json option" where
  "res_namespace r = json_at r [Key ''metadata'', Key ''namespace'']"

text \<open>
  How the metacontroller names things in a request: the group of an object is
  \<open>Kind.apiVersion\<close>, and inside a group an object of a namespace is \<open>namespace/name\<close>
  (the form \<open>sync_seaweed.py\<close> looks a Secret up by).
\<close>

definition group_key :: "json \<Rightarrow> string option" where
  "group_key r =
     (case (res_kind r, res_api_version r) of (Some k, Some a) \<Rightarrow> Some (k @ ''.'' @ a) | _ \<Rightarrow> None)"

definition child_key :: "json \<Rightarrow> string option" where
  "child_key r =
     (case (res_namespace r, res_name r) of
        (Some (JStr ns), Some nm) \<Rightarrow> Some (ns @ ''/'' @ nm) | _ \<Rightarrow> None)"

definition in_group :: "string \<Rightarrow> json list \<Rightarrow> json list" where
  "in_group k rs = List.filter (\<lambda>r. group_key r = Some k) rs"

text \<open>
  \<open>observes observed rs ks\<close>: for each group of \<open>ks\<close>, the observed objects are exactly those
  of \<open>rs\<close> in that group, in any order and whatever fields the cluster has added to them.
\<close>

definition observes :: "json \<Rightarrow> json list \<Rightarrow> string list \<Rightarrow> bool" where
  "observes observed rs ks \<longleftrightarrow>
     (\<forall>k \<in> set ks. \<exists>g. py_item observed k = Inr (JObj g) \<and> distinct (map fst g) \<and>
        Some ` set (map fst g) = child_key ` set (in_group k rs))"

text \<open>
  The plainest observation of a set of objects: each group holds its objects as they were
  asked for.
\<close>

definition observation :: "json list \<Rightarrow> string list \<Rightarrow> json" where
  "observation rs ks =
     JObj (map (\<lambda>k. (k, JObj (map (\<lambda>r. (the (child_key r), r)) (in_group k rs)))) ks)"

lemma py_item_map: "k \<in> set ks \<Longrightarrow> py_item (JObj (map (\<lambda>k. (k, f k)) ks)) k = Inr (f k)"
  by (simp add: map_of_map_restrict)

named_theorems manifest_simps \<open>reading the fields of the manifests\<close>

lemmas [manifest_simps] =
  res_kind_def res_api_version_def res_name_def res_namespace_def group_key_def child_key_def

section \<open>The contract of a controller\<close>

text \<open>
  Every object lies in the parent's namespace, and no two objects of one group have the same
  name: then the objects can be told apart in the cluster.
\<close>

locale namespaced_controller =
  fixes desired :: "'cfg \<Rightarrow> json \<Rightarrow> json list"
  assumes in_namespace: "r \<in> set (desired cfg ns) \<Longrightarrow> res_namespace r = Some ns"
    and identified: "r \<in> set (desired cfg ns) \<Longrightarrow> group_key r \<noteq> None \<and> res_name r \<noteq> None"
    and distinct_ids: "distinct (map (\<lambda>r. (group_key r, res_name r)) (desired cfg ns))"
begin

lemma child_key_name:
  assumes "r \<in> set (desired cfg (JStr ns))"
  shows "child_key r = map_option (\<lambda>nm. ns @ ''/'' @ nm) (res_name r)"
  using in_namespace [OF assms] identified [OF assms] by (auto simp: child_key_def)

lemma child_key_inj:
  "inj_on child_key (set (in_group k (desired cfg (JStr ns))))"
proof (rule inj_onI)
  fix r s
  assume r: "r \<in> set (in_group k (desired cfg (JStr ns)))"
    and s: "s \<in> set (in_group k (desired cfg (JStr ns)))"
    and eq: "child_key r = child_key s"
  have m: "r \<in> set (desired cfg (JStr ns))" "s \<in> set (desired cfg (JStr ns))"
    and g: "group_key r = group_key s"
    using r s by (auto simp: in_group_def)
  have "res_name r = res_name s"
    using eq child_key_name [OF m(1)] child_key_name [OF m(2)] identified [OF m(1)] identified [OF m(2)]
    by auto
  with g distinct_ids m show "r = s"
    by (auto simp: distinct_map inj_on_def)
qed

lemma distinct_desired: "distinct (desired cfg ns)"
  using distinct_ids by (simp add: distinct_map)

lemma observed_group_length:
  assumes "observes observed (desired cfg (JStr ns)) ks" and "k \<in> set ks"
  shows "\<exists>g. py_item observed k = Inr g \<and> py_len g = Inr (length (in_group k (desired cfg (JStr ns))))"
proof -
  let ?rs = "in_group k (desired cfg (JStr ns))"
  obtain g where g: "py_item observed k = Inr (JObj g)" "distinct (map fst g)"
      "Some ` set (map fst g) = child_key ` set ?rs"
    using assms by (auto simp: observes_def)
  have "length g = card (Some ` set (map fst g))"
    using g(2) distinct_card [OF g(2)] by (simp add: card_image)
  also have "\<dots> = card (set ?rs)"
    using g(3) child_key_inj [of k cfg ns] by (simp add: card_image)
  also have "\<dots> = length ?rs"
    using distinct_desired [of cfg "JStr ns"] by (intro distinct_card) (simp add: in_group_def)
  finally show ?thesis using g(1) by auto
qed

lemma counts_when_observed:
  assumes "observes observed (desired cfg (JStr ns)) (map fst cs)"
  shows "all_counts observed cs = Inr True \<longleftrightarrow>
    (\<forall>(k, n) \<in> set cs. n = length (in_group k (desired cfg (JStr ns))))"
proof -
  have "(\<exists>g. py_item observed k = Inr g \<and> py_len g = Inr n) \<longleftrightarrow>
      n = length (in_group k (desired cfg (JStr ns)))" if "(k, n) \<in> set cs" for k n
  proof -
    have "k \<in> set (map fst cs)" using that by force
    then obtain g where "py_item observed k = Inr g"
        "py_len g = Inr (length (in_group k (desired cfg (JStr ns))))"
      using observed_group_length [OF assms] by blast
    then show ?thesis by auto
  qed
  then show ?thesis unfolding all_counts_True by (intro ball_cong) auto
qed

lemma observes_observation: "observes (observation (desired cfg (JStr ns)) ks) (desired cfg (JStr ns)) ks"
  unfolding observes_def
proof
  fix k
  assume k: "k \<in> set ks"
  let ?rs = "in_group k (desired cfg (JStr ns))"
  let ?g = "map (\<lambda>r. (the (child_key r), r)) ?rs"
  have m: "r \<in> set (desired cfg (JStr ns))" if "r \<in> set ?rs" for r
    using that by (simp add: in_group_def)
  have the_key: "Some (the (child_key r)) = child_key r" if "r \<in> set ?rs" for r
    using child_key_name [OF m [OF that]] identified [OF m [OF that]] by auto
  have "distinct ?rs" using distinct_desired by (simp add: in_group_def)
  moreover have "inj_on (\<lambda>r. the (child_key r)) (set ?rs)"
    using child_key_inj [of k cfg ns] the_key by (metis (mono_tags, lifting) inj_on_def)
  ultimately have "distinct (map fst ?g)" by (simp add: distinct_map comp_def)
  moreover have "Some ` set (map fst ?g) = child_key ` set ?rs"
    using the_key by (force simp: image_image)
  ultimately show "\<exists>g. py_item (observation (desired cfg (JStr ns)) ks) k = Inr (JObj g) \<and>
      distinct (map fst g) \<and> Some ` set (map fst g) = child_key ` set ?rs"
    using k by (intro exI [of _ ?g]) (simp add: observation_def py_item_map del: py_item.simps)
qed

end

text \<open>
  A controller with a readiness test: the counts it waits for are the numbers of objects it
  asks for. Then, once its objects exist, it reports ready.
\<close>

locale profile_controller = namespaced_controller desired
  for desired :: "'cfg \<Rightarrow> json \<Rightarrow> json list" +
  fixes checks :: "'cfg \<Rightarrow> (string \<times> nat) list"
  assumes counts_agree: "(k, n) \<in> set (checks cfg) \<Longrightarrow> length (in_group k (desired cfg ns)) = n"
begin

lemma ready_when_observed:
  assumes "observes observed (desired cfg (JStr ns)) (map fst (checks cfg))"
  shows "all_counts observed (checks cfg) = Inr True"
  unfolding counts_when_observed [OF assms] using counts_agree by fastforce

end

end
