(* ===== verification/Base64.thy ===== *)
theory Base64
  imports Prelude
begin

text \<open>
  \<open>base64.b64encode\<close> on a byte string (the standard alphabet, with padding), as the profile
  controllers use it to put credentials into a Kubernetes Secret, and the decoding of RFC 4648
  that a consumer of the Secret applies. The round trip is what makes the Secret usable.
\<close>

definition b64_char :: "nat \<Rightarrow> char" where
  "b64_char i =
     (if i < 26 then char_of (65 + i)
      else if i < 52 then char_of (71 + i)
      else if i < 62 then char_of (i - 4)
      else if i = 62 then CHR ''+''
      else CHR ''/'')"

definition b64_index :: "char \<Rightarrow> nat option" where
  "b64_index c =
     (let n = (of_char c :: nat) in
      if 65 \<le> n \<and> n \<le> 90 then Some (n - 65)
      else if 97 \<le> n \<and> n \<le> 122 then Some (n - 71)
      else if 48 \<le> n \<and> n \<le> 57 then Some (n + 4)
      else if n = 43 then Some 62
      else if n = 47 then Some 63
      else None)"

fun b64_groups :: "nat list \<Rightarrow> string" where
  "b64_groups [] = []"
| "b64_groups [a] = [b64_char (a div 4), b64_char (a mod 4 * 16), CHR ''='', CHR ''='']"
| "b64_groups [a, b] =
     [b64_char (a div 4), b64_char (a mod 4 * 16 + b div 16), b64_char (b mod 16 * 4), CHR ''='']"
| "b64_groups (a # b # c # r) =
     b64_char (a div 4) # b64_char (a mod 4 * 16 + b div 16)
       # b64_char (b mod 16 * 4 + c div 64) # b64_char (c mod 64) # b64_groups r"

definition b64encode :: "string \<Rightarrow> string" where
  "b64encode s = b64_groups (map of_char s)"

text \<open>The reference decoder: groups of four, padding only in the last one.\<close>

definition b64_group :: "char \<Rightarrow> char \<Rightarrow> char \<Rightarrow> char \<Rightarrow> nat list option" where
  "b64_group p q r s =
     (case (b64_index p, b64_index q) of
        (Some i, Some j) \<Rightarrow>
          (if r = CHR ''='' \<and> s = CHR ''='' then Some [i * 4 + j div 16]
           else
             (case b64_index r of
                None \<Rightarrow> None
              | Some k \<Rightarrow>
                  if s = CHR ''='' then Some [i * 4 + j div 16, j mod 16 * 16 + k div 4]
                  else
                    (case b64_index s of
                       None \<Rightarrow> None
                     | Some l \<Rightarrow> Some [i * 4 + j div 16, j mod 16 * 16 + k div 4, k mod 4 * 64 + l])))
      | _ \<Rightarrow> None)"

fun b64_ungroup :: "string \<Rightarrow> nat list option" where
  "b64_ungroup [] = Some []"
| "b64_ungroup (p # q # r # s # t) =
     (case b64_group p q r s of
        None \<Rightarrow> None
      | Some bs \<Rightarrow> if s = CHR ''='' \<and> t \<noteq> [] then None else map_option (\<lambda>cs. bs @ cs) (b64_ungroup t))"
| "b64_ungroup _ = None"

definition b64decode :: "string \<Rightarrow> string option" where
  "b64decode s = map_option (map char_of) (b64_ungroup s)"

section \<open>Round trip\<close>

lemma of_char_b64_char:
  "i < 64 \<Longrightarrow> (of_char (b64_char i) :: nat) =
     (if i < 26 then 65 + i else if i < 52 then 71 + i else if i < 62 then i - 4
      else if i = 62 then 43 else 47)"
  by (simp add: b64_char_def of_char_of)

lemma b64_index_char [simp]: "i < 64 \<Longrightarrow> b64_index (b64_char i) = Some i"
  by (auto simp: b64_index_def of_char_b64_char Let_def)

lemma b64_char_not_pad [simp]: "i < 64 \<Longrightarrow> b64_char i \<noteq> CHR ''=''"
proof
  assume "i < 64" "b64_char i = CHR ''=''"
  then have "b64_index (CHR ''='') = Some i" using b64_index_char [of i] by simp
  then show False by (simp add: b64_index_def Let_def)
qed

lemma b64_ungroup_groups: "\<forall>b \<in> set bs. b < 256 \<Longrightarrow> b64_ungroup (b64_groups bs) = Some bs"
proof (induction bs rule: b64_groups.induct)
  case 1
  then show ?case by simp
next
  case (2 a)
  then have "a div 4 < 64" by simp
  then show ?case by (simp add: b64_group_def)
next
  case (3 a b)
  then have "a div 4 < 64" "a mod 4 * 16 + b div 16 < 64" "b mod 16 * 4 < 64" "b div 16 < 16" by auto
  then show ?case by (simp add: b64_group_def)
next
  case (4 a b c r)
  then have "a div 4 < 64" "a mod 4 * 16 + b div 16 < 64" "b mod 16 * 4 + c div 64 < 64" "b div 16 < 16"
    "c div 64 < 4" by auto
  with 4 show ?case by (simp add: b64_group_def)
qed

theorem b64decode_encode: "b64decode (b64encode s) = Some s"
proof -
  have "\<forall>b \<in> set (map of_char s :: nat list). b < 256" by auto
  then show ?thesis by (simp add: b64decode_def b64encode_def b64_ungroup_groups comp_def)
qed

interpretation b64: codec b64encode b64decode Some "\<lambda>_. True"
  by unfold_locales (simp_all add: b64decode_encode)

text \<open>The encoding is ASCII, and empty only for the empty string.\<close>

lemma b64_groups_Nil_iff: "b64_groups bs = [] \<longleftrightarrow> bs = []"
  by (cases bs rule: b64_groups.cases) simp_all

lemma b64encode_Nil_iff [simp]: "b64encode s = [] \<longleftrightarrow> s = []"
  by (simp add: b64encode_def b64_groups_Nil_iff)

lemma of_char_b64_char_ascii: "i < 64 \<Longrightarrow> (of_char (b64_char i) :: nat) < 128"
  by (auto simp: of_char_b64_char)

lemma b64_groups_ascii:
  "\<forall>b \<in> set bs. b < 256 \<Longrightarrow> c \<in> set (b64_groups bs) \<Longrightarrow> (of_char c :: nat) < 128"
proof (induction bs rule: b64_groups.induct)
  case (2 a)
  then have "a div 4 < 64" "a mod 4 * 16 < 64" by auto
  with 2 show ?case by (auto intro: of_char_b64_char_ascii)
next
  case (3 a b)
  then have "a div 4 < 64" "a mod 4 * 16 + b div 16 < 64" "b mod 16 * 4 < 64" by auto
  with 3 show ?case by (auto intro: of_char_b64_char_ascii)
next
  case (4 a b c' r)
  then have "a div 4 < 64" "a mod 4 * 16 + b div 16 < 64" "b mod 16 * 4 + c' div 64 < 64"
    "c' mod 64 < 64" by auto
  with 4 show ?case by (auto intro: of_char_b64_char_ascii)
qed simp

lemma b64encode_ascii: "c \<in> set (b64encode s) \<Longrightarrow> (of_char c :: nat) < 128"
  using b64_groups_ascii [of "map of_char s" c] by (simp add: b64encode_def)

end
