(* ===== verification/Settings.thy ===== *)
theory Settings
  imports Prelude Base64
begin

text \<open>
  The configuration of the profile controllers: \<open>get_settings_from_env\<close> and \<open>main\<close> of
  \<open>kubeflow/pipelines/sync.py\<close>. The dictionary of settings has a fixed set of keys, so it is
  a record; the arguments are optional, so they are a record of options. The same function
  occurs in the other controller scripts with other default images, or without the object
  store credentials; those instances are in the theories of the scripts.
\<close>

section \<open>Arguments and settings\<close>

record image_args =
  arg_controller_port :: "string option"
  arg_visualization_server_image :: "string option"
  arg_frontend_image :: "string option"
  arg_visualization_server_tag :: "string option"
  arg_frontend_tag :: "string option"
  arg_disable_istio_sidecar :: "bool option"

record settings_args = image_args +
  arg_minio_access_key :: "string option"
  arg_minio_secret_key :: "string option"
  arg_kfp_default_pipeline_root :: "string option"

record image_settings =
  controller_port :: string
  visualization_server_image :: string
  frontend_image :: string
  visualization_server_tag :: string
  frontend_tag :: string
  disable_istio_sidecar :: bool

record settings = image_settings +
  minio_access_key :: string
  minio_secret_key :: string
  kfp_default_pipeline_root :: "string option"

definition no_args :: settings_args where
  "no_args =
     \<lparr>arg_controller_port = None, arg_visualization_server_image = None, arg_frontend_image = None,
      arg_visualization_server_tag = None, arg_frontend_tag = None, arg_disable_istio_sidecar = None,
      arg_minio_access_key = None, arg_minio_secret_key = None, arg_kfp_default_pipeline_root = None\<rparr>"

section \<open>\<open>get_settings_from_env\<close>\<close>

text \<open>
  \<open>tag or os.environ.get(k) or os.environ["KFP_VERSION"]\<close>: the last operand raises when it
  is reached and the variable is not set.
\<close>

definition image_tag :: "environ \<Rightarrow> string option \<Rightarrow> string \<Rightarrow> pyexn + string" where
  "image_tag env arg k = str_orE arg (str_orE (env k) (env_item env ''KFP_VERSION''))"

text \<open>
  \<open>base64.b64encode(bytes(os.environ.get(k), 'utf-8'))\<close>: \<open>bytes(None, 'utf-8')\<close> is a
  \<open>TypeError\<close>.
\<close>

definition env_b64 :: "environ \<Rightarrow> string \<Rightarrow> pyexn + string" where
  "env_b64 env k = (case env k of None \<Rightarrow> Inl TypeError | Some v \<Rightarrow> Inr (b64encode v))"

definition image_settings_from_env ::
  "string \<Rightarrow> string \<Rightarrow> environ \<Rightarrow> 'a image_args_scheme \<Rightarrow> pyexn + image_settings" where
  "image_settings_from_env vis_default frontend_default env args =
     bindE (image_tag env (arg_visualization_server_tag args) ''VISUALIZATION_SERVER_TAG'') (\<lambda>vis_tag.
     bindE (image_tag env (arg_frontend_tag args) ''FRONTEND_TAG'') (\<lambda>fe_tag.
     Inr \<lparr>controller_port =
            str_or (arg_controller_port args) (env_get_or env ''CONTROLLER_PORT'' ''8080''),
          visualization_server_image =
            str_or (arg_visualization_server_image args)
              (env_get_or env ''VISUALIZATION_SERVER_IMAGE'' vis_default),
          frontend_image =
            str_or (arg_frontend_image args) (env_get_or env ''FRONTEND_IMAGE'' frontend_default),
          visualization_server_tag = vis_tag,
          frontend_tag = fe_tag,
          disable_istio_sidecar =
            (case arg_disable_istio_sidecar args of
               Some b \<Rightarrow> b
             | None \<Rightarrow> env ''DISABLE_ISTIO_SIDECAR'' = Some ''true'')\<rparr>))"

definition settings_from_env ::
  "string \<Rightarrow> string \<Rightarrow> environ \<Rightarrow> settings_args \<Rightarrow> pyexn + settings" where
  "settings_from_env vis_default frontend_default env args =
     bindE (image_settings_from_env vis_default frontend_default env args) (\<lambda>im.
     bindE (str_orE (arg_minio_access_key args) (env_b64 env ''MINIO_ACCESS_KEY'')) (\<lambda>access.
     bindE (str_orE (arg_minio_secret_key args) (env_b64 env ''MINIO_SECRET_KEY'')) (\<lambda>secret.
     Inr (image_settings.extend im
       (settings.fields access secret
         (opt_or (arg_kfp_default_pipeline_root args) (env ''KFP_DEFAULT_PIPELINE_ROOT'')))))))"

definition get_settings_from_env :: "environ \<Rightarrow> settings_args \<Rightarrow> pyexn + settings" where
  "get_settings_from_env =
     settings_from_env ''ghcr.io/kubeflow/kfp-visualization-server'' ''ghcr.io/kubeflow/kfp-frontend''"

section \<open>\<open>main\<close> and \<open>server_factory\<close>\<close>

text \<open>
  The server object: the address it is bound to and the settings its handlers close over.
  \<open>HTTPServer\<close> binds its socket when it is built, which refuses a port that is not a
  16-bit number; that the address is free is not modelled.
\<close>

record 'cfg http_server =
  server_address :: "string \<times> int"
  handler_settings :: 'cfg

definition bind_server :: "string \<Rightarrow> 'cfg \<Rightarrow> string \<Rightarrow> pyexn + 'cfg http_server" where
  "bind_server url cfg port =
     bindE (py_int port) (\<lambda>p.
       if 0 \<le> p \<and> p \<le> 65535 then Inr \<lparr>server_address = (url, p), handler_settings = cfg\<rparr>
       else Inl OverflowError)"

definition server_factory :: "settings \<Rightarrow> pyexn + settings http_server" where
  "server_factory cfg = bind_server '''' cfg (controller_port cfg)"

text \<open>
  \<open>main\<close> reads the settings twice: the first dictionary is dropped, the second one fixes the
  default pipeline root. What \<open>serve_forever\<close> does with a request is \<open>do_POST\<close>.
\<close>

definition main_settings :: "environ \<Rightarrow> pyexn + settings" where
  "main_settings env =
     bindE (get_settings_from_env env no_args) (\<lambda>_.
       get_settings_from_env env
         (no_args\<lparr>arg_kfp_default_pipeline_root := Some ''s3://ml-pipeline-execution''\<rparr>))"

definition main :: "environ \<Rightarrow> pyexn + settings http_server" where
  "main env = bindE (main_settings env) server_factory"

section \<open>Lemmas\<close>

lemma image_tag_eq_Inr:
  "image_tag env arg k = Inr t \<longleftrightarrow>
     (if truthy arg then t = the arg
      else if truthy (env k) then t = the (env k)
      else env ''KFP_VERSION'' = Some t)"
  by (auto simp: image_tag_def str_orE_conv env_item_def split: option.splits)

lemma image_tag_eq_Inl:
  "image_tag env arg k = Inl e \<longleftrightarrow>
     \<not> truthy arg \<and> \<not> truthy (env k) \<and> env ''KFP_VERSION'' = None \<and> e = KeyError ''KFP_VERSION''"
  by (auto simp: image_tag_def str_orE_conv env_item_def split: option.splits)

lemma image_tag_ex_Inr:
  "(\<exists>t. image_tag env arg k = Inr t) \<longleftrightarrow> truthy arg \<or> truthy (env k) \<or> env ''KFP_VERSION'' \<noteq> None"
  by (auto simp: image_tag_eq_Inr)

lemma bind_server_ex_Inr:
  "(\<exists>srv. bind_server url cfg port = Inr srv) \<longleftrightarrow> (\<exists>p. py_int port = Inr p \<and> 0 \<le> p \<and> p \<le> 65535)"
  unfolding bind_server_def bindE_ex_Inr by (intro ex_cong) auto

lemma env_b64_eq_Inr: "env_b64 env k = Inr t \<longleftrightarrow> (\<exists>v. env k = Some v \<and> t = b64encode v)"
  by (auto simp: env_b64_def split: option.splits)

text \<open>What a call needs of the arguments and the environment.\<close>

lemma settings_from_env_ex_Inr:
  "(\<exists>s. settings_from_env v f env args = Inr s) \<longleftrightarrow>
     (truthy (arg_visualization_server_tag args) \<or> truthy (env ''VISUALIZATION_SERVER_TAG'') \<or>
      env ''KFP_VERSION'' \<noteq> None) \<and>
     (truthy (arg_frontend_tag args) \<or> truthy (env ''FRONTEND_TAG'') \<or> env ''KFP_VERSION'' \<noteq> None) \<and>
     (truthy (arg_minio_access_key args) \<or> env ''MINIO_ACCESS_KEY'' \<noteq> None) \<and>
     (truthy (arg_minio_secret_key args) \<or> env ''MINIO_SECRET_KEY'' \<noteq> None)"
proof -
  have "(\<exists>t. str_orE arg (env_b64 env k) = Inr t) \<longleftrightarrow> truthy arg \<or> env k \<noteq> None" for arg k
    by (auto simp: str_orE_conv env_b64_eq_Inr)
  then show ?thesis
    by (simp add: settings_from_env_def image_settings_from_env_def bindE_ex_Inr image_tag_ex_Inr)
qed

text \<open>The fields of the settings a call produces.\<close>

lemmas settings_from_env_defs =
  settings_from_env_def image_settings_from_env_def settings.defs image_settings.defs

lemma settings_from_env_fields:
  assumes "settings_from_env v f env args = Inr s"
  shows "controller_port s = str_or (arg_controller_port args) (env_get_or env ''CONTROLLER_PORT'' ''8080'')"
    and "visualization_server_image s =
      str_or (arg_visualization_server_image args) (env_get_or env ''VISUALIZATION_SERVER_IMAGE'' v)"
    and "frontend_image s = str_or (arg_frontend_image args) (env_get_or env ''FRONTEND_IMAGE'' f)"
    and "image_tag env (arg_visualization_server_tag args) ''VISUALIZATION_SERVER_TAG'' =
      Inr (visualization_server_tag s)"
    and "image_tag env (arg_frontend_tag args) ''FRONTEND_TAG'' = Inr (frontend_tag s)"
    and "disable_istio_sidecar s =
      (case arg_disable_istio_sidecar args of Some b \<Rightarrow> b
       | None \<Rightarrow> env ''DISABLE_ISTIO_SIDECAR'' = Some ''true'')"
    and "str_orE (arg_minio_access_key args) (env_b64 env ''MINIO_ACCESS_KEY'') = Inr (minio_access_key s)"
    and "str_orE (arg_minio_secret_key args) (env_b64 env ''MINIO_SECRET_KEY'') = Inr (minio_secret_key s)"
    and "kfp_default_pipeline_root s =
      opt_or (arg_kfp_default_pipeline_root args) (env ''KFP_DEFAULT_PIPELINE_ROOT'')"
  using assms by (auto simp: settings_from_env_defs bindE_eq_Inr)

end
