(* ===== verification/Manifests.thy ===== *)
theory Manifests
  imports Contract Settings
begin

text \<open>
  The Kubernetes objects of \<open>kubeflow/pipelines/sync.py\<close>, one definition per object of the
  list its \<open>sync\<close> builds, key by key and in the order of the source. \<open>ns\<close> is the value of
  the parent's name.

  The other controller scripts build the same objects with small differences: the two
  Deployments take those differences as parameters.
\<close>

section \<open>Names\<close>

abbreviation vis_name :: string where
  "vis_name \<equiv> ''ml-pipeline-visualizationserver''"

abbreviation ui_name :: string where
  "ui_name \<equiv> ''ml-pipeline-ui-artifact''"

abbreviation secret_name :: string where
  "secret_name \<equiv> ''mlpipeline-minio-artifact''"

section \<open>Config maps\<close>

text \<open>The text of \<open>providers_string\<close>, with its indentation and its trailing blanks.\<close>

definition indented :: "nat \<Rightarrow> string \<Rightarrow> string" where
  "indented n s = replicate n (CHR '' '') @ s"

fun unlines :: "string list \<Rightarrow> string" where
  "unlines [] = []"
| "unlines [l] = l"
| "unlines (l # m # ls) = l @ CHR 0x0A # unlines (m # ls)"

definition providers_string :: string where
  "providers_string = unlines
     [''s3:'',
      indented 24 ''default:'',
      indented 28 ''endpoint: minio.kubefrog.fr'',
      indented 28 ''disableSSL: false'',
      indented 28 ''region: minio'',
      indented 28 ''forcePathStyle: true              '',
      indented 28 ''credentials:'',
      indented 32 ''fromEnv: false'',
      indented 32 ''secretRef:'',
      indented 36 ''secretName: mlpipeline-minio-artifact'',
      indented 36 ''accessKeyKey: accesskey'',
      indented 36 ''secretKeyKey: secretkey'']"

definition kfp_launcher :: "string \<Rightarrow> json \<Rightarrow> json" where
  "kfp_launcher pipeline_root ns =
    JObj [
      (''apiVersion'', JStr ''v1''),
      (''kind'', JStr ''ConfigMap''),
      (''metadata'', JObj [(''name'', JStr ''kfp-launcher''), (''namespace'', ns)]),
      (''data'', JObj [
        (''defaultPipelineRoot'', JStr pipeline_root),
        (''providers'', JStr providers_string)])]"

definition metadata_grpc_configmap :: "json \<Rightarrow> json" where
  "metadata_grpc_configmap ns =
    JObj [
      (''apiVersion'', JStr ''v1''),
      (''kind'', JStr ''ConfigMap''),
      (''metadata'', JObj [(''name'', JStr ''metadata-grpc-configmap''), (''namespace'', ns)]),
      (''data'', JObj [
        (''METADATA_GRPC_SERVICE_HOST'', JStr ''metadata-grpc-service.kubeflow''),
        (''METADATA_GRPC_SERVICE_PORT'', JStr ''8080'')])]"

section \<open>The visualization server\<close>

text \<open>\<open>disable_istio_sidecar and {"sidecar.istio.io/inject": "false"} or {}\<close>.\<close>

definition sidecar_annotations :: "'a image_settings_scheme \<Rightarrow> json" where
  "sidecar_annotations cfg =
     (if disable_istio_sidecar cfg then JObj [(''sidecar.istio.io/inject'', JStr ''false'')] else JObj [])"

text \<open>\<open>env\<close>: the entries between \<open>ports\<close> and \<open>resources\<close>; \<open>mem\<close>: the memory limit.\<close>

definition vis_deployment_with ::
  "(string \<times> json) list \<Rightarrow> string \<Rightarrow> 'a image_settings_scheme \<Rightarrow> json \<Rightarrow> json" where
  "vis_deployment_with env mem cfg ns =
    JObj [
      (''apiVersion'', JStr ''apps/v1''),
      (''kind'', JStr ''Deployment''),
      (''metadata'', JObj [
        (''labels'', JObj [(''app'', JStr vis_name)]),
        (''name'', JStr vis_name),
        (''namespace'', ns)]),
      (''spec'', JObj [
        (''selector'', JObj [(''matchLabels'', JObj [(''app'', JStr vis_name)])]),
        (''template'', JObj [
          (''metadata'', JObj [
            (''labels'', JObj [(''app'', JStr vis_name)]),
            (''annotations'', sidecar_annotations cfg)]),
          (''spec'', JObj [
            (''containers'', JList [
              JObj ([
                (''image'', JStr (visualization_server_image cfg @ '':'' @ visualization_server_tag cfg)),
                (''imagePullPolicy'', JStr ''IfNotPresent''),
                (''name'', JStr vis_name),
                (''ports'', JList [JObj [(''containerPort'', JInt 8888)]])]
                @ env @
                [(''resources'', JObj [
                  (''requests'', JObj [(''cpu'', JStr ''50m''), (''memory'', JStr ''200Mi'')]),
                  (''limits'', JObj [(''cpu'', JStr ''500m''), (''memory'', JStr mem)])])])]),
            (''serviceAccountName'', JStr ''default-editor'')])])])]"

definition vis_deployment :: "'a image_settings_scheme \<Rightarrow> json \<Rightarrow> json" where
  "vis_deployment = vis_deployment_with [] ''1Gi''"

definition vis_destination_rule :: "json \<Rightarrow> json" where
  "vis_destination_rule ns =
    JObj [
      (''apiVersion'', JStr ''networking.istio.io/v1alpha3''),
      (''kind'', JStr ''DestinationRule''),
      (''metadata'', JObj [(''name'', JStr vis_name), (''namespace'', ns)]),
      (''spec'', JObj [
        (''host'', JStr vis_name),
        (''trafficPolicy'', JObj [(''tls'', JObj [(''mode'', JStr ''ISTIO_MUTUAL'')])])])]"

definition vis_authorization_policy :: "json \<Rightarrow> json" where
  "vis_authorization_policy ns =
    JObj [
      (''apiVersion'', JStr ''security.istio.io/v1beta1''),
      (''kind'', JStr ''AuthorizationPolicy''),
      (''metadata'', JObj [(''name'', JStr vis_name), (''namespace'', ns)]),
      (''spec'', JObj [
        (''selector'', JObj [(''matchLabels'', JObj [(''app'', JStr vis_name)])]),
        (''rules'', JList [
          JObj [
            (''from'', JList [
              JObj [
                (''source'', JObj [
                  (''principals'', JList [JStr ''cluster.local/ns/kubeflow/sa/ml-pipeline''])])]])]])])]"

definition vis_service :: "json \<Rightarrow> json" where
  "vis_service ns =
    JObj [
      (''apiVersion'', JStr ''v1''),
      (''kind'', JStr ''Service''),
      (''metadata'', JObj [(''name'', JStr vis_name), (''namespace'', ns)]),
      (''spec'', JObj [
        (''ports'', JList [
          JObj [
            (''name'', JStr ''http''),
            (''port'', JInt 8888),
            (''protocol'', JStr ''TCP''),
            (''targetPort'', JInt 8888)]]),
        (''selector'', JObj [(''app'', JStr vis_name)])])]"

section \<open>The artifact fetcher\<close>

definition minio_env :: "string \<Rightarrow> string \<Rightarrow> json" where
  "minio_env var key =
    JObj [
      (''name'', JStr var),
      (''valueFrom'', JObj [
        (''secretKeyRef'', JObj [(''key'', JStr key), (''name'', JStr secret_name)])])]"

definition minio_envs :: "json list" where
  "minio_envs = [minio_env ''MINIO_ACCESS_KEY'' ''accesskey'', minio_env ''MINIO_SECRET_KEY'' ''secretkey'']"

text \<open>
  \<open>env\<close>: the variables after the two credentials; \<open>mounts\<close>: the entries of the container
  after its resources; \<open>volumes\<close>: the entries of the pod after its service account.
\<close>

definition ui_deployment_with ::
  "json list \<Rightarrow> (string \<times> json) list \<Rightarrow> (string \<times> json) list \<Rightarrow> 'a image_settings_scheme \<Rightarrow> json \<Rightarrow> json"
where
  "ui_deployment_with env mounts volumes cfg ns =
    JObj [
      (''apiVersion'', JStr ''apps/v1''),
      (''kind'', JStr ''Deployment''),
      (''metadata'', JObj [
        (''labels'', JObj [(''app'', JStr ui_name)]),
        (''name'', JStr ui_name),
        (''namespace'', ns)]),
      (''spec'', JObj [
        (''selector'', JObj [(''matchLabels'', JObj [(''app'', JStr ui_name)])]),
        (''template'', JObj [
          (''metadata'', JObj [
            (''labels'', JObj [(''app'', JStr ui_name)]),
            (''annotations'', sidecar_annotations cfg)]),
          (''spec'', JObj ([
            (''containers'', JList [
              JObj ([
                (''name'', JStr ui_name),
                (''image'', JStr (frontend_image cfg @ '':'' @ frontend_tag cfg)),
                (''imagePullPolicy'', JStr ''IfNotPresent''),
                (''ports'', JList [JObj [(''containerPort'', JInt 3000)]]),
                (''env'', JList (minio_envs @ env)),
                (''resources'', JObj [
                  (''requests'', JObj [(''cpu'', JStr ''10m''), (''memory'', JStr ''70Mi'')]),
                  (''limits'', JObj [(''cpu'', JStr ''100m''), (''memory'', JStr ''500Mi'')])])]
                @ mounts)]),
            (''serviceAccountName'', JStr ''default-editor'')]
            @ volumes))])])]"

definition ui_deployment :: "'a image_settings_scheme \<Rightarrow> json \<Rightarrow> json" where
  "ui_deployment = ui_deployment_with [] [] []"

definition ui_service :: "json \<Rightarrow> json" where
  "ui_service ns =
    JObj [
      (''apiVersion'', JStr ''v1''),
      (''kind'', JStr ''Service''),
      (''metadata'', JObj [
        (''name'', JStr ui_name),
        (''namespace'', ns),
        (''labels'', JObj [(''app'', JStr ui_name)])]),
      (''spec'', JObj [
        (''ports'', JList [
          JObj [
            (''name'', JStr ''http''),
            (''port'', JInt 80),
            (''protocol'', JStr ''TCP''),
            (''targetPort'', JInt 3000)]]),
        (''selector'', JObj [(''app'', JStr ui_name)])])]"

section \<open>The secret\<close>

definition minio_secret :: "settings \<Rightarrow> json \<Rightarrow> json" where
  "minio_secret cfg ns =
    JObj [
      (''apiVersion'', JStr ''v1''),
      (''kind'', JStr ''Secret''),
      (''metadata'', JObj [(''name'', JStr secret_name), (''namespace'', ns)]),
      (''data'', JObj [
        (''accesskey'', JStr (minio_access_key cfg)),
        (''secretkey'', JStr (minio_secret_key cfg))])]"

section \<open>Identities of the objects\<close>

lemmas object_defs =
  kfp_launcher_def metadata_grpc_configmap_def vis_deployment_def vis_deployment_with_def
  vis_destination_rule_def vis_authorization_policy_def vis_service_def
  ui_deployment_def ui_deployment_with_def ui_service_def minio_secret_def

lemma group_keys [simp]:
  "group_key (kfp_launcher pipeline_root ns) = Some ''ConfigMap.v1''"
  "group_key (metadata_grpc_configmap ns) = Some ''ConfigMap.v1''"
  "group_key (vis_deployment_with env mem cfg ns) = Some ''Deployment.apps/v1''"
  "group_key (vis_deployment cfg ns) = Some ''Deployment.apps/v1''"
  "group_key (vis_destination_rule ns) = Some ''DestinationRule.networking.istio.io/v1alpha3''"
  "group_key (vis_authorization_policy ns) = Some ''AuthorizationPolicy.security.istio.io/v1beta1''"
  "group_key (vis_service ns) = Some ''Service.v1''"
  "group_key (ui_deployment_with uenv mounts volumes cfg ns) = Some ''Deployment.apps/v1''"
  "group_key (ui_deployment cfg ns) = Some ''Deployment.apps/v1''"
  "group_key (ui_service ns) = Some ''Service.v1''"
  "group_key (minio_secret s ns) = Some ''Secret.v1''"
  by (simp_all add: manifest_simps object_defs)

lemma res_names [simp]:
  "res_name (kfp_launcher pipeline_root ns) = Some ''kfp-launcher''"
  "res_name (metadata_grpc_configmap ns) = Some ''metadata-grpc-configmap''"
  "res_name (vis_deployment_with env mem cfg ns) = Some vis_name"
  "res_name (vis_deployment cfg ns) = Some vis_name"
  "res_name (vis_destination_rule ns) = Some vis_name"
  "res_name (vis_authorization_policy ns) = Some vis_name"
  "res_name (vis_service ns) = Some vis_name"
  "res_name (ui_deployment_with uenv mounts volumes cfg ns) = Some ui_name"
  "res_name (ui_deployment cfg ns) = Some ui_name"
  "res_name (ui_service ns) = Some ui_name"
  "res_name (minio_secret s ns) = Some secret_name"
  by (simp_all add: manifest_simps object_defs)

lemma res_namespaces [simp]:
  "res_namespace (kfp_launcher pipeline_root ns) = Some ns"
  "res_namespace (metadata_grpc_configmap ns) = Some ns"
  "res_namespace (vis_deployment_with env mem cfg ns) = Some ns"
  "res_namespace (vis_deployment cfg ns) = Some ns"
  "res_namespace (vis_destination_rule ns) = Some ns"
  "res_namespace (vis_authorization_policy ns) = Some ns"
  "res_namespace (vis_service ns) = Some ns"
  "res_namespace (ui_deployment_with uenv mounts volumes cfg ns) = Some ns"
  "res_namespace (ui_deployment cfg ns) = Some ns"
  "res_namespace (ui_service ns) = Some ns"
  "res_namespace (minio_secret s ns) = Some ns"
  by (simp_all add: manifest_simps object_defs)

section \<open>The objects are well-formed JSON\<close>

lemma ascii_CHR [simp]: "ascii (replicate n c) \<longleftrightarrow> n = 0 \<or> ascii_char c"
  by (auto simp: ascii_def)

lemma ascii_unlines: "ascii (unlines ls) \<longleftrightarrow> (\<forall>l \<in> set ls. ascii l)"
  by (induction ls rule: unlines.induct) auto

lemma ascii_providers: "ascii providers_string"
  by (simp add: providers_string_def ascii_unlines indented_def)

definition ascii_images :: "'a image_settings_scheme \<Rightarrow> bool" where
  "ascii_images cfg \<longleftrightarrow>
     ascii (visualization_server_image cfg) \<and> ascii (visualization_server_tag cfg) \<and>
     ascii (frontend_image cfg) \<and> ascii (frontend_tag cfg)"

lemma wf_objects [simp]:
  "ascii pipeline_root \<Longrightarrow> wf_json ns \<Longrightarrow> wf_json (kfp_launcher pipeline_root ns)"
  "wf_json ns \<Longrightarrow> wf_json (metadata_grpc_configmap ns)"
  "wf_json ns \<Longrightarrow> ascii_images cfg \<Longrightarrow> wf_json (vis_deployment cfg ns)"
  "wf_json ns \<Longrightarrow> wf_json (vis_destination_rule ns)"
  "wf_json ns \<Longrightarrow> wf_json (vis_authorization_policy ns)"
  "wf_json ns \<Longrightarrow> wf_json (vis_service ns)"
  "wf_json ns \<Longrightarrow> ascii_images cfg \<Longrightarrow> wf_json (ui_deployment cfg ns)"
  "wf_json ns \<Longrightarrow> wf_json (ui_service ns)"
  "wf_json ns \<Longrightarrow> ascii (minio_access_key s) \<Longrightarrow> ascii (minio_secret_key s) \<Longrightarrow> wf_json (minio_secret s ns)"
  by (simp_all add: object_defs ascii_images_def ascii_providers sidecar_annotations_def
      minio_envs_def minio_env_def)

end
