(* ===== verification/Sync.thy ===== *)
theory Sync
  imports Manifests
begin

text \<open>
  The deployed profile controller, \<open>kubeflow/pipelines/sync.py\<close>: \<open>sync\<close> and \<open>do_POST\<close> of its
  \<open>Controller\<close> class.
\<close>

section \<open>\<open>sync\<close>\<close>

text \<open>
  The body of the method, over the parts in which the scripts differ: the key the answer's
  objects have, the counts the readiness test waits for, the objects printed to the log and
  the secret appended after printing. The result is what was printed, and the answer or the
  exception.
\<close>

definition sync_with ::
  "string \<Rightarrow> (string \<times> nat) list \<Rightarrow> (json \<Rightarrow> json list) \<Rightarrow> (json \<Rightarrow> json) \<Rightarrow> json \<Rightarrow> json
     \<Rightarrow> string list \<times> (pyexn + json)" where
  "sync_with children_key checks resources secret parent observed =
     (case bindE (parent_name parent) (\<lambda>ns. bindE (parent_enabled parent) (\<lambda>en. Inr (ns, en))) of
        Inl e \<Rightarrow> ([], Inl e)
      | Inr (ns, en) \<Rightarrow>
          if en \<noteq> JStr ''true''
          then ([], Inr (JObj [(''status'', JObj []), (children_key, JList [])]))
          else
            (case all_counts observed checks of
               Inl e \<Rightarrow> ([], Inl e)
             | Inr ready \<Rightarrow>
                 (sync_log parent (resources ns),
                  Inr (JObj [(''status'', ready_status ready),
                             (children_key, JList (resources ns @ [secret ns]))]))))"

definition configmap_count :: "settings \<Rightarrow> nat" where
  "configmap_count cfg = (if truthy (kfp_default_pipeline_root cfg) then 2 else 1)"

definition ready_checks :: "settings \<Rightarrow> (string \<times> nat) list" where
  "ready_checks cfg =
     [(''Secret.v1'', 1),
      (''ConfigMap.v1'', configmap_count cfg),
      (''Deployment.apps/v1'', 2),
      (''Service.v1'', 2),
      (''DestinationRule.networking.istio.io/v1alpha3'', 1),
      (''AuthorizationPolicy.security.istio.io/v1beta1'', 1)]"

definition launcher_configmaps :: "settings \<Rightarrow> json \<Rightarrow> json list" where
  "launcher_configmaps cfg ns =
     (if truthy (kfp_default_pipeline_root cfg)
      then [kfp_launcher (the (kfp_default_pipeline_root cfg)) ns] else [])"

definition public_resources :: "settings \<Rightarrow> json \<Rightarrow> json list" where
  "public_resources cfg ns =
     launcher_configmaps cfg ns @
     [metadata_grpc_configmap ns,
      vis_deployment cfg ns,
      vis_destination_rule ns,
      vis_authorization_policy ns,
      vis_service ns,
      ui_deployment cfg ns,
      ui_service ns]"

definition sync :: "settings \<Rightarrow> json \<Rightarrow> json \<Rightarrow> string list \<times> (pyexn + json)" where
  "sync cfg = sync_with ''attachments'' (ready_checks cfg) (public_resources cfg) (minio_secret cfg)"

definition desired_attachments :: "settings \<Rightarrow> json \<Rightarrow> json list" where
  "desired_attachments cfg ns = public_resources cfg ns @ [minio_secret cfg ns]"

definition handle_sync :: "settings \<Rightarrow> json \<Rightarrow> string list \<times> (pyexn + json)" where
  "handle_sync cfg = handle_body ''object'' ''attachments'' (sync cfg)"

definition do_POST :: "settings \<Rightarrow> http_request \<Rightarrow> string list \<times> (pyexn + http_response)" where
  "do_POST cfg = webhook (handle_sync cfg)"

section \<open>What \<open>sync_with\<close> does on every branch\<close>

lemma sync_with_parent_error:
  "bindE (parent_name parent) (\<lambda>_. parent_enabled parent) = Inl e \<Longrightarrow>
   sync_with key checks res sec parent observed = ([], Inl e)"
  by (auto simp: sync_with_def bindE_eq_Inl split: sum.split)

lemma sync_with_disabled:
  assumes "parent_name parent = Inr ns" and "parent_enabled parent = Inr en" and "en \<noteq> JStr ''true''"
  shows "sync_with key checks res sec parent observed =
    ([], Inr (JObj [(''status'', JObj []), (key, JList [])]))"
  using assms by (simp add: sync_with_def)

lemma sync_with_enabled:
  assumes "parent_name parent = Inr ns" and "parent_enabled parent = Inr (JStr ''true'')"
  shows "sync_with key checks res sec parent observed =
    (case all_counts observed checks of
       Inl e \<Rightarrow> ([], Inl e)
     | Inr ready \<Rightarrow>
         (sync_log parent (res ns),
          Inr (JObj [(''status'', ready_status ready), (key, JList (res ns @ [sec ns]))])))"
  using assms by (simp add: sync_with_def)

lemma sync_with_log_secret:
  "fst (sync_with key checks res sec parent observed) = fst (sync_with key checks res sec' parent observed)"
  by (simp add: sync_with_def split: sum.split)

lemma ready_status_eq [simp]: "ready_status b = ready_status c \<longleftrightarrow> b = c"
  by (auto simp: ready_status_def)

text \<open>The objects of an answer, under the key the script uses.\<close>

definition response_items :: "string \<Rightarrow> json \<Rightarrow> json list" where
  "response_items key resp = (case json_at resp [Key key] of Some (JList rs) \<Rightarrow> rs | _ \<Rightarrow> [])"

lemma sync_with_items:
  assumes "sync_with key checks res sec parent observed = (printed, Inr resp)"
    and "key \<noteq> ''status''" and "r \<in> set (response_items key resp)"
  obtains ns where "parent_name parent = Inr ns" "parent_enabled parent = Inr (JStr ''true'')"
    "r \<in> set (res ns @ [sec ns])"
  using assms
  by (auto simp: sync_with_def response_items_def bindE_eq_Inr split: sum.splits if_splits)

section \<open>The contract\<close>

lemma desired_attachments_set:
  "r \<in> set (desired_attachments cfg ns) \<longleftrightarrow>
     r \<in> set (launcher_configmaps cfg ns) \<or>
     r \<in> {metadata_grpc_configmap ns, vis_deployment cfg ns, vis_destination_rule ns,
          vis_authorization_policy ns, vis_service ns, ui_deployment cfg ns, ui_service ns,
          minio_secret cfg ns}"
  by (auto simp: desired_attachments_def public_resources_def)

lemma launcher_configmaps_set:
  "r \<in> set (launcher_configmaps cfg ns) \<Longrightarrow> \<exists>pipeline_root. r = kfp_launcher pipeline_root ns"
  by (auto simp: launcher_configmaps_def split: if_splits)

text \<open>How many objects of each group \<open>sync\<close> asks for.\<close>

lemma in_group_simps:
  "in_group k [] = []"
  "in_group k (r # rs) = (if group_key r = Some k then r # in_group k rs else in_group k rs)"
  "in_group k (rs @ ss) = in_group k rs @ in_group k ss"
  by (simp_all add: in_group_def)

lemma desired_attachments_count:
  "list_all (\<lambda>(k, n). length (in_group k (desired_attachments cfg ns)) = n) (ready_checks cfg)"
  by (simp add: ready_checks_def in_group_simps desired_attachments_def public_resources_def
      launcher_configmaps_def configmap_count_def)

interpretation sync_ctl: profile_controller desired_attachments ready_checks
proof unfold_locales
  fix r cfg ns
  assume "r \<in> set (desired_attachments cfg ns)"
  then show "res_namespace r = Some ns" "group_key r \<noteq> None \<and> res_name r \<noteq> None"
    unfolding desired_attachments_set by (elim disjE insertE; force dest: launcher_configmaps_set)+
next
  fix cfg ns
  show "distinct (map (\<lambda>r. (group_key r, res_name r)) (desired_attachments cfg ns))"
    by (simp add: desired_attachments_def public_resources_def launcher_configmaps_def)
next
  fix k n cfg ns
  assume "(k, n) \<in> set (ready_checks cfg)"
  then show "length (in_group k (desired_attachments cfg ns)) = n"
    using desired_attachments_count [of cfg ns] by (auto simp: list_all_iff)
qed

end
