(* ===== verification/Wiring.thy ===== *)
theory Wiring
  imports Contract
begin

text \<open>
  How the objects of one answer refer to each other: a Service selects pods by their labels
  and forwards to a port of their containers, a Deployment selects its own pods, and a
  container reads its credentials from keys of Secrets. The predicates read the manifests
  along the paths of the Kubernetes API.
\<close>

definition obj_at :: "json \<Rightarrow> string list \<Rightarrow> (string \<times> json) list" where
  "obj_at v ks = (case json_at v (map Key ks) of Some (JObj kvs) \<Rightarrow> kvs | _ \<Rightarrow> [])"

definition list_at :: "json \<Rightarrow> string list \<Rightarrow> json list" where
  "list_at v ks = (case json_at v (map Key ks) of Some (JList xs) \<Rightarrow> xs | _ \<Rightarrow> [])"

definition pod_labels :: "json \<Rightarrow> (string \<times> json) list" where
  "pod_labels d = obj_at d [''spec'', ''template'', ''metadata'', ''labels'']"

definition containers :: "json \<Rightarrow> json list" where
  "containers d = list_at d [''spec'', ''template'', ''spec'', ''containers'']"

definition container_ports :: "json \<Rightarrow> json option list" where
  "container_ports d =
     concat (map (\<lambda>c. map (\<lambda>p. json_at p [Key ''containerPort'']) (list_at c [''ports''])) (containers d))"

definition selects :: "(string \<times> json) list \<Rightarrow> (string \<times> json) list \<Rightarrow> bool" where
  "selects sel labels \<longleftrightarrow> sel \<noteq> [] \<and> (\<forall>p \<in> set sel. p \<in> set labels)"

definition owns_pods :: "json \<Rightarrow> bool" where
  "owns_pods d \<longleftrightarrow> selects (obj_at d [''spec'', ''selector'', ''matchLabels'']) (pod_labels d)"

definition routes_to :: "json \<Rightarrow> json \<Rightarrow> bool" where
  "routes_to s d \<longleftrightarrow>
     selects (obj_at s [''spec'', ''selector'']) (pod_labels d) \<and>
     res_namespace s = res_namespace d \<and>
     list_at s [''spec'', ''ports''] \<noteq> [] \<and>
     (\<forall>p \<in> set (list_at s [''spec'', ''ports'']). json_at p [Key ''targetPort''] \<in> set (container_ports d))"

text \<open>The (secret, key) pairs the containers of a Deployment take their environment from.\<close>

definition secret_refs :: "json \<Rightarrow> (string option \<times> string option) list" where
  "secret_refs d =
     concat (map (\<lambda>c. concat (map (\<lambda>e.
       (case json_at e [Key ''valueFrom'', Key ''secretKeyRef''] of
          None \<Rightarrow> [] | Some r \<Rightarrow> [(str_at r [Key ''name''], str_at r [Key ''key''])]))
       (list_at c [''env'']))) (containers d))"

definition holds_key :: "json \<Rightarrow> string option \<times> string option \<Rightarrow> bool" where
  "holds_key s ref =
     (case ref of
        (Some nm, Some k) \<Rightarrow> res_kind s = Some ''Secret'' \<and> res_name s = Some nm \<and>
          str_at s [Key ''data'', Key k] \<noteq> None
      | _ \<Rightarrow> False)"

text \<open>The references of a list of objects that no object of the list provides.\<close>

definition external_refs :: "json list \<Rightarrow> (string option \<times> string option) list" where
  "external_refs rs =
     List.filter (\<lambda>ref. \<not> (\<exists>s \<in> set rs. holds_key s ref)) (concat (map secret_refs rs))"

text \<open>The volumes the containers of a Deployment mount, and the ones its pod declares.\<close>

definition mounted :: "json \<Rightarrow> string option list" where
  "mounted d =
     concat (map (\<lambda>c. map (\<lambda>m. str_at m [Key ''name'']) (list_at c [''volumeMounts''])) (containers d))"

definition volumes_of :: "json \<Rightarrow> json list" where
  "volumes_of d = list_at d [''spec'', ''template'', ''spec'', ''volumes'']"

lemmas wiring_defs =
  obj_at_def list_at_def pod_labels_def containers_def container_ports_def selects_def
  owns_pods_def routes_to_def secret_refs_def holds_key_def

end
