(* ===== verification/SyncProps.thy ===== *)
theory SyncProps
  imports Sync Wiring
begin

text \<open>
  The properties of the deployed controller: the readiness loop, confinement to a namespace,
  what reaches the log, the errors, the consistency of the manifests and the webhook.
\<close>

section \<open>A sample configuration\<close>

definition sample_settings :: settings where
  "sample_settings =
     \<lparr>controller_port = ''8080'', visualization_server_image = ''vis'', frontend_image = ''fe'',
      visualization_server_tag = ''1.0'', frontend_tag = ''1.1'', disable_istio_sidecar = True,
      minio_access_key = ''YQ=='', minio_secret_key = ''Yg=='',
      kfp_default_pipeline_root = Some ''s3://root''\<rparr>"

definition sample_parent :: json where
  "sample_parent =
     JObj [(''metadata'', JObj [
       (''name'', JStr ''alice''),
       (''labels'', JObj [(''pipelines.kubeflow.org/enabled'', JStr ''true'')])])]"

lemma sample_parent_name: "parent_name sample_parent = Inr (JStr ''alice'')"
  by (simp add: parent_name_def sample_parent_def)

lemma sample_parent_enabled: "parent_enabled sample_parent = Inr (JStr ''true'')"
  by (simp add: parent_enabled_def sample_parent_def)

abbreviation group_keys_of :: "settings \<Rightarrow> string list" where
  "group_keys_of cfg \<equiv> map fst (ready_checks cfg)"

section \<open>Readiness\<close>

text \<open>
  C6. The reconcile loop settles: once the cluster holds exactly the objects \<open>sync\<close> asked for
  (in any order, with any fields added), the next call asks for the same objects again and
  reports the profile ready.
\<close>

theorem sync_converges:
  assumes "parent_name parent = Inr (JStr ns)"
    and "parent_enabled parent = Inr (JStr ''true'')"
    and "observes observed (desired_attachments cfg (JStr ns)) (group_keys_of cfg)"
  shows "snd (sync cfg parent observed) =
    Inr (JObj [(''status'', ready_status True),
               (''attachments'', JList (desired_attachments cfg (JStr ns)))])"
  using sync_ctl.ready_when_observed [OF assms(3)]
  by (simp add: sync_def sync_with_enabled [OF assms(1,2)] desired_attachments_def)

theorem sync_converges_witness:
  "snd (sync sample_settings sample_parent
      (observation (desired_attachments sample_settings (JStr ''alice'')) (group_keys_of sample_settings))) =
    Inr (JObj [(''status'', ready_status True),
               (''attachments'', JList (desired_attachments sample_settings (JStr ''alice'')))])"
  by (rule sync_converges [OF sample_parent_name sample_parent_enabled sync_ctl.observes_observation])

text \<open>
  C26. The status is \<open>True\<close> only when all six groups are present with the expected counts: one
  Secret, one or two ConfigMaps depending on the default pipeline root, two Deployments, two
  Services, one DestinationRule and one AuthorizationPolicy.
\<close>

theorem sync_ready_iff:
  assumes "parent_name parent = Inr ns" and "parent_enabled parent = Inr (JStr ''true'')"
  shows "(\<exists>printed rs. sync cfg parent observed =
        (printed, Inr (JObj [(''status'', ready_status True), (''attachments'', JList rs)]))) \<longleftrightarrow>
    (\<forall>(k, n) \<in> {(''Secret.v1'', 1),
                (''ConfigMap.v1'', if truthy (kfp_default_pipeline_root cfg) then 2 else 1),
                (''Deployment.apps/v1'', 2), (''Service.v1'', 2),
                (''DestinationRule.networking.istio.io/v1alpha3'', 1),
                (''AuthorizationPolicy.security.istio.io/v1beta1'', 1)}.
       bindE (py_item observed k) py_len = Inr n)"
proof -
  have set: "set (ready_checks cfg) = {(''Secret.v1'', 1),
      (''ConfigMap.v1'', if truthy (kfp_default_pipeline_root cfg) then 2 else 1),
      (''Deployment.apps/v1'', 2), (''Service.v1'', 2),
      (''DestinationRule.networking.istio.io/v1alpha3'', 1),
      (''AuthorizationPolicy.security.istio.io/v1beta1'', 1)}"
    by (simp add: ready_checks_def configmap_count_def)
  have "(\<exists>printed rs. sync cfg parent observed =
        (printed, Inr (JObj [(''status'', ready_status True), (''attachments'', JList rs)]))) \<longleftrightarrow>
      all_counts observed (ready_checks cfg) = Inr True"
    by (auto simp: sync_def sync_with_enabled [OF assms] split: sum.splits)
  also have "\<dots> \<longleftrightarrow> (\<forall>(k, n) \<in> set (ready_checks cfg). bindE (py_item observed k) py_len = Inr n)"
    by (simp add: all_counts_True bindE_eq_Inr)
  finally show ?thesis unfolding set .
qed

theorem sync_ready_iff_witness:
  "(\<exists>printed rs. sync sample_settings sample_parent (JObj []) =
        (printed, Inr (JObj [(''status'', ready_status True), (''attachments'', JList rs)]))) \<longleftrightarrow>
    (\<forall>(k, n) \<in> {(''Secret.v1'', 1),
                (''ConfigMap.v1'', if truthy (kfp_default_pipeline_root sample_settings) then 2 else 1),
                (''Deployment.apps/v1'', 2), (''Service.v1'', 2),
                (''DestinationRule.networking.istio.io/v1alpha3'', 1),
                (''AuthorizationPolicy.security.istio.io/v1beta1'', 1)}.
       bindE (py_item (JObj []) k) py_len = Inr n)"
  by (rule sync_ready_iff [OF sample_parent_name sample_parent_enabled])

section \<open>Errors\<close>

text \<open>
  C27. On an enabled profile \<open>sync\<close> raises exactly when the readiness test reaches a group that is
  missing or has no length: every group before it has its count. A wrong count earlier in the
  order hides a missing group.
\<close>

theorem sync_raises_iff:
  assumes "parent_name parent = Inr ns" and "parent_enabled parent = Inr (JStr ''true'')"
  shows "snd (sync cfg parent observed) = Inl e \<longleftrightarrow>
    (\<exists>pre k n post. ready_checks cfg = pre @ (k, n) # post \<and>
       (\<forall>(k', n') \<in> set pre. bindE (py_item observed k') py_len = Inr n') \<and>
       bindE (py_item observed k) py_len = Inl e)"
proof -
  have "snd (sync cfg parent observed) = Inl e \<longleftrightarrow> all_counts observed (ready_checks cfg) = Inl e"
    by (auto simp: sync_def sync_with_enabled [OF assms] split: sum.splits)
  then show ?thesis by (simp add: all_counts_raises all_counts_True bindE_eq_Inr)
qed

theorem sync_raises_iff_witness:
  "snd (sync sample_settings sample_parent (JObj [])) = Inl (KeyError ''Secret.v1'')"
proof -
  have "ready_checks sample_settings = [] @ (''Secret.v1'', 1) # tl (ready_checks sample_settings)"
    by (simp add: ready_checks_def)
  moreover have "bindE (py_item (JObj []) ''Secret.v1'') py_len = Inl (KeyError ''Secret.v1'')" by simp
  ultimately show ?thesis
    unfolding sync_raises_iff [OF sample_parent_name sample_parent_enabled] by fastforce
qed

text \<open>
  A profile whose label is anything but the string \<open>true\<close> gets an empty status and no
  attachments, whatever the request carries, and nothing is printed.
\<close>

lemma sync_disabled:
  assumes "parent_name parent = Inr ns" and "parent_enabled parent = Inr en" and "en \<noteq> JStr ''true''"
  shows "sync cfg parent observed = ([], Inr (JObj [(''status'', JObj []), (''attachments'', JList [])]))"
  unfolding sync_def by (rule sync_with_disabled [OF assms])

theorem sync_disabled_witness:
  "sync sample_settings (JObj []) JNull = ([], Inr (JObj [(''status'', JObj []), (''attachments'', JList [])]))"
  by (rule sync_disabled [of _ JNull JNull]) (simp_all add: parent_name_def parent_enabled_def)

section \<open>Confinement\<close>

text \<open>
  C16. Every object of every answer lies in the namespace whose name the request gives as the
  parent's, so one profile never receives objects of another.
\<close>

theorem sync_confined:
  assumes "sync cfg parent observed = (printed, Inr resp)"
    and "r \<in> set (response_items ''attachments'' resp)"
  shows "parent_name parent = Inr (the (res_namespace r)) \<and> res_namespace r \<noteq> None"
proof -
  obtain ns where "parent_name parent = Inr ns" "r \<in> set (desired_attachments cfg ns)"
    using sync_with_items [OF assms(1) [unfolded sync_def] _ assms(2)]
    by (auto simp: desired_attachments_def)
  then show ?thesis using sync_ctl.in_namespace by simp
qed

theorem sync_confined_witness:
  "\<exists>printed resp. sync sample_settings sample_parent (JObj [(''Secret.v1'', JObj [])]) = (printed, Inr resp) \<and>
     minio_secret sample_settings (JStr ''alice'') \<in> set (response_items ''attachments'' resp) \<and>
     parent_name sample_parent =
       Inr (the (res_namespace (minio_secret sample_settings (JStr ''alice''))))"
proof -
  let ?o = "JObj [(''Secret.v1'', JObj [])]"
  obtain printed resp where r: "sync sample_settings sample_parent ?o = (printed, Inr resp)"
      "minio_secret sample_settings (JStr ''alice'') \<in> set (response_items ''attachments'' resp)"
    by (simp add: sync_def sync_with_enabled [OF sample_parent_name sample_parent_enabled]
        ready_checks_def response_items_def)
  from r sync_confined [OF r] show ?thesis by blast
qed

section \<open>What reaches the log\<close>

text \<open>
  C17. Nothing a request makes the controller print depends on the credentials it hands out: two
  configurations that differ in the two keys only print the same lines for every request.
\<close>

theorem do_POST_log_independent:
  "fst (do_POST (cfg\<lparr>minio_access_key := a, minio_secret_key := b\<rparr>) req) = fst (do_POST cfg req)"
proof -
  let ?cfg = "cfg\<lparr>minio_access_key := a, minio_secret_key := b\<rparr>"
  have "ready_checks ?cfg = ready_checks cfg"
    by (simp add: ready_checks_def configmap_count_def)
  moreover have "public_resources ?cfg = public_resources cfg"
    by (intro ext) (simp add: public_resources_def launcher_configmaps_def object_defs
        sidecar_annotations_def)
  ultimately have "fst (sync ?cfg p c) = fst (sync cfg p c)" for p c
    unfolding sync_def by (metis sync_with_log_secret)
  then show ?thesis
    by (auto simp: do_POST_def handle_sync_def webhook_parts split: sum.split prod.split) (metis fst_conv)+
qed

text \<open>
  A request that fails, in the reading of the body or in \<open>sync\<close>, prints nothing and sends
  no part of a response.
\<close>

lemma do_POST_failure_silent:
  assumes "do_POST cfg req = (printed, Inl e)"
  shows "printed = []"
proof -
  have "fst (sync cfg p c) = []" if "snd (sync cfg p c) = Inl e" for p c
    using that by (auto simp: sync_def sync_with_def split: sum.splits if_splits)
  then show ?thesis
    using assms by (auto simp: do_POST_def handle_sync_def webhook_parts bindE_eq_Inl split: sum.splits prod.splits)
      (metis fst_conv snd_conv)
qed

theorem do_POST_failure_silent_witness:
  "fst (do_POST sample_settings \<lparr>content_length = None, rfile = []\<rparr>) = []"
proof -
  have "do_POST sample_settings \<lparr>content_length = None, rfile = []\<rparr> =
      (fst (do_POST sample_settings \<lparr>content_length = None, rfile = []\<rparr>), Inl TypeError)"
    by (simp add: do_POST_def webhook_def request_body_def request_length_def)
  then show ?thesis by (rule do_POST_failure_silent)
qed

section \<open>The manifests refer to each other\<close>

lemma wiring_simps [simp]:
  "res_kind (kfp_launcher pipeline_root ns) = Some ''ConfigMap''"
  "res_kind (metadata_grpc_configmap ns) = Some ''ConfigMap''"
  "res_kind (vis_deployment cfg ns) = Some ''Deployment''"
  "res_kind (vis_destination_rule ns) = Some ''DestinationRule''"
  "res_kind (vis_authorization_policy ns) = Some ''AuthorizationPolicy''"
  "res_kind (vis_service ns) = Some ''Service''"
  "res_kind (ui_deployment cfg ns) = Some ''Deployment''"
  "res_kind (ui_service ns) = Some ''Service''"
  "res_kind (minio_secret s ns) = Some ''Secret''"
  by (simp_all add: res_kind_def object_defs)

lemma deployments_of:
  "d \<in> set (desired_attachments cfg ns) \<and> res_kind d = Some ''Deployment'' \<longleftrightarrow>
     d = vis_deployment cfg ns \<or> d = ui_deployment cfg ns"
  by (auto simp: desired_attachments_set dest: launcher_configmaps_set)

lemma services_of:
  "s \<in> set (desired_attachments cfg ns) \<and> res_kind s = Some ''Service'' \<longleftrightarrow>
     s = vis_service ns \<or> s = ui_service ns"
  by (auto simp: desired_attachments_set dest: launcher_configmaps_set)

lemma routes:
  "routes_to (vis_service ns) (vis_deployment cfg ns)"
  "\<not> routes_to (vis_service ns) (ui_deployment cfg ns)"
  "\<not> routes_to (ui_service ns) (vis_deployment cfg ns)"
  "routes_to (ui_service ns) (ui_deployment cfg ns)"
  by (simp_all add: wiring_defs) (simp_all add: object_defs)

text \<open>
  C23. Every Service of an answer reaches exactly one of its Deployments: one whose pods carry
  the labels the Service selects and whose containers listen on the port it forwards to.
\<close>

theorem services_routed:
  assumes "s \<in> set (desired_attachments cfg ns)" and "res_kind s = Some ''Service''"
  shows "\<exists>!d. d \<in> set (desired_attachments cfg ns) \<and> res_kind d = Some ''Deployment'' \<and> routes_to s d"
proof -
  have "s = vis_service ns \<or> s = ui_service ns" using assms services_of by blast
  moreover have "d \<in> set (desired_attachments cfg ns) \<and> res_kind d = Some ''Deployment'' \<and> routes_to s d \<longleftrightarrow>
      (d = vis_deployment cfg ns \<or> d = ui_deployment cfg ns) \<and> routes_to s d" for d
    using deployments_of [of d cfg ns] by blast
  ultimately show ?thesis using routes [of ns cfg] by auto
qed

theorem services_routed_witness:
  "\<exists>!d. d \<in> set (desired_attachments sample_settings (JStr ''alice'')) \<and>
     res_kind d = Some ''Deployment'' \<and> routes_to (ui_service (JStr ''alice'')) d"
  by (rule services_routed) (simp_all add: desired_attachments_set)

text \<open>
  C24. Every Deployment of an answer selects its own pods, carries the istio annotation exactly
  when the configuration disables the sidecar, and every secret key its containers read is a
  key of a Secret of the same answer.
\<close>

theorem deployments_consistent:
  assumes "d \<in> set (desired_attachments cfg ns)" and "res_kind d = Some ''Deployment''"
  shows "owns_pods d \<and>
    obj_at d [''spec'', ''template'', ''metadata'', ''annotations''] =
      (if disable_istio_sidecar cfg then [(''sidecar.istio.io/inject'', JStr ''false'')] else []) \<and>
    (\<forall>ref \<in> set (secret_refs d). \<exists>s \<in> set (desired_attachments cfg ns). holds_key s ref)"
proof -
  have own: "owns_pods (vis_deployment cfg ns)" "owns_pods (ui_deployment cfg ns)"
    by (simp_all add: wiring_defs object_defs)
  have istio: "obj_at (vis_deployment cfg ns) [''spec'', ''template'', ''metadata'', ''annotations''] =
        (if disable_istio_sidecar cfg then [(''sidecar.istio.io/inject'', JStr ''false'')] else [])"
      "obj_at (ui_deployment cfg ns) [''spec'', ''template'', ''metadata'', ''annotations''] =
        (if disable_istio_sidecar cfg then [(''sidecar.istio.io/inject'', JStr ''false'')] else [])"
    by (simp_all add: obj_at_def object_defs sidecar_annotations_def)
  have refs: "secret_refs (vis_deployment cfg ns) = []"
      "secret_refs (ui_deployment cfg ns) =
        [(Some secret_name, Some ''accesskey''), (Some secret_name, Some ''secretkey'')]"
    by (simp_all add: secret_refs_def containers_def list_at_def object_defs minio_envs_def minio_env_def)
  have held: "holds_key (minio_secret cfg ns) (Some secret_name, Some ''accesskey'')"
      "holds_key (minio_secret cfg ns) (Some secret_name, Some ''secretkey'')"
    by (simp_all add: holds_key_def) (simp_all add: object_defs)
  have "d = vis_deployment cfg ns \<or> d = ui_deployment cfg ns" using assms deployments_of by blast
  moreover have "minio_secret cfg ns \<in> set (desired_attachments cfg ns)"
    by (simp add: desired_attachments_set)
  ultimately show ?thesis using own istio refs held by auto
qed

theorem deployments_consistent_witness:
  "owns_pods (ui_deployment sample_settings (JStr ''alice''))"
proof -
  have "ui_deployment sample_settings (JStr ''alice'') \<in>
      set (desired_attachments sample_settings (JStr ''alice''))"
    by (simp add: desired_attachments_set)
  from deployments_consistent [OF this] show ?thesis by simp
qed

section \<open>The webhook\<close>

definition ascii_settings :: "settings \<Rightarrow> bool" where
  "ascii_settings cfg \<longleftrightarrow>
     ascii_images cfg \<and> ascii (minio_access_key cfg) \<and> ascii (minio_secret_key cfg) \<and>
     (\<forall>pipeline_root. kfp_default_pipeline_root cfg = Some pipeline_root \<longrightarrow> ascii pipeline_root)"

lemma wf_desired_attachments:
  assumes "ascii_settings cfg" and "wf_json ns" and "r \<in> set (desired_attachments cfg ns)"
  shows "wf_json r"
proof -
  have "ascii_images cfg" "ascii (minio_access_key cfg)" "ascii (minio_secret_key cfg)"
    using assms(1) by (simp_all add: ascii_settings_def)
  moreover have "wf_json r" if "r \<in> set (launcher_configmaps cfg ns)"
    using that assms(1,2) by (auto simp: launcher_configmaps_def ascii_settings_def truthy_iff split: if_splits)
  ultimately show ?thesis
    using assms(2,3) unfolding desired_attachments_set by auto
qed

lemma wf_parent_name: "wf_json parent \<Longrightarrow> parent_name parent = Inr ns \<Longrightarrow> wf_json ns"
  unfolding parent_name_def bindE_eq_Inr
  by (elim exE conjE) (rule wf_py_get, rule wf_py_get, simp_all)

lemma wf_sync:
  assumes "ascii_settings cfg" and "wf_json parent" and "snd (sync cfg parent observed) = Inr resp"
  shows "wf_json resp"
proof -
  obtain ns where ns: "parent_name parent = Inr ns" and cases:
      "resp = JObj [(''status'', JObj []), (''attachments'', JList [])] \<or>
       (\<exists>b. resp = JObj [(''status'', ready_status b),
                         (''attachments'', JList (desired_attachments cfg ns))])"
    using assms(3) by (auto simp: sync_def sync_with_def bindE_eq_Inr desired_attachments_def
        split: sum.splits if_splits)
  have "list_all wf_json (desired_attachments cfg ns)"
    using wf_desired_attachments [OF assms(1) wf_parent_name [OF assms(2) ns]] by (simp add: list_all_iff)
  with cases show ?thesis by (auto simp: ready_status_def list_all_iff)
qed

text \<open>
  C8. The webhook carries \<open>sync\<close> faithfully: when a client posts the two parts as JSON under the
  keys the script reads, with the length of the body announced, the response has status 200,
  and its body parses back to the answer of \<open>sync\<close> on these very parts.
\<close>

theorem do_POST_roundtrip:
  assumes "ascii_settings cfg" and "wf_json parent" and "wf_json observed"
    and "sync cfg parent observed = (printed, Inr resp)"
  shows "\<exists>r. do_POST cfg (post_request ''object'' ''attachments'' parent observed rest) = (printed, Inr r) \<and>
    status_code r = 200 \<and> loads_bytes (wfile r) = Inr resp"
proof -
  have "wf_json resp" using wf_sync [OF assms(1,2), of observed resp] assms(4) by simp
  then have "loads_bytes (dumps resp) = Inr resp" by (rule json_body.decode_encode)
  moreover have "do_POST cfg (post_request ''object'' ''attachments'' parent observed rest) =
      (printed, Inr (json_response resp))"
    unfolding do_POST_def handle_sync_def using assms by (subst webhook_post_request) simp_all
  ultimately show ?thesis by (simp add: json_response_def)
qed

theorem do_POST_roundtrip_witness:
  "\<exists>r. do_POST sample_settings (post_request ''object'' ''attachments'' (JObj []) (JList []) ''more'') =
      ([], Inr r) \<and> status_code r = 200 \<and>
    loads_bytes (wfile r) = Inr (JObj [(''status'', JObj []), (''attachments'', JList [])])"
proof (rule do_POST_roundtrip)
  show "ascii_settings sample_settings"
    by (simp add: ascii_settings_def ascii_images_def sample_settings_def)
  show "sync sample_settings (JObj []) (JList []) =
      ([], Inr (JObj [(''status'', JObj []), (''attachments'', JList [])]))"
    by (simp add: sync_def sync_with_def parent_name_def parent_enabled_def)
qed simp_all

end
