(* ===== verification/SettingsProps.thy ===== *)
theory SettingsProps
  imports SyncProps
begin

text \<open>
  The properties of the configuration: what \<open>main\<close> needs from the environment, which
  arguments and variables win, and that the credentials of the environment are the ones a
  profile receives.
\<close>

section \<open>\<open>get_settings_from_env\<close>\<close>

text \<open>
  Arguments win over the environment: when every argument is given (a string argument
  must be non-empty to count), the settings are these arguments, whatever the environment holds.
\<close>

lemma settings_arguments_win:
  assumes "truthy (arg_controller_port args)" and "truthy (arg_visualization_server_image args)"
    and "truthy (arg_frontend_image args)" and "truthy (arg_visualization_server_tag args)"
    and "truthy (arg_frontend_tag args)" and "arg_disable_istio_sidecar args = Some b"
    and "truthy (arg_minio_access_key args)" and "truthy (arg_minio_secret_key args)"
    and "truthy (arg_kfp_default_pipeline_root args)"
  shows "get_settings_from_env env args =
    Inr \<lparr>controller_port = the (arg_controller_port args),
         visualization_server_image = the (arg_visualization_server_image args),
         frontend_image = the (arg_frontend_image args),
         visualization_server_tag = the (arg_visualization_server_tag args),
         frontend_tag = the (arg_frontend_tag args),
         disable_istio_sidecar = b,
         minio_access_key = the (arg_minio_access_key args),
         minio_secret_key = the (arg_minio_secret_key args),
         kfp_default_pipeline_root = arg_kfp_default_pipeline_root args\<rparr>"
  using assms
  by (simp add: get_settings_from_env_def settings_from_env_defs image_tag_def or_conv)

definition sample_args :: settings_args where
  "sample_args =
     \<lparr>arg_controller_port = Some ''1'', arg_visualization_server_image = Some ''v'',
      arg_frontend_image = Some ''f'', arg_visualization_server_tag = Some ''t'',
      arg_frontend_tag = Some ''u'', arg_disable_istio_sidecar = Some False,
      arg_minio_access_key = Some ''a'', arg_minio_secret_key = Some ''s'',
      arg_kfp_default_pipeline_root = Some ''r''\<rparr>"

theorem settings_arguments_win_witness:
  "get_settings_from_env (\<lambda>k. None) sample_args =
    Inr \<lparr>controller_port = ''1'', visualization_server_image = ''v'', frontend_image = ''f'',
         visualization_server_tag = ''t'', frontend_tag = ''u'', disable_istio_sidecar = False,
         minio_access_key = ''a'', minio_secret_key = ''s'', kfp_default_pipeline_root = Some ''r''\<rparr>"
  using settings_arguments_win [of sample_args False "\<lambda>k. None"] by (simp add: sample_args_def)

section \<open>\<open>main\<close>\<close>

lemma main_settings_eq:
  "main_settings env = get_settings_from_env env
     (no_args\<lparr>arg_kfp_default_pipeline_root := Some ''s3://ml-pipeline-execution''\<rparr>)"
  by (simp add: main_settings_def get_settings_from_env_def settings_from_env_defs no_args_def
      bindE_def split: sum.split)

lemma main_settings_raises:
  "(\<exists>s. main_settings env = Inr s) \<longleftrightarrow>
     (truthy (env ''VISUALIZATION_SERVER_TAG'') \<and> truthy (env ''FRONTEND_TAG'') \<or> env ''KFP_VERSION'' \<noteq> None) \<and>
     env ''MINIO_ACCESS_KEY'' \<noteq> None \<and> env ''MINIO_SECRET_KEY'' \<noteq> None"
  unfolding main_settings_eq get_settings_from_env_def settings_from_env_ex_Inr
  by (auto simp: no_args_def)

lemma main_port:
  "main_settings env = Inr s \<Longrightarrow> controller_port s = env_get_or env ''CONTROLLER_PORT'' ''8080''"
  unfolding main_settings_eq get_settings_from_env_def
  by (simp add: settings_from_env_fields(1) no_args_def)

text \<open>
  The controller starts exactly when the environment gives it a tag for each image (its own
  variable, non-empty, or \<open>KFP_VERSION\<close>), both object store credentials, and a port that reads
  as a 16-bit number; the default port does.
\<close>

lemma main_starts_iff:
  "(\<exists>srv. main env = Inr srv) \<longleftrightarrow>
     (truthy (env ''VISUALIZATION_SERVER_TAG'') \<and> truthy (env ''FRONTEND_TAG'') \<or> env ''KFP_VERSION'' \<noteq> None) \<and>
     env ''MINIO_ACCESS_KEY'' \<noteq> None \<and> env ''MINIO_SECRET_KEY'' \<noteq> None \<and>
     (\<exists>p. py_int (env_get_or env ''CONTROLLER_PORT'' ''8080'') = Inr p \<and> 0 \<le> p \<and> p \<le> 65535)"
proof -
  have "(\<exists>srv. main env = Inr srv) \<longleftrightarrow>
      (\<exists>s. main_settings env = Inr s) \<and>
      (\<exists>p. py_int (env_get_or env ''CONTROLLER_PORT'' ''8080'') = Inr p \<and> 0 \<le> p \<and> p \<le> 65535)"
    by (auto simp: main_def server_factory_def bindE_ex_Inr bind_server_ex_Inr main_port)
  then show ?thesis unfolding main_settings_raises by blast
qed

definition sample_env :: environ where
  "sample_env = [''KFP_VERSION'' \<mapsto> ''2.0'', ''MINIO_ACCESS_KEY'' \<mapsto> ''minio'', ''MINIO_SECRET_KEY'' \<mapsto> ''123'']"

lemma sample_port: "py_int (env_get_or sample_env ''CONTROLLER_PORT'' ''8080'') = Inr 8080"
  by (simp add: sample_env_def env_get_or_def py_int_def strip_def Let_def is_digit_def digit_val_def
      is_space_def)

theorem main_starts_iff_witness:
  "(\<exists>srv. main sample_env = Inr srv) \<and> \<not> (\<exists>srv. main (sample_env(''KFP_VERSION'' := None)) = Inr srv)"
proof -
  have "\<exists>p. py_int (env_get_or sample_env ''CONTROLLER_PORT'' ''8080'') = Inr p \<and> 0 \<le> p \<and> p \<le> 65535"
    unfolding sample_port by simp
  then have "\<exists>srv. main sample_env = Inr srv"
    unfolding main_starts_iff by (simp add: sample_env_def)
  moreover have "\<not> (\<exists>srv. main (sample_env(''KFP_VERSION'' := None)) = Inr srv)"
    unfolding main_starts_iff by (simp add: sample_env_def)
  ultimately show ?thesis by blast
qed

text \<open>
  C10. From the environment to the profile: once \<open>main\<close> has started the server, every enabled
  profile is asked to have the Secret whose two entries decode to the object store credentials
  of the environment, and the launcher configuration with the artifact root that \<open>main\<close> fixes.
\<close>

theorem main_credentials:
  assumes "main env = Inr srv"
  shows "\<exists>access secret cfg. env ''MINIO_ACCESS_KEY'' = Some access \<and> env ''MINIO_SECRET_KEY'' = Some secret \<and>
    cfg = handler_settings srv \<and>
    (\<forall>ns. minio_secret cfg ns \<in> set (desired_attachments cfg ns) \<and>
          kfp_launcher ''s3://ml-pipeline-execution'' ns \<in> set (desired_attachments cfg ns) \<and>
          map_option b64decode (str_at (minio_secret cfg ns) [Key ''data'', Key ''accesskey'']) =
            Some (Some access) \<and>
          map_option b64decode (str_at (minio_secret cfg ns) [Key ''data'', Key ''secretkey'']) =
            Some (Some secret))"
proof -
  obtain s where s: "main_settings env = Inr s" "handler_settings srv = s"
    using assms by (auto simp: main_def server_factory_def bind_server_def bindE_eq_Inr split: if_splits)
  note fields = settings_from_env_fields [OF s(1) [unfolded main_settings_eq get_settings_from_env_def]]
  obtain access secret where keys: "env ''MINIO_ACCESS_KEY'' = Some access" "env ''MINIO_SECRET_KEY'' = Some secret"
      "minio_access_key s = b64encode access" "minio_secret_key s = b64encode secret"
    using fields(7,8) by (auto simp: no_args_def env_b64_eq_Inr)
  have "kfp_default_pipeline_root s = Some ''s3://ml-pipeline-execution''"
    using fields(9) by simp
  then have "kfp_launcher ''s3://ml-pipeline-execution'' ns \<in> set (desired_attachments s ns)" for ns
    by (simp add: desired_attachments_set launcher_configmaps_def)
  with keys s(2) show ?thesis
    by (simp add: desired_attachments_set) (simp add: minio_secret_def b64.decode_encode)
qed

theorem main_credentials_witness:
  "\<exists>srv. main sample_env = Inr srv \<and>
     map_option b64decode (str_at (minio_secret (handler_settings srv) (JStr ''alice'')) [Key ''data'', Key ''accesskey'']) =
       Some (Some ''minio'')"
proof -
  have "\<exists>srv. main sample_env = Inr srv"
    by (simp add: main_def main_settings_eq get_settings_from_env_def settings_from_env_defs no_args_def
        image_tag_def sample_env_def env_item_def env_b64_def server_factory_def bind_server_def
        env_get_or_def py_int_def strip_def Let_def is_digit_def digit_val_def is_space_def)
  then obtain srv where srv: "main sample_env = Inr srv" by blast
  from main_credentials [OF srv] obtain access where "sample_env ''MINIO_ACCESS_KEY'' = Some access"
      "map_option b64decode (str_at (minio_secret (handler_settings srv) (JStr ''alice'')) [Key ''data'', Key ''accesskey'']) =
        Some (Some access)" by blast
  with srv show ?thesis by (simp add: sample_env_def)
qed

end
