(* ===== verification/SyncVariants.thy ===== *)
theory SyncVariants
  imports Sync
begin

text \<open>
  The three controller scripts beside the deployed one: \<open>sync_new.py\<close>, \<open>sync_old.py\<close> and
  \<open>sync-debug-frontend.py\<close>. They build the same nine objects, answer under the key
  \<open>children\<close>, leave the providers out of the launcher configuration, and differ in the two
  Deployments, the default images, \<open>main\<close> and the keys \<open>do_POST\<close> reads.
\<close>

section \<open>What the three scripts share\<close>

definition kfp_launcher_root :: "string \<Rightarrow> json \<Rightarrow> json" where
  "kfp_launcher_root pipeline_root ns =
    JObj [
      (''apiVersion'', JStr ''v1''),
      (''kind'', JStr ''ConfigMap''),
      (''metadata'', JObj [(''name'', JStr ''kfp-launcher''), (''namespace'', ns)]),
      (''data'', JObj [(''defaultPipelineRoot'', JStr pipeline_root)])]"

definition root_launchers :: "settings \<Rightarrow> json \<Rightarrow> json list" where
  "root_launchers cfg ns =
     (if truthy (kfp_default_pipeline_root cfg)
      then [kfp_launcher_root (the (kfp_default_pipeline_root cfg)) ns] else [])"

definition desired_children ::
  "(settings \<Rightarrow> json \<Rightarrow> json list) \<Rightarrow> settings \<Rightarrow> json \<Rightarrow> json list" where
  "desired_children resources cfg ns = resources cfg ns @ [minio_secret cfg ns]"

text \<open>The environment entries of the object store Secret \<open>aws-secret\<close>.\<close>

definition aws_env :: "string \<Rightarrow> json" where
  "aws_env var =
    JObj [
      (''name'', JStr var),
      (''valueFrom'', JObj [
        (''secretKeyRef'', JObj [(''name'', JStr ''aws-secret''), (''key'', JStr var)])])]"

definition aws_envs :: "string \<Rightarrow> json list" where
  "aws_envs region =
     [aws_env ''AWS_ACCESS_KEY_ID'', aws_env ''AWS_SECRET_ACCESS_KEY'', aws_env ''S3_USE_HTTPS'',
      aws_env ''S3_VERIFY_SSL'', aws_env ''S3_ENDPOINT'',
      JObj [(''name'', JStr ''AWS_REGION''), (''value'', JStr region)]]"

section \<open>\<open>sync_new.py\<close>\<close>

definition get_settings_from_env_new :: "environ \<Rightarrow> settings_args \<Rightarrow> pyexn + settings" where
  "get_settings_from_env_new =
     settings_from_env ''gcr.io/ml-pipeline/visualization-server'' ''gcr.io/ml-pipeline/frontend''"

definition main_settings_new :: "environ \<Rightarrow> pyexn + settings" where
  "main_settings_new env =
     bindE (get_settings_from_env_new env
       (no_args\<lparr>arg_visualization_server_tag := Some ''1.7.1-debug'',
                arg_visualization_server_image :=
                  Some ''syno.registry:45000/ml-pipeline/visualization-server''\<rparr>)) (\<lambda>_.
       get_settings_from_env_new env no_args)"

definition server_factory_new :: "settings \<Rightarrow> pyexn + settings http_server" where
  "server_factory_new cfg = bind_server '''' cfg (controller_port cfg)"

definition main_new :: "environ \<Rightarrow> pyexn + settings http_server" where
  "main_new env = bindE (main_settings_new env) server_factory_new"

definition vis_deployment_new :: "settings \<Rightarrow> json \<Rightarrow> json" where
  "vis_deployment_new = vis_deployment_with [(''env'', JList (aws_envs ''local''))] ''1Gi''"

definition ui_deployment_new :: "settings \<Rightarrow> json \<Rightarrow> json" where
  "ui_deployment_new = ui_deployment_with (aws_envs ''local'') [] []"

definition vis_routing_new :: "json \<Rightarrow> json list" where
  "vis_routing_new ns = [vis_destination_rule ns, vis_authorization_policy ns, vis_service ns]"

definition artifact_objects_new :: "settings \<Rightarrow> json \<Rightarrow> json list" where
  "artifact_objects_new cfg ns = [ui_deployment_new cfg ns, ui_service ns]"

definition public_resources_new :: "settings \<Rightarrow> json \<Rightarrow> json list" where
  "public_resources_new cfg ns =
     root_launchers cfg ns @ [metadata_grpc_configmap ns, vis_deployment_new cfg ns] @
     vis_routing_new ns @ artifact_objects_new cfg ns"

definition sync_new :: "settings \<Rightarrow> json \<Rightarrow> json \<Rightarrow> string list \<times> (pyexn + json)" where
  "sync_new cfg = sync_with ''children'' (ready_checks cfg) (public_resources_new cfg) (minio_secret cfg)"

definition handle_new :: "settings \<Rightarrow> json \<Rightarrow> string list \<times> (pyexn + json)" where
  "handle_new cfg = handle_body ''object'' ''attachments'' (sync_new cfg)"

definition do_POST_new :: "settings \<Rightarrow> http_request \<Rightarrow> string list \<times> (pyexn + http_response)" where
  "do_POST_new cfg = webhook (handle_new cfg)"

section \<open>\<open>sync_old.py\<close>\<close>

definition get_settings_from_env_old :: "environ \<Rightarrow> settings_args \<Rightarrow> pyexn + settings" where
  "get_settings_from_env_old =
     settings_from_env ''gcr.io/ml-pipeline/visualization-server'' ''gcr.io/ml-pipeline/frontend''"

definition server_factory_old :: "settings \<Rightarrow> pyexn + settings http_server" where
  "server_factory_old cfg = bind_server '''' cfg (controller_port cfg)"

definition main_old :: "environ \<Rightarrow> pyexn + settings http_server" where
  "main_old env = bindE (get_settings_from_env_old env no_args) server_factory_old"

definition vis_deployment_old :: "settings \<Rightarrow> json \<Rightarrow> json" where
  "vis_deployment_old = vis_deployment_with [(''env'', JList (aws_envs ''eu-west-3''))] ''2Gi''"

definition ui_deployment_old :: "settings \<Rightarrow> json \<Rightarrow> json" where
  "ui_deployment_old = ui_deployment_with (aws_envs ''local'') [] []"

definition vis_routing_old :: "json \<Rightarrow> json list" where
  "vis_routing_old ns = [vis_destination_rule ns, vis_authorization_policy ns, vis_service ns]"

definition artifact_objects_old :: "settings \<Rightarrow> json \<Rightarrow> json list" where
  "artifact_objects_old cfg ns = [ui_deployment_old cfg ns, ui_service ns]"

definition public_resources_old :: "settings \<Rightarrow> json \<Rightarrow> json list" where
  "public_resources_old cfg ns =
     root_launchers cfg ns @ [metadata_grpc_configmap ns, vis_deployment_old cfg ns] @
     vis_routing_old ns @ artifact_objects_old cfg ns"

definition minio_secret_old :: "settings \<Rightarrow> json \<Rightarrow> json" where
  "minio_secret_old cfg ns =
    JObj [
      (''apiVersion'', JStr ''v1''),
      (''kind'', JStr ''Secret''),
      (''metadata'', JObj [(''name'', JStr ''mlpipeline-minio-artifact''), (''namespace'', ns)]),
      (''data'', JObj [
        (''accesskey'', JStr (minio_access_key cfg)),
        (''secretkey'', JStr (minio_secret_key cfg))])]"

definition sync_old :: "settings \<Rightarrow> json \<Rightarrow> json \<Rightarrow> string list \<times> (pyexn + json)" where
  "sync_old cfg = sync_with ''children'' (ready_checks cfg) (public_resources_old cfg) (minio_secret_old cfg)"

definition handle_old :: "settings \<Rightarrow> json \<Rightarrow> string list \<times> (pyexn + json)" where
  "handle_old cfg = handle_body ''parent'' ''children'' (sync_old cfg)"

definition do_POST_old :: "settings \<Rightarrow> http_request \<Rightarrow> string list \<times> (pyexn + http_response)" where
  "do_POST_old cfg = webhook (handle_old cfg)"

section \<open>\<open>sync-debug-frontend.py\<close>\<close>

definition get_settings_from_env_debug :: "environ \<Rightarrow> settings_args \<Rightarrow> pyexn + settings" where
  "get_settings_from_env_debug =
     settings_from_env ''ghcr.io/kubeflow/kfp-visualization-server'' ''ghcr.io/kubeflow/kfp-frontend''"

definition server_factory_debug :: "settings \<Rightarrow> pyexn + settings http_server" where
  "server_factory_debug cfg = bind_server '''' cfg (controller_port cfg)"

definition main_debug :: "environ \<Rightarrow> pyexn + settings http_server" where
  "main_debug env = bindE (get_settings_from_env_debug env no_args) server_factory_debug"

definition vis_deployment_debug :: "settings \<Rightarrow> json \<Rightarrow> json" where
  "vis_deployment_debug = vis_deployment_with [] ''1Gi''"

definition debug_env :: json where
  "debug_env =
    JObj [
      (''name'', JStr ''FRONTEND_SERVER_NAMESPACE''),
      (''valueFrom'', JObj [(''fieldRef'', JObj [(''fieldPath'', JStr ''metadata.namespace'')])])]"

definition debug_mounts :: "(string \<times> json) list" where
  "debug_mounts =
    [(''volumeMounts'', JList [
      JObj [
        (''mountPath'', JStr ''/server/dist/k8s-helper.js''),
        (''name'', JStr ''k8s-server-patch''),
        (''subPath'', JStr ''k8s-helper.js''),
        (''readOnly'', JBool True)]])]"

definition debug_volumes :: "(string \<times> json) list" where
  "debug_volumes =
    [(''volumes'', JList [
      JObj [
        (''name'', JStr ''k8s-server-patch''),
        (''configMap'', JObj [(''name'', JStr ''k8s-server-patches'')])]])]"

definition ui_deployment_debug :: "settings \<Rightarrow> json \<Rightarrow> json" where
  "ui_deployment_debug = ui_deployment_with [debug_env] debug_mounts debug_volumes"

definition vis_routing_debug :: "json \<Rightarrow> json list" where
  "vis_routing_debug ns = [vis_destination_rule ns, vis_authorization_policy ns, vis_service ns]"

definition artifact_objects_debug :: "settings \<Rightarrow> json \<Rightarrow> json list" where
  "artifact_objects_debug cfg ns = [ui_deployment_debug cfg ns, ui_service ns]"

definition public_resources_debug :: "settings \<Rightarrow> json \<Rightarrow> json list" where
  "public_resources_debug cfg ns =
     root_launchers cfg ns @ [metadata_grpc_configmap ns, vis_deployment_debug cfg ns] @
     vis_routing_debug ns @ artifact_objects_debug cfg ns"

definition minio_secret_debug :: "settings \<Rightarrow> json \<Rightarrow> json" where
  "minio_secret_debug cfg ns =
    JObj [
      (''apiVersion'', JStr ''v1''),
      (''kind'', JStr ''Secret''),
      (''metadata'', JObj [(''name'', JStr ''mlpipeline-minio-artifact''), (''namespace'', ns)]),
      (''data'', JObj [
        (''accesskey'', JStr (minio_access_key cfg)),
        (''secretkey'', JStr (minio_secret_key cfg))])]"

definition sync_debug :: "settings \<Rightarrow> json \<Rightarrow> json \<Rightarrow> string list \<times> (pyexn + json)" where
  "sync_debug cfg =
     sync_with ''children'' (ready_checks cfg) (public_resources_debug cfg) (minio_secret_debug cfg)"

definition handle_debug :: "settings \<Rightarrow> json \<Rightarrow> string list \<times> (pyexn + json)" where
  "handle_debug cfg = handle_body ''parent'' ''children'' (sync_debug cfg)"

definition do_POST_debug :: "settings \<Rightarrow> http_request \<Rightarrow> string list \<times> (pyexn + http_response)" where
  "do_POST_debug cfg = webhook (handle_debug cfg)"

section \<open>The contract\<close>

text \<open>The Secrets and the servers of the scripts are those of the deployed one.\<close>

lemma same_secret [simp]: "minio_secret_old = minio_secret" "minio_secret_debug = minio_secret"
  by (intro ext; simp add: minio_secret_old_def minio_secret_debug_def minio_secret_def)+

lemma same_server [simp]:
  "server_factory_new = server_factory" "server_factory_old = server_factory" "server_factory_debug = server_factory"
  by (intro ext; simp add: server_factory_new_def server_factory_old_def server_factory_debug_def server_factory_def)+

text \<open>The three lists of objects have one shape, around two Deployments.\<close>

definition child_resources ::
  "(settings \<Rightarrow> json \<Rightarrow> json) \<Rightarrow> (settings \<Rightarrow> json \<Rightarrow> json) \<Rightarrow> settings \<Rightarrow> json \<Rightarrow> json list" where
  "child_resources vis ui cfg ns =
     (if truthy (kfp_default_pipeline_root cfg)
      then [kfp_launcher_root (the (kfp_default_pipeline_root cfg)) ns] else []) @
     [metadata_grpc_configmap ns,
      vis cfg ns,
      vis_destination_rule ns,
      vis_authorization_policy ns,
      vis_service ns,
      ui cfg ns,
      ui_service ns]"

lemma public_resources_new_eq: "public_resources_new = child_resources vis_deployment_new ui_deployment_new"
  by (intro ext) (simp add: public_resources_new_def child_resources_def root_launchers_def vis_routing_new_def artifact_objects_new_def)

lemma public_resources_old_eq: "public_resources_old = child_resources vis_deployment_old ui_deployment_old"
  by (intro ext) (simp add: public_resources_old_def child_resources_def root_launchers_def vis_routing_old_def artifact_objects_old_def)

lemma public_resources_debug_eq: "public_resources_debug = child_resources vis_deployment_debug ui_deployment_debug"
  by (intro ext) (simp add: public_resources_debug_def child_resources_def root_launchers_def vis_routing_debug_def artifact_objects_debug_def)

lemma kfp_launcher_root_ids [simp]:
  "group_key (kfp_launcher_root pipeline_root ns) = Some ''ConfigMap.v1''"
  "res_name (kfp_launcher_root pipeline_root ns) = Some ''kfp-launcher''"
  "res_namespace (kfp_launcher_root pipeline_root ns) = Some ns"
  by (simp_all add: manifest_simps kfp_launcher_root_def)

text \<open>
  Whatever the two Deployments hold, the answer meets the contract as soon as they are
  Deployments of these names in the namespace.
\<close>

lemma child_controller:
  assumes vis: "\<And>cfg ns. group_key (vis cfg ns) = Some ''Deployment.apps/v1'' \<and>
      res_name (vis cfg ns) = Some vis_name \<and> res_namespace (vis cfg ns) = Some ns"
    and ui: "\<And>cfg ns. group_key (ui cfg ns) = Some ''Deployment.apps/v1'' \<and>
      res_name (ui cfg ns) = Some ui_name \<and> res_namespace (ui cfg ns) = Some ns"
  shows "profile_controller (desired_children (child_resources vis ui)) ready_checks"
proof unfold_locales
  fix r cfg ns
  assume "r \<in> set (desired_children (child_resources vis ui) cfg ns)"
  then show "res_namespace r = Some ns" "group_key r \<noteq> None \<and> res_name r \<noteq> None"
    using vis [of cfg ns] ui [of cfg ns]
    by (auto simp: desired_children_def child_resources_def split: if_splits)
next
  fix cfg ns
  show "distinct (map (\<lambda>r. (group_key r, res_name r)) (desired_children (child_resources vis ui) cfg ns))"
    using vis [of cfg ns] ui [of cfg ns] by (simp add: desired_children_def child_resources_def)
next
  fix k n cfg ns
  have "list_all (\<lambda>(k, n). length (in_group k (desired_children (child_resources vis ui) cfg ns)) = n)
      (ready_checks cfg)"
    using vis [of cfg ns] ui [of cfg ns]
    by (simp add: ready_checks_def in_group_simps desired_children_def child_resources_def
        configmap_count_def)
  moreover assume "(k, n) \<in> set (ready_checks cfg)"
  ultimately show "length (in_group k (desired_children (child_resources vis ui) cfg ns)) = n"
    by (auto simp: list_all_iff)
qed

interpretation new_ctl: profile_controller "desired_children public_resources_new" ready_checks
  unfolding public_resources_new_eq
  by (rule child_controller) (simp_all add: vis_deployment_new_def ui_deployment_new_def)

interpretation old_ctl: profile_controller "desired_children public_resources_old" ready_checks
  unfolding public_resources_old_eq
  by (rule child_controller) (simp_all add: vis_deployment_old_def ui_deployment_old_def)

interpretation debug_ctl: profile_controller "desired_children public_resources_debug" ready_checks
  unfolding public_resources_debug_eq
  by (rule child_controller) (simp_all add: vis_deployment_debug_def ui_deployment_debug_def)

end
