(* ===== verification/JsonDiff.thy ===== *)
theory JsonDiff
  imports PyJson
begin

text \<open>
  Where two JSON values differ: the paths to the smallest parts that are not equal. Two
  objects are compared field by field when they have the same keys in the same order, two
  lists when they have the same length.
\<close>

fun diff :: "json \<Rightarrow> json \<Rightarrow> step list list"
and diff_elems :: "nat \<Rightarrow> json list \<Rightarrow> json list \<Rightarrow> step list list"
and diff_fields :: "(string \<times> json) list \<Rightarrow> (string \<times> json) list \<Rightarrow> step list list" where
  "diff (JObj kvs) (JObj lvs) = (if map fst kvs = map fst lvs then diff_fields kvs lvs else [[]])"
| "diff (JList xs) (JList ys) = (if length xs = length ys then diff_elems 0 xs ys else [[]])"
| "diff v w = (if v = w then [] else [[]])"
| "diff_elems i (x # xs) (y # ys) = map ((#) (Idx i)) (diff x y) @ diff_elems (Suc i) xs ys"
| "diff_elems i _ _ = []"
| "diff_fields ((k, x) # kvs) ((l, y) # lvs) = map ((#) (Key k)) (diff x y) @ diff_fields kvs lvs"
| "diff_fields _ _ = []"

text \<open>Nothing differs exactly when the values are equal.\<close>

lemma diff_Nil_iff:
  "diff v w = [] \<longleftrightarrow> v = w"
  "length xs = length ys \<Longrightarrow> diff_elems i xs ys = [] \<longleftrightarrow> xs = ys"
  "map fst kvs = map fst lvs \<Longrightarrow> diff_fields kvs lvs = [] \<longleftrightarrow> kvs = lvs"
  by (induction v w and i xs ys and kvs lvs rule: diff_diff_elems_diff_fields.induct) auto

lemma diff_refl [simp]: "diff v v = []"
  by (simp add: diff_Nil_iff)

lemma diff_elems_refl [simp]: "diff_elems i xs xs = []"
  by (simp add: diff_Nil_iff)

lemma diff_fields_refl [simp]: "diff_fields kvs kvs = []"
  by (simp add: diff_Nil_iff)

lemma diff_fields_append_refl [simp]: "diff_fields (kvs @ lvs) (kvs @ mvs) = diff_fields lvs mvs"
  by (induction kvs) auto

lemma diff_elems_append_refl [simp]:
  "diff_elems i (xs @ ys) (xs @ zs) = diff_elems (i + length xs) ys zs"
  by (induction xs arbitrary: i) simp_all

end
