(* ===== verification/VariantProps.thy ===== *)
theory VariantProps
  imports SyncVariants SettingsProps JsonDiff
begin

text \<open>
  The properties of the three scripts beside the deployed one: each settles, how they differ
  from each other, what they rely on in the cluster, and the protocol \<open>sync_new.py\<close> speaks.
\<close>

section \<open>Readiness\<close>

lemma children_converge:
  assumes "parent_name parent = Inr (JStr ns)" and "parent_enabled parent = Inr (JStr ''true'')"
    and "all_counts observed (ready_checks cfg) = Inr True"
  shows "snd (sync_with ''children'' (ready_checks cfg) (res cfg) (minio_secret cfg) parent observed) =
    Inr (JObj [(''status'', ready_status True), (''children'', JList (desired_children res cfg (JStr ns)))])"
  using assms(3) by (simp add: sync_with_enabled [OF assms(1,2)] desired_children_def)

text \<open>
  Each of the three scripts settles like the deployed one: once the cluster holds exactly the
  objects of its answer, it answers with the same objects and reports the profile ready.
\<close>

lemma variants_converge:
  assumes "parent_name parent = Inr (JStr ns)" and "parent_enabled parent = Inr (JStr ''true'')"
  shows "(\<forall>obs. observes obs (desired_children public_resources_new cfg (JStr ns)) (group_keys_of cfg) \<longrightarrow>
      snd (sync_new cfg parent obs) = Inr (JObj [(''status'', ready_status True),
        (''children'', JList (desired_children public_resources_new cfg (JStr ns)))])) \<and>
    (\<forall>obs. observes obs (desired_children public_resources_old cfg (JStr ns)) (group_keys_of cfg) \<longrightarrow>
      snd (sync_old cfg parent obs) = Inr (JObj [(''status'', ready_status True),
        (''children'', JList (desired_children public_resources_old cfg (JStr ns)))])) \<and>
    (\<forall>obs. observes obs (desired_children public_resources_debug cfg (JStr ns)) (group_keys_of cfg) \<longrightarrow>
      snd (sync_debug cfg parent obs) = Inr (JObj [(''status'', ready_status True),
        (''children'', JList (desired_children public_resources_debug cfg (JStr ns)))]))"
  unfolding sync_new_def sync_old_def sync_debug_def same_secret
  using children_converge [OF assms] new_ctl.ready_when_observed old_ctl.ready_when_observed
    debug_ctl.ready_when_observed
  by blast

lemma variants_converge_witness:
  "snd (sync_new sample_settings sample_parent
      (observation (desired_children public_resources_new sample_settings (JStr ''alice''))
        (group_keys_of sample_settings))) =
    Inr (JObj [(''status'', ready_status True),
        (''children'', JList (desired_children public_resources_new sample_settings (JStr ''alice'')))])"
  using variants_converge [OF sample_parent_name sample_parent_enabled] new_ctl.observes_observation by blast

section \<open>Differences between the scripts\<close>

definition vis_container :: "settings \<Rightarrow> step list" where
  "vis_container cfg =
     [Key ''children'', Idx (if truthy (kfp_default_pipeline_root cfg) then 2 else 1), Key ''spec'',
      Key ''template'', Key ''spec'', Key ''containers'', Idx 0]"

lemma old_new_children:
  "diff (JObj [(''status'', s), (''children'', JList (desired_children public_resources_old cfg ns))])
     (JObj [(''status'', s), (''children'', JList (desired_children public_resources_new cfg ns))]) =
   [vis_container cfg @ [Key ''env'', Idx 5, Key ''value''],
    vis_container cfg @ [Key ''resources'', Key ''limits'', Key ''memory'']]"
proof -
  have "diff (vis_deployment_old cfg ns) (vis_deployment_new cfg ns) =
      map ((@) (drop 2 (vis_container cfg)))
        [[Key ''env'', Idx 5, Key ''value''], [Key ''resources'', Key ''limits'', Key ''memory'']]"
    by (simp add: vis_deployment_old_def vis_deployment_new_def vis_deployment_with_def aws_envs_def
        vis_container_def)
  moreover have "ui_deployment_old = ui_deployment_new"
    by (simp add: ui_deployment_old_def ui_deployment_new_def)
  ultimately show ?thesis
    by (simp add: desired_children_def public_resources_old_eq public_resources_new_eq
        child_resources_def vis_container_def)
qed

text \<open>
  C29. \<open>sync_new.py\<close> and \<open>sync_old.py\<close> do not speak the same protocol, and otherwise nearly do the same. Given what
  \<open>sync_old.py\<close> expects, a body with the keys \<open>parent\<close> and \<open>children\<close>, \<open>sync_new.py\<close> raises a \<open>KeyError\<close>; given the
  same profile and the same objects, each under the keys it reads, the two scripts raise the same exception, or
  answer, and then the answers are equal, or differ in two values of the visualization server only: its region and
  its memory limit.
\<close>

theorem old_new_answers:
  "snd (handle_new cfg (JObj [(''parent'', parent), (''children'', observed)])) = Inl (KeyError ''object'') \<and>
   (case (snd (handle_old cfg (JObj [(''parent'', parent), (''children'', observed)])),
          snd (handle_new cfg (JObj [(''object'', parent), (''attachments'', observed)]))) of
     (Inl e, Inl e') \<Rightarrow> e = e'
   | (Inr r, Inr r') \<Rightarrow>
       diff r r' = [] \<or>
       diff r r' = [vis_container cfg @ [Key ''env'', Idx 5, Key ''value''],
                    vis_container cfg @ [Key ''resources'', Key ''limits'', Key ''memory'']]
   | _ \<Rightarrow> False)"
  using old_new_children [of _ cfg]
  by (simp add: handle_new_def handle_old_def handle_body_def body_parts_def sync_old_def sync_new_def sync_with_def
      desired_children_def del: diff.simps split: sum.split)

section \<open>\<open>main\<close> of \<open>sync_new.py\<close>\<close>

text \<open>
  The debug image and tag that \<open>main\<close> of \<open>sync_new.py\<close> passes first never reach the server:
  the server it starts is the one \<open>sync_old.py\<close> starts in the same environment, with the image
  of the environment or the default one.
\<close>

lemma main_new_ignores_debug:
  "(main_new env = Inr srv \<longleftrightarrow> main_old env = Inr srv) \<and>
   (main_new env = Inr srv \<longrightarrow>
      visualization_server_image (handler_settings srv) =
        env_get_or env ''VISUALIZATION_SERVER_IMAGE'' ''gcr.io/ml-pipeline/visualization-server'')"
proof -
  have first: "\<exists>s. get_settings_from_env_new env
      (no_args\<lparr>arg_visualization_server_tag := Some t, arg_visualization_server_image := Some i\<rparr>) = Inr s"
    if "t \<noteq> []" "get_settings_from_env_old env no_args = Inr s'" for t i s'
  proof -
    have "\<exists>s. get_settings_from_env_old env no_args = Inr s" using that(2) by blast
    then show ?thesis
      using that(1)
      unfolding get_settings_from_env_new_def get_settings_from_env_old_def settings_from_env_ex_Inr
      by (simp add: no_args_def truthy_iff)
  qed
  have settings: "main_settings_new env = Inr s \<longleftrightarrow> get_settings_from_env_old env no_args = Inr s" for s
    using first [of "''1.7.1-debug''"]
    by (auto simp: main_settings_new_def bindE_eq_Inr get_settings_from_env_new_def
        get_settings_from_env_old_def)
  then have eq: "main_new env = Inr srv \<longleftrightarrow> main_old env = Inr srv"
    by (simp add: main_new_def main_old_def bindE_eq_Inr)
  have "visualization_server_image (handler_settings srv) =
        env_get_or env ''VISUALIZATION_SERVER_IMAGE'' ''gcr.io/ml-pipeline/visualization-server''"
    if started: "main_old env = Inr srv"
  proof -
    obtain s where "get_settings_from_env_old env no_args = Inr s" "handler_settings srv = s"
      using started by (auto simp: main_old_def server_factory_def bind_server_def bindE_eq_Inr split: if_splits)
    then show ?thesis
      using settings_from_env_fields(2) unfolding get_settings_from_env_old_def
      by (simp add: no_args_def)
  qed
  with eq show ?thesis by blast
qed

theorem main_new_ignores_debug_witness:
  "\<exists>srv. main_old sample_env = Inr srv \<and> main_new sample_env = Inr srv"
proof -
  have "\<exists>srv. main_old sample_env = Inr srv"
    by (simp add: main_old_def get_settings_from_env_old_def settings_from_env_defs no_args_def
        image_tag_def sample_env_def env_item_def env_b64_def server_factory_def bind_server_def
        env_get_or_def py_int_def strip_def Let_def is_digit_def digit_val_def is_space_def)
  then show ?thesis using main_new_ignores_debug [of sample_env] by blast
qed

section \<open>The protocol of \<open>sync_new.py\<close>\<close>

text \<open>
  \<open>sync_new.py\<close> speaks no protocol of the metacontroller. A request of the kind that expects
  \<open>children\<close> (it posts \<open>parent\<close> and \<open>children\<close>) ends in a \<open>KeyError\<close> without an answer; and a
  request of the kind that expects \<open>attachments\<close> (it posts \<open>object\<close> and \<open>attachments\<close>) is
  answered without that field.
\<close>

lemma new_protocol_mismatch:
  assumes "wf_json p" and "wf_json c"
  shows "do_POST_new cfg (post_request ''parent'' ''children'' p c rest) = ([], Inl (KeyError ''object'')) \<and>
    (\<forall>printed r. do_POST_new cfg (post_request ''object'' ''attachments'' p c rest) = (printed, Inr r) \<longrightarrow>
       (\<exists>v. r = json_response v \<and> json_at v [Key ''attachments''] = None \<and> json_at v [Key ''children''] \<noteq> None))"
proof (intro conjI allI impI)
  show "do_POST_new cfg (post_request ''parent'' ''children'' p c rest) = ([], Inl (KeyError ''object''))"
    unfolding do_POST_new_def handle_new_def using assms by (intro webhook_wrong_key) simp_all
next
  fix printed r
  assume "do_POST_new cfg (post_request ''object'' ''attachments'' p c rest) = (printed, Inr r)"
  then obtain v where v: "snd (sync_new cfg p c) = Inr v" "r = json_response v"
    using assms by (auto simp: do_POST_new_def handle_new_def webhook_post_request bindE_eq_Inr)
  from v(1) have "json_at v [Key ''attachments''] = None \<and> json_at v [Key ''children''] \<noteq> None"
    by (auto simp: sync_new_def sync_with_def split: sum.splits if_splits)
  with v(2) show "\<exists>v. r = json_response v \<and> json_at v [Key ''attachments''] = None \<and> json_at v [Key ''children''] \<noteq> None"
    by blast
qed

lemma new_protocol_mismatch_witness:
  "do_POST_new sample_settings (post_request ''parent'' ''children'' sample_parent (JObj []) []) =
     ([], Inl (KeyError ''object''))"
  using new_protocol_mismatch [of sample_parent "JObj []" sample_settings "[]"]
  by (simp add: sample_parent_def)

section \<open>What the scripts rely on in the cluster\<close>

definition aws_refs :: "(string option \<times> string option) list" where
  "aws_refs =
     map (\<lambda>k. (Some ''aws-secret'', Some k))
       [''AWS_ACCESS_KEY_ID'', ''AWS_SECRET_ACCESS_KEY'', ''S3_USE_HTTPS'', ''S3_VERIFY_SSL'', ''S3_ENDPOINT'']"

lemma refs_of_rest:
  "secret_refs (kfp_launcher_root pipeline_root ns) = []"
  "secret_refs (metadata_grpc_configmap ns) = []"
  "secret_refs (vis_destination_rule ns) = []"
  "secret_refs (vis_authorization_policy ns) = []"
  "secret_refs (vis_service ns) = []"
  "secret_refs (ui_service ns) = []"
  "secret_refs (minio_secret cfg ns) = []"
  by (simp_all add: secret_refs_def containers_def list_at_def object_defs kfp_launcher_root_def)

lemma refs_of_deployments:
  "secret_refs (vis_deployment_with [(''env'', JList (aws_envs region))] mem cfg ns) = aws_refs"
  "secret_refs (vis_deployment_with [] mem cfg ns) = []"
  "secret_refs (ui_deployment_with (aws_envs region) mounts volumes cfg ns) =
     [(Some secret_name, Some ''accesskey''), (Some secret_name, Some ''secretkey'')] @ aws_refs"
  "secret_refs (ui_deployment_with [debug_env] mounts volumes cfg ns) =
     [(Some secret_name, Some ''accesskey''), (Some secret_name, Some ''secretkey'')]"
  by (simp_all add: secret_refs_def containers_def list_at_def vis_deployment_with_def
      ui_deployment_with_def aws_envs_def aws_env_def aws_refs_def minio_envs_def minio_env_def debug_env_def)

lemma not_held:
  "\<not> holds_key (kfp_launcher_root pipeline_root ns) ref"
  "\<not> holds_key (metadata_grpc_configmap ns) ref"
  "\<not> holds_key (vis_deployment_with env mem cfg ns) ref"
  "\<not> holds_key (vis_destination_rule ns) ref"
  "\<not> holds_key (vis_authorization_policy ns) ref"
  "\<not> holds_key (vis_service ns) ref"
  "\<not> holds_key (ui_deployment_with uenv mounts volumes cfg ns) ref"
  "\<not> holds_key (ui_service ns) ref"
  by (auto simp: holds_key_def res_kind_def object_defs kfp_launcher_root_def split: option.splits)

lemma held_by_secret:
  "holds_key (minio_secret cfg ns) ref \<longleftrightarrow>
     ref = (Some secret_name, Some ''accesskey'') \<or> ref = (Some secret_name, Some ''secretkey'')"
proof -
  have name: "res_name (minio_secret cfg ns) = Some secret_name" and
      kind: "res_kind (minio_secret cfg ns) = Some ''Secret''" by simp_all
  have key: "str_at (minio_secret cfg ns) [Key ''data'', Key k] \<noteq> None \<longleftrightarrow>
      k = ''accesskey'' \<or> k = ''secretkey''" for k
    by (simp add: minio_secret_def)
  obtain nm k where ref: "ref = (nm, k)" by (cases ref)
  show ?thesis
    unfolding ref by (cases nm; cases k) (simp_all only: holds_key_def prod.case option.case name kind key
      option.inject prod.inject option.distinct simp_thms, blast)
qed

lemma children_held:
  "(\<exists>s \<in> set (desired_children (child_resources (vis_deployment_with e m) (ui_deployment_with u mo v)) cfg ns).
      holds_key s ref) \<longleftrightarrow>
    ref = (Some secret_name, Some ''accesskey'') \<or> ref = (Some secret_name, Some ''secretkey'')"
  by (cases "truthy (kfp_default_pipeline_root cfg)")
    (simp_all only: desired_children_def child_resources_def if_True if_False set_append list.set
      bex_Un Un_iff bex_simps not_held held_by_secret simp_thms append_Nil)

lemma children_refs:
  "concat (map secret_refs (desired_children (child_resources vis ui) cfg ns)) =
     secret_refs (vis cfg ns) @ secret_refs (ui cfg ns)"
  by (simp add: desired_children_def child_resources_def refs_of_rest)

lemma external_children:
  "external_refs (desired_children (child_resources (vis_deployment_with e m) (ui_deployment_with u mo v)) cfg ns) =
     List.filter (\<lambda>ref. \<not> (ref = (Some secret_name, Some ''accesskey'') \<or> ref = (Some secret_name, Some ''secretkey'')))
       (secret_refs (vis_deployment_with e m cfg ns) @ secret_refs (ui_deployment_with u mo v cfg ns))"
  unfolding external_refs_def children_held children_refs ..

text \<open>
  \<open>sync_new.py\<close> and \<open>sync_old.py\<close> leave exactly the five keys of a Secret \<open>aws-secret\<close>, which
  neither creates, to be provided in the profile's namespace, once per Deployment; the debug
  script leaves no secret to be provided.
\<close>

lemma external_secrets:
  "external_refs (desired_children public_resources_new cfg ns) = aws_refs @ aws_refs \<and>
   external_refs (desired_children public_resources_old cfg ns) = aws_refs @ aws_refs \<and>
   external_refs (desired_children public_resources_debug cfg ns) = []"
  unfolding public_resources_new_eq public_resources_old_eq public_resources_debug_eq
    vis_deployment_new_def vis_deployment_old_def vis_deployment_debug_def
    ui_deployment_new_def ui_deployment_old_def ui_deployment_debug_def
    external_children refs_of_deployments
  by (simp add: aws_refs_def)

text \<open>
  In the answer of the debug script every mount names a declared volume. The volume takes
  its file from a ConfigMap \<open>k8s-server-patches\<close>, which is no object of the answer.
\<close>

lemma debug_volume:
  "mounted (ui_deployment_debug cfg ns) = [Some ''k8s-server-patch''] \<and>
   map (\<lambda>v. (str_at v [Key ''name''], str_at v [Key ''configMap'', Key ''name'']))
     (volumes_of (ui_deployment_debug cfg ns)) = [(Some ''k8s-server-patch'', Some ''k8s-server-patches'')] \<and>
   (\<forall>r \<in> set (desired_children public_resources_debug cfg ns). res_name r \<noteq> Some ''k8s-server-patches'')"
proof (intro conjI)
  show "mounted (ui_deployment_debug cfg ns) = [Some ''k8s-server-patch'']"
    by (simp add: mounted_def containers_def list_at_def ui_deployment_debug_def ui_deployment_with_def
        debug_mounts_def)
  show "map (\<lambda>v. (str_at v [Key ''name''], str_at v [Key ''configMap'', Key ''name'']))
     (volumes_of (ui_deployment_debug cfg ns)) = [(Some ''k8s-server-patch'', Some ''k8s-server-patches'')]"
    by (simp add: volumes_of_def list_at_def ui_deployment_debug_def ui_deployment_with_def debug_volumes_def)
  show "\<forall>r \<in> set (desired_children public_resources_debug cfg ns). res_name r \<noteq> Some ''k8s-server-patches''"
    by (simp add: desired_children_def public_resources_debug_eq child_resources_def
        vis_deployment_debug_def ui_deployment_debug_def)
qed

end
