(* ===== verification/Reconcile.thy ===== *)
theory Reconcile
  imports SyncVariants
begin

text \<open>
  The reconcile loop around a controller script, as a step relation on the cluster. The
  metacontroller keeps, per profile, the objects it has created for the script and the status
  the script reported; it posts the objects it observes, and makes the cluster hold the objects
  of the answer. Between the calls other actors may remove objects, or edit them in place.
\<close>

section \<open>Steps\<close>

record cluster =
  objects :: "string \<Rightarrow> json list"
  profile_status :: "string \<Rightarrow> json option"

definition empty_cluster :: cluster where
  "empty_cluster = \<lparr>objects = (\<lambda>ns. []), profile_status = (\<lambda>ns. None)\<rparr>"

text \<open>A call carries the namespace object as it is when it is posted.\<close>

datatype event = Call string json | Remove string | Edit string

definition object_id :: "json \<Rightarrow> string option \<times> string option" where
  "object_id r = (group_key r, child_key r)"

text \<open>
  \<open>answer\<close> is what the script makes of a parent and its observed objects, \<open>key\<close> the key the metacontroller takes the objects
  from, \<open>groups\<close> the kinds of objects it is told to send. Metacontroller has two kinds of controllers: one posts
  \<open>parent\<close> and \<open>children\<close> and takes \<open>children\<close>, the other posts \<open>object\<close> and \<open>attachments\<close> and takes \<open>attachments\<close>; \<open>asked\<close> is
  the answer of a script's handler to a body under such keys.
\<close>

definition asked :: "(json \<Rightarrow> string list \<times> (pyexn + json)) \<Rightarrow> string \<Rightarrow> string \<Rightarrow> json \<Rightarrow> json \<Rightarrow> pyexn + json" where
  "asked handle pk ck parent observed = snd (handle (JObj [(pk, parent), (ck, observed)]))"

lemma asked_handle_body: "pk \<noteq> ck \<Longrightarrow> asked (handle_body pk ck answer) pk ck parent observed = snd (answer parent observed)"
  by (simp add: asked_def handle_body_def body_parts_def)

inductive step ::
  "(json \<Rightarrow> json \<Rightarrow> pyexn + json) \<Rightarrow> string \<Rightarrow> string list \<Rightarrow> cluster \<Rightarrow> event \<Rightarrow> cluster \<Rightarrow> bool"
  for answer key groups where
  call_answered: "answer parent (observation (objects c ns) groups) = Inr resp \<Longrightarrow>
    step answer key groups c (Call ns parent)
      (c\<lparr>objects := (objects c)(ns := response_items key resp),
         profile_status := (profile_status c)(ns := json_at resp [Key ''status''])\<rparr>)"
| call_failed: "answer parent (observation (objects c ns) groups) = Inl e \<Longrightarrow>
    step answer key groups c (Call ns parent) c"
| removed: "step answer key groups c (Remove ns)
      (c\<lparr>objects := (objects c)(ns := List.filter P (objects c ns))\<rparr>)"
| edited: "\<forall>r \<in> set (objects c ns). object_id (f r) = object_id r \<Longrightarrow>
    step answer key groups c (Edit ns) (c\<lparr>objects := (objects c)(ns := map f (objects c ns))\<rparr>)"

inductive run ::
  "(json \<Rightarrow> json \<Rightarrow> pyexn + json) \<Rightarrow> string \<Rightarrow> string list \<Rightarrow> cluster \<Rightarrow> event list \<Rightarrow> cluster \<Rightarrow> bool"
  for answer key groups where
  run_Nil: "run answer key groups c [] c"
| run_Cons: "step answer key groups c e c' \<Longrightarrow> run answer key groups c' es c'' \<Longrightarrow>
    run answer key groups c (e # es) c''"

inductive_simps run_Nil_iff: "run answer key groups c [] c'"
inductive_simps run_Cons_iff: "run answer key groups c (e # es) c'"

inductive_cases call_cases: "step answer key groups c (Call ns parent) c'"
inductive_cases remove_cases: "step answer key groups c (Remove ns) c'"
inductive_cases edit_cases: "step answer key groups c (Edit ns) c'"

text \<open>The profile an event is about; a step changes nothing of another profile.\<close>

primrec event_profile :: "event \<Rightarrow> string" where
  "event_profile (Call ns parent) = ns"
| "event_profile (Remove ns) = ns"
| "event_profile (Edit ns) = ns"

lemma step_elsewhere:
  "step answer key groups c e c' \<Longrightarrow> event_profile e \<noteq> ns \<Longrightarrow>
   objects c' ns = objects c ns \<and> profile_status c' ns = profile_status c ns"
  by (induction rule: step.induct) auto

lemma run_elsewhere:
  "run answer key groups c es c' \<Longrightarrow> \<forall>e \<in> set es. event_profile e \<noteq> ns \<Longrightarrow>
   objects c' ns = objects c ns \<and> profile_status c' ns = profile_status c ns"
  by (induction rule: run.induct) (auto dest: step_elsewhere [where ns = ns])

text \<open>What the metacontroller posts for a profile: an object of that name, whose label can be read.\<close>

definition is_enabled :: "json \<Rightarrow> bool" where
  "is_enabled parent \<longleftrightarrow> parent_enabled parent = Inr (JStr ''true'')"

primrec genuine :: "event \<Rightarrow> bool" where
  "genuine (Call ns parent) \<longleftrightarrow> parent_name parent = Inr (JStr ns) \<and> (\<exists>en. parent_enabled parent = Inr en)"
| "genuine (Remove ns) \<longleftrightarrow> True"
| "genuine (Edit ns) \<longleftrightarrow> True"

text \<open>The objects kept for a profile are identified like objects wanted for it.\<close>

definition owned :: "(string \<Rightarrow> json list) \<Rightarrow> cluster \<Rightarrow> bool" where
  "owned wanted c \<longleftrightarrow> (\<forall>ns. object_id ` set (objects c ns) \<subseteq> object_id ` set (wanted ns))"

text \<open>What a set of objects looks like when it is observed: no group is missing.\<close>

lemma observation_counts:
  assumes "set (map fst cs) \<subseteq> set groups"
  shows "\<exists>b. all_counts (observation rs groups) cs = Inr b"
  using assms
proof (induction cs)
  case Nil
  show ?case by (intro exI [of _ True]) simp
next
  case (Cons c cs)
  obtain k n where c: "c = (k, n)" by (cases c)
  have "py_item (observation rs groups) k =
      Inr (JObj (map (\<lambda>r. (the (child_key r), r)) (in_group k rs)))"
    unfolding observation_def using Cons.prems c by (intro py_item_map) simp
  then show ?case using Cons by (auto simp: c)
qed

text \<open>The namespace objects of a cluster in which every profile is enabled.\<close>

definition enabled_parents :: "string \<Rightarrow> json" where
  "enabled_parents ns =
     JObj [(''metadata'', JObj [
       (''name'', JStr ns),
       (''labels'', JObj [(''pipelines.kubeflow.org/enabled'', JStr ''true'')])])]"

text \<open>The same with the label taken off.\<close>

definition plain_parents :: "string \<Rightarrow> json" where
  "plain_parents ns = JObj [(''metadata'', JObj [(''name'', JStr ns), (''labels'', JObj [])])]"

lemma enabled_parents:
  "parent_name (enabled_parents ns) = Inr (JStr ns)"
  "parent_enabled (enabled_parents ns) = Inr (JStr ''true'')"
  by (simp_all add: enabled_parents_def parent_name_def parent_enabled_def)

lemma plain_parents:
  "parent_name (plain_parents ns) = Inr (JStr ns)" "parent_enabled (plain_parents ns) = Inr JNull"
  by (simp_all add: plain_parents_def parent_name_def parent_enabled_def)

section \<open>Scripts in the loop\<close>

text \<open>
  The contract between a script and the loop: on an enabled profile the script answers with the
  outcome of its readiness test and the objects it wants, and on another one with no objects.
\<close>

locale reconciled_script = profile_controller desired checks
  for desired :: "'cfg \<Rightarrow> json \<Rightarrow> json list" and checks :: "'cfg \<Rightarrow> (string \<times> nat) list" +
  fixes answer :: "'cfg \<Rightarrow> json \<Rightarrow> json \<Rightarrow> pyexn + json" and key :: string
  assumes answers: "parent_name parent = Inr ns \<Longrightarrow> parent_enabled parent = Inr (JStr ''true'') \<Longrightarrow>
      all_counts observed (checks cfg) = Inr ready \<Longrightarrow>
      answer cfg parent observed =
        Inr (JObj [(''status'', ready_status ready), (key, JList (desired cfg ns))])"
    and answers_disabled: "parent_name parent = Inr ns \<Longrightarrow> parent_enabled parent = Inr en \<Longrightarrow>
      en \<noteq> JStr ''true'' \<Longrightarrow>
      answer cfg parent observed = Inr (JObj [(''status'', JObj []), (key, JList [])])"
    and key_not_status: "key \<noteq> ''status''"
begin

lemma items: "response_items key (JObj [(''status'', s), (key, JList rs)]) = rs"
  using key_not_status by (simp add: response_items_def)

text \<open>A call on an enabled profile leaves exactly the wanted objects.\<close>

lemma call_installs:
  assumes "step (answer cfg) key (map fst (checks cfg)) c (Call ns parent) c'"
    and "parent_name parent = Inr (JStr ns)" and "is_enabled parent"
  shows "objects c' ns = desired cfg (JStr ns)"
proof -
  obtain b where "all_counts (observation (objects c ns) (map fst (checks cfg))) (checks cfg) = Inr b"
    using observation_counts by blast
  note answered = answers [OF assms(2) assms(3) [unfolded is_enabled_def] this]
  from assms(1) show ?thesis by (rule call_cases) (use answered in \<open>auto simp: items\<close>)
qed

text \<open>A call is always answered in the loop: the observation misses no group.\<close>

lemma call_possible:
  assumes "parent_name parent = Inr (JStr ns)" and "is_enabled parent"
  shows "\<exists>c'. step (answer cfg) key (map fst (checks cfg)) c (Call ns parent) c'"
proof -
  obtain b where "all_counts (observation (objects c ns) (map fst (checks cfg))) (checks cfg) = Inr b"
    using observation_counts by blast
  from call_answered [of "answer cfg" parent c ns, OF answers [OF assms [unfolded is_enabled_def] this]] show ?thesis by blast
qed

text \<open>A profile that is not enabled loses its objects with the call.\<close>

lemma call_uninstalls:
  assumes "step (answer cfg) key groups c (Call ns parent) c'"
    and "parent_name parent = Inr v" and "parent_enabled parent = Inr en" and "en \<noteq> JStr ''true''"
  shows "objects c' ns = [] \<and> profile_status c' ns = Some (JObj [])"
proof -
  note answered = answers_disabled [OF assms(2-4)]
  from assms(1) show ?thesis by (rule call_cases) (use answered in \<open>auto simp: items\<close>)
qed

text \<open>Whatever happens, nothing but wanted objects is kept.\<close>

lemma step_owned:
  assumes "step (answer cfg) key (map fst (checks cfg)) c e c'" and "owned (\<lambda>ns. desired cfg (JStr ns)) c"
    and "genuine e"
  shows "owned (\<lambda>ns. desired cfg (JStr ns)) c'"
  using assms(1)
proof cases
  case (call_answered parent ns resp)
  obtain en where posted: "parent_name parent = Inr (JStr ns)" "parent_enabled parent = Inr en"
    using assms(3) call_answered(1) by auto
  note call = assms(1) [unfolded call_answered(1)]
  have "objects c' ns = desired cfg (JStr ns) \<or> objects c' ns = []"
  proof (cases "is_enabled parent")
    case True
    from call_installs [OF call posted(1) this] show ?thesis by simp
  next
    case False
    with posted(2) have "en \<noteq> JStr ''true''" by (simp add: is_enabled_def)
    from call_uninstalls [OF call posted this] show ?thesis by simp
  qed
  then show ?thesis
    using assms(2) step_elsewhere [OF assms(1)] unfolding owned_def call_answered(1)
    by (metis empty_subsetI event_profile.simps(1) image_empty list.set(1) order_refl)
next
  case (removed ns P)
  then show ?thesis using assms(2) by (auto simp: owned_def)
next
  case (edited ns f)
  have "object_id ` set (map f (objects c ns)) = object_id ` set (objects c ns)"
    using edited(3) by (force simp: image_image)
  with edited(2) assms(2) show ?thesis by (auto simp: owned_def)
qed (use assms(2) in simp)

lemma run_owned:
  assumes "run (answer cfg) key (map fst (checks cfg)) c es c'" and "owned (\<lambda>ns. desired cfg (JStr ns)) c"
    and "\<forall>e \<in> set es. genuine e"
  shows "owned (\<lambda>ns. desired cfg (JStr ns)) c'"
  using assms by (induction rule: run.induct) (auto intro: step_owned)

end

section \<open>The scripts\<close>

interpretation sync_loop: reconciled_script desired_attachments ready_checks
  "\<lambda>cfg parent obs. snd (sync cfg parent obs)" "''attachments''"
  by unfold_locales (simp_all add: sync_def sync_with_enabled sync_with_disabled desired_attachments_def)

text \<open>The handlers of the scripts under the keys they read; what the deployed one is asked is its \<open>sync\<close>.\<close>

lemma asked_handlers:
  "asked (handle_sync cfg) ''object'' ''attachments'' = (\<lambda>parent obs. snd (sync cfg parent obs))"
  "asked (handle_old cfg) ''parent'' ''children'' = (\<lambda>parent obs. snd (sync_old cfg parent obs))"
  "asked (handle_debug cfg) ''parent'' ''children'' = (\<lambda>parent obs. snd (sync_debug cfg parent obs))"
  "asked (handle_new cfg) ''object'' ''attachments'' = (\<lambda>parent obs. snd (sync_new cfg parent obs))"
  by (simp_all add: fun_eq_iff handle_sync_def handle_old_def handle_debug_def handle_new_def asked_handle_body)

lemma asked_new_children: "asked (handle_new cfg) ''parent'' ''children'' parent observed = Inl (KeyError ''object'')"
  by (simp add: asked_def handle_new_def handle_body_def body_parts_def)

interpretation old_loop: reconciled_script "desired_children public_resources_old" ready_checks
  "\<lambda>cfg. asked (handle_old cfg) ''parent'' ''children''" "''children''"
  by unfold_locales (simp_all add: asked_handlers sync_old_def sync_with_enabled sync_with_disabled desired_children_def)

interpretation debug_loop: reconciled_script "desired_children public_resources_debug" ready_checks
  "\<lambda>cfg. asked (handle_debug cfg) ''parent'' ''children''" "''children''"
  by unfold_locales (simp_all add: asked_handlers sync_debug_def sync_with_enabled sync_with_disabled desired_children_def)

end
