(* ===== verification/ReconcileSpec.thy ===== *)
theory ReconcileSpec
  imports Reconcile
begin

text \<open>
  What the reconcile loop promises, without manifests and requests: an abstract machine that keeps,
  per profile, which of the wanted objects are there and what was last reported; and that the loop
  around a script implements it step by step, in both directions.
\<close>

section \<open>The abstract machine\<close>

datatype report = Silent | Unmanaged | Managed bool

record profile_view =
  held :: "(string option \<times> string option) set"
  reported :: report

type_synonym views = "string \<Rightarrow> profile_view"

text \<open>
  A call for an enabled profile puts all the wanted objects there and reports whether none of them
  was missing before it; a call for a profile that is not enabled takes everything away. Anybody may
  remove objects; editing them goes unnoticed.
\<close>

datatype spec_event = Reconcile string bool | Lose string | Touch string

inductive spec_step ::
  "(string \<Rightarrow> (string option \<times> string option) set) \<Rightarrow> views \<Rightarrow> spec_event \<Rightarrow> views \<Rightarrow> bool"
  for wanted where
  installs: "spec_step wanted v (Reconcile ns True)
    (v(ns := \<lparr>held = wanted ns, reported = Managed (held (v ns) = wanted ns)\<rparr>))"
| withdraws: "spec_step wanted v (Reconcile ns False) (v(ns := \<lparr>held = {}, reported = Unmanaged\<rparr>))"
| loses: "S \<subseteq> held (v ns) \<Longrightarrow> spec_step wanted v (Lose ns) (v(ns := (v ns)\<lparr>held := S\<rparr>))"
| touches: "spec_step wanted v (Touch ns) v"

inductive spec_run ::
  "(string \<Rightarrow> (string option \<times> string option) set) \<Rightarrow> views \<Rightarrow> spec_event list \<Rightarrow> views \<Rightarrow> bool"
  for wanted where
  spec_Nil: "spec_run wanted v [] v"
| spec_Cons: "spec_step wanted v e v' \<Longrightarrow> spec_run wanted v' es v'' \<Longrightarrow> spec_run wanted v (e # es) v''"

inductive_simps spec_step_simps:
  "spec_step wanted v (Reconcile ns b) v'" "spec_step wanted v (Lose ns) v'" "spec_step wanted v (Touch ns) v'"

inductive_simps spec_run_simps:
  "spec_run wanted v [] v'" "spec_run wanted v (e # es) v'"

text \<open>What the machine is told of an event.\<close>

primrec spec_event_of :: "event \<Rightarrow> spec_event" where
  "spec_event_of (Call ns parent) = Reconcile ns (is_enabled parent)"
| "spec_event_of (Remove ns) = Lose ns"
| "spec_event_of (Edit ns) = Touch ns"

text \<open>
  A profile that lost something, or everything because its label was taken off for a while, is
  reported as not ready by the call that repairs it.
\<close>

lemma loss_reported:
  assumes "wanted ns \<noteq> {}"
  shows "\<exists>v'. spec_run wanted v [Reconcile ns True, Reconcile ns False, Reconcile ns True] v' \<and>
    v' ns = \<lparr>held = wanted ns, reported = Managed False\<rparr>"
  using assms by (simp add: spec_run_simps spec_step_simps)

section \<open>The view of a cluster\<close>

definition object_ids :: "json list \<Rightarrow> (string option \<times> string option) set" where
  "object_ids rs = object_id ` set rs"

definition report_of :: "json option \<Rightarrow> report" where
  "report_of s = (case s of None \<Rightarrow> Silent
     | Some j \<Rightarrow> if j = JObj [] then Unmanaged else Managed (j = ready_status True))"

definition view :: "cluster \<Rightarrow> views" where
  "view c ns = \<lparr>held = object_ids (objects c ns), reported = report_of (profile_status c ns)\<rparr>"

lemma report_of_simps [simp]:
  "report_of None = Silent" "report_of (Some (JObj [])) = Unmanaged"
  "report_of (Some (ready_status b)) = Managed b"
  by (simp_all add: report_of_def ready_status_def)

lemma view_update:
  "view (c\<lparr>objects := (objects c)(ns := rs), profile_status := (profile_status c)(ns := s)\<rparr>) =
     (view c)(ns := \<lparr>held = object_ids rs, reported = report_of s\<rparr>)"
  "view (c\<lparr>objects := (objects c)(ns := rs)\<rparr>) = (view c)(ns := (view c ns)\<lparr>held := object_ids rs\<rparr>)"
  by (auto simp: view_def fun_eq_iff)

text \<open>Kept objects are told apart and are wanted ones.\<close>

definition apart :: "(string \<Rightarrow> (string option \<times> string option) set) \<Rightarrow> cluster \<Rightarrow> bool" where
  "apart wanted c \<longleftrightarrow> (\<forall>ns. distinct (map object_id (objects c ns)) \<and> object_ids (objects c ns) \<subseteq> wanted ns)"

lemma group_length:
  assumes "distinct (map object_id rs)"
  shows "length (in_group k rs) = card {i \<in> object_ids rs. fst i = Some k}"
proof -
  have "distinct (map object_id (in_group k rs))"
    using assms by (simp add: in_group_def distinct_map_filter)
  then have "length (in_group k rs) = card (object_id ` set (in_group k rs))"
    by (metis distinct_card length_map set_map)
  also have "object_id ` set (in_group k rs) = {i \<in> object_ids rs. fst i = Some k}"
    by (force simp: in_group_def object_ids_def object_id_def)
  finally show ?thesis .
qed

lemma observation_all_counts:
  assumes "set (map fst cs) \<subseteq> set groups"
  shows "all_counts (observation rs groups) cs = Inr (\<forall>(k, n) \<in> set cs. length (in_group k rs) = n)"
proof -
  have "(\<exists>g. py_item (observation rs groups) k = Inr g \<and> py_len g = Inr n) \<longleftrightarrow> length (in_group k rs) = n"
    if "(k, n) \<in> set cs" for k n
  proof -
    have "k \<in> set groups" using that assms by force
    then have "py_item (observation rs groups) k =
        Inr (JObj (map (\<lambda>r. (the (child_key r), r)) (in_group k rs)))"
      unfolding observation_def by (rule py_item_map)
    then show ?thesis by simp
  qed
  then have "all_counts (observation rs groups) cs = Inr True \<longleftrightarrow>
      (\<forall>(k, n) \<in> set cs. length (in_group k rs) = n)"
    unfolding all_counts_True by (intro ball_cong) auto
  with observation_counts [OF assms, of rs] show ?thesis by auto
qed

definition wanted_ids :: "('cfg \<Rightarrow> json \<Rightarrow> json list) \<Rightarrow> 'cfg \<Rightarrow> string \<Rightarrow> (string option \<times> string option) set" where
  "wanted_ids desired cfg ns = object_ids (desired cfg (JStr ns))"

text \<open>The events that take nothing away from a profile.\<close>

primrec harmless :: "string \<Rightarrow> event \<Rightarrow> bool" where
  "harmless ns (Call m parent) \<longleftrightarrow> m \<noteq> ns \<or> parent_name parent = Inr (JStr ns) \<and> is_enabled parent"
| "harmless ns (Remove m) \<longleftrightarrow> m \<noteq> ns"
| "harmless ns (Edit m) \<longleftrightarrow> True"

section \<open>The loop implements the machine\<close>

text \<open>A script that counts every kind of object it wants.\<close>

locale watched_script = reconciled_script desired checks answer key
  for desired :: "'cfg \<Rightarrow> json \<Rightarrow> json list" and checks :: "'cfg \<Rightarrow> (string \<times> nat) list"
    and answer :: "'cfg \<Rightarrow> json \<Rightarrow> json \<Rightarrow> pyexn + json" and key :: string +
  assumes checked: "r \<in> set (desired cfg ns) \<Longrightarrow> group_key r \<in> Some ` fst ` set (checks cfg)"
begin

lemma distinct_object_ids: "distinct (map object_id (desired cfg (JStr ns)))"
proof -
  have "inj_on object_id (set (desired cfg (JStr ns)))"
  proof (rule inj_onI)
    fix r s
    assume m: "r \<in> set (desired cfg (JStr ns))" "s \<in> set (desired cfg (JStr ns))"
      and eq: "object_id r = object_id s"
    obtain k where k: "group_key r = Some k" using identified [OF m(1)] by auto
    with m eq have "r \<in> set (in_group k (desired cfg (JStr ns)))" "s \<in> set (in_group k (desired cfg (JStr ns)))"
      by (auto simp: in_group_def object_id_def)
    with eq show "r = s" using inj_onD [OF child_key_inj] by (auto simp: object_id_def)
  qed
  with distinct_desired show ?thesis by (simp add: distinct_map)
qed

text \<open>The readiness test finds out exactly whether a wanted object is missing.\<close>

lemma ready_iff_complete:
  assumes "distinct (map object_id rs)" and "object_ids rs \<subseteq> object_ids (desired cfg (JStr ns))"
  shows "all_counts (observation rs (map fst (checks cfg))) (checks cfg) =
    Inr (object_ids rs = object_ids (desired cfg (JStr ns)))"
proof -
  let ?W = "object_ids (desired cfg (JStr ns))"
  let ?part = "\<lambda>I k. {i \<in> I. fst i = Some k}"
  have count: "(k, n) \<in> set (checks cfg) \<Longrightarrow> card (?part ?W k) = n" for k n
    using counts_agree [of k n cfg "JStr ns"] group_length [OF distinct_object_ids] by simp
  have "(\<forall>(k, n) \<in> set (checks cfg). card (?part (object_ids rs) k) = n) \<longleftrightarrow> object_ids rs = ?W"
  proof
    assume all: "\<forall>(k, n) \<in> set (checks cfg). card (?part (object_ids rs) k) = n"
    have "i \<in> object_ids rs" if i: "i \<in> ?W" for i
    proof -
      obtain r where r: "r \<in> set (desired cfg (JStr ns))" "i = object_id r"
        using i by (auto simp: object_ids_def)
      with checked obtain k n where k: "(k, n) \<in> set (checks cfg)" "fst i = Some k"
        by (force simp: object_id_def)
      have "card (?part (object_ids rs) k) = card (?part ?W k)" using all k(1) count by fastforce
      moreover have "finite ?W" by (simp add: object_ids_def)
      moreover have "?part (object_ids rs) k \<subseteq> ?part ?W k" using assms(2) by auto
      ultimately have "?part (object_ids rs) k = ?part ?W k" by (intro card_subset_eq) auto
      with i k(2) show ?thesis by auto
    qed
    with assms(2) show "object_ids rs = ?W" by auto
  qed (use count in auto)
  then show ?thesis by (simp add: observation_all_counts group_length [OF assms(1)])
qed

lemma call_answer:
  assumes "apart (wanted_ids desired cfg) c" and "parent_name parent = Inr (JStr ns)"
    and "parent_enabled parent = Inr en"
  shows "answer cfg parent (observation (objects c ns) (map fst (checks cfg))) =
    Inr (if is_enabled parent
         then JObj [(''status'', ready_status (held (view c ns) = wanted_ids desired cfg ns)), (key, JList (desired cfg (JStr ns)))]
         else JObj [(''status'', JObj []), (key, JList [])])"
proof (cases "is_enabled parent")
  case True
  have "all_counts (observation (objects c ns) (map fst (checks cfg))) (checks cfg) =
      Inr (held (view c ns) = wanted_ids desired cfg ns)"
    using ready_iff_complete [of "objects c ns" cfg ns] assms(1) by (simp add: apart_def wanted_ids_def view_def)
  from answers [OF assms(2) True [unfolded is_enabled_def] this] True show ?thesis by simp
next
  case False
  with assms(3) have "en \<noteq> JStr ''true''" by (simp add: is_enabled_def)
  with answers_disabled [OF assms(2,3)] False show ?thesis by simp
qed

text \<open>The two views of a call.\<close>

lemma call_view:
  assumes "apart (wanted_ids desired cfg) c" and "genuine (Call ns parent)"
  shows "step (answer cfg) key (map fst (checks cfg)) c (Call ns parent) c' \<longleftrightarrow>
    c' = (if is_enabled parent
          then c\<lparr>objects := (objects c)(ns := desired cfg (JStr ns)),
                 profile_status := (profile_status c)(ns := Some (ready_status (held (view c ns) = wanted_ids desired cfg ns)))\<rparr>
          else c\<lparr>objects := (objects c)(ns := []), profile_status := (profile_status c)(ns := Some (JObj []))\<rparr>)"
  (is "?step \<longleftrightarrow> c' = ?next")
proof -
  obtain en where posted: "parent_name parent = Inr (JStr ns)" "parent_enabled parent = Inr en"
    using assms(2) by auto
  note answer = call_answer [OF assms(1) posted]
  show ?thesis
  proof
    assume ?step
    then show "c' = ?next"
      by (rule call_cases) (use answer in \<open>auto simp: items split: if_splits\<close>)
  next
    assume "c' = ?next"
    with call_answered [of "answer cfg" parent c ns, OF answer, of key] show ?step
      by (auto simp: items split: if_splits)
  qed
qed

lemma apart_update:
  assumes "apart wanted c" and "distinct (map object_id rs)" and "object_ids rs \<subseteq> wanted ns"
  shows "apart wanted (c\<lparr>objects := (objects c)(ns := rs), profile_status := s\<rparr>)"
  using assms by (simp add: apart_def)

lemma apart_wanted [simp]:
  "distinct (map object_id (desired cfg (JStr ns)))" "object_ids (desired cfg (JStr ns)) = wanted_ids desired cfg ns"
  "object_ids [] = {}"
  by (simp_all add: distinct_object_ids wanted_ids_def object_ids_def)

lemma step_implements:
  assumes "step (answer cfg) key (map fst (checks cfg)) c e c'" and "apart (wanted_ids desired cfg) c" and "genuine e"
  shows "spec_step (wanted_ids desired cfg) (view c) (spec_event_of e) (view c') \<and> apart (wanted_ids desired cfg) c'"
proof (cases e)
  case (Call ns parent)
  from assms(1,3) Call call_view [OF assms(2)] show ?thesis
    by (auto simp: view_update spec_step_simps intro: apart_update [OF assms(2)] split: if_splits)
next
  case (Remove ns)
  from assms(1) [unfolded Remove] obtain P where c': "c' = c\<lparr>objects := (objects c)(ns := List.filter P (objects c ns))\<rparr>"
    by (rule remove_cases)
  have sub: "object_ids (List.filter P (objects c ns)) \<subseteq> held (view c ns)"
    by (auto simp: view_def object_ids_def)
  then have "apart (wanted_ids desired cfg) c'"
    using assms(2) by (auto simp: c' apart_def view_def distinct_map_filter)
  moreover have "view c' = (view c)(ns := (view c ns)\<lparr>held := object_ids (List.filter P (objects c ns))\<rparr>)"
    by (simp only: c' view_update)
  ultimately show ?thesis unfolding Remove by (simp only: spec_event_of.simps loses [where v = "view c", OF sub])
next
  case (Edit ns)
  from assms(1) [unfolded Edit] obtain f where c': "c' = c\<lparr>objects := (objects c)(ns := map f (objects c ns))\<rparr>"
    and f: "\<forall>r \<in> set (objects c ns). object_id (f r) = object_id r"
    by (rule edit_cases)
  then have ids: "map object_id (map f (objects c ns)) = map object_id (objects c ns)" by simp
  then have same: "object_ids (map f (objects c ns)) = object_ids (objects c ns)"
    unfolding object_ids_def by (metis set_map)
  then have "view c' = view c" unfolding c' view_update by (simp add: view_def fun_eq_iff)
  moreover have "apart (wanted_ids desired cfg) c'"
    using assms(2) ids same by (simp add: c' apart_def del: map_map)
  ultimately show ?thesis unfolding Edit by (simp add: touches)
qed

lemma step_implemented:
  assumes "spec_step (wanted_ids desired cfg) (view c) (spec_event_of e) v" and "apart (wanted_ids desired cfg) c"
    and "genuine e"
  shows "\<exists>c'. step (answer cfg) key (map fst (checks cfg)) c e c' \<and> view c' = v"
proof (cases e)
  case (Call ns parent)
  with assms(1,3) call_view [OF assms(2)] show ?thesis
    by (cases "is_enabled parent") (auto simp: view_update spec_step_simps)
next
  case (Remove ns)
  with assms(1) obtain S where S: "S \<subseteq> held (view c ns)" "v = (view c)(ns := (view c ns)\<lparr>held := S\<rparr>)"
    by (auto simp: spec_step_simps)
  let ?rs = "List.filter (\<lambda>r. object_id r \<in> S) (objects c ns)"
  have "object_ids ?rs = S" using S(1) by (auto simp: view_def object_ids_def)
  then have "view (c\<lparr>objects := (objects c)(ns := ?rs)\<rparr>) = v" by (simp add: view_update S(2))
  then show ?thesis unfolding Remove by (blast intro: removed)
next
  case (Edit ns)
  have "step (answer cfg) key (map fst (checks cfg)) c (Edit ns)
      (c\<lparr>objects := (objects c)(ns := map id (objects c ns))\<rparr>)"
    by (rule edited) simp
  then show ?thesis using assms(1) Edit by (auto simp: spec_step_simps)
qed

lemma run_implements:
  assumes "run (answer cfg) key (map fst (checks cfg)) c es c'" and "apart (wanted_ids desired cfg) c"
    and "\<forall>e \<in> set es. genuine e"
  shows "spec_run (wanted_ids desired cfg) (view c) (map spec_event_of es) (view c')"
  using assms
proof (induction rule: run.induct)
  case (run_Cons c e c' es c'')
  from step_implements [OF run_Cons.hyps(1) run_Cons.prems(1)] run_Cons.IH run_Cons.prems(2) show ?case
    by (auto intro: spec_Cons)
qed (simp add: spec_Nil)

lemma run_implemented:
  assumes "spec_run (wanted_ids desired cfg) (view c) (map spec_event_of es) v"
    and "apart (wanted_ids desired cfg) c" and "\<forall>e \<in> set es. genuine e"
  shows "\<exists>c'. run (answer cfg) key (map fst (checks cfg)) c es c' \<and> view c' = v"
  using assms
proof (induction es arbitrary: c)
  case Nil
  then show ?case by (auto simp: spec_run_simps intro: run_Nil)
next
  case (Cons e es)
  then obtain v1 where v1: "spec_step (wanted_ids desired cfg) (view c) (spec_event_of e) v1"
      "spec_run (wanted_ids desired cfg) v1 (map spec_event_of es) v"
    by (auto simp: spec_run_simps)
  obtain c1 where c1: "step (answer cfg) key (map fst (checks cfg)) c e c1" "view c1 = v1"
    using step_implemented [OF v1(1) Cons.prems(2)] Cons.prems(3) by auto
  with step_implements [OF c1(1) Cons.prems(2)] Cons.IH [of c1] v1(2) Cons.prems(3)
  show ?case by (auto intro: run_Cons)
qed

lemma run_iff:
  assumes "\<forall>e \<in> set es. genuine e"
  shows "(\<exists>c. run (answer cfg) key (map fst (checks cfg)) empty_cluster es c \<and> view c = v) \<longleftrightarrow>
    spec_run (wanted_ids desired cfg) (view empty_cluster) (map spec_event_of es) v"
proof -
  have "apart (wanted_ids desired cfg) empty_cluster" by (simp add: apart_def empty_cluster_def)
  with run_implements [OF _ _ assms] run_implemented [OF _ _ assms] show ?thesis by blast
qed

text \<open>
  Once a call has installed the objects, they stay complete until one of them is removed or a call
  finds the label taken off, whatever else is called or edited; so a later call reports ready.
\<close>

lemma run_keeps_complete:
  assumes "run (answer cfg) key (map fst (checks cfg)) c es c'"
    and "map object_id (objects c ns) = map object_id (desired cfg (JStr ns))" and "\<forall>e \<in> set es. harmless ns e"
  shows "map object_id (objects c' ns) = map object_id (desired cfg (JStr ns))"
  using assms
proof (induction rule: run.induct)
  case (run_Cons c e c' es c'')
  have "map object_id (objects c' ns) = map object_id (desired cfg (JStr ns))"
  proof (cases "event_profile e = ns")
    case True
    with run_Cons.prems(2) consider p where "e = Call ns p" "parent_name p = Inr (JStr ns)" "is_enabled p" | "e = Edit ns"
      by (cases e) auto
    then show ?thesis
    proof cases
      case 1
      from call_installs [OF run_Cons.hyps(1) [unfolded 1(1)] 1(2,3)] show ?thesis by simp
    next
      case 2
      from run_Cons.hyps(1) [unfolded 2] obtain f where "c' = c\<lparr>objects := (objects c)(ns := map f (objects c ns))\<rparr>"
        and f: "\<forall>r \<in> set (objects c ns). object_id (f r) = object_id r"
        by (rule edit_cases)
      moreover have "map object_id (map f (objects c ns)) = map object_id (objects c ns)" using f by simp
      ultimately show ?thesis using run_Cons.prems(1) by (simp del: map_map)
    qed
  next
    case False
    with step_elsewhere [OF run_Cons.hyps(1)] run_Cons.prems(1) show ?thesis by simp
  qed
  with run_Cons.IH run_Cons.prems(2) show ?case by simp
qed

lemma complete_call_ready:
  assumes "step (answer cfg) key (map fst (checks cfg)) c (Call ns parent) c'"
    and "map object_id (objects c ns) = map object_id (desired cfg (JStr ns))"
    and "parent_name parent = Inr (JStr ns)" and "is_enabled parent"
  shows "profile_status c' ns = Some (ready_status True)"
proof -
  have "object_ids (objects c ns) = object_ids (desired cfg (JStr ns))"
    using assms(2) by (metis object_ids_def set_map)
  with ready_iff_complete [of "objects c ns" cfg ns] assms(2) distinct_object_ids
  have "all_counts (observation (objects c ns) (map fst (checks cfg))) (checks cfg) = Inr True" by simp
  note answered = answers [OF assms(3) assms(4) [unfolded is_enabled_def] this]
  from assms(1) show ?thesis by (rule call_cases) (use answered in auto)
qed

lemma kept_until_removed:
  assumes "step (answer cfg) key (map fst (checks cfg)) c (Call ns p) c1"
    and "run (answer cfg) key (map fst (checks cfg)) c1 es c2" and "\<forall>e \<in> set es. harmless ns e"
    and "step (answer cfg) key (map fst (checks cfg)) c2 (Call ns p') c3"
    and "harmless ns (Call ns p)" and "harmless ns (Call ns p')"
  shows "objects c3 ns = desired cfg (JStr ns) \<and> profile_status c3 ns = Some (ready_status True)"
proof -
  have posted: "parent_name p = Inr (JStr ns)" "is_enabled p" "parent_name p' = Inr (JStr ns)" "is_enabled p'"
    using assms(5,6) by simp_all
  have "map object_id (objects c2 ns) = map object_id (desired cfg (JStr ns))"
    by (rule run_keeps_complete [OF assms(2) _ assms(3)]) (simp add: call_installs [OF assms(1) posted(1,2)])
  from complete_call_ready [OF assms(4) this posted(3,4)] call_installs [OF assms(4) posted(3,4)] show ?thesis by simp
qed

end

interpretation sync_watch: watched_script desired_attachments ready_checks
  "\<lambda>cfg parent obs. snd (sync cfg parent obs)" "''attachments''"
  by unfold_locales (auto simp: desired_attachments_def public_resources_def launcher_configmaps_def ready_checks_def split: if_splits)

lemma wanted_in_checks: "r \<in> set (desired_children (child_resources vis ui) cfg ns) \<Longrightarrow>
    group_key (vis cfg ns) = Some ''Deployment.apps/v1'' \<Longrightarrow> group_key (ui cfg ns) = Some ''Deployment.apps/v1'' \<Longrightarrow>
    group_key r \<in> Some ` fst ` set (ready_checks cfg)"
  by (auto simp: desired_children_def child_resources_def ready_checks_def split: if_splits)

interpretation old_watch: watched_script "desired_children public_resources_old" ready_checks
  "\<lambda>cfg. asked (handle_old cfg) ''parent'' ''children''" "''children''"
  by unfold_locales (erule wanted_in_checks [of _ vis_deployment_old ui_deployment_old, folded public_resources_old_eq];
      simp add: vis_deployment_old_def ui_deployment_old_def)

interpretation debug_watch: watched_script "desired_children public_resources_debug" ready_checks
  "\<lambda>cfg. asked (handle_debug cfg) ''parent'' ''children''" "''children''"
  by unfold_locales (erule wanted_in_checks [of _ vis_deployment_debug ui_deployment_debug, folded public_resources_debug_eq];
      simp add: vis_deployment_debug_def ui_deployment_debug_def)

end
