(* ===== verification/ReconcileProps.thy ===== *)
theory ReconcileProps
  imports ReconcileSpec SyncProps VariantProps
begin

text \<open>
  The properties of the reconcile loop around the deployed script, over any interleaving of
  calls, removals and edits on any number of profiles, whose labels may change from call to call.
\<close>

abbreviation sync_step :: "settings \<Rightarrow> cluster \<Rightarrow> event \<Rightarrow> cluster \<Rightarrow> bool" where
  "sync_step cfg \<equiv> step (\<lambda>parent obs. snd (sync cfg parent obs)) ''attachments'' (map fst (ready_checks cfg))"

abbreviation sync_run :: "settings \<Rightarrow> cluster \<Rightarrow> event list \<Rightarrow> cluster \<Rightarrow> bool" where
  "sync_run cfg \<equiv> run (\<lambda>parent obs. snd (sync cfg parent obs)) ''attachments'' (map fst (ready_checks cfg))"

lemma sample_calls:
  "genuine (Call ns (enabled_parents ns))" "harmless ns (Call ns (enabled_parents ns))" "is_enabled (enabled_parents ns)"
  "genuine (Call ns (plain_parents ns))" "\<not> is_enabled (plain_parents ns)"
  by (simp_all add: enabled_parents plain_parents is_enabled_def)

text \<open>
  C1. Two calls for an enabled profile make it ready, from any state of the cluster and whatever
  is called or edited in between, unless somebody removes one of its objects or a call finds its
  label taken off: afterwards the cluster holds exactly the objects the script wants for the
  profile, and its status is \<open>True\<close>.
\<close>

theorem reconcile_ready:
  assumes "sync_step cfg c (Call ns p) c1" and "sync_run cfg c1 es c2" and "\<forall>e \<in> set es. harmless ns e"
    and "sync_step cfg c2 (Call ns p') c3" and "harmless ns (Call ns p)" and "harmless ns (Call ns p')"
  shows "objects c3 ns = desired_attachments cfg (JStr ns) \<and>
    profile_status c3 ns = Some (JObj [(''kubeflow-pipelines-ready'', JStr ''True'')])"
  using sync_watch.kept_until_removed [OF assms] by (simp add: ready_status_def)

theorem reconcile_ready_witness:
  "\<exists>c1 c3. sync_step sample_settings empty_cluster (Call ''alice'' (enabled_parents ''alice'')) c1 \<and>
     sync_step sample_settings c1 (Call ''alice'' (enabled_parents ''alice'')) c3 \<and>
     profile_status c3 ''alice'' = Some (JObj [(''kubeflow-pipelines-ready'', JStr ''True'')])"
proof -
  let ?e = "Call ''alice'' (enabled_parents ''alice'')"
  note possible = sync_loop.call_possible [OF enabled_parents(1) sample_calls(3)]
  obtain c1 where c1: "sync_step sample_settings empty_cluster ?e c1" using possible by blast
  obtain c3 where c3: "sync_step sample_settings c1 ?e c3" using possible by blast
  have "\<forall>e \<in> set []. harmless ''alice'' e" by simp
  from reconcile_ready [OF c1 run_Nil this c3 sample_calls(2) sample_calls(2)] c1 c3 show ?thesis by blast
qed

text \<open>
  C2. Whatever is called, removed or edited, and in whatever order, the objects the cluster keeps
  for a profile are identified (by group, namespace and name) like objects the script wants for
  that profile: no profile ever receives objects of another one.
\<close>

theorem reconcile_owns_only_wanted:
  assumes "sync_run cfg empty_cluster es c" and "\<forall>e \<in> set es. genuine e"
  shows "object_id ` set (objects c ns) \<subseteq> object_id ` set (desired_attachments cfg (JStr ns))"
proof -
  have "owned (\<lambda>ns. desired_attachments cfg (JStr ns)) empty_cluster"
    by (simp add: owned_def empty_cluster_def)
  from sync_loop.run_owned [OF assms(1) this assms(2)] show ?thesis by (simp add: owned_def)
qed

theorem reconcile_owns_only_wanted_witness:
  "\<exists>c. sync_run sample_settings empty_cluster [Call ''alice'' (enabled_parents ''alice''), Remove ''alice''] c \<and>
     object_id ` set (objects c ''alice'') \<subseteq>
       object_id ` set (desired_attachments sample_settings (JStr ''alice''))"
proof -
  let ?e = "Call ''alice'' (enabled_parents ''alice'')"
  obtain c1 where c1: "sync_step sample_settings empty_cluster ?e c1"
    using sync_loop.call_possible [OF enabled_parents(1) sample_calls(3)] by blast
  from run_Cons [OF c1 run_Cons [OF removed run_Nil]]
  obtain c where c: "sync_run sample_settings empty_cluster [?e, Remove ''alice''] c" by blast
  have "\<forall>e \<in> set [?e, Remove ''alice'']. genuine e" using sample_calls(1) by simp
  from c reconcile_owns_only_wanted [OF c this] show ?thesis by blast
qed

text \<open>
  C3. The loop around the deployed script is exactly the abstract machine: what can be seen of the
  cluster after a sequence of events is what the machine can come to, profiles being enabled and
  disabled on the way. In particular every call is answered; one for an enabled profile puts
  all its objects there and reports ready if and only if none of them was missing before the call; one
  for another profile takes everything away; edits are never noticed; and no profile is touched
  by the events of another one.
\<close>

theorem reconcile_refines:
  assumes "\<forall>e \<in> set es. genuine e"
  shows "(\<exists>c. sync_run cfg empty_cluster es c \<and> view c = v) \<longleftrightarrow>
    spec_run (\<lambda>ns. object_ids (desired_attachments cfg (JStr ns)))
      (\<lambda>ns. \<lparr>held = {}, reported = Silent\<rparr>) (map spec_event_of es) v"
proof -
  have "view empty_cluster = (\<lambda>ns. \<lparr>held = {}, reported = Silent\<rparr>)"
    by (simp add: view_def empty_cluster_def object_ids_def fun_eq_iff)
  moreover have "wanted_ids desired_attachments cfg = (\<lambda>ns. object_ids (desired_attachments cfg (JStr ns)))"
    by (simp only: wanted_ids_def fun_eq_iff simp_thms)
  ultimately show ?thesis using sync_watch.run_iff [where cfg = cfg, OF assms] by simp
qed

theorem reconcile_refines_witness:
  "\<exists>c. sync_run sample_settings empty_cluster [Call ''alice'' (enabled_parents ''alice''),
       Call ''alice'' (plain_parents ''alice''), Call ''alice'' (enabled_parents ''alice'')] c \<and>
     view c ''alice'' =
       \<lparr>held = object_ids (desired_attachments sample_settings (JStr ''alice'')), reported = Managed False\<rparr>"
proof -
  let ?wanted = "\<lambda>ns. object_ids (desired_attachments sample_settings (JStr ns))"
  let ?es = "[Call ''alice'' (enabled_parents ''alice''), Call ''alice'' (plain_parents ''alice''),
    Call ''alice'' (enabled_parents ''alice'')]"
  have genuine: "\<forall>e \<in> set ?es. genuine e" using sample_calls(1,4) by simp
  have es: "map spec_event_of ?es = [Reconcile ''alice'' True, Reconcile ''alice'' False, Reconcile ''alice'' True]"
    by (simp add: sample_calls)
  have "?wanted ''alice'' \<noteq> {}" by (simp add: object_ids_def desired_attachments_def)
  with loss_reported [of ?wanted "''alice''" "\<lambda>ns. \<lparr>held = {}, reported = Silent\<rparr>"]
  obtain v where run: "spec_run ?wanted (\<lambda>ns. \<lparr>held = {}, reported = Silent\<rparr>) (map spec_event_of ?es) v"
    and v: "v ''alice'' = \<lparr>held = ?wanted ''alice'', reported = Managed False\<rparr>"
    unfolding es by blast
  from iffD2 [OF reconcile_refines [OF genuine] run] v show ?thesis by force
qed

section \<open>The other scripts\<close>








end
