(* ===== verification/SyncSeaweed.thy ===== *)
theory SyncSeaweed
  imports Sync
begin

text \<open>
  The controller script for the seaweedfs object store, \<open>kubeflow/pipelines/sync_seaweed.py\<close>. It
  hands out no configured credentials: it creates an access key and a bucket policy for every
  profile through the IAM interface of the store, and reads the Secret back from the cluster
  afterwards. The IAM client (botocore) is a parameter: two functions on an abstract world,
  each of which may raise.
\<close>

section \<open>Configuration\<close>

definition no_image_args :: image_args where
  "no_image_args =
     \<lparr>arg_controller_port = None, arg_visualization_server_image = None, arg_frontend_image = None,
      arg_visualization_server_tag = None, arg_frontend_tag = None, arg_disable_istio_sidecar = None\<rparr>"

definition get_settings_from_env_seaweed :: "environ \<Rightarrow> image_args \<Rightarrow> pyexn + image_settings" where
  "get_settings_from_env_seaweed =
     image_settings_from_env ''ghcr.io/kubeflow/kfp-visualization-server'' ''ghcr.io/kubeflow/kfp-frontend''"

definition server_factory_seaweed :: "image_settings \<Rightarrow> pyexn + image_settings http_server" where
  "server_factory_seaweed cfg = bind_server '''' cfg (controller_port cfg)"

definition main_seaweed :: "environ \<Rightarrow> pyexn + image_settings http_server" where
  "main_seaweed env = bindE (get_settings_from_env_seaweed env no_image_args) server_factory_seaweed"

section \<open>The objects\<close>

definition s3_bucket_name :: string where
  "s3_bucket_name = ''mlpipeline''"

definition artifact_root :: "string \<Rightarrow> string" where
  "artifact_root nss = ''minio://'' @ s3_bucket_name @ ''/private-artifacts/'' @ nss @ ''/v2/artifacts''"

definition launcher_seaweed :: "string \<Rightarrow> json \<Rightarrow> json" where
  "launcher_seaweed nss ns =
    JObj [
      (''apiVersion'', JStr ''v1''),
      (''kind'', JStr ''ConfigMap''),
      (''metadata'', JObj [(''name'', JStr ''kfp-launcher''), (''namespace'', ns)]),
      (''data'', JObj [(''defaultPipelineRoot'', JStr (artifact_root nss))])]"

definition key_format :: "string \<Rightarrow> string" where
  "key_format nss = ''private-artifacts/'' @ nss @
     ''/{{workflow.name}}/{{workflow.creationTimestamp.Y}}/{{workflow.creationTimestamp.m}}'' @
     ''/{{workflow.creationTimestamp.d}}/{{pod.name}}''"

definition secret_key_of :: "string \<Rightarrow> json" where
  "secret_key_of k = JObj [(''name'', JStr secret_name), (''key'', JStr k)]"

definition repository :: "string \<Rightarrow> json" where
  "repository nss =
    JObj [
      (''archiveLogs'', JBool True),
      (''s3'', JObj [
        (''endpoint'', JStr ''minio-service.kubeflow:9000''),
        (''bucket'', JStr s3_bucket_name),
        (''keyFormat'', JStr (key_format nss)),
        (''insecure'', JBool True),
        (''accessKeySecret'', secret_key_of ''accesskey''),
        (''secretKeySecret'', secret_key_of ''secretkey'')])]"

definition artifact_repositories :: "string \<Rightarrow> json \<Rightarrow> json" where
  "artifact_repositories nss ns =
    JObj [
      (''apiVersion'', JStr ''v1''),
      (''kind'', JStr ''ConfigMap''),
      (''metadata'', JObj [
        (''name'', JStr ''artifact-repositories''),
        (''namespace'', ns),
        (''annotations'', JObj [
          (''workflows.argoproj.io/default-artifact-repository'', JStr ''default-namespaced'')])]),
      (''data'', JObj [(''default-namespaced'', JStr (dumps (repository nss)))])]"

text \<open>\<open>nss\<close> is the parent's name as an f-string prints it, \<open>ns\<close> the name itself.\<close>

definition seaweed_resources :: "string \<Rightarrow> json \<Rightarrow> json list" where
  "seaweed_resources nss ns =
     [launcher_seaweed nss ns, metadata_grpc_configmap ns, artifact_repositories nss ns]"

definition seaweed_secret :: "json \<Rightarrow> string \<Rightarrow> string \<Rightarrow> json" where
  "seaweed_secret ns access_key_id secret_access_key =
    JObj [
      (''apiVersion'', JStr ''v1''),
      (''kind'', JStr ''Secret''),
      (''metadata'', JObj [(''name'', JStr secret_name), (''namespace'', ns)]),
      (''data'', JObj [
        (''accesskey'', JStr (b64encode access_key_id)),
        (''secretkey'', JStr (b64encode secret_access_key))])]"

definition project_arns :: "string \<Rightarrow> string list" where
  "project_arns nss =
     [''arn:aws:s3:::'' @ s3_bucket_name @ ''/artifacts/*'',
      ''arn:aws:s3:::'' @ s3_bucket_name @ ''/private-artifacts/'' @ nss @ ''/*'',
      ''arn:aws:s3:::'' @ s3_bucket_name @ ''/private/'' @ nss @ ''/*'',
      ''arn:aws:s3:::'' @ s3_bucket_name @ ''/shared/*'']"

definition project_policy :: "string \<Rightarrow> json" where
  "project_policy nss =
    JObj [
      (''Version'', JStr ''2012-10-17''),
      (''Statement'', JList [
        JObj [
          (''Effect'', JStr ''Allow''),
          (''Action'', JList [JStr ''s3:Put*'', JStr ''s3:Get*'', JStr ''s3:List*'']),
          (''Resource'', JList (map JStr (project_arns nss)))]])]"

section \<open>The IAM client\<close>

text \<open>
  \<open>create_access_key(UserName=...)\<close> and \<open>put_user_policy(UserName=..., PolicyName=...,
  PolicyDocument=...)\<close>.
\<close>

record 'w iam_client =
  create_access_key :: "json \<Rightarrow> 'w \<Rightarrow> (pyexn + json) \<times> 'w"
  put_user_policy :: "json \<Rightarrow> string \<Rightarrow> string \<Rightarrow> 'w \<Rightarrow> (pyexn + json) \<times> 'w"

text \<open>\<open>s3_access_key["AccessKey"][k].encode('utf-8')\<close>.\<close>

definition access_key_field :: "json \<Rightarrow> string \<Rightarrow> pyexn + string" where
  "access_key_field reply k =
     bindE (py_item reply ''AccessKey'') (\<lambda>a.
     bindE (py_item a k) (\<lambda>v. case v of JStr s \<Rightarrow> Inr s | _ \<Rightarrow> Inl AttributeError))"

definition secret_of_reply :: "json \<Rightarrow> json \<Rightarrow> pyexn + json" where
  "secret_of_reply ns reply =
     bindE (access_key_field reply ''AccessKeyId'') (\<lambda>access.
     bindE (access_key_field reply ''SecretAccessKey'') (\<lambda>secret.
     Inr (seaweed_secret ns access secret)))"

definition create_credentials :: "'w iam_client \<Rightarrow> string \<Rightarrow> json \<Rightarrow> 'w \<Rightarrow> (pyexn + json) \<times> 'w" where
  "create_credentials iam nss ns w =
     (case create_access_key iam ns w of
        (Inl e, w1) \<Rightarrow> (Inl e, w1)
      | (Inr reply, w1) \<Rightarrow>
          (case put_user_policy iam ns (''KubeflowProject'' @ nss) (dumps (project_policy nss)) w1 of
             (Inl e, w2) \<Rightarrow> (Inl e, w2)
           | (Inr _, w2) \<Rightarrow> (secret_of_reply ns reply, w2)))"

section \<open>\<open>sync\<close>\<close>

definition seaweed_checks :: "(string \<times> nat) list" where
  "seaweed_checks =
     [(''Secret.v1'', 1),
      (''ConfigMap.v1'', 3),
      (''Deployment.apps/v1'', 2),
      (''Service.v1'', 2),
      (''DestinationRule.networking.istio.io/v1alpha3'', 1),
      (''AuthorizationPolicy.security.istio.io/v1beta1'', 1)]"

definition seaweed_answer :: "bool \<Rightarrow> json list \<Rightarrow> json" where
  "seaweed_answer ready rs = JObj [(''status'', ready_status ready), (''attachments'', JList rs)]"

text \<open>
  The part after the status is known. The walrus expression looks the Secret up under
  \<open>namespace/name\<close>; any true value found is passed through.
\<close>

definition attach_secret ::
  "'w iam_client \<Rightarrow> string \<Rightarrow> json \<Rightarrow> json \<Rightarrow> bool \<Rightarrow> 'w \<Rightarrow> string list \<times> (pyexn + json) \<times> 'w" where
  "attach_secret iam nss ns attachments ready w =
     (case bindE (py_item attachments ''Secret.v1'') (\<lambda>g. py_get g (nss @ ''/'' @ secret_name) JNull) of
        Inl e \<Rightarrow> ([], Inl e, w)
      | Inr found \<Rightarrow>
          if py_bool found
          then ([''Using existing secret''],
                Inr (seaweed_answer ready (seaweed_resources nss ns @ [found])), w)
          else
            (case create_credentials iam nss ns w of
               (Inl e, w') \<Rightarrow> ([''Creating new access key.''], Inl e, w')
             | (Inr secret, w') \<Rightarrow>
                 ([''Creating new access key.''],
                  Inr (seaweed_answer ready (secret # seaweed_resources nss ns)), w')))"

definition sync_seaweed ::
  "'w iam_client \<Rightarrow> json \<Rightarrow> json \<Rightarrow> 'w \<Rightarrow> string list \<times> (pyexn + json) \<times> 'w" where
  "sync_seaweed iam parent attachments w =
     (case bindE (parent_name parent) (\<lambda>ns. bindE (parent_enabled parent) (\<lambda>en. Inr (ns, en))) of
        Inl e \<Rightarrow> ([], Inl e, w)
      | Inr (ns, en) \<Rightarrow>
          if en \<noteq> JStr ''true''
          then ([], Inr (JObj [(''status'', JObj []), (''attachments'', JList [])]), w)
          else
            (case all_counts attachments seaweed_checks of
               Inl e \<Rightarrow> ([], Inl e, w)
             | Inr ready \<Rightarrow>
                 (case attach_secret iam (py_format ns) ns attachments ready w of
                    (printed, result, w') \<Rightarrow> (sync_log parent (seaweed_resources (py_format ns) ns) @ printed, result, w'))))"

definition do_POST_seaweed ::
  "'w iam_client \<Rightarrow> http_request \<Rightarrow> 'w \<Rightarrow> string list \<times> (pyexn + http_response) \<times> 'w" where
  "do_POST_seaweed iam req w =
     (case observed_parts ''object'' ''attachments'' req of
        Inl e \<Rightarrow> ([], Inl e, w)
      | Inr (p, c) \<Rightarrow>
          (case sync_seaweed iam p c w of
             (printed, result, w') \<Rightarrow> (printed, bindE result (\<lambda>desired. Inr (json_response desired)), w')))"

section \<open>The contract\<close>

text \<open>
  The objects of the answer on a profile with these credentials. A name that an f-string does
  not print as modelled gives an empty string here; \<open>sync_seaweed\<close> answers no such request.
\<close>

definition desired_seaweed :: "string \<times> string \<Rightarrow> json \<Rightarrow> json list" where
  "desired_seaweed keys ns =
     seaweed_secret ns (fst keys) (snd keys) #
     seaweed_resources (py_format ns) ns"

lemma seaweed_ids [simp]:
  "group_key (launcher_seaweed nss ns) = Some ''ConfigMap.v1''"
  "group_key (artifact_repositories nss ns) = Some ''ConfigMap.v1''"
  "group_key (seaweed_secret ns a s) = Some ''Secret.v1''"
  "res_name (launcher_seaweed nss ns) = Some ''kfp-launcher''"
  "res_name (artifact_repositories nss ns) = Some ''artifact-repositories''"
  "res_name (seaweed_secret ns a s) = Some secret_name"
  "res_namespace (launcher_seaweed nss ns) = Some ns"
  "res_namespace (artifact_repositories nss ns) = Some ns"
  "res_namespace (seaweed_secret ns a s) = Some ns"
  by (simp_all add: manifest_simps launcher_seaweed_def artifact_repositories_def seaweed_secret_def)

interpretation seaweed_ctl: namespaced_controller desired_seaweed
proof unfold_locales
  fix r keys ns
  assume "r \<in> set (desired_seaweed keys ns)"
  then show "res_namespace r = Some ns" "group_key r \<noteq> None \<and> res_name r \<noteq> None"
    by (auto simp: desired_seaweed_def seaweed_resources_def)
next
  fix keys ns
  show "distinct (map (\<lambda>r. (group_key r, res_name r)) (desired_seaweed keys ns))"
    by (simp add: desired_seaweed_def seaweed_resources_def)
qed

section \<open>Every branch\<close>

lemma sync_seaweed_enabled:
  assumes "parent_name parent = Inr (JStr ns)" and "parent_enabled parent = Inr (JStr ''true'')"
    and "all_counts attachments seaweed_checks = Inr ready"
  shows "sync_seaweed iam parent attachments w =
    (case attach_secret iam ns (JStr ns) attachments ready w of
       (printed, result, w') \<Rightarrow> (sync_log parent (seaweed_resources ns (JStr ns)) @ printed, result, w'))"
  using assms by (simp add: sync_seaweed_def)

lemma attach_existing:
  assumes "py_item attachments ''Secret.v1'' = Inr g"
    and "py_get g (nss @ ''/'' @ secret_name) JNull = Inr found" and "py_bool found"
  shows "attach_secret iam nss ns attachments ready w =
    ([''Using existing secret''], Inr (seaweed_answer ready (seaweed_resources nss ns @ [found])), w)"
  using assms by (simp add: attach_secret_def)

lemma attach_new:
  assumes "py_item attachments ''Secret.v1'' = Inr g"
    and "py_get g (nss @ ''/'' @ secret_name) JNull = Inr found" and "\<not> py_bool found"
  shows "attach_secret iam nss ns attachments ready w =
    ([''Creating new access key.''],
     map_sum id (\<lambda>secret. seaweed_answer ready (secret # seaweed_resources nss ns))
       (fst (create_credentials iam nss ns w)),
     snd (create_credentials iam nss ns w))"
  using assms by (simp add: attach_secret_def split: prod.split sum.split)

end
