(* ===== verification/SeaweedProps.thy ===== *)
theory SeaweedProps
  imports SyncSeaweed SettingsProps
begin

text \<open>
  The properties of the seaweedfs script: when it calls the IAM interface and with what, what
  the policy it puts allows, and how its reconcile loop ends.
\<close>

section \<open>A sample IAM interface\<close>

text \<open>The world is the list of calls; the keys are numbered by the calls before.\<close>

definition sample_iam :: "string list iam_client" where
  "sample_iam =
     \<lparr>create_access_key = (\<lambda>user w. (Inr (JObj [(''AccessKey'', JObj [
        (''AccessKeyId'', JStr (''id'' @ show_nat (length w))),
        (''SecretAccessKey'', JStr (''secret'' @ show_nat (length w)))])]), w @ [''create''])),
      put_user_policy = (\<lambda>user name doc w. (Inr JNull, w @ [''put '' @ name]))\<rparr>"

definition no_objects :: json where
  "no_objects = JObj (map (\<lambda>(k, n). (k, JObj [])) seaweed_checks)"

lemma no_objects_counts: "all_counts no_objects seaweed_checks = Inr False"
  by (simp add: no_objects_def seaweed_checks_def)

lemma no_objects_secrets: "py_item no_objects ''Secret.v1'' = Inr (JObj [])"
  by (simp add: no_objects_def seaweed_checks_def)

section \<open>The Secret\<close>

text \<open>
  When the cluster already holds the profile's Secret, \<open>sync\<close> passes it through unchanged
  and makes no IAM call: the world stays as it was.
\<close>

lemma seaweed_reuses_secret:
  assumes "parent_name parent = Inr (JStr ns)" and "parent_enabled parent = Inr (JStr ''true'')"
    and "all_counts attachments seaweed_checks = Inr ready"
    and "py_item attachments ''Secret.v1'' = Inr g"
    and "py_get g (ns @ ''/'' @ secret_name) JNull = Inr found" and "py_bool found"
  shows "sync_seaweed iam parent attachments w =
    (sync_log parent (seaweed_resources ns (JStr ns)) @ [''Using existing secret''],
     Inr (seaweed_answer ready (seaweed_resources ns (JStr ns) @ [found])), w)"
  by (simp add: sync_seaweed_enabled [OF assms(1-3)] attach_existing [OF assms(4-6)])

theorem seaweed_reuses_secret_witness:
  "\<exists>printed. sync_seaweed sample_iam sample_parent
      (JObj [(''Secret.v1'', JObj [(''alice/mlpipeline-minio-artifact'', JInt 1)]), (''ConfigMap.v1'', JObj [])]) [] =
    (printed, Inr (seaweed_answer False (seaweed_resources ''alice'' (JStr ''alice'') @ [JInt 1])), [])"
proof -
  let ?secrets = "JObj [(''alice/mlpipeline-minio-artifact'', JInt 1)]"
  let ?observed = "JObj [(''Secret.v1'', ?secrets), (''ConfigMap.v1'', JObj [])]"
  have "all_counts ?observed seaweed_checks = Inr False" by (simp add: seaweed_checks_def)
  moreover have "py_item ?observed ''Secret.v1'' = Inr ?secrets" by simp
  moreover have "py_get ?secrets (''alice'' @ ''/'' @ secret_name) JNull = Inr (JInt 1)" by simp
  ultimately show ?thesis
    using seaweed_reuses_secret [OF sample_parent_name sample_parent_enabled] by fastforce
qed

text \<open>
  C20. When it does not, \<open>sync\<close> creates an access key for the profile, then puts the profile's
  policy, in this order and nothing else, and answers with a Secret whose two entries decode
  to the key it was given.
\<close>

theorem seaweed_creates_secret:
  assumes "parent_name parent = Inr (JStr ns)" and "parent_enabled parent = Inr (JStr ''true'')"
    and "all_counts attachments seaweed_checks = Inr ready"
    and "py_item attachments ''Secret.v1'' = Inr g"
    and "py_get g (ns @ ''/'' @ secret_name) JNull = Inr found" and "\<not> py_bool found"
    and "create_access_key iam (JStr ns) w = (Inr reply, w1)"
    and "access_key_field reply ''AccessKeyId'' = Inr access"
    and "access_key_field reply ''SecretAccessKey'' = Inr secret"
    and "put_user_policy iam (JStr ns) (''KubeflowProject'' @ ns) (dumps (project_policy ns)) w1 = (Inr u, w2)"
  shows "\<exists>printed s. sync_seaweed iam parent attachments w =
      (printed, Inr (seaweed_answer ready (s # seaweed_resources ns (JStr ns))), w2) \<and>
    res_kind s = Some ''Secret'' \<and> res_name s = Some secret_name \<and> res_namespace s = Some (JStr ns) \<and>
    map_option b64decode (str_at s [Key ''data'', Key ''accesskey'']) = Some (Some access) \<and>
    map_option b64decode (str_at s [Key ''data'', Key ''secretkey'']) = Some (Some secret)"
proof -
  have "create_credentials iam ns (JStr ns) w = (Inr (seaweed_secret (JStr ns) access secret), w2)"
    using assms(7-10) by (simp add: create_credentials_def secret_of_reply_def)
  then have "\<exists>printed. sync_seaweed iam parent attachments w =
      (printed, Inr (seaweed_answer ready (seaweed_secret (JStr ns) access secret # seaweed_resources ns (JStr ns))), w2)"
    by (simp add: sync_seaweed_enabled [OF assms(1-3)] attach_new [OF assms(4-6)])
  moreover have "res_kind (seaweed_secret (JStr ns) access secret) = Some ''Secret''"
    by (simp add: res_kind_def seaweed_secret_def)
  moreover have "map_option b64decode (str_at (seaweed_secret (JStr ns) access secret) [Key ''data'', Key ''accesskey'']) =
        Some (Some access)"
      "map_option b64decode (str_at (seaweed_secret (JStr ns) access secret) [Key ''data'', Key ''secretkey'']) =
        Some (Some secret)"
    by (simp_all add: seaweed_secret_def b64.decode_encode)
  ultimately show ?thesis using seaweed_ids(6,9) by blast
qed

theorem seaweed_creates_secret_witness:
  "\<exists>printed s. sync_seaweed sample_iam sample_parent no_objects [''before''] =
      (printed, Inr (seaweed_answer False (s # seaweed_resources ''alice'' (JStr ''alice''))),
       [''before'', ''create'', ''put KubeflowProjectalice'']) \<and>
    map_option b64decode (str_at s [Key ''data'', Key ''accesskey'']) = Some (Some ''id1'')"
proof -
  have get: "py_get (JObj []) (''alice'' @ ''/'' @ secret_name) JNull = Inr JNull" by simp
  have one: "show_nat (Suc 0) = ''1''" by code_simp
  obtain reply where reply: "create_access_key sample_iam (JStr ''alice'') [''before''] = (Inr reply, [''before'', ''create''])"
      "access_key_field reply ''AccessKeyId'' = Inr ''id1''" "access_key_field reply ''SecretAccessKey'' = Inr ''secret1''"
    by (simp add: sample_iam_def access_key_field_def one)
  have put: "put_user_policy sample_iam (JStr ''alice'') (''KubeflowProject'' @ ''alice'')
      (dumps (project_policy ''alice'')) [''before'', ''create''] =
      (Inr JNull, [''before'', ''create'', ''put KubeflowProjectalice''])"
    by (simp add: sample_iam_def)
  show ?thesis
    using seaweed_creates_secret [OF sample_parent_name sample_parent_enabled no_objects_counts
        no_objects_secrets get _ reply put] by fastforce
qed

text \<open>
  When the store refuses, no answer is sent: an access key that could not be created leaves
  no policy behind; but a policy that could not be put leaves the new access key in the
  store, which no Secret ever receives, and the next call creates another one.
\<close>

lemma seaweed_iam_failures:
  assumes "parent_name parent = Inr (JStr ns)" and "parent_enabled parent = Inr (JStr ''true'')"
    and "all_counts attachments seaweed_checks = Inr ready"
    and "py_item attachments ''Secret.v1'' = Inr g"
    and "py_get g (ns @ ''/'' @ secret_name) JNull = Inr found" and "\<not> py_bool found"
  shows "(\<forall>e w1. create_access_key iam (JStr ns) w = (Inl e, w1) \<longrightarrow>
      snd (sync_seaweed iam parent attachments w) = (Inl e, w1)) \<and>
    (\<forall>reply w1 e w2. create_access_key iam (JStr ns) w = (Inr reply, w1) \<longrightarrow>
      put_user_policy iam (JStr ns) (''KubeflowProject'' @ ns) (dumps (project_policy ns)) w1 = (Inl e, w2) \<longrightarrow>
      snd (sync_seaweed iam parent attachments w) = (Inl e, w2))"
  by (simp add: sync_seaweed_enabled [OF assms(1-3)] attach_new [OF assms(4-6)] create_credentials_def)

definition refusing_iam :: "string list iam_client" where
  "refusing_iam = sample_iam\<lparr>put_user_policy := (\<lambda>user name doc w. (Inl (ClientError ''AccessDenied''), w))\<rparr>"

theorem seaweed_iam_failures_witness:
  "snd (sync_seaweed refusing_iam sample_parent no_objects []) = (Inl (ClientError ''AccessDenied''), [''create''])"
proof -
  have "py_get (JObj []) (''alice'' @ ''/'' @ secret_name) JNull = Inr JNull" by simp
  note seaweed_iam_failures [OF sample_parent_name sample_parent_enabled no_objects_counts no_objects_secrets
      this, of refusing_iam "[]"]
  then show ?thesis by (simp add: refusing_iam_def sample_iam_def)
qed

section \<open>The reconcile loop\<close>

lemma seaweed_counts:
  assumes "observes observed (desired_seaweed keys (JStr ns)) (map fst seaweed_checks)"
  shows "all_counts observed seaweed_checks = Inr False"
proof -
  let ?rs = "desired_seaweed keys (JStr ns)"
  have group: "\<exists>g. py_item observed k = Inr g \<and> py_len g = Inr n"
    if "k \<in> set (map fst seaweed_checks)" "length (in_group k ?rs) = n" for k n
    using seaweed_ctl.observed_group_length [OF assms that(1)] that(2) by blast
  have rs: "?rs = seaweed_secret (JStr ns) (fst keys) (snd keys) # seaweed_resources ns (JStr ns)"
    by (simp add: desired_seaweed_def)
  have "length (in_group ''Secret.v1'' ?rs) = 1" "length (in_group ''ConfigMap.v1'' ?rs) = 3"
      "length (in_group ''Deployment.apps/v1'' ?rs) = 0"
    unfolding rs by (simp_all add: seaweed_resources_def in_group_simps)
  with group [of "''Secret.v1''"] group [of "''ConfigMap.v1''"] group [of "''Deployment.apps/v1''"]
  show ?thesis by (fastforce simp: seaweed_checks_def)
qed

text \<open>
  C33. The loop settles on the objects, but never reports the profile ready. Once the cluster
  holds exactly the objects of the answer, with a true value for the Secret, the next call
  answers with the same objects and makes no IAM call; its status is \<open>False\<close>, because it
  counts Deployments, Services and istio objects that the script does not ask for.
\<close>

theorem seaweed_settles_unready:
  assumes "parent_name parent = Inr (JStr ns)" and "parent_enabled parent = Inr (JStr ''true'')"
    and "observes observed (desired_seaweed keys (JStr ns)) (map fst seaweed_checks)"
    and "\<And>g. py_item observed ''Secret.v1'' = Inr (JObj g) \<Longrightarrow> \<forall>v \<in> snd ` set g. py_bool v"
  shows "\<exists>printed secret. sync_seaweed iam parent observed w =
      (printed, Inr (seaweed_answer False (seaweed_resources ns (JStr ns) @ [secret])), w) \<and>
    bindE (py_item observed ''Secret.v1'') (\<lambda>g. py_item g (ns @ ''/'' @ secret_name)) = Inr secret"
proof -
  have "''Secret.v1'' \<in> set (map fst seaweed_checks)" by (simp add: seaweed_checks_def)
  then obtain g where g: "py_item observed ''Secret.v1'' = Inr (JObj g)"
      "Some ` set (map fst g) = child_key ` set (in_group ''Secret.v1'' (desired_seaweed keys (JStr ns)))"
    using assms(3) by (auto simp: observes_def)
  have "in_group ''Secret.v1'' (desired_seaweed keys (JStr ns)) =
      [seaweed_secret (JStr ns) (fst keys) (snd keys)]"
    by (simp add: desired_seaweed_def seaweed_resources_def in_group_simps)
  moreover have "child_key (seaweed_secret (JStr ns) (fst keys) (snd keys)) = Some (ns @ ''/'' @ secret_name)"
    by (simp add: child_key_def)
  moreover define key where "key = ns @ ''/'' @ secret_name"
  ultimately have "Some ` set (map fst g) = {Some key}" using g(2) by simp
  then have "key \<in> set (map fst g)" by blast
  then obtain secret where found: "map_of g key = Some secret"
    by (cases "map_of g key") (simp_all add: map_of_eq_None_iff)
  then have "(key, secret) \<in> set g" by (rule map_of_SomeD)
  then have "py_bool secret" using assms(4) [OF g(1)] by force
  moreover have get: "py_get (JObj g) key JNull = Inr secret" and "py_item (JObj g) key = Inr secret"
    by (simp_all add: found)
  ultimately show ?thesis
    using attach_existing [OF g(1) get [unfolded key_def], of iam "JStr ns" False w]
    unfolding sync_seaweed_enabled [OF assms(1,2) seaweed_counts [OF assms(3)]] g(1) key_def
    by (simp only: bindE_Inr split prod.inject simp_thms) blast
qed

theorem seaweed_settles_unready_witness:
  "\<exists>printed secret. sync_seaweed sample_iam sample_parent
      (observation (desired_seaweed (''a'', ''b'') (JStr ''alice'')) (map fst seaweed_checks)) [] =
    (printed, Inr (seaweed_answer False (seaweed_resources ''alice'' (JStr ''alice'') @ [secret])), [])"
proof -
  let ?o = "observation (desired_seaweed (''a'', ''b'') (JStr ''alice'')) (map fst seaweed_checks)"
  have "py_item ?o ''Secret.v1'' =
      Inr (JObj (map (\<lambda>r. (the (child_key r), r)) (in_group ''Secret.v1'' (desired_seaweed (''a'', ''b'') (JStr ''alice'')))))"
    unfolding observation_def by (rule py_item_map) (simp add: seaweed_checks_def)
  also have "in_group ''Secret.v1'' (desired_seaweed (''a'', ''b'') (JStr ''alice'')) =
      [seaweed_secret (JStr ''alice'') ''a'' ''b'']"
    by (simp add: desired_seaweed_def seaweed_resources_def in_group_simps)
  finally have secrets: "\<forall>v \<in> snd ` set g. py_bool v" if "py_item ?o ''Secret.v1'' = Inr (JObj g)" for g
    using that by (auto simp: seaweed_secret_def)
  have "\<exists>printed secret. sync_seaweed sample_iam sample_parent ?o [] =
      (printed, Inr (seaweed_answer False (seaweed_resources ''alice'' (JStr ''alice'') @ [secret])), []) \<and>
    bindE (py_item ?o ''Secret.v1'') (\<lambda>g. py_item g (''alice'' @ ''/'' @ secret_name)) = Inr secret"
    by (rule seaweed_settles_unready [OF sample_parent_name sample_parent_enabled
        seaweed_ctl.observes_observation]) (rule secrets)
  then show ?thesis by blast
qed

section \<open>The log\<close>

text \<open>
  What the controller prints does not depend on the IAM interface: two requests with the same
  content print the same lines whatever keys the stores create, and even when one of them
  refuses.
\<close>

lemma seaweed_log_independent:
  "fst (do_POST_seaweed iam req w) = fst (do_POST_seaweed iam' req w')"
proof -
  have "fst (attach_secret iam nss ns c ready w) = fst (attach_secret iam' nss ns c ready w')" for nss ns c ready
    by (simp add: attach_secret_def split: sum.split prod.split)
  then have "fst (sync_seaweed iam p c w) = fst (sync_seaweed iam' p c w')" for p c
    by (simp add: sync_seaweed_def split_beta split: sum.split)
  then show ?thesis by (simp add: do_POST_seaweed_def split_beta split: sum.split)
qed

end
