(* ===== verification/SeaweedPolicy.thy ===== *)
theory SeaweedPolicy
  imports SeaweedProps Wiring
begin

text \<open>
  What the policy \<open>sync_seaweed.py\<close> puts for a profile lets it reach. The policy is read back
  from the document the script sends, as the store reads it: the resources of the statements
  that allow, matched against the resource name with \<open>*\<close> for any characters and \<open>?\<close> for one.
\<close>

section \<open>Policies\<close>

fun glob :: "string \<Rightarrow> string \<Rightarrow> bool" where
  "glob [] s = (s = [])"
| "glob (p # ps) [] = (p = CHR ''*'' \<and> glob ps [])"
| "glob (p # ps) (c # cs) =
     (if p = CHR ''*'' then glob ps (c # cs) \<or> glob (p # ps) cs
      else (p = CHR ''?'' \<or> p = c) \<and> glob ps cs)"

definition str_items :: "json list \<Rightarrow> string list" where
  "str_items xs = concat (map (\<lambda>x. case x of JStr s \<Rightarrow> [s] | _ \<Rightarrow> []) xs)"

definition allowed_resources :: "string \<Rightarrow> string list" where
  "allowed_resources doc =
     (case loads doc of
        Inl _ \<Rightarrow> []
      | Inr v \<Rightarrow> concat (map (\<lambda>st.
          if str_at st [Key ''Effect''] = Some ''Allow'' then str_items (list_at st [''Resource'']) else [])
          (list_at v [''Statement''])))"

definition policy_allows :: "string \<Rightarrow> string \<Rightarrow> bool" where
  "policy_allows doc object_path \<longleftrightarrow>
     (\<exists>p \<in> set (allowed_resources doc). glob p (''arn:aws:s3:::'' @ object_path))"

text \<open>The names Kubernetes admits for a namespace.\<close>

definition dns_label :: "string \<Rightarrow> bool" where
  "dns_label s \<longleftrightarrow> s \<noteq> [] \<and>
     (\<forall>c \<in> set s. is_digit c \<or> c = CHR ''-'' \<or> (97 \<le> (of_char c :: nat) \<and> (of_char c :: nat) \<le> 122))"

section \<open>Lemmas\<close>

lemma glob_star: "glob ''*'' s"
  by (induction s) simp_all

lemma glob_plain:
  "\<forall>c \<in> set p. c \<noteq> CHR ''*'' \<and> c \<noteq> CHR ''?'' \<Longrightarrow> glob (p @ ''*'') s \<longleftrightarrow> (\<exists>r. s = p @ r)"
proof (induction p arbitrary: s)
  case Nil
  then show ?case by (simp add: glob_star)
next
  case (Cons c p)
  then show ?case by (cases s) auto
qed

lemma dns_label_chars:
  assumes "dns_label s" and "c \<in> set s"
  shows "ascii_char c" "c \<noteq> CHR ''/''" "c \<noteq> CHR ''*''" "c \<noteq> CHR ''?''"
  using assms by (auto simp: dns_label_def ascii_char_def is_digit_def)

lemma dns_label_ascii: "dns_label s \<Longrightarrow> ascii s"
  by (simp add: ascii_def dns_label_chars)

lemma segment_eq:
  assumes "CHR ''/'' \<notin> set a" and "CHR ''/'' \<notin> set b"
  shows "(\<exists>r. a @ ''/'' @ s = b @ ''/'' @ r) \<longleftrightarrow> a = b"
proof
  assume "\<exists>r. a @ ''/'' @ s = b @ ''/'' @ r"
  then obtain r where "a @ ''/'' @ s = b @ ''/'' @ r" by blast
  then have "takeWhile (\<lambda>c. c \<noteq> CHR ''/'') (a @ ''/'' @ s) = takeWhile (\<lambda>c. c \<noteq> CHR ''/'') (b @ ''/'' @ r)"
    by simp
  moreover have "takeWhile (\<lambda>c. c \<noteq> CHR ''/'') (x @ ''/'' @ y) = x" if "CHR ''/'' \<notin> set x" for x y
    using that by (subst takeWhile_append2) auto
  ultimately show "a = b" using assms by metis
qed blast

lemma allowed_project:
  assumes "dns_label ns"
  shows "allowed_resources (dumps (project_policy ns)) = project_arns ns"
proof -
  have "wf_json (project_policy ns)"
    by (simp add: project_policy_def project_arns_def s3_bucket_name_def dns_label_ascii [OF assms])
  then have "loads (dumps (project_policy ns)) = Inr (project_policy ns)" by (rule json_text.decode_encode)
  moreover have "str_items (map JStr xs) = xs" for xs
    by (simp add: str_items_def comp_def)
  ultimately show ?thesis
    by (simp add: allowed_resources_def project_policy_def list_at_def del: dumps.simps)
qed

lemma policy_allows_project:
  assumes "dns_label ns"
  shows "policy_allows (dumps (project_policy ns)) path \<longleftrightarrow>
    (\<exists>prefix \<in> {''artifacts/'', ''private-artifacts/'' @ ns @ ''/'', ''private/'' @ ns @ ''/'', ''shared/''}.
       \<exists>r. path = ''mlpipeline/'' @ prefix @ r)"
proof -
  have *: "glob (''arn:aws:s3:::mlpipeline/'' @ prefix @ ''*'') (''arn:aws:s3:::'' @ path) \<longleftrightarrow>
      (\<exists>r. path = ''mlpipeline/'' @ prefix @ r)"
    if "\<forall>c \<in> set prefix. c \<noteq> CHR ''*'' \<and> c \<noteq> CHR ''?''" for prefix
    using glob_plain [of "''arn:aws:s3:::mlpipeline/'' @ prefix" "''arn:aws:s3:::'' @ path"] that by simp
  show ?thesis
    unfolding policy_allows_def allowed_project [OF assms] project_arns_def s3_bucket_name_def
    using * [of "''artifacts/''"] * [of "''private-artifacts/'' @ ns @ ''/''"]
      * [of "''private/'' @ ns @ ''/''"] * [of "''shared/''"] dns_label_chars [OF assms]
    by simp
qed

section \<open>Isolation\<close>

text \<open>
  The policy put for a profile reaches the private objects of a profile exactly when it is
  the same profile, for its private artifacts and its private folder alike.
\<close>

lemma policy_isolates:
  assumes "dns_label ns" and "dns_label other"
  shows "(policy_allows (dumps (project_policy ns))
        (''mlpipeline/private-artifacts/'' @ other @ ''/'' @ path) \<longleftrightarrow> other = ns) \<and>
    (policy_allows (dumps (project_policy ns))
        (''mlpipeline/private/'' @ other @ ''/'' @ path) \<longleftrightarrow> other = ns)"
proof -
  have "CHR ''/'' \<notin> set ns" "CHR ''/'' \<notin> set other"
    using dns_label_chars(2) assms by blast+
  from segment_eq [OF this(2,1), of path] show ?thesis
    unfolding policy_allows_project [OF assms(1)] by simp
qed

theorem policy_isolates_witness:
  "policy_allows (dumps (project_policy ''alice'')) ''mlpipeline/private/alice/x'' \<and>
   \<not> policy_allows (dumps (project_policy ''alice'')) ''mlpipeline/private/alice-2/x''"
proof -
  have labels: "dns_label ''alice''" "dns_label ''alice-2''"
    by (simp_all add: dns_label_def is_digit_def)
  show ?thesis
    using policy_isolates [OF labels(1,1), of "''x''"] policy_isolates [OF labels, of "''x''"] by simp
qed

text \<open>
  The places the script tells the pipelines to write to lie inside what its policy allows:
  everything under the default pipeline root, and every key the workflows' key format can give
  after its template is filled in, for the template starts with the profile's own prefix.
\<close>

lemma policy_covers_artifacts:
  assumes "dns_label ns"
  shows "(\<exists>pipeline_root. artifact_root ns = ''minio://'' @ pipeline_root \<and>
      (\<forall>path. policy_allows (dumps (project_policy ns)) (pipeline_root @ ''/'' @ path))) \<and>
    (\<exists>fill. key_format ns = ''private-artifacts/'' @ ns @ ''/'' @ fill \<and>
      (\<forall>filled. policy_allows (dumps (project_policy ns))
        (s3_bucket_name @ ''/private-artifacts/'' @ ns @ ''/'' @ filled)))"
proof -
  have "policy_allows (dumps (project_policy ns)) (''mlpipeline/private-artifacts/'' @ ns @ ''/'' @ p)" for p
    unfolding policy_allows_project [OF assms] by simp
  from this [of "''v2/artifacts/'' @ _"] this show ?thesis
    by (auto simp: artifact_root_def key_format_def s3_bucket_name_def)
qed

theorem policy_covers_artifacts_witness:
  "policy_allows (dumps (project_policy ''alice'')) ''mlpipeline/private-artifacts/alice/v2/artifacts/run1''"
proof -
  have "dns_label ''alice''" by (simp add: dns_label_def is_digit_def)
  then obtain pipeline_root where "artifact_root ''alice'' = ''minio://'' @ pipeline_root"
      "policy_allows (dumps (project_policy ''alice'')) (pipeline_root @ ''/'' @ ''run1'')"
    using policy_covers_artifacts by blast
  moreover from this(1) have "pipeline_root = ''mlpipeline/private-artifacts/alice/v2/artifacts''"
    by (simp add: artifact_root_def s3_bucket_name_def)
  ultimately show ?thesis by simp
qed

end
