(* ===== verification/KfpConfig.thy ===== *)
theory KfpConfig
  imports PyJson
begin

text \<open>
  How the pipelines client finds its server and its token: \<open>_credentials.py\<close> and the
  configuration part of \<open>_client.py\<close> (both under \<open>examples/pipeline_notebook\<close>). The generated
  \<open>kfp_server_api\<close>, the Google authentication helpers and the Kubernetes client are
  parameters. Text files are taken to be ASCII where \<open>strip\<close> is applied to their content.
\<close>

section \<open>\<open>_credentials.py\<close>\<close>

type_synonym token_source = "files \<Rightarrow> pyexn + string"

record api_config =
  cfg_host :: string
  api_key :: "string option"
  api_key_prefix :: "string option"
  cfg_proxy :: "string option"
  cfg_ssl_ca_cert :: "string option"
  refresh_hook :: "token_source option"

definition ml_pipeline_sa_token_path :: string where
  "ml_pipeline_sa_token_path = ''/var/run/secrets/ml-pipeline/token''"

definition read_sa_token :: "files \<Rightarrow> string \<Rightarrow> pyexn + string" where
  "read_sa_token fs path = bindE (read_file fs path) (\<lambda>s. Inr (strip s))"

text \<open>The path a \<open>ServiceAccountTokenVolumeCredentials\<close> object keeps, and its \<open>get_token\<close>.\<close>

definition token_path :: "environ \<Rightarrow> string option \<Rightarrow> string" where
  "token_path env path =
     str_or path (str_or (env ''ML_PIPELINE_SA_TOKEN_PATH'') ml_pipeline_sa_token_path)"

definition sa_token :: "environ \<Rightarrow> string option \<Rightarrow> token_source" where
  "sa_token env path fs = read_sa_token fs (token_path env path)"

text \<open>\<open>refresh_api_key_hook\<close>: run by the generated client before a request.\<close>

definition refresh_api_key_hook :: "token_source \<Rightarrow> files \<Rightarrow> api_config \<Rightarrow> pyexn + api_config" where
  "refresh_api_key_hook source fs cfg = bindE (source fs) (\<lambda>t. Inr (cfg\<lparr>api_key := Some t\<rparr>))"

section \<open>The host\<close>

definition rstrip_slash :: "string \<Rightarrow> string" where
  "rstrip_slash s = rev (dropWhile (\<lambda>c. c = CHR ''/'') (rev s))"

text \<open>White space as Python's \<open>re\<close> sees it, on code points.\<close>

definition space_cp :: "nat \<Rightarrow> bool" where
  "space_cp n \<longleftrightarrow>
     9 \<le> n \<and> n \<le> 13 \<or> 28 \<le> n \<and> n \<le> 32 \<or> n = 0x85 \<or> n = 0xA0 \<or> n = 0x1680 \<or>
     0x2000 \<le> n \<and> n \<le> 0x200A \<or> n = 0x2028 \<or> n = 0x2029 \<or> n = 0x202F \<or> n = 0x205F \<or> n = 0x3000"

text \<open>
  The regular expression \<open>\S+.googleusercontent.com/{0,1}$\<close> from the start of the text: both
  dots stand for any character but a newline, and \<open>$\<close> also matches before a final newline.
\<close>

definition proxy_core :: "nat list \<Rightarrow> bool" where
  "proxy_core s \<longleftrightarrow>
     23 \<le> length s \<and>
     drop (length s - 3) s = map of_char ''com'' \<and>
     s ! (length s - 4) \<noteq> 10 \<and>
     take 17 (drop (length s - 21) s) = map of_char ''googleusercontent'' \<and>
     s ! (length s - 22) \<noteq> 10 \<and>
     (\<forall>c \<in> set (take (length s - 22) s). \<not> space_cp c)"

definition drop_last :: "nat \<Rightarrow> nat list \<Rightarrow> nat list list" where
  "drop_last c s = (if s \<noteq> [] \<and> last s = c then [s, butlast s] else [s])"

definition proxy_match :: "nat list \<Rightarrow> bool" where
  "proxy_match s = (\<exists>t \<in> set (drop_last 10 s). \<exists>u \<in> set (drop_last 47 t). proxy_core u)"

text \<open>
  The second test of \<open>_is_inverse_proxy_host\<close> is reached with an empty host only, which
  matches no word character.
\<close>

definition is_inverse_proxy_host :: "string \<Rightarrow> bool" where
  "is_inverse_proxy_host host = (host \<noteq> [] \<and> proxy_match (utf8_decode host))"

definition get_url_prefix :: "string option \<Rightarrow> string" where
  "get_url_prefix uihost =
     (if truthy uihost
      then (if starts_with (the uihost) ''http://'' \<or> starts_with (the uihost) ''https://''
            then the uihost else ''http://'' @ the uihost)
      else ''/pipeline'')"

section \<open>\<open>_load_config\<close>\<close>

record load_args =
  la_host :: "string option"
  la_client_id :: "string option"
  la_namespace :: string
  la_other_client_id :: "string option"
  la_other_client_secret :: "string option"
  la_existing_token :: "string option"
  la_proxy :: "string option"
  la_ssl_ca_cert :: "string option"
  la_kube_context :: "string option"
  la_credentials :: "token_source option"

text \<open>
  What the function gets from other packages: the default configuration of the generated
  client, the two token helpers, whether an in-cluster configuration loads, and the loading of
  a kubeconfig into the configuration (whether it succeeded, and the configuration after it).
\<close>

record services =
  default_config :: api_config
  get_auth_token :: "string \<Rightarrow> string option \<Rightarrow> string option \<Rightarrow> pyexn + string"
  get_gcp_access_token :: "pyexn + string"
  incluster :: bool
  load_kube_config :: "api_config \<Rightarrow> string option \<Rightarrow> bool \<times> api_config"

datatype printed = CredentialsRepr | PrintedText string

definition in_cluster_dns_name :: "string \<Rightarrow> string" where
  "in_cluster_dns_name ns = ''ml-pipeline.'' @ ns @ ''.svc.cluster.local:8888''"

definition kube_proxy_path :: "string \<Rightarrow> string" where
  "kube_proxy_path ns = ''api/v1/namespaces/'' @ ns @ ''/services/ml-pipeline:http/proxy/''"

definition client_host :: "load_args \<Rightarrow> string" where
  "client_host a =
     (let h = str_or (la_host a) '''' in if truthy (la_client_id a) then h else rstrip_slash h)"

definition base_config :: "services \<Rightarrow> load_args \<Rightarrow> api_config" where
  "base_config svc a =
     (let cfg = default_config svc;
          cfg = (if truthy (la_proxy a) then cfg\<lparr>cfg_proxy := la_proxy a\<rparr> else cfg);
          cfg = (if truthy (la_ssl_ca_cert a) then cfg\<lparr>cfg_ssl_ca_cert := la_ssl_ca_cert a\<rparr> else cfg)
      in if client_host a \<noteq> [] then cfg\<lparr>cfg_host := client_host a\<rparr> else cfg)"

text \<open>The token, what \<open>_is_refresh_token\<close> is set to, and the refresh hook that is registered.\<close>

definition choose_token ::
  "services \<Rightarrow> files \<Rightarrow> load_args \<Rightarrow> pyexn + string option \<times> bool option \<times> token_source option" where
  "choose_token svc fs a =
     (if truthy (la_existing_token a) then Inr (la_existing_token a, Some False, None)
      else if truthy (la_client_id a) then
        bindE (get_auth_token svc (the (la_client_id a)) (la_other_client_id a) (la_other_client_secret a))
          (\<lambda>t. Inr (Some t, Some True, None))
      else if is_inverse_proxy_host (client_host a) then
        bindE (get_gcp_access_token svc) (\<lambda>t. Inr (Some t, Some False, None))
      else (case la_credentials a of
          None \<Rightarrow> Inr (None, None, None)
        | Some source \<Rightarrow> bindE (source fs) (\<lambda>t. Inr (Some t, None, Some source))))"

definition authorize :: "string \<Rightarrow> api_config \<Rightarrow> api_config" where
  "authorize t cfg = cfg\<lparr>api_key := Some t, api_key_prefix := Some ''Bearer''\<rparr>"

definition in_cluster_config :: "environ \<Rightarrow> files \<Rightarrow> string \<Rightarrow> api_config \<Rightarrow> printed list \<times> api_config" where
  "in_cluster_config env fs ns cfg =
     (let cfg = cfg\<lparr>cfg_host := in_cluster_dns_name ns\<rparr>
      in case sa_token env None fs of
           Inl _ \<Rightarrow> ([CredentialsRepr], cfg)
         | Inr t \<Rightarrow> ([CredentialsRepr, PrintedText t],
                     authorize t (cfg\<lparr>refresh_hook := Some (sa_token env None)\<rparr>)))"

definition kubeconfig_config :: "services \<Rightarrow> load_args \<Rightarrow> api_config \<Rightarrow> printed list \<times> api_config" where
  "kubeconfig_config svc a cfg =
     (case load_kube_config svc cfg (la_kube_context a) of
        (False, cfg') \<Rightarrow> ([PrintedText ''Failed to load kube config.''], cfg')
      | (True, cfg') \<Rightarrow>
          ([], if cfg_host cfg' \<noteq> []
               then cfg'\<lparr>cfg_host := cfg_host cfg' @ ''/'' @ kube_proxy_path (la_namespace a)\<rparr> else cfg'))"

definition load_config ::
  "services \<Rightarrow> environ \<Rightarrow> files \<Rightarrow> load_args \<Rightarrow> printed list \<times> (pyexn + api_config \<times> bool option)" where
  "load_config svc env fs a =
     (case choose_token svc fs a of
        Inl e \<Rightarrow> ([], Inl e)
      | Inr (token, refresh, hook) \<Rightarrow>
          (let cfg = base_config svc a;
               cfg = (case hook of None \<Rightarrow> cfg | Some h \<Rightarrow> cfg\<lparr>refresh_hook := Some h\<rparr>)
           in if truthy token then ([], Inr (authorize (the token) cfg, refresh))
              else if client_host a \<noteq> [] then ([], Inr (cfg, refresh))
              else
                (let (out, cfg) = (if incluster svc then in_cluster_config env fs (la_namespace a) cfg
                                   else kubeconfig_config svc a cfg)
                 in (out, Inr (cfg, refresh)))))"

end
