(* ===== verification/KfpClient.thy ===== *)
theory KfpClient
  imports KfpConfig
begin

text \<open>
  The \<open>Client\<close> class of \<open>examples/pipeline_notebook/_client.py\<close>. The services of the generated
  \<open>kfp_server_api\<close>, the clock and the notebook display are functions on an abstract world,
  collected in one record. A method whose loop may run for ever gives an option: \<open>None\<close> when
  it does not return. Logging is left out; times are in microseconds.
\<close>

section \<open>The services\<close>

datatype resource_type = NAMESPACE | EXPERIMENT | PIPELINE | PIPELINE_VERSION
datatype relationship = OWNER | CREATOR

record reference =
  ref_id :: json
  ref_type :: resource_type
  ref_relationship :: relationship

record kfp_experiment =
  exp_id :: string
  exp_name :: string

record experiment_page =
  experiments :: "kfp_experiment list option"
  next_page_token :: "string option"

record experiment_body =
  body_name :: string
  body_description :: "string option"
  body_references :: "reference list"

record pipeline_spec =
  spec_pipeline_id :: "string option"
  workflow_manifest :: "string option"
  spec_parameters :: "(string \<times> string) list"

datatype trigger =
    Periodic "string option" "string option" int
  | Cron "string option" "string option" string

record run_body =
  run_spec :: pipeline_spec
  run_references :: "reference list"
  run_name :: string

record job_body =
  job_enabled :: bool
  job_spec :: pipeline_spec
  job_references :: "reference list"
  job_name :: string
  job_description :: "string option"
  job_no_catchup :: "bool option"
  job_trigger :: trigger
  job_max_concurrency :: int

record run_info =
  run_id :: string
  run_status :: "string option"

text \<open>A query over runs or recurring runs: page token, page size, order, and the owner asked for.\<close>

type_synonym list_query = "string \<times> nat \<times> string \<times> (resource_type \<times> json) option"

record 'w api =
  healthz :: "('w, bool option) step_on"
  list_experiment_api :: "string \<Rightarrow> nat \<Rightarrow> string \<Rightarrow> json \<Rightarrow> ('w, experiment_page) step_on"
  get_experiment_api :: "string \<Rightarrow> ('w, kfp_experiment) step_on"
  create_experiment_api :: "experiment_body \<Rightarrow> ('w, kfp_experiment) step_on"
  list_pipelines_api :: "string \<Rightarrow> ('w, string list option) step_on"
  create_run_api :: "run_body \<Rightarrow> ('w, run_info) step_on"
  create_job_api :: "job_body \<Rightarrow> ('w, json) step_on"
  get_run_api :: "string \<Rightarrow> ('w, run_info) step_on"
  list_runs_api :: "list_query \<Rightarrow> ('w, json) step_on"
  list_jobs_api :: "list_query \<Rightarrow> ('w, json) step_on"
  upload_version_api :: "string \<Rightarrow> string \<Rightarrow> string option \<Rightarrow> ('w, string) step_on"
  gcp_access_token :: "('w, string) step_on"
  clock :: "'w \<Rightarrow> int \<times> 'w"
  pause :: "int \<Rightarrow> 'w \<Rightarrow> 'w"
  timestamp :: "'w \<Rightarrow> string \<times> 'w"
  ipython :: "bool option"
  show_html :: "string \<Rightarrow> 'w \<Rightarrow> 'w"

section \<open>The context file\<close>

definition local_kfp_context :: "string \<Rightarrow> string" where
  "local_kfp_context home = home @ ''/.config/kfp/context.json''"

definition namespace_path :: string where
  "namespace_path = ''/var/run/secrets/kubernetes.io/serviceaccount/namespace''"

definition load_context_setting_or_default :: "string \<Rightarrow> files \<Rightarrow> pyexn + json" where
  "load_context_setting_or_default home fs =
     (case fs (local_kfp_context home) of
        Some text \<Rightarrow> loads text
      | None \<Rightarrow> Inr (JObj [(''namespace'', JStr '''')]))"

text \<open>The new setting, and the files with it written down.\<close>

definition set_user_namespace :: "string \<Rightarrow> json \<Rightarrow> string \<Rightarrow> files \<Rightarrow> pyexn + json \<times> files" where
  "set_user_namespace home ctx ns fs =
     bindE (set_item ctx ''namespace'' (JStr ns)) (\<lambda>ctx'.
     Inr (ctx', fs(local_kfp_context home \<mapsto> dumps ctx')))"

definition get_user_namespace :: "json \<Rightarrow> pyexn + json" where
  "get_user_namespace ctx = py_item ctx ''namespace''"

text \<open>\<open>namespace or self.get_user_namespace()\<close>.\<close>

definition resolve_namespace :: "json \<Rightarrow> json \<Rightarrow> pyexn + json" where
  "resolve_namespace ctx ns = (if py_bool ns then Inr ns else get_user_namespace ctx)"

section \<open>Health\<close>

text \<open>
  The loop of \<open>get_kfp_healthz\<close> with \<open>n\<close> attempts left; only an \<open>ApiException\<close> is tried again,
  after five seconds.
\<close>

fun healthz_attempts :: "'w api \<Rightarrow> nat \<Rightarrow> ('w, bool option) step_on" where
  "healthz_attempts api 0 w = (Inl (TimeoutError ''Failed getting healthz endpoint after 5 attempts.''), w)"
| "healthz_attempts api (Suc n) w =
     (case healthz api w of
        (Inr response, w') \<Rightarrow> (Inr response, w')
      | (Inl (ApiException m), w') \<Rightarrow> healthz_attempts api n (pause api 5000000 w')
      | (Inl e, w') \<Rightarrow> (Inl e, w'))"

definition get_kfp_healthz :: "'w api \<Rightarrow> ('w, bool option) step_on" where
  "get_kfp_healthz api = healthz_attempts api 5"

text \<open>
  The end of \<open>__init__\<close>: without a namespace in the context and on a multi-user deployment, the
  namespace of the pod becomes the user's.
\<close>

definition init_namespace :: "'w api \<Rightarrow> string \<Rightarrow> json \<Rightarrow> files \<Rightarrow> ('w, json \<times> files) step_on" where
  "init_namespace api home ctx fs =
     bindS (lift (get_user_namespace ctx)) (\<lambda>ns.
       if py_bool ns then returnS (ctx, fs)
       else bindS (get_kfp_healthz api) (\<lambda>multi_user.
         if multi_user = Some True
         then (case fs namespace_path of
                 None \<Rightarrow> returnS (ctx, fs)
               | Some current \<Rightarrow> lift (set_user_namespace home ctx current fs))
         else returnS (ctx, fs)))"

section \<open>Experiments\<close>

definition list_experiments ::
  "'w api \<Rightarrow> json \<Rightarrow> string \<Rightarrow> nat \<Rightarrow> string \<Rightarrow> json \<Rightarrow> ('w, experiment_page) step_on" where
  "list_experiments api ctx page_token page_size sort_by ns =
     bindS (lift (resolve_namespace ctx ns)) (\<lambda>ns'. list_experiment_api api page_token page_size sort_by ns')"

definition no_experiment :: string where
  "no_experiment = ''No experiment is found with name''"

text \<open>The loop of \<open>get_experiment\<close>: \<open>token\<close> is the next page to ask for.\<close>

partial_function (option) find_experiment ::
  "'w api \<Rightarrow> json \<Rightarrow> string \<Rightarrow> json \<Rightarrow> string option \<Rightarrow> 'w \<Rightarrow> ((pyexn + kfp_experiment) \<times> 'w) option" where
  "find_experiment api ctx name ns token w =
     (case token of
        None \<Rightarrow> Some (Inl (ValueError (no_experiment @ '' '' @ name @ ''.'')), w)
      | Some t \<Rightarrow>
          (case list_experiments api ctx t 100 '''' ns w of
             (Inl e, w') \<Rightarrow> Some (Inl e, w')
           | (Inr page, w') \<Rightarrow>
               (case List.find (\<lambda>x. exp_name x = name)
                       (case experiments page of None \<Rightarrow> [] | Some xs \<Rightarrow> xs) of
                  Some x \<Rightarrow> Some (get_experiment_api api (exp_id x) w')
                | None \<Rightarrow> find_experiment api ctx name ns (next_page_token page) w')))"

definition get_experiment ::
  "'w api \<Rightarrow> json \<Rightarrow> string option \<Rightarrow> string option \<Rightarrow> json \<Rightarrow> 'w \<Rightarrow> ((pyexn + kfp_experiment) \<times> 'w) option" where
  "get_experiment api ctx eid name ns w =
     (case resolve_namespace ctx ns of
        Inl e \<Rightarrow> Some (Inl e, w)
      | Inr ns' \<Rightarrow>
          (case (eid, name) of
             (None, None) \<Rightarrow>
               Some (Inl (ValueError ''Either experiment_id or experiment_name is required''), w)
           | (Some i, _) \<Rightarrow> Some (get_experiment_api api i w)
           | (None, Some n) \<Rightarrow> find_experiment api ctx n ns' (Some '''') w))"

text \<open>
  \<open>_is_ipython\<close>: the package IPython can be missing, and outside of a shell it gives \<open>None\<close>; \<open>ipython\<close> is \<open>None\<close> in
  the first case, and otherwise whether there is a shell.
\<close>

definition is_ipython :: "'w api \<Rightarrow> bool" where
  "is_ipython api = (case ipython api of None \<Rightarrow> False | Some shell \<Rightarrow> if \<not> shell then False else True)"

definition display_link :: "'w api \<Rightarrow> string \<Rightarrow> 'w \<Rightarrow> 'w" where
  "display_link api html w = (if is_ipython api then show_html api html w else w)"

definition experiment_html :: "string option \<Rightarrow> string \<Rightarrow> string" where
  "experiment_html uihost i =
     ''<a href='' @ [CHR 0x22] @ get_url_prefix uihost @ ''/#/experiments/details/'' @ i @ [CHR 0x22] @
     '' target='' @ [CHR 0x22] @ ''_blank'' @ [CHR 0x22] @ '' >Experiment details</a>.''"

definition namespace_references :: "json \<Rightarrow> reference list" where
  "namespace_references ns =
     (if py_bool ns then [\<lparr>ref_id = ns, ref_type = NAMESPACE, ref_relationship = OWNER\<rparr>] else [])"

definition create_experiment ::
  "'w api \<Rightarrow> string option \<Rightarrow> json \<Rightarrow> string \<Rightarrow> string option \<Rightarrow> json \<Rightarrow> 'w
     \<Rightarrow> ((pyexn + kfp_experiment) \<times> 'w) option" where
  "create_experiment api uihost ctx name description ns w =
     (case resolve_namespace ctx ns of
        Inl e \<Rightarrow> Some (Inl e, w)
      | Inr ns' \<Rightarrow>
          (case get_experiment api ctx None (Some name) ns' w of
             None \<Rightarrow> None
           | Some (found, w1) \<Rightarrow>
               (let missing = (case found of Inl (ValueError m) \<Rightarrow> starts_with m no_experiment | _ \<Rightarrow> False);
                    (result, w2) =
                      (if missing
                       then create_experiment_api api
                              \<lparr>body_name = name, body_description = description,
                               body_references = namespace_references ns'\<rparr> w1
                       else (found, w1))
                in Some (result,
                     (case result of Inl e \<Rightarrow> w2
                      | Inr x \<Rightarrow> display_link api (experiment_html uihost (exp_id x)) w2)))))"

end
