(* ===== verification/KfpRuns.thy ===== *)
theory KfpRuns
  imports KfpClient
begin

text \<open>
  Pipelines, packages, runs and recurring runs: the rest of the \<open>Client\<close> class of \<open>_client.py\<close>.
  Opening an archive, reading YAML and \<open>sanitize_k8s_name\<close> belong to other packages and are
  parameters.
\<close>

section \<open>Pipelines\<close>

definition filter_operations :: "(string \<times> int) list" where
  "filter_operations = [(''UNKNOWN'', 0), (''EQUALS'', 1), (''NOT_EQUALS'', 2), (''GREATER_THAN'', 3),
     (''GREATER_THAN_EQUALS'', 5), (''LESS_THAN'', 6), (''LESS_THAN_EQUALS'', 7)]"

definition pipeline_filter :: "string \<Rightarrow> string" where
  "pipeline_filter name =
     dumps (JObj [(''predicates'', JList [
       JObj [(''op'', JInt (the (map_of filter_operations ''EQUALS''))), (''key'', JStr ''name''), (''stringValue'', JStr name)]])])"

definition get_pipeline_id :: "'w api \<Rightarrow> string \<Rightarrow> ('w, string option) step_on" where
  "get_pipeline_id api name =
     bindS (list_pipelines_api api (pipeline_filter name)) (\<lambda>pipelines.
       case pipelines of
         None \<Rightarrow> returnS None
       | Some [] \<Rightarrow> returnS None
       | Some [i] \<Rightarrow> returnS (Some i)
       | Some _ \<Rightarrow> raiseS (ValueError (''Multiple pipelines with the name: '' @ name @
                     '' found, the name needs to be unique'')))"

definition pipeline_html :: "string option \<Rightarrow> string \<Rightarrow> string" where
  "pipeline_html uihost i =
     ''<a href='' @ get_url_prefix uihost @ ''/#/pipelines/details/'' @ i @ ''>Pipeline details</a>.''"

definition upload_pipeline_version ::
  "'w api \<Rightarrow> string option \<Rightarrow> string \<Rightarrow> string \<Rightarrow> string option \<Rightarrow> string option \<Rightarrow> ('w, string) step_on" where
  "upload_pipeline_version api uihost path version_name pipeline_id pipeline_name =
     (if truthy pipeline_id = truthy pipeline_name
      then raiseS (ValueError ''Either pipeline_id or pipeline_name is required'')
      else
        bindS (if truthy pipeline_name then get_pipeline_id api (the pipeline_name) else returnS pipeline_id)
          (\<lambda>i. bindS (upload_version_api api path version_name i) (\<lambda>response w.
             (Inr response, display_link api (pipeline_html uihost response) w))))"

section \<open>Packages\<close>

definition choose_pipeline_yaml_file :: "string list \<Rightarrow> pyexn + string" where
  "choose_pipeline_yaml_file file_list =
     (let yaml_files = List.filter (\<lambda>f. ends_with f ''.yaml'') file_list
      in if yaml_files = [] then
           Inl (ValueError ''Invalid package. Missing pipeline yaml file in the package.'')
         else if ''pipeline.yaml'' \<in> set yaml_files then Inr ''pipeline.yaml''
         else if length yaml_files = 1 then Inr (hd yaml_files)
         else Inl (ValueError ''Invalid package. There is no pipeline.yaml file and there are multiple yaml files.''))"

text \<open>
  The regular members of a gzipped tar file, the names in a zip file, and the YAML value of a
  member or of a plain file.
\<close>

record packages =
  tar_members :: "string \<Rightarrow> pyexn + string list"
  tar_yaml :: "string \<Rightarrow> string \<Rightarrow> pyexn + json"
  zip_names :: "string \<Rightarrow> pyexn + string list"
  zip_yaml :: "string \<Rightarrow> string \<Rightarrow> pyexn + json"
  file_yaml :: "string \<Rightarrow> pyexn + json"
  sanitize_k8s_name :: "string \<Rightarrow> string"

definition extract_pipeline_yaml :: "packages \<Rightarrow> string \<Rightarrow> pyexn + json" where
  "extract_pipeline_yaml pk file =
     (if ends_with file ''.tar.gz'' \<or> ends_with file ''.tgz'' then
        bindE (tar_members pk file) (\<lambda>names.
        bindE (choose_pipeline_yaml_file names) (tar_yaml pk file))
      else if ends_with file ''.zip'' then
        bindE (zip_names pk file) (\<lambda>names.
        bindE (choose_pipeline_yaml_file names) (zip_yaml pk file))
      else if ends_with file ''.yaml'' \<or> ends_with file ''.yml'' then file_yaml pk file
      else Inl (ValueError (''The package_file '' @ file @
             '' should end with one of the following formats: [.tar.gz, .tgz, .zip, .yaml, .yml]'')))"

section \<open>Runs\<close>

definition create_job_config ::
  "packages \<Rightarrow> string \<Rightarrow> (string \<times> json) list \<Rightarrow> string option \<Rightarrow> string option \<Rightarrow> string option
     \<Rightarrow> pyexn + pipeline_spec \<times> reference list" where
  "create_job_config pk experiment_id params package_path pipeline_id version_id =
     bindE (if truthy package_path
            then bindE (extract_pipeline_yaml pk (the package_path)) (\<lambda>obj. Inr (Some (dumps obj)))
            else Inr None) (\<lambda>manifest.
     Inr (\<lparr>spec_pipeline_id = pipeline_id, workflow_manifest = manifest,
           spec_parameters = map (\<lambda>(k, v). (sanitize_k8s_name pk k, py_format v)) params\<rparr>,
          \<lparr>ref_id = JStr experiment_id, ref_type = EXPERIMENT, ref_relationship = OWNER\<rparr> #
          (if truthy version_id
           then [\<lparr>ref_id = JStr (the version_id), ref_type = PIPELINE_VERSION, ref_relationship = CREATOR\<rparr>]
           else [])))"

definition run_html :: "string option \<Rightarrow> string \<Rightarrow> string" where
  "run_html uihost i =
     ''<a href='' @ [CHR 0x22] @ get_url_prefix uihost @ ''/#/runs/details/'' @ i @ [CHR 0x22] @
     '' target='' @ [CHR 0x22] @ ''_blank'' @ [CHR 0x22] @ '' >Run details</a>.''"

definition run_pipeline ::
  "'w api \<Rightarrow> packages \<Rightarrow> string option \<Rightarrow> string \<Rightarrow> string \<Rightarrow> string option \<Rightarrow> (string \<times> json) list
     \<Rightarrow> string option \<Rightarrow> string option \<Rightarrow> ('w, run_info) step_on" where
  "run_pipeline api pk uihost experiment_id name package_path params pipeline_id version_id =
     bindS (lift (create_job_config pk experiment_id params package_path pipeline_id version_id)) (\<lambda>(spec, refs).
     bindS (create_run_api api \<lparr>run_spec = spec, run_references = refs, run_name = name\<rparr>) (\<lambda>run w.
       (Inr run, display_link api (run_html uihost (run_id run)) w)))"

text \<open>The schedule of a recurring run: a later assignment replaces an earlier one.\<close>

definition recurring_trigger ::
  "string option \<Rightarrow> string option \<Rightarrow> int option \<Rightarrow> string option \<Rightarrow> pyexn + trigger" where
  "recurring_trigger start_time end_time interval_second cron_expression =
     (let interval = (interval_second \<noteq> None \<and> interval_second \<noteq> Some 0); cron = truthy cron_expression
      in if interval = cron then Inl (ValueError ''Either interval_second or cron_expression is required'')
         else
           (let t = (case interval_second of None \<Rightarrow> None | Some i \<Rightarrow> Some (Periodic start_time end_time i));
                t = (case cron_expression of None \<Rightarrow> t | Some c \<Rightarrow> Some (Cron start_time end_time c))
            in case t of None \<Rightarrow> Inl Unmodelled | Some trigger \<Rightarrow> Inr trigger))"

definition create_recurring_run ::
  "'w api \<Rightarrow> packages \<Rightarrow> string \<Rightarrow> string \<Rightarrow> string option \<Rightarrow> string option \<Rightarrow> string option \<Rightarrow> int option
     \<Rightarrow> string option \<Rightarrow> int \<Rightarrow> bool option \<Rightarrow> (string \<times> json) list \<Rightarrow> string option \<Rightarrow> string option
     \<Rightarrow> string option \<Rightarrow> bool \<Rightarrow> ('w, json) step_on" where
  "create_recurring_run api pk experiment_id name description start_time end_time interval_second
       cron_expression max_concurrency no_catchup params package_path pipeline_id version_id enabled =
     bindS (lift (create_job_config pk experiment_id params package_path pipeline_id version_id)) (\<lambda>(spec, refs).
     bindS (lift (recurring_trigger start_time end_time interval_second cron_expression)) (\<lambda>trigger.
     create_job_api api
       \<lparr>job_enabled = enabled, job_spec = spec, job_references = refs, job_name = name,
        job_description = description, job_no_catchup = no_catchup, job_trigger = trigger,
        job_max_concurrency = max_concurrency\<rparr>))"

text \<open>The name of the experiment a run goes to.\<close>

definition run_experiment_name :: "environ \<Rightarrow> string option \<Rightarrow> string" where
  "run_experiment_name env experiment_name =
     (let chosen = opt_or experiment_name (env ''KF_PIPELINES_DEFAULT_EXPERIMENT_NAME'');
          overridden = (case env ''KF_PIPELINES_OVERRIDE_EXPERIMENT_NAME'' of None \<Rightarrow> chosen | Some v \<Rightarrow> Some v)
      in str_or overridden ''Default'')"

definition create_run_from_pipeline_package ::
  "'w api \<Rightarrow> packages \<Rightarrow> environ \<Rightarrow> string option \<Rightarrow> json \<Rightarrow> string \<Rightarrow> (string \<times> json) list \<Rightarrow> string option
     \<Rightarrow> string option \<Rightarrow> json \<Rightarrow> 'w \<Rightarrow> ((pyexn + run_info) \<times> 'w) option" where
  "create_run_from_pipeline_package api pk env uihost ctx pipeline_file arguments name experiment_name ns w =
     (let (name', w1) =
        (if truthy name then (the name, w)
         else (case timestamp api w of (t, w') \<Rightarrow> (basename pipeline_file @ '' '' @ t, w')))
      in case create_experiment api uihost ctx (run_experiment_name env experiment_name) None ns w1 of
           None \<Rightarrow> None
         | Some (Inl e, w2) \<Rightarrow> Some (Inl e, w2)
         | Some (Inr x, w2) \<Rightarrow>
             Some (run_pipeline api pk uihost (exp_id x) name' (Some pipeline_file) arguments None None w2))"

definition list_runs ::
  "'w api \<Rightarrow> json \<Rightarrow> string \<Rightarrow> nat \<Rightarrow> string \<Rightarrow> string option \<Rightarrow> json \<Rightarrow> ('w, json) step_on" where
  "list_runs api ctx page_token page_size sort_by experiment_id ns =
     bindS (lift (resolve_namespace ctx ns)) (\<lambda>ns'.
       list_runs_api api (page_token, page_size, sort_by,
         (case experiment_id of
            Some i \<Rightarrow> Some (EXPERIMENT, JStr i)
          | None \<Rightarrow> if py_bool ns' then Some (NAMESPACE, ns') else None)))"

definition list_recurring_runs ::
  "'w api \<Rightarrow> string \<Rightarrow> nat \<Rightarrow> string \<Rightarrow> string option \<Rightarrow> ('w, json) step_on" where
  "list_recurring_runs api page_token page_size sort_by experiment_id =
     list_jobs_api api (page_token, page_size, sort_by,
       map_option (\<lambda>i. (EXPERIMENT, JStr i)) experiment_id)"

section \<open>Waiting for a run\<close>

definition lower_char :: "char \<Rightarrow> char" where
  "lower_char c = (if 65 \<le> (of_char c :: nat) \<and> (of_char c :: nat) \<le> 90 then char_of ((of_char c :: nat) + 32) else c)"

definition terminal_status :: "string option \<Rightarrow> bool" where
  "terminal_status st =
     (case st of None \<Rightarrow> False
      | Some s \<Rightarrow> map lower_char s \<in> {''succeeded'', ''failed'', ''skipped'', ''error''})"

definition token_timeout :: int where
  "token_timeout = 55 * 60 * 1000000"

text \<open>\<open>_refresh_api_client_token\<close>: \<open>refresh\<close> is the attribute \<open>_is_refresh_token\<close>, if it was set.\<close>

definition refresh_api_client_token ::
  "'w api \<Rightarrow> bool option \<Rightarrow> api_config \<Rightarrow> ('w, api_config) step_on" where
  "refresh_api_client_token api refresh cfg =
     (if refresh = Some True then returnS cfg
      else bindS (gcp_access_token api) (\<lambda>t. returnS (cfg\<lparr>api_key := Some t\<rparr>)))"

text \<open>The refresh at the head of the loop: the new configuration and the time of the last refresh.\<close>

definition maybe_refresh ::
  "'w api \<Rightarrow> bool option \<Rightarrow> api_config \<Rightarrow> int \<Rightarrow> ('w, api_config \<times> int) step_on" where
  "maybe_refresh api refresh cfg refreshed w =
     (case clock api w of (t, w1) \<Rightarrow>
        if t - refreshed > token_timeout
        then bindS (refresh_api_client_token api refresh cfg) (\<lambda>cfg' w2.
               case clock api w2 of (t', w3) \<Rightarrow> (Inr (cfg', t'), w3)) w1
        else (Inr (cfg, refreshed), w1))"

text \<open>
  One round of the loop after the refresh: the run is read, the time is checked, then the
  method sleeps, also when the run has ended.
\<close>

definition poll_run :: "'w api \<Rightarrow> string \<Rightarrow> int \<Rightarrow> int \<Rightarrow> ('w, run_info) step_on" where
  "poll_run api rid timeout start =
     bindS (get_run_api api rid) (\<lambda>run w.
       case clock api w of (t, w') \<Rightarrow>
         if t - start > timeout then (Inl (TimeoutError ''Run timeout''), w')
         else (Inr run, pause api 5000000 w'))"

partial_function (option) wait_loop ::
  "'w api \<Rightarrow> bool option \<Rightarrow> string \<Rightarrow> int \<Rightarrow> int \<Rightarrow> int \<Rightarrow> api_config \<Rightarrow> 'w
     \<Rightarrow> ((pyexn + run_info) \<times> api_config \<times> 'w) option" where
  "wait_loop api refresh rid timeout start refreshed cfg w =
     (case maybe_refresh api refresh cfg refreshed w of
        (Inl e, w1) \<Rightarrow> Some (Inl e, cfg, w1)
      | (Inr (cfg', refreshed'), w1) \<Rightarrow>
          (case poll_run api rid timeout start w1 of
             (Inl e, w2) \<Rightarrow> Some (Inl e, cfg', w2)
           | (Inr run, w2) \<Rightarrow>
               (if terminal_status (run_status run) then Some (Inr run, cfg', w2)
                else wait_loop api refresh rid timeout start refreshed' cfg' w2)))"

definition wait_for_run_completion ::
  "'w api \<Rightarrow> bool option \<Rightarrow> string \<Rightarrow> int \<Rightarrow> api_config \<Rightarrow> 'w
     \<Rightarrow> ((pyexn + run_info) \<times> api_config \<times> 'w) option" where
  "wait_for_run_completion api refresh rid timeout cfg w =
     (case clock api w of (start, w1) \<Rightarrow>
        (case clock api w1 of (refreshed, w2) \<Rightarrow> wait_loop api refresh rid timeout start refreshed cfg w2))"

text \<open>
  The result of a submission keeps the client and the run. Its own waiting takes no time limit, or a limit
  of zero, for the greatest time difference there is (\<open>datetime.timedelta.max\<close>, whose seconds are rounded
  up as a float); \<open>repr\<close> shows the run.
\<close>

definition timedelta_max :: int where
  "timedelta_max = 86400000000000 * 1000000"

definition result_wait ::
  "'w api \<Rightarrow> bool option \<Rightarrow> run_info \<Rightarrow> int option \<Rightarrow> api_config \<Rightarrow> 'w
     \<Rightarrow> ((pyexn + run_info) \<times> api_config \<times> 'w) option" where
  "result_wait api refresh run timeout =
     wait_for_run_completion api refresh (run_id run)
       (case timeout of None \<Rightarrow> timedelta_max | Some t \<Rightarrow> if t = 0 then timedelta_max else t)"

definition result_repr :: "run_info \<Rightarrow> string" where
  "result_repr run = ''RunPipelineResult(run_id='' @ run_id run @ '')''"

end
