(* ===== verification/KfpProps.thy ===== *)
theory KfpProps
  imports KfpRuns
begin

text \<open>
  The properties of the pipelines client: the lookup of experiments over pages, the waiting
  loop and its termination, retries, schedules, packages, the configuration and the context
  file.
\<close>

section \<open>Looking an experiment up\<close>

text \<open>
  \<open>serves api ns w token xs\<close>: from the page \<open>token\<close> on, the service lists the experiments \<open>xs\<close>
  of the namespace, over finitely many pages and without a change of the world.
\<close>

definition page_items :: "experiment_page \<Rightarrow> kfp_experiment list" where
  "page_items page = (case experiments page of None \<Rightarrow> [] | Some xs \<Rightarrow> xs)"

inductive serves :: "'w api \<Rightarrow> json \<Rightarrow> 'w \<Rightarrow> string option \<Rightarrow> kfp_experiment list \<Rightarrow> bool"
  for api :: "'w api" and ns :: json and w :: 'w where
  serves_end: "serves api ns w None []"
| serves_page: "list_experiment_api api t 100 '''' ns w = (Inr page, w) \<Longrightarrow>
    serves api ns w (next_page_token page) xs \<Longrightarrow>
    serves api ns w (Some t) (page_items page @ xs)"

lemma resolve_again: "resolve_namespace ctx ns = Inr ns' \<Longrightarrow> resolve_namespace ctx ns' = Inr ns'"
  by (auto simp: resolve_namespace_def get_user_namespace_def split: if_splits)

lemma list_experiments_resolved:
  "resolve_namespace ctx ns = Inr ns \<Longrightarrow>
   list_experiments api ctx t n s ns w = list_experiment_api api t n s ns w"
  by (simp add: list_experiments_def lift_def bindS_def)

definition missing_error :: "string \<Rightarrow> pyexn" where
  "missing_error name = ValueError (no_experiment @ '' '' @ name @ ''.'')"

definition lookup_result ::
  "'w api \<Rightarrow> string \<Rightarrow> kfp_experiment list \<Rightarrow> 'w \<Rightarrow> (pyexn + kfp_experiment) \<times> 'w" where
  "lookup_result api name xs w =
     (case List.find (\<lambda>x. exp_name x = name) xs of
        Some x \<Rightarrow> get_experiment_api api (exp_id x) w
      | None \<Rightarrow> (Inl (missing_error name), w))"

lemma find_append:
  "List.find P (xs @ ys) = (case List.find P xs of Some x \<Rightarrow> Some x | None \<Rightarrow> List.find P ys)"
  by (induction xs) auto

lemma find_name_None: "List.find (\<lambda>x. exp_name x = name) xs = None \<longleftrightarrow> name \<notin> exp_name ` set xs"
  by (auto simp: find_None_iff)

lemma find_experiment_serves:
  assumes "serves api ns w token xs" and "resolve_namespace ctx ns = Inr ns"
  shows "find_experiment api ctx name ns token w = Some (lookup_result api name xs w)"
  using assms(1)
proof induction
  case serves_end
  then show ?case by (simp add: find_experiment.simps lookup_result_def missing_error_def)
next
  case (serves_page t page xs)
  then show ?case
    by (simp add: find_experiment.simps [of api ctx name ns "Some t"] list_experiments_resolved [OF assms(2)]
        page_items_def lookup_result_def find_append split: option.split)
qed

lemma get_experiment_serves:
  assumes "resolve_namespace ctx ns = Inr ns'" and "serves api ns' w (Some '''') xs"
  shows "get_experiment api ctx None (Some name) ns w = Some (lookup_result api name xs w)"
  using find_experiment_serves [OF assms(2) resolve_again [OF assms(1)]] assms(1)
  by (simp add: get_experiment_def)

text \<open>
  C13. Against a service that lists finitely many experiments over any number of pages, the
  lookup by name returns: the first experiment of that name over all pages, read by its id, or
  the error that names the experiment when there is none.
\<close>

theorem get_experiment_finds:
  assumes "resolve_namespace ctx ns = Inr ns'" and "serves api ns' w (Some '''') xs"
  shows "(\<forall>x. List.find (\<lambda>x. exp_name x = name) xs = Some x \<longrightarrow>
      get_experiment api ctx None (Some name) ns w = Some (get_experiment_api api (exp_id x) w)) \<and>
    (name \<notin> exp_name ` set xs \<longrightarrow>
      get_experiment api ctx None (Some name) ns w =
        Some (Inl (ValueError (''No experiment is found with name '' @ name @ ''.'')), w))"
  unfolding get_experiment_serves [OF assms] find_name_None [symmetric]
  by (simp add: lookup_result_def missing_error_def no_experiment_def)

text \<open>A service with two pages, for the witnesses; its world is the list of its changes.\<close>

definition two_pages :: "string \<Rightarrow> experiment_page" where
  "two_pages t =
     (if t = '''' then \<lparr>experiments = None, next_page_token = Some ''next''\<rparr>
      else \<lparr>experiments = Some [\<lparr>exp_id = ''7'', exp_name = ''mnist''\<rparr>], next_page_token = None\<rparr>)"

definition sample_api :: "string list api" where
  "sample_api =
     \<lparr>healthz = (\<lambda>w. if length w < 2 then (Inl (ApiException ''down''), w) else (Inr (Some True), w)),
      list_experiment_api = (\<lambda>t n s ns w. (Inr (two_pages t), w)),
      get_experiment_api = (\<lambda>i w. (Inr \<lparr>exp_id = i, exp_name = ''mnist''\<rparr>, w)),
      create_experiment_api = (\<lambda>body w. (Inr \<lparr>exp_id = ''8'', exp_name = body_name body\<rparr>, w @ [body_name body])),
      list_pipelines_api = (\<lambda>f w. (Inr None, w)),
      create_run_api = (\<lambda>body w. (Inr \<lparr>run_id = ''r'', run_status = None\<rparr>, w)),
      create_job_api = (\<lambda>body w. (Inr JNull, w)),
      get_run_api = (\<lambda>i w. (Inr \<lparr>run_id = i, run_status = Some ''Succeeded''\<rparr>, w @ [''poll''])),
      list_runs_api = (\<lambda>q w. (Inr JNull, w)),
      list_jobs_api = (\<lambda>q w. (Inr JNull, w)),
      upload_version_api = (\<lambda>p v i w. (Inr ''v1'', w @ [case i of None \<Rightarrow> ''no id'' | Some j \<Rightarrow> j])),
      gcp_access_token = (\<lambda>w. (Inr ''token'', w)),
      clock = (\<lambda>w. (5000000 * int (length w), w)),
      pause = (\<lambda>d w. w @ [''pause'']),
      timestamp = (\<lambda>w. (''now'', w)),
      ipython = Some False,
      show_html = (\<lambda>h w. w)\<rparr>"

lemma sample_api_simps:
  "clock sample_api w = (5000000 * int (length w), w)"
  "pause sample_api d w = w @ [''pause'']"
  "get_run_api sample_api i w = (Inr \<lparr>run_id = i, run_status = Some ''Succeeded''\<rparr>, w @ [''poll''])"
  by (simp_all add: sample_api_def)

lemma terminal_Succeeded: "terminal_status (Some ''Succeeded'')"
  by code_simp

definition sample_config :: api_config where
  "sample_config = \<lparr>cfg_host = ''http://localhost'', api_key = None, api_key_prefix = None,
     cfg_proxy = None, cfg_ssl_ca_cert = None, refresh_hook = None\<rparr>"

definition sample_context :: json where
  "sample_context = JObj [(''namespace'', JStr ''alice'')]"

lemma sample_namespace: "resolve_namespace sample_context JNull = Inr (JStr ''alice'')"
  by (simp add: resolve_namespace_def get_user_namespace_def sample_context_def)

lemma sample_serves:
  "serves sample_api ns w (Some '''') [\<lparr>exp_id = ''7'', exp_name = ''mnist''\<rparr>]"
proof -
  have "serves sample_api ns w (Some ''next'') (page_items (two_pages ''next'') @ [])"
    by (rule serves_page) (simp_all add: sample_api_def two_pages_def serves_end)
  then have "serves sample_api ns w (Some '''')
      (page_items (two_pages '''') @ page_items (two_pages ''next'') @ [])"
    by (intro serves_page) (simp_all add: sample_api_def two_pages_def)
  then show ?thesis by (simp add: page_items_def two_pages_def)
qed

theorem get_experiment_finds_witness:
  "get_experiment sample_api sample_context None (Some ''mnist'') JNull [] =
     Some (Inr \<lparr>exp_id = ''7'', exp_name = ''mnist''\<rparr>, [])"
  using get_experiment_finds [OF sample_namespace sample_serves, of "''mnist''" "[]"]
  by (simp add: sample_api_def)

text \<open>
  A service that ends its listing with an empty token instead of none is never left: when
  every page names a next one and no page holds the name, the lookup does not return.
\<close>

lemma get_experiment_diverges:
  assumes "resolve_namespace ctx ns = Inr ns'"
    and "\<And>t. \<exists>page. list_experiment_api api t 100 '''' ns' w = (Inr page, w) \<and>
          next_page_token page \<noteq> None \<and> name \<notin> exp_name ` set (page_items page)"
  shows "get_experiment api ctx None (Some name) ns w = None"
proof -
  have stuck: "False" if "find_experiment a c n m token v = Some r"
    and "a = api" "c = ctx" "n = name" "m = ns'" "v = w" "token \<noteq> None" for a c n m token v r
    using that
  proof (induction a c n m token v r rule: find_experiment.raw_induct [rotated, consumes 1, case_names step])
    case (step f a c n m token v r)
    obtain t where t: "token = Some t" using step.prems by blast
    obtain page where page: "list_experiment_api api t 100 '''' ns' w = (Inr page, w)"
        "next_page_token page \<noteq> None" "name \<notin> exp_name ` set (page_items page)"
      using assms(2) by blast
    have "List.find (\<lambda>x. exp_name x = name) (page_items page) = None"
      using page(3) by (simp add: find_name_None)
    with step page(1) have "f api ctx name ns' (next_page_token page) w = Some r"
      by (simp add: t list_experiments_resolved [OF resolve_again [OF assms(1)]] page_items_def)
    with step.IH page(2) show ?case by blast
  qed
  have "find_experiment api ctx name ns' (Some '''') w = None"
    using stuck [of api ctx name ns' "Some ''''" w] by (cases "find_experiment api ctx name ns' (Some '''') w") auto
  with assms(1) show ?thesis by (simp add: get_experiment_def)
qed

definition endless_api :: "string list api" where
  "endless_api = sample_api\<lparr>list_experiment_api :=
     (\<lambda>t n s ns w. (Inr \<lparr>experiments = Some [], next_page_token = Some ''''\<rparr>, w))\<rparr>"

theorem get_experiment_diverges_witness:
  "get_experiment endless_api sample_context None (Some ''mnist'') JNull [] = None"
  by (rule get_experiment_diverges [OF sample_namespace])
    (simp add: endless_api_def sample_api_def page_items_def)

text \<open>
  C19. \<open>create_experiment\<close> gets or creates: when the service lists an experiment of the name, no
  experiment is created; when it does not, exactly one creation is asked for, with the name,
  the description and, when the namespace is not empty, the namespace as its owner. (Only an
  error that says the experiment is missing leads to a creation, also when it comes from the
  reading of the experiment found.)
\<close>

theorem create_experiment_get_or_create:
  assumes "resolve_namespace ctx ns = Inr ns'" and "serves api ns' w (Some '''') xs"
    and "\<not> is_ipython api"
  shows "create_experiment api uihost ctx name description ns w = Some
    (case List.find (\<lambda>x. exp_name x = name) xs of
       Some x \<Rightarrow>
         (case get_experiment_api api (exp_id x) w of
            (Inl (ValueError m), w1) \<Rightarrow>
              if starts_with m no_experiment
              then create_experiment_api api
                     \<lparr>body_name = name, body_description = description,
                      body_references = namespace_references ns'\<rparr> w1
              else (Inl (ValueError m), w1)
          | (r, w1) \<Rightarrow> (r, w1))
     | None \<Rightarrow>
         create_experiment_api api
           \<lparr>body_name = name, body_description = description,
            body_references = namespace_references ns'\<rparr> w)"
proof -
  have resolved: "resolve_namespace ctx ns' = Inr ns'" by (rule resolve_again [OF assms(1)])
  have "starts_with (no_experiment @ s) no_experiment" for s
    by (simp add: starts_with_def)
  then show ?thesis
    unfolding create_experiment_def assms(1) sum.case get_experiment_serves [OF resolved assms(2)]
    using assms(3)
    by (auto simp: lookup_result_def missing_error_def display_link_def Let_def
        split: option.split prod.split sum.split pyexn.split)
qed

theorem create_experiment_get_or_create_witness:
  "create_experiment sample_api None sample_context ''mnist'' None JNull [] =
     Some (Inr \<lparr>exp_id = ''7'', exp_name = ''mnist''\<rparr>, []) \<and>
   create_experiment sample_api None sample_context ''cifar'' None JNull [] =
     Some (Inr \<lparr>exp_id = ''8'', exp_name = ''cifar''\<rparr>, [''cifar''])"
proof -
  have "\<not> is_ipython sample_api" by (simp add: is_ipython_def sample_api_def)
  note get_or_create = create_experiment_get_or_create [OF sample_namespace sample_serves this]
  show ?thesis
    using get_or_create [of None "''mnist''" None "[]"] get_or_create [of None "''cifar''" None "[]"]
    by (simp add: sample_api_def)
qed

section \<open>Waiting\<close>

lemma poll_run_result:
  assumes "poll_run api rid timeout start w = (Inr run, w')"
  shows "\<exists>w1 t w2. get_run_api api rid w = (Inr run, w1) \<and> clock api w1 = (t, w2) \<and>
    t - start \<le> timeout \<and> w' = pause api 5000000 w2"
  using assms by (auto simp: poll_run_def bindS_def split: prod.splits sum.splits if_splits)

text \<open>What the loop returns was read within the timeout, and is final.\<close>

definition read_in_time :: "'w api \<Rightarrow> string \<Rightarrow> int \<Rightarrow> int \<Rightarrow> run_info \<Rightarrow> bool" where
  "read_in_time api rid timeout start run \<longleftrightarrow>
     (\<exists>w0 w1 t w2. get_run_api api rid w0 = (Inr run, w1) \<and> clock api w1 = (t, w2) \<and> t - start \<le> timeout)"

lemma wait_loop_result:
  "wait_loop api refresh rid timeout start refreshed cfg w = Some r \<Longrightarrow> fst r = Inr run \<Longrightarrow>
   terminal_status (run_status run) \<and> read_in_time api rid timeout start run"
proof (induction api refresh rid timeout start refreshed cfg w r
    rule: wait_loop.raw_induct [rotated, consumes 1, case_names step])
  case (step f api refresh rid timeout start refreshed cfg w r)
  from step.hyps step.prems obtain c' rd' w1 x w2 where
      m: "maybe_refresh api refresh cfg refreshed w = (Inr (c', rd'), w1)" and
      p: "poll_run api rid timeout start w1 = (Inr x, w2)" and
      cont: "if terminal_status (run_status x) then r = (Inr x, c', w2)
             else f api refresh rid timeout start rd' c' w2 = Some r"
    by (auto split: prod.splits sum.splits if_splits)
  show ?case
  proof (cases "terminal_status (run_status x)")
    case True
    with cont step.prems have "x = run" by simp
    with True poll_run_result [OF p] show ?thesis unfolding read_in_time_def by blast
  next
    case False
    with cont step.IH step.prems show ?thesis by simp
  qed
qed

text \<open>
  C34. A call that returns a run returns it in one of the four final states, read while the clock
  was within the timeout.
\<close>

theorem wait_returns_finished_run:
  assumes "wait_for_run_completion api refresh rid timeout cfg w = Some (Inr run, cfg', w')"
  shows "\<exists>s. run_status run = Some s \<and>
      map lower_char s \<in> {''succeeded'', ''failed'', ''skipped'', ''error''} \<and>
      read_in_time api rid timeout (fst (clock api w)) run"
proof -
  obtain refreshed w2 where
      "wait_loop api refresh rid timeout (fst (clock api w)) refreshed cfg w2 = Some (Inr run, cfg', w')"
    using assms by (auto simp: wait_for_run_completion_def split: prod.splits)
  from wait_loop_result [OF this, of run] show ?thesis
    by (auto simp: terminal_status_def split: option.splits)
qed

theorem wait_returns_finished_run_witness:
  "\<exists>run w'. wait_for_run_completion sample_api None ''r1'' 9000000 sample_config [] = Some (Inr run, sample_config, w') \<and>
     run_status run = Some ''Succeeded'' \<and> read_in_time sample_api ''r1'' 9000000 0 run"
proof -
  have *: "wait_for_run_completion sample_api None ''r1'' 9000000 sample_config [] =
      Some (Inr \<lparr>run_id = ''r1'', run_status = Some ''Succeeded''\<rparr>, sample_config, [''poll'', ''pause''])"
    by (simp add: wait_for_run_completion_def wait_loop.simps [of sample_api] maybe_refresh_def
        token_timeout_def poll_run_def bindS_def terminal_Succeeded sample_api_simps)
  from wait_returns_finished_run [OF this] show ?thesis
    unfolding * by (simp add: sample_api_simps)
qed

text \<open>
  The time is checked after the reading of the run and before its state: a run that has
  ended, but is first read so after the timeout, gives a \<open>TimeoutError\<close> all the same.
\<close>

lemma wait_rejects_late_run:
  assumes "clock api w = (start, w1)" and "clock api w1 = (refreshed, w2)" and "clock api w2 = (now, w3)"
    and "now - refreshed \<le> token_timeout"
    and "get_run_api api rid w3 = (Inr run, w4)" and "terminal_status (run_status run)"
    and "clock api w4 = (t, w5)" and "t - start > timeout"
  shows "wait_for_run_completion api refresh rid timeout cfg w =
    Some (Inl (TimeoutError ''Run timeout''), cfg, w5)"
  using assms
  by (simp add: wait_for_run_completion_def wait_loop.simps [of api] maybe_refresh_def poll_run_def bindS_def)

theorem wait_rejects_late_run_witness:
  "wait_for_run_completion sample_api None ''r1'' 4000000 sample_config [] =
     Some (Inl (TimeoutError ''Run timeout''), sample_config, [''poll''])"
proof (rule wait_rejects_late_run [where start = 0 and refreshed = 0 and now = 0
      and t = 5000000 and ?w1.0 = "[]" and ?w2.0 = "[]" and ?w3.0 = "[]" and ?w4.0 = "[''poll'']"
      and run = "\<lparr>run_id = ''r1'', run_status = Some ''Succeeded''\<rparr>"])
  show "terminal_status (run_status \<lparr>run_id = ''r1'', run_status = Some ''Succeeded''\<rparr>)"
    by (simp add: terminal_Succeeded)
qed (simp_all add: sample_api_simps token_timeout_def)

text \<open>
  What the termination of the loop needs of the clock: \<open>time\<close> reads it off the world, no call
  turns it back, and sleeping advances it.
\<close>

definition keeps_time :: "'w api \<Rightarrow> ('w \<Rightarrow> int) \<Rightarrow> bool" where
  "keeps_time api time \<longleftrightarrow>
     (\<forall>v. fst (clock api v) = time v) \<and> (\<forall>v. time v \<le> time (snd (clock api v))) \<and>
     (\<forall>v i. time v \<le> time (snd (get_run_api api i v))) \<and>
     (\<forall>v. time v \<le> time (snd (gcp_access_token api v))) \<and>
     (\<forall>v. time v + 5000000 \<le> time (pause api 5000000 v))"

lemma maybe_refresh_time:
  assumes "keeps_time api time"
  shows "time v \<le> time (snd (maybe_refresh api refresh cfg refreshed v))"
proof -
  have clock: "time v \<le> time (snd (clock api v))" and gcp: "time v \<le> time (snd (gcp_access_token api v))" for v
    using assms by (simp_all add: keeps_time_def)
  have refresh: "time v \<le> time (snd (refresh_api_client_token api refresh cfg v))" for v
    using gcp [of v] by (simp add: refresh_api_client_token_def bindS_def split_beta split: sum.split)
  show ?thesis
    using clock [of v] refresh [of "snd (clock api v)"]
      clock [of "snd (refresh_api_client_token api refresh cfg (snd (clock api v)))"]
    by (simp add: maybe_refresh_def bindS_def split_beta split: sum.split)
qed

lemma poll_run_time:
  assumes "keeps_time api time" and "poll_run api rid timeout start v = (Inr run, v')"
  shows "time v \<le> start + timeout" and "time v + 5000000 \<le> time v'"
proof -
  obtain w1 t w2 where p: "get_run_api api rid v = (Inr run, w1)" "clock api w1 = (t, w2)"
      "t - start \<le> timeout" "v' = pause api 5000000 w2"
    using poll_run_result [OF assms(2)] by blast
  have "time v \<le> time w1" "t = time w1" "time w1 \<le> time w2" "time w2 + 5000000 \<le> time v'"
    using assms(1) p unfolding keeps_time_def by (metis fst_conv snd_conv)+
  with p(3) show "time v \<le> start + timeout" "time v + 5000000 \<le> time v'" by linarith+
qed

lemma wait_loop_returns:
  assumes "keeps_time api time"
  shows "\<exists>r. wait_loop api refresh rid timeout start refreshed cfg w = Some r"
proof (induction "nat (start + timeout + 1 - time w)" arbitrary: refreshed cfg w rule: less_induct)
  case less
  show ?case
  proof (cases "maybe_refresh api refresh cfg refreshed w")
    case (Pair m w1)
    have w1: "time w \<le> time w1"
      using maybe_refresh_time [OF assms, of w refresh cfg refreshed] by (simp add: Pair)
    show ?thesis
    proof (cases m)
      case (Inl e)
      with Pair show ?thesis by (simp add: wait_loop.simps [of api])
    next
      case (Inr x)
      obtain p w2 where p: "poll_run api rid timeout start w1 = (p, w2)" by force
      show ?thesis
      proof (cases "\<exists>run. p = Inr run")
        case False
        then obtain e where "p = Inl e" by (cases p) auto
        with Pair Inr p show ?thesis by (simp add: wait_loop.simps [of api] split: prod.split)
      next
        case True
        with p obtain run where run: "poll_run api rid timeout start w1 = (Inr run, w2)" by blast
        have "nat (start + timeout + 1 - time w2) < nat (start + timeout + 1 - time w)"
          using poll_run_time [OF assms run] w1 by linarith
        from less [OF this] have "\<exists>r. wait_loop api refresh rid timeout start rd c w2 = Some r" for rd c
          by blast
        with Pair Inr run show ?thesis by (simp add: wait_loop.simps [of api _ _ _ _ _ _ w] split: prod.split)
      qed
    qed
  qed
qed

text \<open>
  C12. Waiting ends: with a clock that is never turned back and that sleeping advances, the call
  returns or raises, whatever the service answers.
\<close>

theorem wait_terminates:
  assumes "keeps_time api time"
  shows "wait_for_run_completion api refresh rid timeout cfg w \<noteq> None"
  using wait_loop_returns [OF assms] by (auto simp: wait_for_run_completion_def split: prod.split)

theorem wait_terminates_witness:
  "wait_for_run_completion (sample_api\<lparr>get_run_api := (\<lambda>i w. (Inr \<lparr>run_id = i, run_status = None\<rparr>, w))\<rparr>)
     None ''r1'' 60000000 sample_config [] \<noteq> None"
proof (rule wait_terminates)
  show "keeps_time (sample_api\<lparr>get_run_api := (\<lambda>i w. (Inr \<lparr>run_id = i, run_status = None\<rparr>, w))\<rparr>)
      (\<lambda>w. 5000000 * int (length w))"
    by (simp add: keeps_time_def sample_api_def)
qed

section \<open>Retries\<close>

text \<open>\<open>down api n w w'\<close>: \<open>n\<close> attempts in a row fail with an \<open>ApiException\<close>, each slept over.\<close>

inductive down :: "'w api \<Rightarrow> nat \<Rightarrow> 'w \<Rightarrow> 'w \<Rightarrow> bool" for api :: "'w api" where
  down_0: "down api 0 w w"
| down_Suc: "healthz api w = (Inl (ApiException m), w1) \<Longrightarrow> down api n (pause api 5000000 w1) w' \<Longrightarrow>
    down api (Suc n) w w'"

lemma healthz_attempts_down:
  "down api n w w' \<Longrightarrow> healthz_attempts api (n + k) w = healthz_attempts api k w'"
  by (induction rule: down.induct) simp_all

text \<open>
  The health check survives up to four failures of the service in a row, with five seconds of
  sleep after each, and raises a \<open>TimeoutError\<close> after the fifth; an exception of another kind is
  not tried again.
\<close>

lemma healthz_retries:
  assumes "down api n w w'"
  shows "(\<forall>response w''. n < 5 \<longrightarrow> healthz api w' = (Inr response, w'') \<longrightarrow>
      get_kfp_healthz api w = (Inr response, w'')) \<and>
    (\<forall>e w''. n < 5 \<longrightarrow> healthz api w' = (Inl e, w'') \<longrightarrow> (\<forall>m. e \<noteq> ApiException m) \<longrightarrow>
      get_kfp_healthz api w = (Inl e, w'')) \<and>
    (n = 5 \<longrightarrow> get_kfp_healthz api w =
      (Inl (TimeoutError ''Failed getting healthz endpoint after 5 attempts.''), w'))"
proof (intro conjI allI impI)
  have left: "get_kfp_healthz api w = healthz_attempts api (Suc (4 - n)) w'" if "n < 5"
  proof -
    have "5 = n + Suc (4 - n)" using that by simp
    then show ?thesis
      unfolding get_kfp_healthz_def using healthz_attempts_down [OF assms] by metis
  qed
  show "get_kfp_healthz api w = (Inr response, w'')"
    if "n < 5" "healthz api w' = (Inr response, w'')" for response w''
    using left [OF that(1)] that(2) by simp
  show "get_kfp_healthz api w = (Inl e, w'')"
    if "n < 5" "healthz api w' = (Inl e, w'')" "\<forall>m. e \<noteq> ApiException m" for e w''
    using left [OF that(1)] that(2,3) by (simp split: pyexn.split)
  show "get_kfp_healthz api w = (Inl (TimeoutError ''Failed getting healthz endpoint after 5 attempts.''), w')"
    if "n = 5"
    using healthz_attempts_down [OF assms, of 0] that by (simp add: get_kfp_healthz_def)
qed

theorem healthz_retries_witness:
  "get_kfp_healthz sample_api [] = (Inr (Some True), [''pause'', ''pause''])"
proof -
  have step: "down sample_api (Suc n) w w'" if "length w < 2" "down sample_api n (w @ [''pause'']) w'" for n w w'
    by (rule down_Suc [of _ _ "''down''" w]) (use that in \<open>simp_all add: sample_api_def\<close>)
  have "down sample_api (Suc (Suc 0)) [] [''pause'', ''pause'']"
    by (rule step, simp, rule step, simp, simp add: down_0)
  from healthz_retries [OF this] show ?thesis by (simp add: sample_api_def)
qed

section \<open>Schedules\<close>

text \<open>
  A recurring run gets a periodic schedule exactly when a non-zero interval and no cron
  expression are given, and a cron schedule otherwise; an empty cron expression beside an
  interval passes the test and replaces the interval. Both or neither of the two is an error.
\<close>

lemma recurring_trigger_cases:
  "recurring_trigger s e interval cron = Inr t \<longleftrightarrow>
     (\<exists>i. i \<noteq> 0 \<and> interval = Some i \<and> cron = None \<and> t = Periodic s e i) \<or>
     (\<exists>c. c \<noteq> '''' \<and> cron = Some c \<and> interval \<in> {None, Some 0} \<and> t = Cron s e c) \<or>
     (\<exists>i. i \<noteq> 0 \<and> interval = Some i \<and> cron = Some '''' \<and> t = Cron s e '''')"
  by (cases interval; cases cron) (auto simp: recurring_trigger_def truthy_iff)

text \<open>
  No test of the schedule is missing a case: what is not one of the three is refused with the
  documented error, before anything is sent to the service.
\<close>

lemma recurring_run_refused:
  assumes "create_job_config pk eid params path pid vid = Inr config"
    and "\<And>t. recurring_trigger s e interval cron \<noteq> Inr t"
  shows "create_recurring_run api pk eid name d s e interval cron mc nc params path pid vid en w =
    (Inl (ValueError ''Either interval_second or cron_expression is required''), w)"
proof -
  obtain x where x: "recurring_trigger s e interval cron = Inl x"
    using assms(2) by (cases "recurring_trigger s e interval cron") auto
  then have "x = ValueError ''Either interval_second or cron_expression is required''"
    by (cases interval; cases cron) (auto simp: recurring_trigger_def Let_def split: if_splits)
  with x have "recurring_trigger s e interval cron =
      Inl (ValueError ''Either interval_second or cron_expression is required'')" by simp
  with assms(1) show ?thesis
    by (simp add: create_recurring_run_def bindS_def lift_def split: prod.split)
qed

definition sample_packages :: packages where
  "sample_packages =
     \<lparr>tar_members = (\<lambda>p. Inr [''pipeline.yaml'', ''x.yaml'']), tar_yaml = (\<lambda>p m. Inr (JStr m)),
      zip_names = (\<lambda>p. Inr []), zip_yaml = (\<lambda>p m. Inr (JStr m)), file_yaml = (\<lambda>p. Inr (JStr p)),
      sanitize_k8s_name = id\<rparr>"

section \<open>Versions and packages\<close>

text \<open>
  A version uploaded for a pipeline of a name that does not exist is not refused: the
  upload is sent without a pipeline id. Giving both or neither of id and name is refused, and
  nothing is sent.
\<close>

lemma upload_version_cases:
  assumes "get_pipeline_id api name w = (Inr None, w1)" and "name \<noteq> []" and "\<not> is_ipython api"
  shows "upload_pipeline_version api uihost path v None (Some name) w = upload_version_api api path v None w1 \<and>
    (\<forall>i. truthy i \<longrightarrow> upload_pipeline_version api uihost path v i (Some name) w =
      (Inl (ValueError ''Either pipeline_id or pipeline_name is required''), w)) \<and>
    upload_pipeline_version api uihost path v None None w =
      (Inl (ValueError ''Either pipeline_id or pipeline_name is required''), w)"
proof -
  have truthy: "truthy (Some name)" using assms(2) by (simp add: truthy_iff)
  have "upload_pipeline_version api uihost path v None (Some name) w = upload_version_api api path v None w1"
    using assms(1,3) truthy
    by (simp add: upload_pipeline_version_def bindS_def display_link_def split: prod.split sum.split)
  moreover have "upload_pipeline_version api uihost path v i (Some name) w =
      (Inl (ValueError ''Either pipeline_id or pipeline_name is required''), w)" if "truthy i" for i
    using that truthy by (simp add: upload_pipeline_version_def)
  ultimately show ?thesis by (simp add: upload_pipeline_version_def)
qed

theorem upload_version_cases_witness:
  "upload_pipeline_version sample_api None ''p.yaml'' ''v1'' None (Some ''mnist'') [] = (Inr ''v1'', [''no id''])"
proof -
  have "get_pipeline_id sample_api ''mnist'' [] = (Inr None, [])"
    by (simp add: get_pipeline_id_def bindS_def sample_api_def)
  moreover have "\<not> is_ipython sample_api" by (simp add: is_ipython_def sample_api_def)
  ultimately show ?thesis using upload_version_cases [of sample_api "''mnist''" "[]" "[]"]
    by (simp add: sample_api_def)
qed

text \<open>
  The file taken from a package is one of its members and ends in \<open>.yaml\<close>: it is
  \<open>pipeline.yaml\<close> when the package has one, and otherwise the only such member; the choice
  fails exactly when there is no such member, or several and none of that name.
\<close>

lemma choose_yaml_spec:
  "(\<forall>f. choose_pipeline_yaml_file files = Inr f \<longrightarrow>
      f \<in> set files \<and> (\<exists>stem. f = stem @ ''.yaml'') \<and>
      (''pipeline.yaml'' \<in> set files \<longrightarrow> f = ''pipeline.yaml'')) \<and>
   ((\<exists>f. choose_pipeline_yaml_file files = Inr f) \<longleftrightarrow>
      ''pipeline.yaml'' \<in> set files \<or> length (List.filter (\<lambda>f. ends_with f ''.yaml'') files) = 1)"
proof -
  let ?ys = "List.filter (\<lambda>f. ends_with f ''.yaml'') files"
  have named: "''pipeline.yaml'' \<in> set ?ys \<longleftrightarrow> ''pipeline.yaml'' \<in> set files"
    by (simp add: ends_with_def)
  have chosen: "f \<in> set ?ys \<and> (''pipeline.yaml'' \<in> set files \<longrightarrow> f = ''pipeline.yaml'')"
    if "choose_pipeline_yaml_file files = Inr f" for f
    using that named
    by (auto simp: choose_pipeline_yaml_file_def Let_def length_Suc_conv simp del: set_filter split: if_splits)
  have "f \<in> set files \<and> (\<exists>stem. f = stem @ ''.yaml'') \<and> (''pipeline.yaml'' \<in> set files \<longrightarrow> f = ''pipeline.yaml'')"
    if f: "choose_pipeline_yaml_file files = Inr f" for f
    using chosen [OF f] by (simp add: ends_with_iff)
  moreover have "(\<exists>f. choose_pipeline_yaml_file files = Inr f) \<longleftrightarrow>
      ''pipeline.yaml'' \<in> set files \<or> length ?ys = 1"
    using named unfolding choose_pipeline_yaml_file_def Let_def
    by (cases "?ys = []") (auto simp del: set_filter)
  ultimately show ?thesis by blast
qed

theorem choose_yaml_spec_witness:
  "\<exists>f. choose_pipeline_yaml_file [''a.txt'', ''p.yaml''] = Inr f"
proof -
  have "length (List.filter (\<lambda>f. ends_with f ''.yaml'') [''a.txt'', ''p.yaml'']) = 1"
    by (simp add: ends_with_def)
  then show ?thesis using choose_yaml_spec [of "[''a.txt'', ''p.yaml'']"] by blast
qed

end
