(* ===== verification/KfpPipelines.thy ===== *)
theory KfpPipelines
  imports KfpRuns
begin

text \<open>
  The rest of the class \<open>Client\<close> of \<open>src/examples/pipeline_notebook/_client.py\<close>: the whole of its
  \<open>__init__\<close>, the names under which \<open>_add_generated_apis\<close> puts the services of the generated
  package, the listings and lookups of pipelines and runs, and the upload of a pipeline.
\<close>

section \<open>The generated services\<close>

text \<open>
  \<open>camel_case_to_snake_case\<close>: \<open>re.sub\<close> puts an underscore between a small letter or digit and the
  capital after it, from the left, and \<open>lower\<close> does the rest. (The names are ASCII identifiers.)
\<close>

definition is_upper :: "char \<Rightarrow> bool" where
  "is_upper c \<longleftrightarrow> 65 \<le> (of_char c :: nat) \<and> (of_char c :: nat) \<le> 90"

definition small_or_digit :: "char \<Rightarrow> bool" where
  "small_or_digit c \<longleftrightarrow> (97 \<le> (of_char c :: nat) \<and> (of_char c :: nat) \<le> 122) \<or> is_digit c"

fun underscores :: "string \<Rightarrow> string" where
  "underscores (c # d # cs) =
     (if small_or_digit c \<and> is_upper d then c # CHR ''_'' # d # underscores cs else c # underscores (d # cs))"
| "underscores cs = cs"

definition camel_case_to_snake_case :: "string \<Rightarrow> string" where
  "camel_case_to_snake_case name = map lower_char (underscores name)"

text \<open>
  What a client has after \<open>_add_generated_apis\<close>: for each service its name and the public
  members of the service, and the names of the models. The module is given by the names in it and the
  members of each service.
\<close>

definition service_suffix :: string where
  "service_suffix = ''ServiceApi''"

definition short_api_name :: "string \<Rightarrow> string" where
  "short_api_name api_name =
     camel_case_to_snake_case (take (length api_name - length service_suffix) api_name) @ ''s''"

definition public_member :: "string \<Rightarrow> bool" where
  "public_member m \<longleftrightarrow> \<not> (starts_with m ''_'' \<or> ends_with m ''_with_http_info'')"

definition generated_apis :: "string list \<Rightarrow> (string \<Rightarrow> string list) \<Rightarrow> (string \<times> string list) list" where
  "generated_apis module_names members_of =
     map (\<lambda>n. (short_api_name n, List.filter public_member (members_of n)))
       (List.filter (\<lambda>n. ends_with n service_suffix) module_names)"

definition is_lower_letter :: "char \<Rightarrow> bool" where
  "is_lower_letter c \<longleftrightarrow> 97 \<le> (of_char c :: nat) \<and> (of_char c :: nat) \<le> 122"

definition generated_models :: "string list \<Rightarrow> string list" where
  "generated_models names = List.filter (\<lambda>n. \<not> is_lower_letter (hd n)) names"

text \<open>A name made of capitalised words becomes the words in small letters, joined by underscores.\<close>

definition camel_word :: "string \<Rightarrow> bool" where
  "camel_word w \<longleftrightarrow> (\<exists>c d cs. w = c # d # cs \<and> is_upper c \<and> list_all small_or_digit (d # cs))"

fun join_words :: "string list \<Rightarrow> string" where
  "join_words [] = []"
| "join_words [w] = w"
| "join_words (w # v # ws) = w @ ''_'' @ join_words (v # ws)"

lemma upper_not_small: "is_upper c \<Longrightarrow> \<not> small_or_digit c"
  by (auto simp: is_upper_def small_or_digit_def is_digit_def)

lemma underscores_small: "list_all small_or_digit cs \<Longrightarrow> underscores cs = cs"
  by (induction cs rule: underscores.induct) (auto dest: upper_not_small)

lemma underscores_word:
  "list_all small_or_digit (d # cs) \<Longrightarrow> is_upper u \<Longrightarrow> underscores ((d # cs) @ u # rest) = (d # cs) @ ''_'' @ u # underscores rest"
proof (induction cs arbitrary: d)
  case (Cons c cs)
  then have "\<not> is_upper c" using upper_not_small by auto
  with Cons show ?case by simp
qed simp

lemma underscores_words:
  "list_all camel_word ws \<Longrightarrow> underscores (concat ws) = join_words ws"
proof (induction ws rule: join_words.induct)
  case (2 w)
  then obtain c d cs where w: "w = c # d # cs" "is_upper c" "list_all small_or_digit (d # cs)"
    by (auto simp: camel_word_def)
  with underscores_small [OF w(3)] upper_not_small [OF w(2)] show ?case by simp
next
  case (3 w v ws)
  then obtain c d cs u e es where w: "w = c # d # cs" "is_upper c" "list_all small_or_digit (d # cs)"
    and v: "v = u # e # es" "is_upper u" "list_all small_or_digit (e # es)"
    by (auto simp: camel_word_def)
  have IH: "underscores (u # (e # es @ concat ws)) = join_words (v # ws)" using 3 by (simp add: v(1))
  have "underscores (u # (e # es @ concat ws)) = u # underscores (e # es @ concat ws)"
    using upper_not_small [OF v(2)] by simp
  with underscores_word [OF w(3) v(2), of "e # es @ concat ws"] IH upper_not_small [OF w(2)] show ?case
    by (simp add: w(1) v(1))
qed simp

text \<open>
  The services of the generated package are found under the names the client uses: a service named in
  capitalised words is put under the same words in small letters, joined by underscores, with
  an \<open>s\<close>; its public members keep their names.
\<close>

theorem generated_api_names:
  assumes "list_all camel_word ws" and "ws \<noteq> []"
  shows "short_api_name (concat ws @ service_suffix) = map lower_char (join_words ws) @ ''s''"
  using underscores_words [OF assms(1)] by (simp add: short_api_name_def camel_case_to_snake_case_def)

section \<open>\<open>__init__\<close>\<close>

text \<open>
  The attributes \<open>__init__\<close> sets. \<open>make_api\<close> is the construction of the generated client, from a
  configuration, a cookie and a header.
\<close>

record client =
  c_uihost :: "string option"
  c_config :: api_config
  c_context :: json
  c_cookie :: json

definition endpoint_host :: "environ \<Rightarrow> string option \<Rightarrow> string option" where
  "endpoint_host env host = opt_or host (env ''KF_PIPELINES_ENDPOINT'')"

definition ui_host :: "environ \<Rightarrow> string option \<Rightarrow> string option" where
  "ui_host env host = (case env ''KF_PIPELINES_UI_ENDPOINT'' of Some u \<Rightarrow> Some u | None \<Rightarrow> host)"

definition client_init ::
  "services \<Rightarrow> (api_config \<Rightarrow> json \<Rightarrow> json \<Rightarrow> json \<Rightarrow> 'w api) \<Rightarrow> environ \<Rightarrow> string \<Rightarrow> load_args \<Rightarrow> json \<Rightarrow> files
     \<Rightarrow> 'w \<Rightarrow> printed list \<times> (pyexn + client \<times> files) \<times> 'w" where
  "client_init svc make_api env home a cookies fs w =
     (let host = endpoint_host env (la_host a) in
      case load_config svc env fs (a\<lparr>la_host := host\<rparr>) of
        (out, Inl e) \<Rightarrow> (out, Inl e, w)
      | (out, Inr (config, refresh)) \<Rightarrow>
          (out, bindS (lift (load_context_setting_or_default home fs)) (\<lambda>ctx.
             bindS (lift (if cookies = JNull then py_get ctx ''client_authentication_cookie'' JNull else Inr cookies)) (\<lambda>cookie.
             bindS (lift (py_get ctx ''client_authentication_header_name'' JNull)) (\<lambda>name.
             bindS (lift (py_get ctx ''client_authentication_header_value'' JNull)) (\<lambda>val.
             bindS (init_namespace (make_api config cookie name val) home ctx fs) (\<lambda>(ctx', fs').
             returnS (\<lparr>c_uihost = ui_host env host, c_config = config, c_context = ctx', c_cookie = cookie\<rparr>, fs'))))))  w))"

section \<open>Pipelines and runs\<close>

text \<open>The calls of the services the remaining methods make, with all their arguments.\<close>

record 'w pipeline_api =
  pl_list :: "string \<Rightarrow> nat \<Rightarrow> string \<Rightarrow> ('w, json) step_on"
  pl_versions :: "string \<Rightarrow> nat \<Rightarrow> string \<Rightarrow> resource_type \<Rightarrow> string \<Rightarrow> ('w, json) step_on"
  pl_get :: "string \<Rightarrow> ('w, json) step_on"
  pl_delete :: "string \<Rightarrow> ('w, json) step_on"
  pl_upload :: "string \<Rightarrow> string option \<Rightarrow> string option \<Rightarrow> ('w, string) step_on"
  job_get :: "string \<Rightarrow> ('w, json) step_on"
  run_get :: "string \<Rightarrow> ('w, json) step_on"
  run_manifest :: "string \<Rightarrow> ('w, string) step_on"

definition list_pipelines :: "'w pipeline_api \<Rightarrow> string \<Rightarrow> nat \<Rightarrow> string \<Rightarrow> ('w, json) step_on" where
  "list_pipelines p page_token page_size sort_by = pl_list p page_token page_size sort_by"

text \<open>The second of the two definitions of the method, which replaces the first one.\<close>

definition list_pipeline_versions :: "'w pipeline_api \<Rightarrow> string \<Rightarrow> string \<Rightarrow> nat \<Rightarrow> string \<Rightarrow> ('w, json) step_on" where
  "list_pipeline_versions p pipeline_id page_token page_size sort_by =
     pl_versions p page_token page_size sort_by PIPELINE pipeline_id"

definition get_pipeline :: "'w pipeline_api \<Rightarrow> string \<Rightarrow> ('w, json) step_on" where
  "get_pipeline p pipeline_id = pl_get p pipeline_id"

definition delete_pipeline :: "'w pipeline_api \<Rightarrow> string \<Rightarrow> ('w, json) step_on" where
  "delete_pipeline p pipeline_id = pl_delete p pipeline_id"

definition get_run :: "'w pipeline_api \<Rightarrow> string \<Rightarrow> ('w, json) step_on" where
  "get_run p rid = run_get p rid"

definition get_recurring_run :: "'w pipeline_api \<Rightarrow> string \<Rightarrow> ('w, json) step_on" where
  "get_recurring_run p job_id = job_get p job_id"

definition get_workflow_json :: "'w pipeline_api \<Rightarrow> string \<Rightarrow> ('w, json) step_on" where
  "get_workflow_json p rid = bindS (run_manifest p rid) (\<lambda>workflow. lift (loads workflow))"

definition upload_pipeline ::
  "'w pipeline_api \<Rightarrow> 'w api \<Rightarrow> string option \<Rightarrow> string \<Rightarrow> string option \<Rightarrow> string option \<Rightarrow> ('w, string) step_on" where
  "upload_pipeline p api uihost path name description =
     bindS (pl_upload p path name description) (\<lambda>response w.
       (Inr response, display_link api (pipeline_html uihost response) w))"

text \<open>
  \<open>create_run_from_pipeline_func\<close>: after the run name and the temporary directory it looks up
  \<open>mode\<close>, which is neither a parameter nor a global.
\<close>

definition create_run_from_pipeline_func :: "'w api \<Rightarrow> ('w, unit) step_on \<Rightarrow> string \<Rightarrow> string option \<Rightarrow> ('w, run_info) step_on" where
  "create_run_from_pipeline_func api temp_dir pipeline_name given_name w =
     (let w1 = (if truthy given_name then w else snd (timestamp api w))
      in bindS temp_dir (\<lambda>_. raiseS (NameError ''mode'')) w1)"

end
