(* ===== verification/KfpContextProps.thy ===== *)
theory KfpContextProps
  imports KfpProps KfpPipelines
begin

text \<open>
  The properties of the client's configuration: the token, the context file and the namespace
  taken from the pod.
\<close>

section \<open>The token of the pod\<close>

text \<open>
  In a cluster, with no host and no other credentials, the client takes the token of the pod's
  service account for its requests and registers a hook that reads the file again; it also
  prints the token to the standard output.
\<close>

lemma in_cluster_token_printed:
  assumes "choose_token svc fs a = Inr (None, None, None)" and "client_host a = []" and "incluster svc"
    and "fs (token_path env None) = Some text"
  shows "\<exists>cfg. load_config svc env fs a =
      ([CredentialsRepr, PrintedText (strip text)], Inr (cfg, None)) \<and>
    cfg_host cfg = ''ml-pipeline.'' @ la_namespace a @ ''.svc.cluster.local:8888'' \<and>
    api_key cfg = Some (strip text) \<and> api_key_prefix cfg = Some ''Bearer'' \<and>
    (\<exists>hook. refresh_hook cfg = Some hook \<and>
      (\<forall>fs' text'. fs' (token_path env None) = Some text' \<longrightarrow>
        refresh_api_key_hook hook fs' cfg = Inr (cfg\<lparr>api_key := Some (strip text')\<rparr>)))"
proof -
  have token: "sa_token env None fs' = Inr (strip text')" if "fs' (token_path env None) = Some text'" for fs' text'
    using that by (simp add: sa_token_def read_sa_token_def read_file_def)
  show ?thesis
    using assms token [of fs "text", OF assms(4)] token
    by (simp add: load_config_def in_cluster_config_def authorize_def in_cluster_dns_name_def
        refresh_api_key_hook_def Let_def)
qed

definition sample_services :: services where
  "sample_services = \<lparr>default_config = sample_config, get_auth_token = (\<lambda>i c s. Inr ''t''),
     get_gcp_access_token = Inr ''g'', incluster = True, load_kube_config = (\<lambda>c k. (False, c))\<rparr>"

definition sample_load_args :: load_args where
  "sample_load_args = \<lparr>la_host = None, la_client_id = None, la_namespace = ''kubeflow'',
     la_other_client_id = None, la_other_client_secret = None, la_existing_token = None,
     la_proxy = None, la_ssl_ca_cert = None, la_kube_context = None, la_credentials = None\<rparr>"

theorem in_cluster_token_printed_witness:
  "fst (load_config sample_services (\<lambda>k. None) [ml_pipeline_sa_token_path \<mapsto> ''abc ''] sample_load_args) =
     [CredentialsRepr, PrintedText ''abc'']"
proof -
  have host: "client_host sample_load_args = []"
    by (simp add: client_host_def sample_load_args_def rstrip_slash_def)
  then have "choose_token sample_services [ml_pipeline_sa_token_path \<mapsto> ''abc ''] sample_load_args = Inr (None, None, None)"
    by (simp add: choose_token_def is_inverse_proxy_host_def) (simp add: sample_load_args_def)
  moreover have "strip ''abc '' = ''abc''" by (simp add: strip_def is_space_def)
  moreover have "incluster sample_services" by (simp add: sample_services_def)
  ultimately show ?thesis
    using in_cluster_token_printed [of sample_services "[ml_pipeline_sa_token_path \<mapsto> ''abc '']" sample_load_args
        "\<lambda>k. None" "''abc ''"] host
    by (auto simp: token_path_def)
qed

section \<open>The context file\<close>

lemma update_members: "p \<in> set (AList.update k v kvs) \<Longrightarrow> p = (k, v) \<or> p \<in> set kvs"
  by (induction kvs) (auto split: if_splits)

lemma wf_update:
  assumes "wf_json (JObj kvs)" and "ascii k" and "wf_json v"
  shows "wf_json (JObj (AList.update k v kvs))"
proof -
  have "distinct (map fst (AList.update k v kvs))"
    using assms(1) by (intro distinct_update) simp
  moreover have "ascii (fst p) \<and> wf_json (snd p)" if "p \<in> set (AList.update k v kvs)" for p
    using update_members [OF that] assms by auto
  ultimately show ?thesis by simp
qed

text \<open>
  The namespace a user sets survives the client: the context file reads back as the new
  setting, whose namespace is the one set and whose other entries are as before, and no other
  file is touched.
\<close>

lemma set_user_namespace_persists:
  assumes "wf_json ctx" and "ascii ns" and "set_user_namespace home ctx ns fs = Inr (ctx', fs')"
  shows "load_context_setting_or_default home fs' = Inr ctx' \<and>
    get_user_namespace ctx' = Inr (JStr ns) \<and>
    (\<forall>k d. k \<noteq> ''namespace'' \<longrightarrow> py_get ctx' k d = py_get ctx k d) \<and>
    (\<forall>p. p \<noteq> local_kfp_context home \<longrightarrow> fs' p = fs p)"
proof -
  obtain kvs where ctx: "ctx = JObj kvs" "ctx' = JObj (AList.update ''namespace'' (JStr ns) kvs)"
      "fs' = fs(local_kfp_context home \<mapsto> dumps ctx')"
    using assms(3) by (cases ctx) (auto simp: set_user_namespace_def bindE_eq_Inr)
  have "wf_json (JObj kvs)" using assms(1) by (simp only: ctx(1))
  then have "wf_json ctx'" unfolding ctx(2) by (rule wf_update) (simp_all add: assms(2))
  then have "loads (dumps ctx') = Inr ctx'" by (rule json_text.decode_encode)
  then have "load_context_setting_or_default home fs' = Inr ctx'"
    by (simp only: load_context_setting_or_default_def ctx(3) fun_upd_same option.case)
  moreover have update: "map_of (AList.update k (v :: json) kvs) = (map_of kvs)(k \<mapsto> v)" for k v
    by (rule update_conv')
  have "get_user_namespace ctx' = Inr (JStr ns)"
    by (simp add: get_user_namespace_def ctx(2) update)
  moreover have "py_get ctx' k d = py_get ctx k d" if "k \<noteq> ''namespace''" for k d
    using that by (simp only: ctx(1,2) py_get.simps update fun_upd_apply if_False)
  moreover have "fs' p = fs p" if "p \<noteq> local_kfp_context home" for p
    using that by (simp only: ctx(3) fun_upd_apply if_False)
  ultimately show ?thesis by blast
qed

lemma set_user_namespace_persists_witness:
  "\<exists>ctx' fs'. set_user_namespace ''/root'' sample_context ''bob'' (\<lambda>p. None) = Inr (ctx', fs') \<and>
     load_context_setting_or_default ''/root'' fs' = Inr ctx' \<and> get_user_namespace ctx' = Inr (JStr ''bob'')"
proof -
  obtain ctx' fs' where set: "set_user_namespace ''/root'' sample_context ''bob'' (\<lambda>p. None) = Inr (ctx', fs')"
    by (simp add: set_user_namespace_def sample_context_def)
  have "wf_json sample_context" "ascii ''bob''" by (simp_all add: sample_context_def)
  from set_user_namespace_persists [OF this set] set show ?thesis by blast
qed

text \<open>
  Starting a client never replaces a namespace the user has set, and does not even ask the
  service then; otherwise it takes over the namespace of the pod, writing it to the context
  file, exactly when the deployment answers that it is for many users and the pod has one.
\<close>

lemma init_namespace_cases:
  assumes "get_user_namespace ctx = Inr ns"
  shows "(py_bool ns \<longrightarrow> init_namespace api home ctx fs w = (Inr (ctx, fs), w)) \<and>
    (\<forall>multi w'. \<not> py_bool ns \<longrightarrow> get_kfp_healthz api w = (Inr multi, w') \<longrightarrow>
      init_namespace api home ctx fs w =
        (case (multi, fs namespace_path) of
           (Some True, Some current) \<Rightarrow> (set_user_namespace home ctx current fs, w')
         | _ \<Rightarrow> (Inr (ctx, fs), w')))"
  using assms by (auto simp: init_namespace_def bindS_def lift_def split: option.split bool.split)

theorem init_namespace_cases_witness:
  "\<exists>ctx' fs'. init_namespace sample_api ''/root'' (JObj [(''namespace'', JStr '''')]) [namespace_path \<mapsto> ''bob''] [''a'', ''b''] =
     (Inr (ctx', fs'), [''a'', ''b'']) \<and> get_user_namespace ctx' = Inr (JStr ''bob'')"
proof -
  have ns: "get_user_namespace (JObj [(''namespace'', JStr '''')]) = Inr (JStr '''')"
    by (simp add: get_user_namespace_def)
  have "healthz_attempts sample_api (Suc n) [''a'', ''b''] = (Inr (Some True), [''a'', ''b''])" for n
    by (simp add: sample_api_def)
  from this [of 4] have "get_kfp_healthz sample_api [''a'', ''b''] = (Inr (Some True), [''a'', ''b''])"
    by (simp add: get_kfp_healthz_def)
  then show ?thesis
    using init_namespace_cases [OF ns, of sample_api "''/root''" "[namespace_path \<mapsto> ''bob'']" "[''a'', ''b'']"]
    by (simp add: set_user_namespace_def get_user_namespace_def)
qed

section \<open>One client after another\<close>

text \<open>The context file is missing or holds what a client wrote.\<close>

definition written_context :: "string \<Rightarrow> files \<Rightarrow> bool" where
  "written_context home fs \<longleftrightarrow>
     (\<forall>text. fs (local_kfp_context home) = Some text \<longrightarrow> (\<exists>ctx. wf_json ctx \<and> text = dumps ctx))"

lemma written_context_loads:
  assumes "written_context home fs"
  obtains ctx where "load_context_setting_or_default home fs = Inr ctx" and "wf_json ctx"
proof (cases "fs (local_kfp_context home)")
  case None
  show thesis
    by (rule that [of "JObj [(''namespace'', JStr '''')]"]) (simp_all add: load_context_setting_or_default_def None)
next
  case (Some content)
  then obtain ctx where ctx: "wf_json ctx" "content = dumps ctx" using assms by (auto simp: written_context_def)
  then have "loads (dumps ctx) = Inr ctx" by (intro json_text.decode_encode)
  then show thesis by (intro that [of ctx]) (simp_all only: load_context_setting_or_default_def Some option.case ctx)
qed

lemma init_namespace_result:
  assumes "init_namespace api home ctx fs w = (Inr (ctx', fs'), w')"
  shows "ctx' = ctx \<and> fs' = fs \<or>
    (\<exists>current. fs namespace_path = Some current \<and> set_user_namespace home ctx current fs = Inr (ctx', fs'))"
  using assms
  by (auto simp: init_namespace_def bindS_iff lift_def returnS_def split: if_splits option.splits)

lemma init_namespace_written:
  assumes "written_context home fs" and "\<And>current. fs namespace_path = Some current \<Longrightarrow> ascii current"
    and "load_context_setting_or_default home fs = Inr ctx" and "wf_json ctx"
    and "init_namespace api home ctx fs w = (Inr (ctx', fs'), w')"
  shows "load_context_setting_or_default home fs' = Inr ctx'" and "\<forall>p. p \<noteq> local_kfp_context home \<longrightarrow> fs' p = fs p"
  using init_namespace_result [OF assms(5)] set_user_namespace_persists [OF assms(4)] assms(2,3) by blast+

lemma client_init_iff:
  "client_init svc make_api env home a cookies fs w = (out, Inr (c, fs'), w') \<longleftrightarrow>
     (\<exists>refresh ctx name val.
        load_config svc env fs (a\<lparr>la_host := endpoint_host env (la_host a)\<rparr>) = (out, Inr (c_config c, refresh)) \<and>
        load_context_setting_or_default home fs = Inr ctx \<and>
        (if cookies = JNull then py_get ctx ''client_authentication_cookie'' JNull else Inr cookies) = Inr (c_cookie c) \<and>
        py_get ctx ''client_authentication_header_name'' JNull = Inr name \<and>
        py_get ctx ''client_authentication_header_value'' JNull = Inr val \<and>
        init_namespace (make_api (c_config c) (c_cookie c) name val) home ctx fs w = (Inr (c_context c, fs'), w') \<and>
        c_uihost c = ui_host env (endpoint_host env (la_host a)))"
  by (cases c) (auto simp: client_init_def Let_def bindS_iff lift_def returnS_def split: prod.splits sum.splits)

text \<open>
  C32. What one client finds out the next one starts from: after a client has started with a
  namespace (the user's, or the one it took over from its pod and wrote down), every client
  started later on those files, whatever its arguments and its service, has the same context, asks
  the service nothing and writes nothing, and it starts unless its own credentials fail. The first
  one has changed no file but the context file.
\<close>

theorem client_restart:
  assumes "written_context home fs" and "\<And>current. fs namespace_path = Some current \<Longrightarrow> ascii current"
    and "client_init svc make_api env home a cookies fs w = (out, Inr (c, fs'), w1)"
    and "get_user_namespace (c_context c) = Inr ns" and "py_bool ns"
  shows "(\<forall>p. p \<noteq> local_kfp_context home \<longrightarrow> fs' p = fs p) \<and>
    (case load_config svc' env' fs' (a'\<lparr>la_host := endpoint_host env' (la_host a')\<rparr>) of
       (out', Inl e) \<Rightarrow> client_init svc' make_api' env' home a' cookies' fs' v = (out', Inl e, v)
     | (out', Inr _) \<Rightarrow> (\<exists>c'. client_init svc' make_api' env' home a' cookies' fs' v = (out', Inr (c', fs'), v) \<and>
                          c_context c' = c_context c))"
proof -
  obtain ctx where ctx: "load_context_setting_or_default home fs = Inr ctx" "wf_json ctx"
    using assms(1) by (rule written_context_loads)
  obtain api' where "init_namespace (api' :: 'a api) home ctx fs w = (Inr (c_context c, fs'), w1)"
    using assms(3) by (auto simp: client_init_iff ctx(1))
  note written = init_namespace_written [OF assms(1,2) ctx this]
  obtain kvs where kvs: "c_context c = JObj kvs"
    using assms(4) by (cases "c_context c") (simp_all add: get_user_namespace_def)
  have quiet: "init_namespace api'' home (c_context c) fs' v = (Inr (c_context c, fs'), v)" for api'' :: "'b api"
    using assms(4,5) by (simp add: init_namespace_def bindS_const)
  show ?thesis
    using written quiet unfolding kvs
    by (auto simp: client_init_def Let_def bindS_def lift_def split: prod.splits sum.splits)
qed

theorem client_restart_witness:
  "\<exists>c fs' c'.
     client_init sample_services (\<lambda>_ _ _ _. sample_api) (\<lambda>k. None) ''/root'' (sample_load_args\<lparr>la_existing_token := Some ''t''\<rparr>)
       JNull [namespace_path \<mapsto> ''bob''] [''a'', ''b''] = ([], Inr (c, fs'), [''a'', ''b'']) \<and>
     client_init sample_services (\<lambda>_ _ _ _. sample_api) (\<lambda>k. None) ''/root'' (sample_load_args\<lparr>la_existing_token := Some ''t''\<rparr>)
       JNull fs' [] = ([], Inr (c', fs'), []) \<and>
     get_user_namespace (c_context c') = Inr (JStr ''bob'')"
proof -
  let ?args = "sample_load_args\<lparr>la_existing_token := Some ''t''\<rparr>"
  let ?start = "client_init sample_services (\<lambda>_ _ _ _. sample_api) (\<lambda>k. None) ''/root'' ?args JNull"
  let ?fs = "[namespace_path \<mapsto> ''bob'']"
  have config: "\<exists>cfg r. load_config sample_services (\<lambda>k. None) fs
      (?args\<lparr>la_host := endpoint_host (\<lambda>k. None) (la_host ?args)\<rparr>) = ([], Inr (cfg, r))" for fs
    by (simp add: load_config_def choose_token_def Let_def)
  have fresh: "local_kfp_context ''/root'' \<noteq> namespace_path" by (simp add: local_kfp_context_def namespace_path_def)
  have "healthz_attempts sample_api (Suc n) [''a'', ''b''] = (Inr (Some True), [''a'', ''b''])" for n
    by (simp add: sample_api_def)
  from this [of 4] have "get_kfp_healthz sample_api [''a'', ''b''] = (Inr (Some True), [''a'', ''b''])"
    by (simp add: get_kfp_healthz_def)
  with config [of ?fs] fresh obtain c fs' where first: "?start ?fs [''a'', ''b''] = ([], Inr (c, fs'), [''a'', ''b''])"
      "get_user_namespace (c_context c) = Inr (JStr ''bob'')"
    by (auto simp: client_init_def load_context_setting_or_default_def init_namespace_def bindS_def lift_def
        get_user_namespace_def set_user_namespace_def)
  have "written_context ''/root'' ?fs" using fresh by (simp add: written_context_def)
  from client_restart [OF this _ first, where svc' = sample_services and env' = "\<lambda>k. None" and a' = ?args and make_api' = "\<lambda>_ _ _ _. sample_api" and cookies' = JNull and v = "[]"]
    config [of fs'] first(2)
  have "\<exists>c'. ?start fs' [] = ([], Inr (c', fs'), []) \<and> c_context c' = c_context c" by auto
  with first show ?thesis by auto
qed

end
