(* ===== verification/KfpSubmit.thy ===== *)
theory KfpSubmit
  imports KfpProps
begin

text \<open>
  The submission of a run from a package, end to end: the experiment is looked up or created, and the
  run is created in it. What is asked of the service is collected in one predicate.
\<close>

section \<open>A service that keeps its experiments\<close>

text \<open>
  \<open>listed w ns\<close> are the experiments of a namespace. The service lists them over finitely many pages and
  reads each by its id. It may refuse to create an experiment, as it does for a name that is listed; one that it creates
  has the name asked for and is appended to the namespace that owns it. Runs, the clock and the notebook change no experiments.
\<close>

definition keeps_experiments :: "'w api \<Rightarrow> ('w \<Rightarrow> json \<Rightarrow> kfp_experiment list) \<Rightarrow> bool" where
  "keeps_experiments api listed \<longleftrightarrow>
     (\<forall>w ns. serves api ns w (Some '''') (listed w ns)) \<and>
     (\<forall>w ns. \<forall>x \<in> set (listed w ns). get_experiment_api api (exp_id x) w = (Inr x, w)) \<and>
     (\<forall>w body x w'. create_experiment_api api body w = (Inr x, w') \<longrightarrow> exp_name x = body_name body \<and>
        (\<forall>ns. listed w' ns = (if body_references body = namespace_references ns then listed w ns @ [x] else listed w ns))) \<and>
     (\<forall>w body. listed (snd (create_run_api api body w)) = listed w) \<and>
     (\<forall>w. listed (snd (timestamp api w)) = listed w) \<and>
     (\<forall>w h. listed (show_html api h w) = listed w)"

lemma keeps_experimentsD:
  assumes "keeps_experiments api listed"
  shows "serves api ns w (Some '''') (listed w ns)"
    and "x \<in> set (listed w ns) \<Longrightarrow> get_experiment_api api (exp_id x) w = (Inr x, w)"
    and "create_experiment_api api body w = (Inr x, w') \<Longrightarrow> exp_name x = body_name body \<and>
        (\<forall>ns. listed w' ns = (if body_references body = namespace_references ns then listed w ns @ [x] else listed w ns))"
    and "listed (snd (create_run_api api req w)) = listed w"
    and "listed (snd (timestamp api w)) = listed w"
    and "listed (display_link api h w) = listed w"
proof -
  note contract = assms [unfolded keeps_experiments_def]
  show "serves api ns w (Some '''') (listed w ns)"
    and "x \<in> set (listed w ns) \<Longrightarrow> get_experiment_api api (exp_id x) w = (Inr x, w)"
    and "create_experiment_api api body w = (Inr x, w') \<Longrightarrow> exp_name x = body_name body \<and>
        (\<forall>ns. listed w' ns = (if body_references body = namespace_references ns then listed w ns @ [x] else listed w ns))"
    and "listed (snd (create_run_api api req w)) = listed w"
    and "listed (snd (timestamp api w)) = listed w"
    using contract by blast+
  show "listed (display_link api h w) = listed w"
    using contract by (simp add: display_link_def)
qed

lemma lookup_listed:
  assumes "keeps_experiments api listed" and "List.find (\<lambda>x. exp_name x = name) (listed w ns) = Some x"
  shows "lookup_result api name (listed w ns) w = (Inr x, w)"
proof -
  have "x \<in> set (listed w ns)" using assms(2) by (auto simp: find_Some_iff)
  with assms(2) keeps_experimentsD(2) [OF assms(1)] show ?thesis by (simp add: lookup_result_def)
qed

text \<open>What creating an experiment asks for, and get or create in terms of what is listed before and after.\<close>

abbreviation experiment_request :: "string \<Rightarrow> string option \<Rightarrow> json \<Rightarrow> experiment_body" where
  "experiment_request name description ns \<equiv>
     \<lparr>body_name = name, body_description = description, body_references = namespace_references ns\<rparr>"

lemma create_experiment_listed:
  assumes "keeps_experiments api listed" and "resolve_namespace ctx ns = Inr ns'"
  shows "\<exists>r w'. create_experiment api uihost ctx name description ns w = Some (r, w') \<and> (case r of
      Inl e \<Rightarrow> name \<notin> exp_name ` set (listed w ns') \<and> create_experiment_api api (experiment_request name description ns') w = (Inl e, w')
    | Inr x \<Rightarrow> exp_name x = name \<and> List.find (\<lambda>x. exp_name x = name) (listed w' ns') = Some x \<and>
        listed w' ns' = (if name \<in> exp_name ` set (listed w ns') then listed w ns' else listed w ns' @ [x]))"
proof -
  note found = get_experiment_serves [OF resolve_again [OF assms(2)] keeps_experimentsD(1) [OF assms(1)]]
  note shown = keeps_experimentsD(6) [OF assms(1)]
  let ?show = "\<lambda>x. display_link api (experiment_html uihost (exp_id x))"
  show ?thesis
  proof (cases "List.find (\<lambda>x. exp_name x = name) (listed w ns')")
    case (Some x)
    then have x: "exp_name x = name" "name \<in> exp_name ` set (listed w ns')" by (auto simp: find_Some_iff)
    have "create_experiment api uihost ctx name description ns w = Some (Inr x, ?show x w)"
      using lookup_listed [OF assms(1) Some] assms(2) by (simp add: create_experiment_def found)
    with x Some show ?thesis by (auto simp: shown)
  next
    case None
    then have new: "name \<notin> exp_name ` set (listed w ns')" by (simp add: find_name_None)
    obtain r w' where created: "create_experiment_api api (experiment_request name description ns') w = (r, w')"
      by fastforce
    have "lookup_result api name (listed w ns') w = (Inl (missing_error name), w)"
      using None by (simp add: lookup_result_def)
    moreover have "starts_with (no_experiment @ s) no_experiment" for s by (simp add: starts_with_def)
    ultimately have eq: "create_experiment api uihost ctx name description ns w =
        Some (r, case r of Inl e \<Rightarrow> w' | Inr x \<Rightarrow> ?show x w')"
      using created assms(2) by (simp add: create_experiment_def found missing_error_def)
    show ?thesis
    proof (cases r)
      case (Inl e)
      with eq created new show ?thesis by auto
    next
      case (Inr x)
      have "exp_name x = name" "listed w' ns' = listed w ns' @ [x]"
        using keeps_experimentsD(3) [OF assms(1) created [unfolded Inr]] by simp_all
      with eq new None Inr show ?thesis by (auto simp: find_append shown)
    qed
  qed
qed

section \<open>Submissions\<close>

lemma run_keeps_listed:
  assumes "keeps_experiments api listed"
  shows "listed (snd (run_pipeline api pk uihost eid name file params pid vid w)) = listed w"
  using keeps_experimentsD(4,6) [OF assms]
  by (auto simp: run_pipeline_def bindS_def lift_def split: sum.splits prod.splits) (metis snd_conv)+

abbreviation named :: "string \<Rightarrow> kfp_experiment list \<Rightarrow> kfp_experiment option" where
  "named n xs \<equiv> List.find (\<lambda>x. exp_name x = n) xs"

text \<open>The name of a run: the given one, or the file's with the time.\<close>

definition chosen_job :: "'w api \<Rightarrow> string option \<Rightarrow> string \<Rightarrow> 'w \<Rightarrow> string" where
  "chosen_job api name path w = (if truthy name then the name else basename path @ '' '' @ fst (timestamp api w))"

lemma submission:
  assumes "keeps_experiments api listed" and "resolve_namespace ctx ns = Inr ns'"
    and "n = run_experiment_name env exname"
  shows "(\<exists>e v w'. create_run_from_pipeline_package api pk env uihost ctx path arguments name exname ns w = Some (Inl e, w') \<and>
      n \<notin> exp_name ` set (listed w ns') \<and> create_experiment_api api (experiment_request n None ns') v = (Inl e, w')) \<or>
    (\<exists>x w'. create_run_from_pipeline_package api pk env uihost ctx path arguments name exname ns w =
      Some (run_pipeline api pk uihost (exp_id x) (chosen_job api name path w) (Some path) arguments None None w') \<and>
      exp_name x = n \<and> named n (listed w' ns') = Some x \<and>
      listed w' ns' = (if n \<in> exp_name ` set (listed w ns') then listed w ns' else listed w ns' @ [x]))"
proof -
  let ?w = "if truthy name then w else snd (timestamp api w)"
  have same: "listed ?w = listed w" using keeps_experimentsD(5) [OF assms(1)] by simp
  obtain r w' where r: "create_experiment api uihost ctx n None ns ?w = Some (r, w')" "case r of
      Inl e \<Rightarrow> n \<notin> exp_name ` set (listed w ns') \<and> create_experiment_api api (experiment_request n None ns') ?w = (Inl e, w')
    | Inr x \<Rightarrow> exp_name x = n \<and> named n (listed w' ns') = Some x \<and>
        listed w' ns' = (if n \<in> exp_name ` set (listed w ns') then listed w ns' else listed w ns' @ [x])"
    using create_experiment_listed [OF assms(1,2), of uihost n None ?w] unfolding same by blast
  have "create_run_from_pipeline_package api pk env uihost ctx path arguments name exname ns w = (case r of
      Inl e \<Rightarrow> Some (Inl e, w')
    | Inr x \<Rightarrow> Some (run_pipeline api pk uihost (exp_id x) (chosen_job api name path w) (Some path) arguments None None w'))"
    using r(1) by (cases "truthy name"; cases r)
      (simp_all add: create_run_from_pipeline_package_def split_beta assms(3) chosen_job_def)
  note result = this
  show ?thesis
  proof (cases r)
    case (Inl e)
    with result r(2) show ?thesis by auto
  next
    case (Inr x)
    from result r(2) have "create_run_from_pipeline_package api pk env uihost ctx path arguments name exname ns w =
        Some (run_pipeline api pk uihost (exp_id x) (chosen_job api name path w) (Some path) arguments None None w') \<and>
        exp_name x = n \<and> named n (listed w' ns') = Some x \<and>
        listed w' ns' = (if n \<in> exp_name ` set (listed w ns') then listed w ns' else listed w ns' @ [x])"
      unfolding Inr sum.case by blast
    then show ?thesis by blast
  qed
qed

text \<open>
  C18. Two submissions under one experiment name (given, or taken from the environment, or the default), in a notebook or
  not, with given run names or not: either the first one ends with the error with which the service refused to
  create the experiment, and this only happens when the namespace lists none of the name; or it submits its run to an
  experiment of the name, the first one listed, and then the second one submits its run to the same experiment. The experiment is created if and only if the
  namespace listed none of the name, and nothing else is added to the namespace. What each submission returns, an
  error included, is then what the creation of its run in that experiment returns.
\<close>

theorem submissions_share_experiment:
  assumes "keeps_experiments api listed" and "resolve_namespace ctx ns = Inr ns'"
  shows "(\<exists>e v wa. create_run_from_pipeline_package api pk env uihost ctx file1 args1 name1 exname ns w = Some (Inl e, wa) \<and>
      run_experiment_name env exname \<notin> exp_name ` set (listed w ns') \<and>
      create_experiment_api api (experiment_request (run_experiment_name env exname) None ns') v = (Inl e, wa)) \<or>
    (\<exists>x wa wb w1 w2.
      create_run_from_pipeline_package api pk env uihost ctx file1 args1 name1 exname ns w =
        Some (run_pipeline api pk uihost (exp_id x) (chosen_job api name1 file1 w) (Some file1) args1 None None wa) \<and>
      w1 = snd (run_pipeline api pk uihost (exp_id x) (chosen_job api name1 file1 w) (Some file1) args1 None None wa) \<and>
      create_run_from_pipeline_package api pk env uihost ctx file2 args2 name2 exname ns w1 =
        Some (run_pipeline api pk uihost (exp_id x) (chosen_job api name2 file2 w1) (Some file2) args2 None None wb) \<and>
      w2 = snd (run_pipeline api pk uihost (exp_id x) (chosen_job api name2 file2 w1) (Some file2) args2 None None wb) \<and>
      exp_name x = run_experiment_name env exname \<and>
      named (run_experiment_name env exname) (listed w2 ns') = Some x \<and>
      listed w2 ns' =
        (if run_experiment_name env exname \<in> exp_name ` set (listed w ns') then listed w ns' else listed w ns' @ [x]))"
    (is "?refused \<or> ?shared")
proof (cases ?refused)
  case False
  let ?n = "run_experiment_name env exname"
  from submission [OF assms refl, where env = env and exname = exname and w = w and pk = pk and uihost = uihost
      and path = file1 and arguments = args1 and name = name1] False
  obtain x wa where
      first: "create_run_from_pipeline_package api pk env uihost ctx file1 args1 name1 exname ns w =
        Some (run_pipeline api pk uihost (exp_id x) (chosen_job api name1 file1 w) (Some file1) args1 None None wa)"
      "exp_name x = ?n" "named ?n (listed wa ns') = Some x"
      "listed wa ns' = (if ?n \<in> exp_name ` set (listed w ns') then listed w ns' else listed w ns' @ [x])"
    by blast
  let ?w1 = "snd (run_pipeline api pk uihost (exp_id x) (chosen_job api name1 file1 w) (Some file1) args1 None None wa)"
  have w1: "listed ?w1 = listed wa" by (rule run_keeps_listed [OF assms(1)])
  have known: "?n \<in> exp_name ` set (listed ?w1 ns')" using first(3) find_name_None [of ?n "listed wa ns'"] unfolding w1 by auto
  from submission [OF assms refl, where env = env and exname = exname and w = ?w1 and pk = pk and uihost = uihost
        and path = file2 and arguments = args2 and name = name2] known
  obtain y wb where second: "create_run_from_pipeline_package api pk env uihost ctx file2 args2 name2 exname ns ?w1 =
        Some (run_pipeline api pk uihost (exp_id y) (chosen_job api name2 file2 ?w1) (Some file2) args2 None None wb)"
      "named ?n (listed wb ns') = Some y" "listed wb ns' = listed ?w1 ns'"
    by auto
  have same: "y = x" using second(2,3) first(3) unfolding w1 by simp
  let ?w2 = "snd (run_pipeline api pk uihost (exp_id x) (chosen_job api name2 file2 ?w1) (Some file2) args2 None None wb)"
  have w2: "listed ?w2 ns' = listed wa ns'"
    unfolding run_keeps_listed [OF assms(1)] second(3) w1 ..
  have "listed ?w2 ns' =
      (if ?n \<in> exp_name ` set (listed w ns') then listed w ns' else listed w ns' @ [x])"
    unfolding w2 by (rule first(4))
  moreover have "named ?n (listed ?w2 ns') = Some x" unfolding w2 by (rule first(3))
  ultimately have ?shared using first(1,2) second(1) [unfolded same] by blast
  then show ?thesis ..
qed blast

text \<open>
  A service whose world holds the name and the owner of each experiment, and which refuses a name that is there; an
  experiment has its name as its id.
\<close>

definition stored :: "(string \<times> reference list) list \<Rightarrow> json \<Rightarrow> kfp_experiment list" where
  "stored w ns = map (\<lambda>(n, r). \<lparr>exp_id = n, exp_name = n\<rparr>) (List.filter (\<lambda>(n, r). r = namespace_references ns) w)"

definition store_api :: "(string \<times> reference list) list api" where
  "store_api =
     \<lparr>healthz = (\<lambda>w. (Inr None, w)),
      list_experiment_api = (\<lambda>t n s ns w. (Inr \<lparr>experiments = Some (stored w ns), next_page_token = None\<rparr>, w)),
      get_experiment_api = (\<lambda>i w. (Inr \<lparr>exp_id = i, exp_name = i\<rparr>, w)),
      create_experiment_api = (\<lambda>body w.
        if (body_name body, body_references body) \<in> set w then (Inl (ApiException ''already exists''), w)
        else (Inr \<lparr>exp_id = body_name body, exp_name = body_name body\<rparr>, w @ [(body_name body, body_references body)])),
      list_pipelines_api = (\<lambda>f w. (Inr None, w)),
      create_run_api = (\<lambda>body w. (Inr \<lparr>run_id = ''r'', run_status = None\<rparr>, w)),
      create_job_api = (\<lambda>body w. (Inr JNull, w)),
      get_run_api = (\<lambda>i w. (Inr \<lparr>run_id = i, run_status = None\<rparr>, w)),
      list_runs_api = (\<lambda>q w. (Inr JNull, w)),
      list_jobs_api = (\<lambda>q w. (Inr JNull, w)),
      upload_version_api = (\<lambda>p v i w. (Inr ''v1'', w)),
      gcp_access_token = (\<lambda>w. (Inr ''token'', w)),
      clock = (\<lambda>w. (0, w)),
      pause = (\<lambda>d w. w),
      timestamp = (\<lambda>w. (''now'', w)),
      ipython = Some False,
      show_html = (\<lambda>h w. w)\<rparr>"

lemma store_keeps: "keeps_experiments store_api stored"
proof -
  have "serves store_api ns w (Some '''') (stored w ns)" for ns w
  proof -
    have "serves store_api ns w (Some '''') (page_items \<lparr>experiments = Some (stored w ns), next_page_token = None\<rparr> @ [])"
      by (rule serves_page) (simp_all add: store_api_def serves_end)
    then show ?thesis by (simp add: page_items_def)
  qed
  then show ?thesis
    by (auto simp: keeps_experiments_def store_api_def) (auto simp: stored_def)
qed

theorem submissions_share_experiment_witness:
  "\<exists>wb. stored (snd (run_pipeline store_api sample_packages None ''mnist'' ''p.yaml now'' (Some ''p.yaml'') [] None None wb))
     (JStr ''alice'') = [\<lparr>exp_id = ''mnist'', exp_name = ''mnist''\<rparr>]"
proof -
  let ?w = "[(''mnist'', namespace_references (JStr ''alice''))]" and ?x = "\<lparr>exp_id = ''mnist'', exp_name = ''mnist''\<rparr>"
  have w: "stored ?w (JStr ''alice'') = [?x]" by (simp add: stored_def)
  have t: "chosen_job store_api None ''p.yaml'' v = ''p.yaml now''" for v
    by (simp add: chosen_job_def store_api_def basename_def)
  have n: "run_experiment_name (\<lambda>k. None) (Some ''mnist'') = ''mnist''" by (simp add: run_experiment_name_def)
  from submissions_share_experiment [OF store_keeps sample_namespace, of sample_packages "\<lambda>k. None" None "''p.yaml''" "[]"
      "Some ''one''" "Some ''mnist''" ?w "''p.yaml''" "[]" None]
  obtain x wb where final: "stored (snd (run_pipeline store_api sample_packages None (exp_id x) ''p.yaml now''
      (Some ''p.yaml'') [] None None wb)) (JStr ''alice'') = [?x]" and "named ''mnist'' [?x] = Some x"
    unfolding n w t by auto
  then have "x = ?x" by simp
  with final show ?thesis by auto
qed

end
