(* ===== verification/SeaweedLoop.thy ===== *)
theory SeaweedLoop
  imports SeaweedProps Reconcile
begin

text \<open>
  The reconcile loop around \<open>sync_seaweed.py\<close>. Beside the cluster its steps change the world of the
  IAM interface; a call is answered, or it fails and leaves the cluster as it was, but
  perhaps not the world. An edit leaves the data of a Secret alone; tampering need not.
\<close>

section \<open>Steps\<close>

datatype seaweed_event = Answered string json | Failed string json | Lost string | Edited string | Tampered string

inductive seaweed_step ::
  "'w iam_client \<Rightarrow> cluster \<times> 'w \<Rightarrow> seaweed_event \<Rightarrow> cluster \<times> 'w \<Rightarrow> bool"
  for iam where
  seaweed_answered:
    "sync_seaweed iam parent (observation (objects c ns) (map fst seaweed_checks)) w = (out, Inr resp, w') \<Longrightarrow>
     seaweed_step iam (c, w) (Answered ns parent)
       (c\<lparr>objects := (objects c)(ns := response_items ''attachments'' resp),
          profile_status := (profile_status c)(ns := json_at resp [Key ''status''])\<rparr>, w')"
| seaweed_failed:
    "sync_seaweed iam parent (observation (objects c ns) (map fst seaweed_checks)) w = (out, Inl e, w') \<Longrightarrow>
     seaweed_step iam (c, w) (Failed ns parent) (c, w')"
| seaweed_lost: "seaweed_step iam (c, w) (Lost ns)
      (c\<lparr>objects := (objects c)(ns := List.filter P (objects c ns))\<rparr>, w)"
| seaweed_edited:
    "\<forall>r \<in> set (objects c ns). object_id (f r) = object_id r \<and> (group_key r = Some ''Secret.v1'' \<longrightarrow> f r = r) \<Longrightarrow>
     seaweed_step iam (c, w) (Edited ns) (c\<lparr>objects := (objects c)(ns := map f (objects c ns))\<rparr>, w)"
| seaweed_tampered: "\<forall>r \<in> set (objects c ns). object_id (f r) = object_id r \<Longrightarrow>
    seaweed_step iam (c, w) (Tampered ns) (c\<lparr>objects := (objects c)(ns := map f (objects c ns))\<rparr>, w)"

inductive seaweed_run ::
  "'w iam_client \<Rightarrow> cluster \<times> 'w \<Rightarrow> seaweed_event list \<Rightarrow> cluster \<times> 'w \<Rightarrow> bool"
  for iam where
  seaweed_Nil: "seaweed_run iam s [] s"
| seaweed_Cons: "seaweed_step iam s e s' \<Longrightarrow> seaweed_run iam s' es s'' \<Longrightarrow> seaweed_run iam s (e # es) s''"

text \<open>An IAM interface that notes for whom an access key is asked for.\<close>

definition noting :: "'w iam_client \<Rightarrow> ('w \<times> json list) iam_client" where
  "noting iam =
     \<lparr>create_access_key = (\<lambda>user (w, users). case create_access_key iam user w of (r, w') \<Rightarrow> (r, (w', users @ [user]))),
      put_user_policy = (\<lambda>user name doc (w, users). case put_user_policy iam user name doc w of (r, w') \<Rightarrow> (r, (w', users)))\<rparr>"

lemma credentials_noted:
  "create_credentials (noting iam) nss ns (w, users) = (r, (w', users')) \<Longrightarrow> users' = users @ [ns]"
  by (auto simp: create_credentials_def noting_def split: prod.splits sum.splits)

lemma attach_noted:
  assumes "attach_secret (noting iam) nss ns attachments ready (w, users) = (out, r, (w', users'))"
  shows "users' = users \<or> users' = users @ [ns]"
  using assms credentials_noted [of iam nss ns w users]
  by (auto simp: attach_secret_def split: prod.splits sum.splits if_splits)

section \<open>The Secret in the loop\<close>

text \<open>What the script looks for.\<close>

definition secret_seen :: "string \<Rightarrow> json list \<Rightarrow> bool" where
  "secret_seen ns rs \<longleftrightarrow>
     (\<exists>r \<in> set rs. group_key r = Some ''Secret.v1'' \<and> the (child_key r) = ns @ ''/'' @ secret_name)"

lemma group_key_true: "group_key r = Some k \<Longrightarrow> py_bool r"
  by (cases r) (auto simp: group_key_def res_kind_def str_at.simps split: option.splits)

lemma seen_lookup:
  assumes "secret_seen ns rs"
  obtains g found where "py_item (observation rs (map fst seaweed_checks)) ''Secret.v1'' = Inr (JObj g)"
    and "py_get (JObj g) (ns @ ''/'' @ secret_name) JNull = Inr found" and "py_bool found"
    and "group_key found = Some ''Secret.v1''" and "the (child_key found) = ns @ ''/'' @ secret_name"
    and "found \<in> set rs"
proof -
  let ?key = "ns @ ''/'' @ secret_name"
  let ?g = "map (\<lambda>r. (the (child_key r), r)) (in_group ''Secret.v1'' rs)"
  have item: "py_item (observation rs (map fst seaweed_checks)) ''Secret.v1'' = Inr (JObj ?g)"
    unfolding observation_def by (rule py_item_map) (simp add: seaweed_checks_def)
  have "?key \<in> fst ` set ?g" using assms by (force simp: secret_seen_def in_group_def)
  then obtain found where found: "map_of ?g ?key = Some found" by (meson map_of_eq_None_iff not_None_eq)
  then have "(?key, found) \<in> set ?g" by (rule map_of_SomeD)
  then have "found \<in> set (in_group ''Secret.v1'' rs)" "the (child_key found) = ?key" by auto
  then show thesis
    using that [OF item _ group_key_true] found by (auto simp: in_group_def)
qed

lemma unseen_lookup:
  assumes "\<not> secret_seen ns rs"
  obtains g where "py_item (observation rs (map fst seaweed_checks)) ''Secret.v1'' = Inr (JObj g)"
    and "py_get (JObj g) (ns @ ''/'' @ secret_name) JNull = Inr JNull"
proof -
  let ?key = "ns @ ''/'' @ secret_name"
  let ?g = "map (\<lambda>r. (the (child_key r), r)) (in_group ''Secret.v1'' rs)"
  have item: "py_item (observation rs (map fst seaweed_checks)) ''Secret.v1'' = Inr (JObj ?g)"
    unfolding observation_def by (rule py_item_map) (simp add: seaweed_checks_def)
  have "?key \<notin> fst ` set ?g" using assms by (auto simp: secret_seen_def in_group_def)
  then have "map_of ?g ?key = None" by (simp add: map_of_eq_None_iff)
  with that [OF item] show thesis by simp
qed

text \<open>
  A call on an enabled profile: with the Secret in the cluster the IAM interface is not used; an
  answer always brings the Secret.
\<close>

lemma enabled_call:
  assumes "parent_name parent = Inr (JStr ns)" and "parent_enabled parent = Inr (JStr ''true'')"
    and "sync_seaweed iam parent (observation rs (map fst seaweed_checks)) w = (out, r, w')"
  shows "secret_seen ns rs \<Longrightarrow> w' = w" and "r = Inr resp \<Longrightarrow> secret_seen ns (response_items ''attachments'' resp)"
proof -
  let ?o = "observation rs (map fst seaweed_checks)"
  obtain ready where ready: "all_counts ?o seaweed_checks = Inr ready" using observation_counts by blast
  note enabled = sync_seaweed_enabled [OF assms(1,2) ready, of iam w]
  have items: "response_items ''attachments'' (seaweed_answer b xs) = xs" for b xs
    by (simp add: response_items_def seaweed_answer_def)
  have seen: "w' = w \<and> (r = Inr resp \<longrightarrow> secret_seen ns (response_items ''attachments'' resp))" if "secret_seen ns rs"
    using that
  proof (rule seen_lookup)
    fix g found
    assume g: "py_item ?o ''Secret.v1'' = Inr (JObj g)" "py_get (JObj g) (ns @ ''/'' @ secret_name) JNull = Inr found"
        "py_bool found"
      and found: "group_key found = Some ''Secret.v1''" "the (child_key found) = ns @ ''/'' @ secret_name"
    from assms(3) [unfolded enabled attach_existing [OF g]] found show ?thesis
      by (auto simp: items secret_seen_def)
  qed
  have new: "secret_seen ns (response_items ''attachments'' resp)" if "\<not> secret_seen ns rs" "r = Inr resp"
    using that(1)
  proof (rule unseen_lookup)
    fix g
    assume g: "py_item ?o ''Secret.v1'' = Inr (JObj g)" "py_get (JObj g) (ns @ ''/'' @ secret_name) JNull = Inr JNull"
    have "\<not> py_bool JNull" by simp
    from assms(3) [unfolded enabled attach_new [OF g this]] that(2)
    obtain secret where resp: "resp = seaweed_answer ready (secret # seaweed_resources ns (JStr ns))"
        "fst (create_credentials iam ns (JStr ns) w) = Inr secret"
      by (cases "fst (create_credentials iam ns (JStr ns) w)") auto
    then obtain a s where "secret = seaweed_secret (JStr ns) a s"
      by (auto simp: create_credentials_def secret_of_reply_def bindE_eq_Inr split: prod.splits sum.splits)
    then have "group_key secret = Some ''Secret.v1''" "child_key secret = Some (ns @ ''/'' @ secret_name)"
      by (simp_all add: child_key_def)
    then show ?thesis by (auto simp: resp items secret_seen_def)
  qed
  show "secret_seen ns rs \<Longrightarrow> w' = w" and "r = Inr resp \<Longrightarrow> secret_seen ns (response_items ''attachments'' resp)"
    using seen new by blast+
qed

section \<open>How many keys are made\<close>

text \<open>
  The events after which a new key may be needed, the calls that may ask for one, and the calls that post an
  object of the profile's name.
\<close>

fun mishap :: "string \<Rightarrow> seaweed_event \<Rightarrow> bool" where
  "mishap ns (Answered m parent) \<longleftrightarrow> m = ns \<and> \<not> is_enabled parent"
| "mishap ns (Failed m parent) \<longleftrightarrow> m = ns"
| "mishap ns (Lost m) \<longleftrightarrow> m = ns"
| "mishap ns _ \<longleftrightarrow> False"

fun enabled_call_of :: "string \<Rightarrow> seaweed_event \<Rightarrow> bool" where
  "enabled_call_of ns (Answered m parent) \<longleftrightarrow> m = ns \<and> is_enabled parent"
| "enabled_call_of ns (Failed m parent) \<longleftrightarrow> m = ns \<and> is_enabled parent"
| "enabled_call_of ns _ \<longleftrightarrow> False"

fun named_rightly :: "seaweed_event \<Rightarrow> bool" where
  "named_rightly (Answered m parent) \<longleftrightarrow> parent_name parent = Inr (JStr m)"
| "named_rightly (Failed m parent) \<longleftrightarrow> parent_name parent = Inr (JStr m)"
| "named_rightly _ \<longleftrightarrow> True"

lemma sync_noted:
  assumes "sync_seaweed (noting iam) parent obs w = (out, r, w')" and "parent_name parent = Inr ns"
  shows "snd w' = snd w \<or> snd w' = snd w @ [ns] \<and> is_enabled parent"
  using assms attach_noted [of iam _ ns obs _ "fst w" "snd w" _ r "fst w'" "snd w'"]
  by (auto simp: sync_seaweed_def bindE_eq_Inr is_enabled_def split: prod.splits sum.splits if_splits)

lemma seen_edited:
  assumes "secret_seen ns rs" and "\<forall>r \<in> set rs. object_id (f r) = object_id r"
  shows "secret_seen ns (map f rs)"
  using assms by (fastforce simp: secret_seen_def object_id_def)

text \<open>How many keys have been asked for, by one call at the most.\<close>

abbreviation keys_of :: "string \<Rightarrow> cluster \<times> ('w \<times> json list) \<Rightarrow> nat" where
  "keys_of ns s \<equiv> count_list (snd (snd s)) (JStr ns)"

lemma step_keys:
  assumes "seaweed_step (noting iam) s e s'" and "named_rightly e"
  shows "keys_of ns s' \<le> keys_of ns s + (if enabled_call_of ns e then 1 else 0)"
  using assms(1)
proof cases
  case (seaweed_answered parent c m w out resp w')
  then have "parent_name parent = Inr (JStr m)" using assms(2) by simp
  from sync_noted [OF seaweed_answered(4) this] show ?thesis unfolding seaweed_answered(1-3) by auto
next
  case (seaweed_failed parent c m w out x w')
  then have "parent_name parent = Inr (JStr m)" using assms(2) by simp
  from sync_noted [OF seaweed_failed(4) this] show ?thesis unfolding seaweed_failed(1-3) by auto
qed auto

text \<open>
  The invariant: the keys asked for are at most the mishaps so far, and one more while the Secret
  is in the cluster.
\<close>

definition keys_paid :: "string \<Rightarrow> nat \<Rightarrow> cluster \<times> ('w \<times> json list) \<Rightarrow> bool" where
  "keys_paid ns n s \<longleftrightarrow> keys_of ns s \<le> n + (if secret_seen ns (objects (fst s) ns) then 1 else 0)"

lemma step_keys_paid:
  assumes "seaweed_step (noting iam) s e s'" and "keys_paid ns n s" and "named_rightly e"
  shows "keys_paid ns (n + (if mishap ns e then 1 else 0)) s'"
  using assms(1)
proof cases
  case (seaweed_answered parent c m w out resp w')
  show ?thesis
  proof (cases "m = ns \<and> is_enabled parent")
    case True
    then have posted: "parent_name parent = Inr (JStr ns)" "parent_enabled parent = Inr (JStr ''true'')"
      using assms(3) seaweed_answered(2) by (simp_all add: is_enabled_def)
    note call = seaweed_answered(4) [unfolded conjunct1 [OF True]]
    have "secret_seen ns (objects c ns) \<Longrightarrow> w' = w" by (rule enabled_call(1) [OF posted call])
    moreover have "secret_seen ns (response_items ''attachments'' resp)" by (rule enabled_call(2) [OF posted call refl])
    moreover note True
    ultimately show ?thesis using step_keys [OF assms(1,3), of ns] assms(2)
      unfolding seaweed_answered(1,2,3) by (auto simp: keys_paid_def split: if_splits)
  next
    case False
    with step_keys [OF assms(1,3), of ns] assms(2) show ?thesis
      unfolding seaweed_answered(1,2,3) by (auto simp: keys_paid_def split: if_splits)
  qed
next
  case (seaweed_failed parent c m w out x w')
  with step_keys [OF assms(1,3), of ns] assms(2) show ?thesis by (auto simp: keys_paid_def split: if_splits)
next
  case (seaweed_lost c w m P)
  with assms(2) show ?thesis by (auto simp: keys_paid_def split: if_splits)
next
  case (seaweed_edited c m f w)
  with assms(2) seen_edited [of ns "objects c ns" f] show ?thesis by (auto simp: keys_paid_def split: if_splits)
next
  case (seaweed_tampered c m f w)
  with assms(2) seen_edited [of ns "objects c ns" f] show ?thesis by (auto simp: keys_paid_def split: if_splits)
qed

lemma run_keys:
  assumes "seaweed_run (noting iam) s es s'" and "\<forall>e \<in> set es. named_rightly e"
  shows "keys_of ns s' \<le> keys_of ns s + length (List.filter (enabled_call_of ns) es)"
    and "keys_paid ns n s \<Longrightarrow> keys_paid ns (n + length (List.filter (mishap ns) es)) s'"
proof -
  show "keys_of ns s' \<le> keys_of ns s + length (List.filter (enabled_call_of ns) es)"
    using assms
  proof (induction rule: seaweed_run.induct)
    case (seaweed_Cons s e s' es s'')
    with step_keys [OF seaweed_Cons.hyps(1), of ns] show ?case by (fastforce split: if_splits)
  qed simp
  show "keys_paid ns n s \<Longrightarrow> keys_paid ns (n + length (List.filter (mishap ns) es)) s'"
    using assms
  proof (induction arbitrary: n rule: seaweed_run.induct)
    case (seaweed_Cons s e s' es s'')
    from seaweed_Cons.IH [OF step_keys_paid [OF seaweed_Cons.hyps(1) seaweed_Cons.prems(1)]] seaweed_Cons.prems(2)
    show ?case by (simp split: if_splits)
  qed simp
qed

text \<open>
  C21. Access keys are not wasted: in any run of the loop the script asks for at most one key for
  a profile, plus one for each time a call for it failed, found its label taken off, or objects of it were
  removed; and for no more keys than there were calls with the label on.
\<close>

theorem seaweed_keys_bounded:
  assumes "seaweed_run (noting iam) (empty_cluster, (w, [])) es (c, (w', users))"
    and "\<forall>e \<in> set es. named_rightly e"
  shows "count_list users (JStr ns) \<le>
    min (length (List.filter (enabled_call_of ns) es)) (1 + length (List.filter (mishap ns) es))"
proof -
  have "keys_paid ns 0 (empty_cluster, (w, []))" by (simp add: keys_paid_def)
  from run_keys(2) [OF assms this] run_keys(1) [OF assms, of ns] show ?thesis
    by (auto simp: keys_paid_def split: if_splits)
qed

text \<open>
  The bound is reached: while the store creates keys but refuses policies, every call fails and
  leaves one more key behind, and the profile gets nothing.
\<close>

lemma seaweed_keys_wasted:
  assumes "\<And>v. \<exists>reply v'. create_access_key iam (JStr ns) v = (Inr reply, v')"
    and "\<And>name doc v. \<exists>e v'. put_user_policy iam (JStr ns) name doc v = (Inl e, v')"
  shows "\<exists>w'. seaweed_run (noting iam) (empty_cluster, (w, us)) (replicate n (Failed ns (enabled_parents ns)))
    (empty_cluster, (w', us @ replicate n (JStr ns)))"
proof (induction n arbitrary: w us)
  case 0
  show ?case by (auto intro: seaweed_Nil)
next
  case (Suc n)
  let ?o = "observation [] (map fst seaweed_checks)"
  obtain ready where ready: "all_counts ?o seaweed_checks = Inr ready" using observation_counts by blast
  have "\<not> secret_seen ns []" by (simp add: secret_seen_def)
  then obtain g where g: "py_item ?o ''Secret.v1'' = Inr (JObj g)"
      "py_get (JObj g) (ns @ ''/'' @ secret_name) JNull = Inr JNull" by (rule unseen_lookup)
  obtain reply w1 where created: "create_access_key iam (JStr ns) w = (Inr reply, w1)" using assms(1) by blast
  obtain e w2 where refused: "put_user_policy iam (JStr ns) (''KubeflowProject'' @ ns) (dumps (project_policy ns)) w1 = (Inl e, w2)"
    using assms(2) by blast
  have "create_credentials (noting iam) ns (JStr ns) (w, us) = (Inl e, (w2, us @ [JStr ns]))"
    using created refused by (simp add: create_credentials_def noting_def)
  then have "\<exists>out. sync_seaweed (noting iam) (enabled_parents ns) ?o (w, us) = (out, Inl e, (w2, us @ [JStr ns]))"
    by (simp add: sync_seaweed_enabled [OF enabled_parents ready] attach_new [OF g])
  then have "seaweed_step (noting iam) (empty_cluster, (w, us)) (Failed ns (enabled_parents ns))
      (empty_cluster, (w2, us @ [JStr ns]))"
    using seaweed_failed [of "noting iam" "enabled_parents ns" empty_cluster ns "(w, us)"] by (auto simp: empty_cluster_def)
  with Suc [of w2 "us @ [JStr ns]"] show ?case by (auto intro: seaweed_Cons)
qed

theorem seaweed_keys_bounded_witness:
  "\<exists>w'. seaweed_run (noting refusing_iam) (empty_cluster, ([], []))
       (replicate 2 (Failed ''alice'' (enabled_parents ''alice''))) (empty_cluster, (w', [JStr ''alice'', JStr ''alice''])) \<and>
    count_list [JStr ''alice'', JStr ''alice''] (JStr ''alice'') \<le> 2"
proof -
  let ?es = "replicate 2 (Failed ''alice'' (enabled_parents ''alice''))"
  obtain w' where run: "seaweed_run (noting refusing_iam) (empty_cluster, ([], [])) ?es
      (empty_cluster, (w', [] @ replicate 2 (JStr ''alice'')))"
    using seaweed_keys_wasted [of refusing_iam "''alice''" "[]" "[]" 2] by (auto simp: refusing_iam_def sample_iam_def)
  have "\<forall>e \<in> set ?es. named_rightly e" by (simp add: enabled_parents)
  from seaweed_keys_bounded [OF run this, of "''alice''"] run show ?thesis
    by (auto simp: enabled_parents is_enabled_def numeral_2_eq_2)
qed

end
