(* ===== verification/HiveLog.thy ===== *)
theory HiveLog
  imports PyFloat
begin

text \<open>
  What the Hive engine specification (\<open>src/superset/hive_minios3.py\<close>) reads out of the log of a
  running query: its regular expressions, the job tracker \<open>progress\<close>, the tracking URL, and
  the message of an error.
\<close>

section \<open>Regular expressions\<close>

text \<open>
  The expressions of the source are sequences of literal text, \<open>.*\<close> and named groups of digits.
  \<open>rmatch\<close> is \<open>re.match\<close>: \<open>.*\<close> and \<open>[0-9]+\<close> take as much as they can and give back one
  character at a time; the result is the text of the groups.
\<close>

datatype regex_item = Lit string | AnyStar | Digits string

type_synonym groups = "(string \<times> string) list"

fun try_down :: "(nat \<Rightarrow> 'a option) \<Rightarrow> nat \<Rightarrow> 'a option" where
  "try_down f 0 = f 0"
| "try_down f (Suc n) = (case f (Suc n) of Some r \<Rightarrow> Some r | None \<Rightarrow> try_down f n)"

definition no_newline :: "char \<Rightarrow> bool" where
  "no_newline c \<longleftrightarrow> c \<noteq> CHR 0x0A"

fun rmatch :: "regex_item list \<Rightarrow> string \<Rightarrow> groups option" where
  "rmatch [] s = Some []"
| "rmatch (Lit l # ps) s = (if starts_with s l then rmatch ps (drop (length l) s) else None)"
| "rmatch (AnyStar # ps) s =
     try_down (\<lambda>k. rmatch ps (drop k s)) (length (takeWhile no_newline s))"
| "rmatch (Digits n # ps) s =
     try_down (\<lambda>k. if k = 0 then None else map_option ((#) (n, take k s)) (rmatch ps (drop k s)))
       (length (takeWhile is_digit s))"

text \<open>The texts an expression stands for, with what its groups hold.\<close>

inductive matches :: "regex_item list \<Rightarrow> string \<Rightarrow> groups \<Rightarrow> bool" where
  m_end: "matches [] s []"
| m_lit: "matches ps s gs \<Longrightarrow> matches (Lit l # ps) (l @ s) gs"
| m_any: "list_all no_newline w \<Longrightarrow> matches ps s gs \<Longrightarrow> matches (AnyStar # ps) (w @ s) gs"
| m_digits: "d \<noteq> [] \<Longrightarrow> list_all is_digit d \<Longrightarrow> matches ps s gs \<Longrightarrow>
    matches (Digits n # ps) (d @ s) ((n, d) # gs)"

inductive_simps matches_simps:
  "matches [] s gs" "matches (Lit l # ps) s gs" "matches (AnyStar # ps) s gs" "matches (Digits n # ps) s gs"

lemma try_down_Some: "try_down f n = Some r \<Longrightarrow> \<exists>k \<le> n. f k = Some r"
proof (induction n)
  case (Suc n)
  show ?case
  proof (cases "f (Suc n)")
    case None
    with Suc obtain k where "k \<le> n" "f k = Some r" by auto
    then show ?thesis by (intro exI [of _ k]) simp
  next
    case (Some q)
    with Suc.prems show ?thesis by (intro exI [of _ "Suc n"]) simp
  qed
qed simp

lemma try_down_None: "try_down f n = None \<longleftrightarrow> (\<forall>k \<le> n. f k = None)"
  by (induction n) (auto split: option.splits simp: le_Suc_eq)

lemma take_takeWhile_le: "k \<le> length (takeWhile P s) \<Longrightarrow> list_all P (take k s)"
proof -
  assume k: "k \<le> length (takeWhile P s)"
  have "take k s = take k (takeWhile P s @ dropWhile P s)" by simp
  also have "\<dots> = take k (takeWhile P s)" using k by (simp only: take_append) simp
  finally show ?thesis by (auto simp: list_all_iff dest: in_set_takeD set_takeWhileD)
qed

lemma length_takeWhile_append: "list_all P w \<Longrightarrow> length w \<le> length (takeWhile P (w @ s))"
  by (simp add: list_all_iff takeWhile_append2)

theorem rmatch_sound: "rmatch ps s = Some gs \<Longrightarrow> matches ps s gs"
proof (induction ps s arbitrary: gs rule: rmatch.induct)
  case (2 l ps s)
  then show ?case by (auto simp: matches_simps starts_with_iff split: if_splits)
next
  case (3 ps s)
  then obtain k where k: "k \<le> length (takeWhile no_newline s)" "rmatch ps (drop k s) = Some gs"
    by (auto dest: try_down_Some)
  have "matches (AnyStar # ps) (take k s @ drop k s) gs"
    using 3(1) [OF k(2)] take_takeWhile_le [OF k(1)] by (rule m_any [rotated])
  then show ?case by simp
next
  case (4 n ps s)
  then obtain k gs' where k: "k \<le> length (takeWhile is_digit s)" "k \<noteq> 0" "rmatch ps (drop k s) = Some gs'"
    "gs = (n, take k s) # gs'"
    by (auto dest!: try_down_Some split: if_splits)
  have "k \<le> length s" using k(1) length_takeWhile_le le_trans by blast
  then have "take k s \<noteq> []" using k(2) by auto
  then have "matches (Digits n # ps) (take k s @ drop k s) gs"
    unfolding k(4) using take_takeWhile_le [OF k(1)] 4(1) [OF k(2,3)] by (rule m_digits)
  then show ?case by simp
qed (simp add: matches_simps)

theorem rmatch_complete: "matches ps s gs \<Longrightarrow> rmatch ps s \<noteq> None"
proof (induction rule: matches.induct)
  case (m_any w ps s gs)
  then show ?case
    using length_takeWhile_append [of no_newline w s] by (auto simp: try_down_None intro!: exI [of _ "length w"])
next
  case (m_digits d ps s gs n)
  then show ?case
    using length_takeWhile_append [of is_digit d s] by (auto simp: try_down_None intro!: exI [of _ "length d"])
qed (auto simp: starts_with_def)

lemma rmatch_iff: "(\<exists>gs. rmatch ps s = Some gs) \<longleftrightarrow> (\<exists>gs. matches ps s gs)"
  using rmatch_sound rmatch_complete by fastforce

section \<open>The expressions of the engine specification\<close>

definition jobs_stats_r :: "regex_item list" where
  "jobs_stats_r = [AnyStar, Lit ''INFO'', AnyStar, Lit ''Total jobs = '', Digits ''max_jobs'']"

definition launching_job_r :: "regex_item list" where
  "launching_job_r =
     [AnyStar, Lit ''INFO'', AnyStar, Lit ''Launching Job '', Digits ''job_number'',
      Lit '' out of '', Digits ''max_jobs'']"

definition stage_progress_r :: "regex_item list" where
  "stage_progress_r =
     [AnyStar, Lit ''INFO'', AnyStar, Lit ''Stage-'', Digits ''stage_number'', AnyStar,
      Lit ''map = '', Digits ''map_progress'', Lit ''%'', AnyStar,
      Lit ''reduce = '', Digits ''reduce_progress'', Lit ''%'', AnyStar]"

text \<open>\<open>int(match.groupdict()[name])\<close>: the groups hold digits only, so \<open>int\<close> cannot fail.\<close>

definition group_int :: "groups \<Rightarrow> string \<Rightarrow> nat" where
  "group_int gs name = dec_val (the (map_of gs name))"

lemma py_int_digits:
  assumes "d \<noteq> []" and "list_all is_digit d"
  shows "py_int d = Inr (int (dec_val d))"
proof -
  obtain c cs where d: "d = c # cs" using assms(1) by (cases d) auto
  have "strip d = d" using assms(2) by (intro strip_digits) (simp add: list_all_iff)
  moreover have "int_digits (digit_val c) cs = Some (foldl (\<lambda>a c. 10 * a + digit_val c) (digit_val c) cs)"
    using assms(2) d by (intro int_digits_foldl) (simp add: list_all_iff)
  moreover have "is_digit c" using assms(2) d by simp
  ultimately show ?thesis by (simp add: py_int_def Let_def d digit_not_sign dec_val_def)
qed

section \<open>The job tracker\<close>

text \<open>
  \<open>progress\<close>: the number of jobs, the job that runs, and the progress of its stages, a dict in
  the order its keys came in. Each line is tried against the three expressions in turn. A
  number of jobs of zero counts as one (\<open>int(...) or 1\<close>).
\<close>

record jobs =
  total_jobs :: nat
  current_job :: nat
  stages :: "(nat \<times> rat) list"

definition no_jobs :: jobs where
  "no_jobs = \<lparr>total_jobs = 1, current_job = 1, stages = []\<rparr>"

definition or_one :: "nat \<Rightarrow> nat" where
  "or_one n = (if n = 0 then 1 else n)"

definition read_stats :: "string \<Rightarrow> jobs \<Rightarrow> jobs" where
  "read_stats line js = (case rmatch jobs_stats_r line of
     None \<Rightarrow> js
   | Some gs \<Rightarrow> js\<lparr>total_jobs := or_one (group_int gs ''max_jobs'')\<rparr>)"

definition read_launch :: "string \<Rightarrow> jobs \<Rightarrow> jobs" where
  "read_launch line js = (case rmatch launching_job_r line of
     None \<Rightarrow> js
   | Some gs \<Rightarrow> js\<lparr>current_job := group_int gs ''job_number'',
       total_jobs := or_one (group_int gs ''max_jobs''), stages := []\<rparr>)"

definition read_stage :: "string \<Rightarrow> jobs \<Rightarrow> pyexn + jobs" where
  "read_stage line js = (case rmatch stage_progress_r line of
     None \<Rightarrow> Inr js
   | Some gs \<Rightarrow>
       bindE (fl ((of_nat (group_int gs ''map_progress'') + of_nat (group_int gs ''reduce_progress'')) / 2))
         (\<lambda>v. Inr (js\<lparr>stages := AList.update (group_int gs ''stage_number'') v (stages js)\<rparr>)))"

definition read_line :: "string \<Rightarrow> jobs \<Rightarrow> pyexn + jobs" where
  "read_line line js = read_stage line (read_launch line (read_stats line js))"

fun read_log :: "string list \<Rightarrow> jobs \<Rightarrow> pyexn + jobs" where
  "read_log [] js = Inr js"
| "read_log (l # ls) js = bindE (read_line l js) (read_log ls)"

fun sum_floats :: "rat list \<Rightarrow> rat \<Rightarrow> pyexn + rat" where
  "sum_floats [] a = Inr a"
| "sum_floats (v # vs) a = bindE (fl (a + v)) (sum_floats vs)"

definition stage_progress :: "jobs \<Rightarrow> pyexn + rat" where
  "stage_progress js = (if stages js = [] then Inr 0
     else bindE (sum_floats (map snd (stages js)) 0) (\<lambda>s. fl (s / of_nat (length (stages js)))))"

text \<open>A float divided by an integer converts the integer first; the integer 0 does not.\<close>

definition job_share :: "jobs \<Rightarrow> rat \<Rightarrow> pyexn + rat" where
  "job_share js sp = (if stages js = [] then Inr 0
     else bindE (fl (of_nat (total_jobs js))) (\<lambda>t. fl (sp / t)))"

definition percent :: "jobs \<Rightarrow> pyexn + int" where
  "percent js =
     bindE (stage_progress js) (\<lambda>sp.
     bindE (fl (100 * (of_nat (current_job js) - 1) / of_nat (total_jobs js))) (\<lambda>done_jobs.
     bindE (job_share js sp) (\<lambda>share.
     bindE (fl (done_jobs + share)) (\<lambda>p. Inr (trunc p)))))"

definition progress :: "string list \<Rightarrow> pyexn + int" where
  "progress log_lines = bindE (read_log log_lines no_jobs) percent"

section \<open>Lines\<close>

text \<open>\<open>str.splitlines()\<close>, with the line boundaries of \<open>str\<close> in their UTF-8 encodings.\<close>

fun line_break :: "string \<Rightarrow> nat" where
  "line_break (c # cs) =
     (if c = CHR 0x0D then (case cs of d # _ \<Rightarrow> if d = CHR 0x0A then 2 else 1 | [] \<Rightarrow> 1)
      else if c \<in> {CHR 0x0A, CHR 0x0B, CHR 0x0C, CHR 0x1C, CHR 0x1D, CHR 0x1E} then 1
      else if c = CHR 0xC2 \<and> starts_with cs [CHR 0x85] then 2
      else if c = CHR 0xE2 \<and> (starts_with cs [CHR 0x80, CHR 0xA8] \<or> starts_with cs [CHR 0x80, CHR 0xA9]) then 3
      else 0)"
| "line_break [] = 0"

function splitlines_from :: "string \<Rightarrow> string \<Rightarrow> string list" where
  "splitlines_from line [] = (if line = [] then [] else [rev line])"
| "splitlines_from line (c # cs) =
     (if line_break (c # cs) = 0 then splitlines_from (c # line) cs
      else rev line # splitlines_from [] (drop (line_break (c # cs)) (c # cs)))"
  by pat_completeness auto
termination
  by (relation "measure (\<lambda>(line, s). length s)") auto

definition splitlines :: "string \<Rightarrow> string list" where
  "splitlines s = splitlines_from [] s"

section \<open>The tracking URL and the message of an error\<close>

definition tracking_key :: string where
  "tracking_key = ''Tracking URL = ''"

fun get_tracking_url :: "string list \<Rightarrow> string option" where
  "get_tracking_url [] = None"
| "get_tracking_url (l # ls) =
     (if contains tracking_key l then Some (split_at tracking_key l ! 1) else get_tracking_url ls)"

text \<open>
  \<open>_extract_error_message\<close>: the expression \<open>errorMessage="(.*?)(?<!\\)"\<close> is searched for.
  \<open>lazy_quoted\<close> is the part after the key: as little as possible up to a double quote whose previous
  character is no backslash, within one line.
\<close>

definition dquote :: char where "dquote = CHR 0x22"

definition error_key :: string where
  "error_key = ''errorMessage='' @ [dquote]"

fun lazy_quoted :: "char \<Rightarrow> string \<Rightarrow> string option" where
  "lazy_quoted prev [] = None"
| "lazy_quoted prev (c # cs) =
     (if c = dquote \<and> prev \<noteq> CHR 0x5C then Some []
      else if no_newline c then map_option ((#) c) (lazy_quoted c cs)
      else None)"

fun search_error :: "string \<Rightarrow> string option" where
  "search_error s =
     (case (if starts_with s error_key then lazy_quoted dquote (drop (length error_key) s) else None) of
        Some m \<Rightarrow> Some m
      | None \<Rightarrow> (case s of [] \<Rightarrow> None | c # cs \<Rightarrow> search_error cs))"

declare search_error.simps [simp del]

definition extract_error_message :: "string \<Rightarrow> string" where
  "extract_error_message msg = (case search_error msg of Some m \<Rightarrow> m | None \<Rightarrow> msg)"

end
