(* ===== verification/HiveCursor.thy ===== *)
theory HiveCursor
  imports HiveLog
begin

text \<open>
  The loop that watches a running Hive query (\<open>handle_cursor\<close> of
  \<open>src/superset/hive_minios3.py\<close>). Hive, the database session and the other users of the query's
  row are outside: what they answer during the \<open>n\<close>-th iteration is a \<open>tick\<close>, and a run is
  given a sequence of ticks. The model keeps the row's two columns the loop writes, which every
  iteration reads again, the loop's variables, and a trace of its effects.
\<close>

section \<open>States\<close>

text \<open>The states of an operation the code names, of the enumeration \<open>ttypes.TOperationState\<close>.\<close>

datatype op_state = INITIALIZED_STATE | RUNNING_STATE | ERROR_STATE | Other_state nat

datatype query_status = STOPPED | Other_status string

definition unfinished_states :: "op_state list" where
  "unfinished_states = [INITIALIZED_STATE, RUNNING_STATE]"

text \<open>What the variable \<open>tracking_url\<close> holds: nothing, a text of the log, or a configured value.\<close>

datatype 'v url = No_url | Url string | Config_value 'v

datatype 'v effect = Cancelled | Committed int "'v url" | Logged string string | Slept int

record 'v monitor =
  q_progress :: int
  q_tracking_url :: "'v url"
  tracking_url :: "'v url"
  job_id :: "string option"
  last_log_line :: nat
  effects :: "'v effect list"

definition watching :: "int \<Rightarrow> 'v url \<Rightarrow> 'v monitor" where
  "watching p u = \<lparr>q_progress = p, q_tracking_url = u, tracking_url = No_url, job_id = None,
     last_log_line = 0, effects = []\<rparr>"

text \<open>
  The configuration entries the loop looks up, and the truth value of a configured
  transformer. (The transformers of Superset are functions, which are true.)
\<close>

record 'v hive_config =
  url_transformer :: "'v option"
  transformer_truth :: "'v \<Rightarrow> bool"
  poll_interval :: "int option"

definition config_item :: "string \<Rightarrow> 'a option \<Rightarrow> pyexn + 'a" where
  "config_item k v = (case v of None \<Rightarrow> Inl (KeyError k) | Some x \<Rightarrow> Inr x)"

text \<open>
  One iteration's answers from outside: the status read with the row, or what reading it
  raised; what the row read shows in the two columns, given what this loop left in them (others
  may have written them since); whether \<open>cancel\<close> and \<open>commit\<close> raised; what \<open>fetch_logs\<close>
  returned; the next poll.
\<close>

record 'v tick =
  row_status :: "pyexn + query_status"
  row_progress :: "int \<Rightarrow> int"
  row_url :: "'v url \<Rightarrow> 'v url"
  cancel_error :: "pyexn option"
  fetched :: "pyexn + string option"
  commit_error :: "pyexn option"
  polled :: "pyexn + op_state"

section \<open>One iteration\<close>

definition effect_on :: "'v effect \<Rightarrow> ('v monitor, unit) step_on" where
  "effect_on e m = (Inr (), m\<lparr>effects := effects m @ [e]\<rparr>)"

definition external :: "pyexn option \<Rightarrow> ('w, unit) step_on" where
  "external err = (case err of None \<Rightarrow> returnS () | Some e \<Rightarrow> raiseS e)"

text \<open>\<open>session.query(type(query)).filter_by(id=query_id).one()\<close>, and its \<open>status\<close>.\<close>

definition read_row :: "'v tick \<Rightarrow> ('v monitor, query_status) step_on" where
  "read_row t m = (case row_status t of
     Inl e \<Rightarrow> (Inl e, m)
   | Inr st \<Rightarrow> (Inr st, m\<lparr>q_progress := row_progress t (q_progress m), q_tracking_url := row_url t (q_tracking_url m)\<rparr>))"

text \<open>\<open>cursor.fetch_logs() or ""\<close>, with every exception caught.\<close>

definition fetched_log :: "'v tick \<Rightarrow> string" where
  "fetched_log t = (case fetched t of Inl e \<Rightarrow> [] | Inr s \<Rightarrow> str_or s [])"

primrec url_truth :: "'v hive_config \<Rightarrow> 'v url \<Rightarrow> bool" where
  "url_truth cfg No_url = False"
| "url_truth cfg (Url s) = (s \<noteq> [])"
| "url_truth cfg (Config_value v) = transformer_truth cfg v"

text \<open>The three parts of an iteration that read the log; the first two tell whether to commit.\<close>

definition note_progress :: "int \<Rightarrow> ('v monitor, bool) step_on" where
  "note_progress p m = (if q_progress m < p then (Inr True, m\<lparr>q_progress := p\<rparr>) else (Inr False, m))"

definition second_last :: "string list \<Rightarrow> pyexn + string" where
  "second_last ps = (if length ps < 2 then Inl IndexError else Inr (ps ! (length ps - 2)))"

definition note_url :: "'v hive_config \<Rightarrow> string list \<Rightarrow> ('v monitor, bool) step_on" where
  "note_url cfg log_lines m =
     (if url_truth cfg (tracking_url m) then (Inr False, m)
      else case get_tracking_url log_lines of
        None \<Rightarrow> (Inr False, m\<lparr>tracking_url := No_url\<rparr>)
      | Some u \<Rightarrow>
          if u = [] then (Inr False, m\<lparr>tracking_url := Url u\<rparr>)
          else case second_last (split_at ''/'' u) of
            Inl e \<Rightarrow> (Inl e, m\<lparr>tracking_url := Url u\<rparr>)
          | Inr j \<Rightarrow> (case url_transformer cfg of
              None \<Rightarrow> (Inl (KeyError ''TRACKING_URL_TRANSFORMER''), m\<lparr>tracking_url := Url u, job_id := Some j\<rparr>)
            | Some v \<Rightarrow> (Inr True, m\<lparr>tracking_url := Config_value v, job_id := Some j,
                q_tracking_url := Config_value v\<rparr>)))"

definition log_new_lines :: "string list \<Rightarrow> ('v monitor, unit) step_on" where
  "log_new_lines log_lines m =
     (if truthy (job_id m) \<and> last_log_line m < length log_lines
      then (Inr (), m\<lparr>effects := effects m @ map (Logged (the (job_id m))) (drop (last_log_line m) log_lines),
              last_log_line := length log_lines\<rparr>)
      else (Inr (), m))"

definition commit :: "'v tick \<Rightarrow> ('v monitor, unit) step_on" where
  "commit t = bindS (external (commit_error t)) (\<lambda>_ m. effect_on (Committed (q_progress m) (q_tracking_url m)) m)"

definition handle_log :: "'v hive_config \<Rightarrow> 'v tick \<Rightarrow> string \<Rightarrow> ('v monitor, unit) step_on" where
  "handle_log cfg t logs = (let log_lines = splitlines logs in
     bindS (lift (progress log_lines)) (\<lambda>p.
     bindS (note_progress p) (\<lambda>commit1.
     bindS (note_url cfg log_lines) (\<lambda>commit2.
     bindS (log_new_lines log_lines) (\<lambda>_.
     if commit1 \<or> commit2 then commit t else returnS ())))))"

definition sleep :: "'v hive_config \<Rightarrow> ('v monitor, unit) step_on" where
  "sleep cfg = bindS (lift (config_item ''HIVE_POLL_INTERVAL'' (poll_interval cfg))) (\<lambda>s. effect_on (Slept s))"

text \<open>An iteration gives the next polled state, or nothing when it leaves the loop.\<close>

definition iteration :: "'v hive_config \<Rightarrow> 'v tick \<Rightarrow> ('v monitor, op_state option) step_on" where
  "iteration cfg t =
     bindS (read_row t) (\<lambda>st.
     if st = STOPPED then
       bindS (external (cancel_error t)) (\<lambda>_.
       bindS (effect_on Cancelled) (\<lambda>_. returnS None))
     else
       bindS (if fetched_log t = [] then returnS () else handle_log cfg t (fetched_log t)) (\<lambda>_.
       bindS (sleep cfg) (\<lambda>_.
       bindS (lift (polled t)) (\<lambda>s. returnS (Some s)))))"

section \<open>The loop\<close>

text \<open>
  The loop may run forever: \<open>poll_loop\<close> is \<open>None\<close> then. It takes the iteration as an argument,
  so that its lemmas are about any loop of this shape.
\<close>

partial_function (option) poll_loop ::
  "('t \<Rightarrow> ('m, op_state option) step_on) \<Rightarrow> (nat \<Rightarrow> 't) \<Rightarrow> nat \<Rightarrow> op_state \<Rightarrow> 'm \<Rightarrow> ((pyexn + unit) \<times> 'm) option" where
  "poll_loop step ticks n s m =
     (if s \<in> set unfinished_states
      then (case step (ticks n) m of
          (Inl e, m') \<Rightarrow> Some (Inl e, m')
        | (Inr None, m') \<Rightarrow> Some (Inr (), m')
        | (Inr (Some s'), m') \<Rightarrow> poll_loop step ticks (Suc n) s' m')
      else Some (Inr (), m))"

definition handle_cursor ::
  "'v hive_config \<Rightarrow> (pyexn + op_state) \<Rightarrow> (nat \<Rightarrow> 'v tick) \<Rightarrow> 'v monitor \<Rightarrow> ((pyexn + unit) \<times> 'v monitor) option" where
  "handle_cursor cfg first_poll ticks m =
     (case first_poll of Inl e \<Rightarrow> Some (Inl e, m) | Inr s \<Rightarrow> poll_loop (iteration cfg) ticks 0 s m)"

section \<open>How the loop ends\<close>

inductive ends ::
  "('t \<Rightarrow> ('m, op_state option) step_on) \<Rightarrow> (nat \<Rightarrow> 't) \<Rightarrow> nat \<Rightarrow> op_state \<Rightarrow> 'm \<Rightarrow> pyexn + unit \<Rightarrow> 'm \<Rightarrow> bool"
  for step ticks where
  finished: "s \<notin> set unfinished_states \<Longrightarrow> ends step ticks n s m (Inr ()) m"
| raised: "s \<in> set unfinished_states \<Longrightarrow> step (ticks n) m = (Inl e, m') \<Longrightarrow> ends step ticks n s m (Inl e) m'"
| broken: "s \<in> set unfinished_states \<Longrightarrow> step (ticks n) m = (Inr None, m') \<Longrightarrow> ends step ticks n s m (Inr ()) m'"
| again: "s \<in> set unfinished_states \<Longrightarrow> step (ticks n) m = (Inr (Some s'), m') \<Longrightarrow>
    ends step ticks (Suc n) s' m' r m'' \<Longrightarrow> ends step ticks n s m r m''"

lemma ends_if: "poll_loop step ticks n s m = Some y \<Longrightarrow> ends step ticks n s m (fst y) (snd y)"
proof (induction rule: poll_loop.raw_induct [rotated, consumes 1, case_names step])
  case (step pl step ticks n s m y)
  then show ?case
    by (auto split: if_splits prod.splits sum.splits option.splits intro: ends.intros)
qed

lemma ends_iff: "poll_loop step ticks n s m = Some (r, m') \<longleftrightarrow> ends step ticks n s m r m'"
proof
  assume "ends step ticks n s m r m'"
  then show "poll_loop step ticks n s m = Some (r, m')"
    by induction (simp_all add: poll_loop.simps [of step ticks])
qed (auto dest: ends_if)

text \<open>
  A contract for loops of this shape: every iteration relates the states before and after it
  by a preorder, when its tick is good. Then the whole loop does.
\<close>

locale loop_contract =
  fixes step :: "'t \<Rightarrow> ('m, op_state option) step_on" and good :: "'t \<Rightarrow> bool" and R :: "'m \<Rightarrow> 'm \<Rightarrow> bool"
  assumes refl: "reflp R" and trans: "transp R" and step_R: "good t \<Longrightarrow> step_rel R (step t)"
begin

lemma loop_R:
  assumes "ends step ticks n s m r m'" and good: "\<And>k. good (ticks k)"
  shows "R m m'"
  using assms(1)
proof (induction rule: ends.induct)
  case (again s n m s' m' r m'')
  then show ?case using step_R [OF good] trans by (meson step_relD transpD)
qed (use refl step_R [OF good] in \<open>auto dest: reflpD step_relD\<close>)

end

text \<open>
  When the loop does not return: every iteration, from the state the iterations before it left,
  finds the operation unfinished.
\<close>

definition stays :: "(pyexn + op_state option) \<times> 'm \<Rightarrow> bool" where
  "stays x = (case fst x of Inr (Some s) \<Rightarrow> s \<in> set unfinished_states | _ \<Rightarrow> False)"

definition state_before ::
  "('t \<Rightarrow> ('m, op_state option) step_on) \<Rightarrow> (nat \<Rightarrow> 't) \<Rightarrow> nat \<Rightarrow> nat \<Rightarrow> 'm \<Rightarrow> 'm" where
  "state_before step ticks n k = fold (\<lambda>i m. snd (step (ticks i) m)) [n..<n + k]"

lemma state_before_simps [simp]:
  "state_before step ticks n 0 m = m"
  "state_before step ticks n (Suc k) m = state_before step ticks (Suc n) k (snd (step (ticks n) m))"
proof -
  have "[n..<n + Suc k] = n # [Suc n..<Suc n + k]" by (subst upt_conv_Cons) simp_all
  then show "state_before step ticks n (Suc k) m = state_before step ticks (Suc n) k (snd (step (ticks n) m))"
    unfolding state_before_def by (simp only: fold_simps)
qed (simp add: state_before_def)

lemma ends_not_stays:
  assumes "ends step ticks n s m r m'" and "s \<in> set unfinished_states"
  shows "\<exists>k. \<not> stays (step (ticks (n + k)) (state_before step ticks n k m))"
  using assms
proof (induction rule: ends.induct)
  case (again s n m s' m' r m'')
  show ?case
  proof (cases "s' \<in> set unfinished_states")
    case True
    with again.IH obtain k where
      "\<not> stays (step (ticks (Suc n + k)) (state_before step ticks (Suc n) k m'))" by blast
    with again(2) show ?thesis by (intro exI [of _ "Suc k"]) simp
  next
    case False
    with again(2) show ?thesis by (intro exI [of _ 0]) (simp add: stays_def)
  qed
qed (auto intro!: exI [of _ 0] simp: stays_def)

lemma not_stays_ends:
  assumes "\<not> stays (step (ticks (n + k)) (state_before step ticks n k m))"
  shows "\<exists>r m'. ends step ticks n s m r m'"
  using assms
proof (induction k arbitrary: n s m)
  case 0
  obtain r m1 where r: "step (ticks n) m = (r, m1)" by fastforce
  have "s' \<notin> set unfinished_states" if "r = Inr (Some s')" for s'
    using 0 r that by (simp add: stays_def)
  then show ?case
    using r by (cases "s \<in> set unfinished_states"; cases r; cases "projr r") (auto, (blast intro: ends.intros)+)
next
  case (Suc k)
  obtain r m1 where r: "step (ticks n) m = (r, m1)" by fastforce
  have IH: "\<exists>r m'. ends step ticks (Suc n) s' m1 r m'" for s'
    using Suc.IH [of "Suc n" m1 s'] Suc.prems r by simp
  then show ?case
    using r by (cases "s \<in> set unfinished_states"; cases r; cases "projr r") (auto, (blast intro: ends.intros)+)
qed

lemma loop_forever_iff:
  "poll_loop step ticks 0 s m = None \<longleftrightarrow>
   s \<in> set unfinished_states \<and> (\<forall>k. stays (step (ticks k) (state_before step ticks 0 k m)))"
proof -
  have "poll_loop step ticks 0 s m = None \<longleftrightarrow> \<not> (\<exists>r m'. ends step ticks 0 s m r m')"
    by (cases "poll_loop step ticks 0 s m") (auto simp: ends_iff [symmetric])
  moreover have "s \<notin> set unfinished_states \<Longrightarrow> ends step ticks 0 s m (Inr ()) m" by (rule ends.finished)
  ultimately show ?thesis
    using ends_not_stays [of step ticks 0 s m] not_stays_ends [of step ticks 0 _ m s] by (metis add_0)
qed

end
