(* ===== verification/HiveLogProps.thy ===== *)
theory HiveLogProps
  imports HiveLog
begin

text \<open>
  What the job tracker of the Hive engine specification computes: which lines it reads, what it
  knows after a log, and that the result is a percentage when the log is a sound one.
\<close>

section \<open>What a line says\<close>

text \<open>The job a line launches and the number of jobs, the number of jobs, and the stage a line reports.\<close>

definition line_launch :: "string \<Rightarrow> (nat \<times> nat) option" where
  "line_launch l = map_option (\<lambda>gs. (group_int gs ''job_number'', group_int gs ''max_jobs'')) (rmatch launching_job_r l)"

definition line_total :: "string \<Rightarrow> nat option" where
  "line_total l = (case line_launch l of Some (j, n) \<Rightarrow> Some n
     | None \<Rightarrow> map_option (\<lambda>gs. group_int gs ''max_jobs'') (rmatch jobs_stats_r l))"

definition line_stage :: "string \<Rightarrow> (nat \<times> nat \<times> nat) option" where
  "line_stage l = map_option (\<lambda>gs. (group_int gs ''stage_number'', group_int gs ''map_progress'',
     group_int gs ''reduce_progress'')) (rmatch stage_progress_r l)"

definition stage_value :: "nat \<Rightarrow> string \<Rightarrow> (pyexn + rat) option" where
  "stage_value k l = (case line_stage l of None \<Rightarrow> None
     | Some (k', m, r) \<Rightarrow> if k' = k then Some (fl ((of_nat m + of_nat r) / 2)) else None)"

text \<open>The lines about the job that runs: those from the last line that launches one.\<close>

fun since_launch :: "string list \<Rightarrow> string list" where
  "since_launch [] = []"
| "since_launch (l # ls) = (if list_ex (\<lambda>l. line_launch l \<noteq> None) ls then since_launch ls else l # ls)"

definition last_opt :: "'a list \<Rightarrow> 'a option" where
  "last_opt xs = (if xs = [] then None else Some (last xs))"

definition opt_else :: "'a option \<Rightarrow> 'a \<Rightarrow> 'a" where
  "opt_else v d = (case v of None \<Rightarrow> d | Some x \<Rightarrow> x)"

lemma since_launch_snoc:
  "since_launch (ls @ [l]) = (if line_launch l = None then since_launch ls @ [l] else [l])"
  by (induction ls) auto

lemma last_filter_snoc [simp]:
  "last_opt (List.map_filter f (ls @ [l])) =
   (case f l of None \<Rightarrow> last_opt (List.map_filter f ls) | Some x \<Rightarrow> Some x)"
  by (simp add: last_opt_def map_filter_def split: option.split)

lemma last_filter_single [simp]: "last_opt (List.map_filter f [l]) = f l"
  using last_filter_snoc [of f "[]" l] by (simp add: last_opt_def map_filter_def split: option.splits)

lemma last_opt_simps [simp]: "last_opt [] = None" "last_opt [x] = Some x"
  by (simp_all add: last_opt_def)

lemma read_log_append: "read_log (ls @ ms) js = bindE (read_log ls js) (read_log ms)"
proof (induction ls arbitrary: js)
  case (Cons l ls)
  then have "read_log (ls @ ms) = (\<lambda>x. bindE (read_log ls x) (read_log ms))" by (intro ext)
  then show ?case by (simp add: bindE_assoc)
qed simp

lemma read_line_fields:
  assumes "read_line l js = Inr js'"
  shows "total_jobs js' = (case line_total l of None \<Rightarrow> total_jobs js | Some n \<Rightarrow> or_one n)"
    and "current_job js' = (case line_launch l of None \<Rightarrow> current_job js | Some (j, n) \<Rightarrow> j)"
    and "map_option Inr (map_of (stages js') k) = (case stage_value k l of
       Some v \<Rightarrow> Some v
     | None \<Rightarrow> if line_launch l = None then map_option Inr (map_of (stages js) k) else None)"
  using assms
  by (auto simp: read_line_def read_stats_def read_launch_def read_stage_def line_total_def line_launch_def
      line_stage_def stage_value_def bindE_eq_Inr update_conv' split: option.splits if_splits)

text \<open>
  C22. After a log, the job tracker of \<open>progress\<close> knows what the log says last: the number of
  jobs of the last line that gives one (zero counts as one), the job launched last, and for
  each stage the progress of the last line about it since that job was launched, stages of earlier
  jobs being forgotten.
\<close>

theorem hive_tracks_last_job:
  assumes "read_log ls no_jobs = Inr js"
  shows "total_jobs js = or_one (opt_else (last_opt (List.map_filter line_total ls)) 1) \<and>
    current_job js = opt_else (last_opt (List.map_filter (\<lambda>l. map_option fst (line_launch l)) ls)) 1 \<and>
    map_option Inr (map_of (stages js) k) = last_opt (List.map_filter (stage_value k) (since_launch ls))"
  using assms
proof (induction ls arbitrary: js rule: rev_induct)
  case Nil
  then show ?case by (auto simp: no_jobs_def or_one_def opt_else_def)
next
  case (snoc l ls)
  then obtain js0 where js0: "read_log ls no_jobs = Inr js0" "read_line l js0 = Inr js"
    by (auto simp: read_log_append bindE_eq_Inr)
  from snoc.IH [OF js0(1)] read_line_fields(1,2) [OF js0(2)] read_line_fields(3) [OF js0(2), of k] show ?case
    by (auto simp: since_launch_snoc opt_else_def split: option.split)
qed

definition tracked_lines :: "string list" where
  "tracked_lines = [''INFO Stage-1 map = 90%, reduce = 70%'', ''INFO Launching Job 2 out of 4'', ''INFO Stage-7 map = 50%, reduce = 0%'']"

lemma tracked_reads:
  "map (rmatch jobs_stats_r) tracked_lines = [None, None, None]"
  "map (rmatch launching_job_r) tracked_lines = [None, Some [(''job_number'', ''2''), (''max_jobs'', ''4'')], None]"
  "map (rmatch stage_progress_r) tracked_lines =
    [Some [(''stage_number'', ''1''), (''map_progress'', ''90''), (''reduce_progress'', ''70'')], None,
     Some [(''stage_number'', ''7''), (''map_progress'', ''50''), (''reduce_progress'', ''0'')]]"
  by code_simp+

definition tracked_jobs :: jobs where
  "tracked_jobs = \<lparr>total_jobs = 4, current_job = 2, stages = [(7, 25)]\<rparr>"

lemma tracked_run: "read_log tracked_lines no_jobs = Inr tracked_jobs"
proof -
  have v: "dec_val ''2'' = 2" "dec_val ''4'' = 4" "dec_val ''1'' = 1" "dec_val ''7'' = 7" "dec_val ''90'' = 90"
    "dec_val ''70'' = 70" "dec_val ''50'' = 50" "dec_val ''0'' = 0"
    by code_simp+
  have f: "fl 80 = Inr 80" "fl 25 = Inr 25" using fl_nat [of 80] fl_nat [of 25] by simp_all
  show ?thesis
    using tracked_reads unfolding tracked_lines_def
    by (simp add: read_line_def read_stats_def read_launch_def read_stage_def group_int_def v f no_jobs_def or_one_def
        tracked_jobs_def)
qed

lemma hive_tracks_last_job_witness:
  "total_jobs tracked_jobs = or_one (opt_else (last_opt (List.map_filter line_total tracked_lines)) 1) \<and>
   map_option Inr (map_of (stages tracked_jobs) 1) = last_opt (List.map_filter (stage_value 1) (since_launch tracked_lines))"
  using hive_tracks_last_job [OF tracked_run, of 1] by simp

text \<open>
  A line counts as the launch of a job exactly when it has the form of one: after \<open>INFO\<close>
  somewhere, the words \<open>Launching Job\<close>, a number, \<open>out of\<close> and a number, whatever comes before,
  between and behind.
\<close>

lemma hive_launch_lines:
  "line_launch l \<noteq> None \<longleftrightarrow>
   (\<exists>a b j n rest. l = a @ ''INFO'' @ b @ ''Launching Job '' @ j @ '' out of '' @ n @ rest \<and>
      list_all no_newline (a @ b) \<and> j \<noteq> [] \<and> n \<noteq> [] \<and> list_all is_digit (j @ n))"
  (is "_ \<longleftrightarrow> ?form")
proof -
  have "line_launch l \<noteq> None \<longleftrightarrow> (\<exists>gs. matches launching_job_r l gs)"
    using rmatch_iff [of launching_job_r l] by (simp add: line_launch_def)
  also have "\<dots> \<longleftrightarrow> ?form"
  proof
    assume "\<exists>gs. matches launching_job_r l gs"
    then obtain a b j n rest where "l = a @ ''INFO'' @ b @ ''Launching Job '' @ j @ '' out of '' @ n @ rest"
      "list_all no_newline a" "list_all no_newline b" "j \<noteq> []" "n \<noteq> []" "list_all is_digit j" "list_all is_digit n"
      unfolding launching_job_r_def matches_simps by (elim exE conjE) (hypsubst, rule that, (rule refl | assumption)+)
    then show ?form by (intro exI [of _ a] exI [of _ b] exI [of _ j] exI [of _ n] exI [of _ rest]) simp
  next
    assume ?form
    then obtain a b j n rest where l: "l = a @ ''INFO'' @ b @ ''Launching Job '' @ j @ '' out of '' @ n @ rest"
      and "list_all no_newline a" "list_all no_newline b" "j \<noteq> []" "n \<noteq> []" "list_all is_digit j" "list_all is_digit n"
      unfolding list_all_append by (elim exE conjE)
    then have "matches launching_job_r l [(''job_number'', j), (''max_jobs'', n)]"
      unfolding launching_job_r_def l by (intro matches.intros)
    then show "\<exists>gs. matches launching_job_r l gs" ..
  qed
  finally show ?thesis .
qed

section \<open>The value is a percentage\<close>

definition sound_line :: "nat \<Rightarrow> string \<Rightarrow> bool" where
  "sound_line N l \<longleftrightarrow> (\<forall>j n. line_launch l = Some (j, n) \<longrightarrow> 1 \<le> j \<and> j \<le> N) \<and>
     (\<forall>n. line_total l = Some n \<longrightarrow> n = N) \<and>
     (\<forall>k m r. line_stage l = Some (k, m, r) \<longrightarrow> m \<le> 100 \<and> r \<le> 100)"

definition sound_jobs :: "nat \<Rightarrow> nat \<Rightarrow> jobs \<Rightarrow> bool" where
  "sound_jobs N c js \<longleftrightarrow> 1 \<le> current_job js \<and> current_job js \<le> total_jobs js \<and> total_jobs js \<le> max 1 N \<and>
     (current_job js = 1 \<or> total_jobs js = N) \<and>
     (\<forall>v \<in> snd ` set (stages js). \<exists>h \<le> 200. v = of_nat h / 2) \<and> length (stages js) \<le> c"

lemma length_update: "length (AList.update k v al) \<le> Suc (length al)"
  by (induction al) auto

lemma set_update: "set (AList.update k v al) \<subseteq> insert (k, v) (set al)"
  by (induction al) auto

lemma read_line_sound:
  assumes "sound_line N l" and "sound_jobs N c js"
  shows "\<exists>js'. read_line l js = Inr js' \<and> sound_jobs N (Suc c) js'"
proof -
  let ?js = "read_launch l (read_stats l js)"
  have "sound_jobs N c ?js"
    using assms
    by (auto simp: read_stats_def read_launch_def sound_jobs_def sound_line_def line_total_def line_launch_def
        or_one_def max_def split: option.splits)
  moreover have "\<exists>js'. read_stage l ?js = Inr js' \<and> sound_jobs N (Suc c) js'" if s: "sound_jobs N c ?js"
  proof (cases "rmatch stage_progress_r l")
    case None
    with s show ?thesis by (auto simp: read_stage_def sound_jobs_def)
  next
    case (Some gs)
    let ?k = "group_int gs ''stage_number''" and ?m = "group_int gs ''map_progress''" and ?r = "group_int gs ''reduce_progress''"
    from Some assms(1) have b: "?m \<le> 100" "?r \<le> 100" by (auto simp: sound_line_def line_stage_def)
    then have v: "fl ((of_nat ?m + of_nat ?r) / 2) = Inr (of_nat (?m + ?r) / 2)"
      using fl_half [of "?m + ?r"] by simp
    let ?al = "AList.update ?k (of_nat (?m + ?r) / 2) (stages ?js)"
    have "\<exists>h \<le> 200. w = of_nat h / 2" if "w \<in> snd ` set ?al" for w
    proof -
      from that set_update [of ?k "of_nat (?m + ?r) / 2" "stages ?js"]
      have "w = of_nat (?m + ?r) / 2 \<or> w \<in> snd ` set (stages ?js)" by auto
      then show ?thesis
      proof
        assume "w = of_nat (?m + ?r) / 2"
        with b show ?thesis by (intro exI [of _ "?m + ?r"]) simp
      qed (use s in \<open>auto simp: sound_jobs_def\<close>)
    qed
    moreover have "length ?al \<le> Suc c"
      using s length_update [of ?k "of_nat (?m + ?r) / 2" "stages ?js"] by (simp add: sound_jobs_def)
    ultimately show ?thesis using s v Some by (simp add: read_stage_def sound_jobs_def)
  qed
  ultimately show ?thesis by (simp add: read_line_def)
qed

lemma read_log_sound:
  "list_all (sound_line N) ls \<Longrightarrow> sound_jobs N c js \<Longrightarrow>
   \<exists>js'. read_log ls js = Inr js' \<and> sound_jobs N (c + length ls) js'"
proof (induction ls arbitrary: c js)
  case (Cons l ls)
  then obtain js1 where "read_line l js = Inr js1" "sound_jobs N (Suc c) js1"
    using read_line_sound [of N l c js] by auto
  with Cons.IH [of "Suc c" js1] Cons.prems show ?case by simp
qed simp

text \<open>Sums of half integers are exact.\<close>

lemma sum_floats_half:
  assumes "\<forall>v \<in> set vs. \<exists>h \<le> 200. v = of_nat h / 2" and "a + 200 * length vs < 2 ^ 52"
  shows "\<exists>b \<le> a + 200 * length vs. sum_floats vs (of_nat a / 2) = Inr (of_nat b / 2)"
  using assms
proof (induction vs arbitrary: a)
  case (Cons v vs)
  from Cons.prems obtain h where h: "h \<le> 200" "v = of_nat h / 2" by auto
  have "fl (of_nat a / 2 + v) = Inr (of_nat (a + h) / 2)"
    using fl_half [of "a + h"] Cons.prems h(1) unfolding h(2) by (simp add: add_divide_distrib)
  moreover obtain b where "b \<le> (a + h) + 200 * length vs" "sum_floats vs (of_nat (a + h) / 2) = Inr (of_nat b / 2)"
    using Cons.IH [of "a + h"] Cons.prems h by auto
  ultimately show ?case using h(1) unfolding h(2) by (intro exI [of _ b]) simp
qed (auto intro: exI [of _ a])

abbreviation eps :: rat where "eps \<equiv> 1 / 2 ^ 53"

lemma stage_progress_bounds:
  assumes "sound_jobs N c js" and "c \<le> 2 ^ 40"
  shows "\<exists>sp. stage_progress js = Inr sp \<and> 0 \<le> sp \<and> sp \<le> 100 * (1 + eps)"
proof (cases "stages js = []")
  case False
  let ?n = "length (stages js)"
  have n: "0 < ?n" "200 * ?n < 2 ^ 52" using assms False by (simp_all add: sound_jobs_def)
  have v: "\<forall>v \<in> set (map snd (stages js)). \<exists>h \<le> 200. v = of_nat h / 2"
    using assms(1) by (auto simp: sound_jobs_def)
  obtain b where b: "b \<le> 200 * ?n" "sum_floats (map snd (stages js)) 0 = Inr (of_nat b / 2)"
    using sum_floats_half [OF v, of 0] n by auto
  let ?mean = "of_nat b / 2 / of_nat ?n :: rat"
  have "(of_nat b :: rat) \<le> of_nat (200 * ?n)" using b(1) by (simp only: of_nat_le_iff)
  then have m: "0 \<le> ?mean" "?mean \<le> 100" using n by (simp_all add: field_simps)
  then obtain sp where sp: "fl ?mean = Inr sp" using fl_small [of ?mean] by auto
  have "sp \<le> ?mean * (1 + eps)" by (rule fl_le [OF sp m(1)])
  also have "\<dots> \<le> 100 * (1 + eps)" using m(2) by (intro mult_right_mono) simp_all
  finally show ?thesis using b(2) sp fl_nonneg [OF sp m(1)] False by (simp add: stage_progress_def)
qed (simp add: stage_progress_def)

lemma percent_bounds:
  assumes "sound_jobs N c js" and "c \<le> 2 ^ 40" and "N \<le> 2 ^ 50"
  shows "\<exists>p. percent js = Inr p \<and> 0 \<le> p \<and> p \<le> 100"
proof -
  obtain sp where sp: "stage_progress js = Inr sp" "0 \<le> sp" "sp \<le> 100 * (1 + eps)"
    using stage_progress_bounds [OF assms(1,2)] by blast
  let ?t = "of_nat (total_jobs js) :: rat" and ?c = "of_nat (current_job js) :: rat"
  have nat: "1 \<le> current_job js" "current_job js \<le> total_jobs js" "total_jobs js < 2 ^ 51"
    using assms by (auto simp: sound_jobs_def max_def split: if_splits)
  then have c: "1 \<le> ?c" "?c \<le> ?t" "1 \<le> ?t" by simp_all
  let ?d = "100 * (?c - 1) / ?t"
  have d: "0 \<le> ?d" "?d \<le> 100 - 100 / ?t" using c by (simp_all add: field_simps)
  moreover have "0 \<le> 100 / ?t" using c by simp
  ultimately have "\<bar>?d\<bar> \<le> 100" by linarith
  then have "\<bar>?d\<bar> \<le> 2 ^ 1023" by simp
  from fl_small [OF this] obtain dn where dn: "fl ?d = Inr dn" ..
  have q: "0 \<le> sp / ?t" "sp / ?t \<le> 100 * (1 + eps) / ?t"
    using sp(2) c divide_right_mono [OF sp(3), of ?t] by simp_all
  have "100 * (1 + eps) / ?t \<le> 200" using c by (simp add: field_simps)
  then have "\<bar>sp / ?t\<bar> \<le> 2 ^ 1023" using q by simp
  then obtain s1 where s1: "fl (sp / ?t) = Inr s1" using fl_small by blast
  have "job_share js sp = Inr (if stages js = [] then 0 else s1)"
    using fl_nat [OF nat(3)] s1 by (simp add: job_share_def)
  moreover have "stages js = [] \<Longrightarrow> sp = 0" using sp(1) by (simp add: stage_progress_def)
  ultimately have share: "job_share js sp = Inr s1" using s1 by (auto split: if_splits)
  have pos: "0 \<le> dn" "0 \<le> s1" using fl_nonneg [OF dn] fl_nonneg [OF s1] d q by simp_all
  have "dn \<le> ?d * (1 + eps)" "s1 \<le> sp / ?t * (1 + eps)" using fl_le [OF dn] fl_le [OF s1] d q by simp_all
  then have "dn + s1 \<le> (?d + sp / ?t) * (1 + eps)" unfolding distrib_right by (rule add_mono)
  also have "(?d + sp / ?t) * (1 + eps) \<le> (100 + 100 * eps) * (1 + eps)"
  proof (rule mult_right_mono)
    have "100 * (1 + eps) / ?t = 100 / ?t + 100 / ?t * eps" by (simp add: add_divide_distrib)
    moreover have "100 / ?t * eps \<le> 100 * eps" using c by (simp add: field_simps)
    ultimately show "?d + sp / ?t \<le> 100 + 100 * eps" using d(2) q(2) by linarith
  qed simp
  finally have "dn + s1 \<le> (100 + 100 * eps) * (1 + eps)" .
  then have sum: "0 \<le> dn + s1" "dn + s1 \<le> 100 + 1 / 2" using pos by simp_all
  then obtain p where p: "fl (dn + s1) = Inr p" using fl_small [of "dn + s1"] by auto
  have "p \<le> (dn + s1) * (1 + eps)" using fl_le [OF p sum(1)] .
  also have "\<dots> \<le> (100 + 1 / 2) * (1 + eps)" using sum(2) by (intro mult_right_mono) simp_all
  also have "\<dots> < 101" by simp
  finally have "p < of_int 101" by simp
  then have "0 \<le> trunc p \<and> trunc p < 101" using fl_nonneg [OF p sum(1)] by (intro trunc_mono_bounds)
  then show ?thesis using sp(1) dn share p by (simp add: percent_def)
qed

lemma sound_progress:
  assumes "list_all (sound_line N) ls" and "N \<le> 2 ^ 50" and "length ls \<le> 2 ^ 40"
  shows "\<exists>p. progress ls = Inr p \<and> 0 \<le> p \<and> p \<le> 100"
proof -
  have "sound_jobs N 0 no_jobs" by (simp add: sound_jobs_def no_jobs_def)
  from read_log_sound [OF assms(1) this] obtain js where "read_log ls no_jobs = Inr js" "sound_jobs N (length ls) js"
    by auto
  with percent_bounds [OF _ assms(3,2)] show ?thesis by (simp add: progress_def)
qed

end
