(* ===== verification/HiveProps.thy ===== *)
theory HiveProps
  imports HiveCursor HiveLogProps "HOL-Library.Sublist"
begin

text \<open>
  What the loop over a Hive query guarantees: its reported progress only grows, it leaves a
  stopped query cancelled, each line of the log is logged once, and it implements an abstract
  monitor; and exactly which rounds end it.
\<close>

section \<open>What every step of an iteration keeps\<close>

fun committed :: "'v effect list \<Rightarrow> int list" where
  "committed [] = []"
| "committed (Committed p u # es) = p # committed es"
| "committed (_ # es) = committed es"

lemma committed_append [simp]: "committed (es @ fs) = committed es @ committed fs"
  by (induction es rule: committed.induct) simp_all

lemma committed_logged [simp]: "committed (map (Logged j) ls) = []"
  by (induction ls) simp_all

definition grows :: "'v monitor \<Rightarrow> 'v monitor \<Rightarrow> bool" where
  "grows m m' \<longleftrightarrow> (\<exists>es. effects m' = effects m @ es \<and>
     sorted (q_progress m # committed es @ [q_progress m'])) \<and> last_log_line m \<le> last_log_line m'"

lemma grows_refl: "reflp grows"
  by (rule reflpI) (simp add: grows_def)

lemma sorted_chain:
  assumes "sorted (a # xs @ [b])" and "sorted (b # ys @ [c])"
  shows "sorted ((a :: int) # (xs @ ys) @ [c])"
  using assms by (auto simp: sorted_append) (meson order_trans)+

lemma grows_trans: "transp grows"
proof (rule transpI)
  fix m1 m2 m3 :: "'v monitor"
  assume "grows m1 m2" and "grows m2 m3"
  then obtain es fs where "effects m2 = effects m1 @ es" "effects m3 = effects m2 @ fs"
    "sorted (q_progress m1 # committed es @ [q_progress m2])"
    "sorted (q_progress m2 # committed fs @ [q_progress m3])"
    "last_log_line m1 \<le> last_log_line m2" "last_log_line m2 \<le> last_log_line m3"
    by (auto simp: grows_def)
  then show "grows m1 m3"
    unfolding grows_def using sorted_chain [of "q_progress m1" "committed es" "q_progress m2" "committed fs"]
    by (intro conjI exI [of _ "es @ fs"]) auto
qed

text \<open>The columns of the row and the loop's own variables, compared across a step.\<close>

definition url_from :: "'v hive_config \<Rightarrow> 'v monitor \<Rightarrow> 'v monitor \<Rightarrow> bool" where
  "url_from cfg m m' \<longleftrightarrow> q_tracking_url m' = q_tracking_url m \<or>
     (\<exists>v. url_transformer cfg = Some v \<and> q_tracking_url m' = Config_value v)"

lemma url_from_refl: "reflp (url_from cfg)"
  by (rule reflpI) (simp add: url_from_def)

lemma url_from_trans: "transp (url_from cfg)"
  by (rule transpI) (auto simp: url_from_def)

definition keeps :: "('m \<Rightarrow> bool) \<Rightarrow> 'm \<Rightarrow> 'm \<Rightarrow> bool" where
  "keeps P m m' \<longleftrightarrow> (P m \<longrightarrow> P m')"

lemma keeps_preorder: "reflp (keeps P)" "transp (keeps P)"
  by (auto simp: keeps_def intro: reflpI transpI)

text \<open>The parts of an iteration, one lemma each.\<close>

lemma grows_parts [step_rels]:
  "step_rel grows (effect_on (Slept s))" "step_rel grows (effect_on Cancelled)"
  "step_rel grows (note_progress p)" "step_rel grows (note_url cfg ls)" "step_rel grows (log_new_lines ls)"
  by (auto simp: step_rel_def grows_def effect_on_def note_progress_def note_url_def log_new_lines_def
      split: option.split sum.split)

lemma grows_row: "(\<And>x. x \<le> row_progress t x) \<Longrightarrow> step_rel grows (read_row t)"
  by (auto simp: step_rel_def grows_def read_row_def split: sum.split)

lemma url_from_row: "(\<And>x. row_url t x = x) \<Longrightarrow> step_rel (url_from cfg) (read_row t)"
  by (auto simp: step_rel_def url_from_def read_row_def split: sum.split)

lemma url_from_parts [step_rels]:
  "step_rel (url_from cfg) (effect_on e)" "step_rel (url_from cfg) (note_progress p)"
  "step_rel (url_from cfg) (note_url cfg ls)" "step_rel (url_from cfg) (log_new_lines ls)"
  by (auto simp: step_rel_def url_from_def effect_on_def note_progress_def note_url_def log_new_lines_def
      split: option.split sum.split)

lemma external_rel [step_rels]: "reflp R \<Longrightarrow> step_rel R (external err)"
  by (simp add: external_def step_rels split: option.split)

lemma commit_effect: "commit t m = (case commit_error t of
    Some e \<Rightarrow> (Inl e, m)
  | None \<Rightarrow> (Inr (), m\<lparr>effects := effects m @ [Committed (q_progress m) (q_tracking_url m)]\<rparr>))"
  by (simp add: commit_def bindS_def external_def effect_on_def split: option.split)

lemma commit_rels [step_rels]:
  "step_rel grows (commit t)" "step_rel (url_from cfg) (commit t)"
  by (auto simp: step_rel_def commit_effect grows_def url_from_def split: option.split)

lemma iteration_rel:
  assumes "reflp R" and "transp R" and "step_rel R (read_row t)"
    and "\<And>e. e = Cancelled \<or> (\<exists>s. e = Slept s) \<Longrightarrow> step_rel R (effect_on e)"
    and "\<And>p. progress (splitlines (fetched_log t)) = Inr p \<Longrightarrow> step_rel R (note_progress p)" and "\<And>ls. step_rel R (note_url cfg ls)"
    and "step_rel R (log_new_lines (splitlines (fetched_log t)))" and "step_rel R (commit t)"
  shows "step_rel R (iteration cfg t)"
proof -
  have h: "step_rel R (handle_log cfg t (fetched_log t))"
    unfolding handle_log_def Let_def using assms by (intro step_rels step_rel_lift) auto
  have s: "step_rel R (sleep cfg)"
    unfolding sleep_def using assms by (intro step_rels) auto
  show ?thesis unfolding iteration_def using assms h s by (intro step_rels) auto
qed

interpretation progress_loop: loop_contract "iteration cfg" "\<lambda>t. \<forall>x. x \<le> row_progress t x" grows for cfg
  by unfold_locales (auto intro!: grows_refl grows_trans iteration_rel step_rels grows_row)

interpretation url_loop: loop_contract "iteration cfg" "\<lambda>t. \<forall>x. row_url t x = x" "url_from cfg" for cfg
  by unfold_locales (auto intro!: url_from_refl url_from_trans iteration_rel step_rels url_from_row)

text \<open>The progress stays a percentage when every log is a sound one.\<close>

definition sound_tick :: "nat \<Rightarrow> 'v tick \<Rightarrow> bool" where
  "sound_tick N t \<longleftrightarrow> (let ls = splitlines (fetched_log t) in list_all (sound_line N) ls \<and> length ls \<le> 2 ^ 40 \<and> N \<le> 2 ^ 50)"

definition percentages :: "'v monitor \<Rightarrow> bool" where
  "percentages m \<longleftrightarrow> q_progress m \<in> {0..100} \<and> set (committed (effects m)) \<subseteq> {0..100}"

definition row_in_percent :: "'v tick \<Rightarrow> bool" where
  "row_in_percent t \<longleftrightarrow> (\<forall>x. x \<in> {0..100} \<longrightarrow> row_progress t x \<in> {0..100})"

lemma percentages_parts [step_rels]:
  "row_in_percent t \<Longrightarrow> step_rel (keeps percentages) (read_row t)"
  "step_rel (keeps percentages) (effect_on (Slept s))" "step_rel (keeps percentages) (effect_on Cancelled)"
  "p \<le> 100 \<Longrightarrow> step_rel (keeps percentages) (note_progress p)"
  "step_rel (keeps percentages) (note_url cfg ls)" "step_rel (keeps percentages) (log_new_lines ls)"
  "step_rel (keeps percentages) (commit t)"
  by (auto simp: step_rel_def keeps_def percentages_def row_in_percent_def read_row_def effect_on_def
      note_progress_def note_url_def log_new_lines_def commit_effect split: option.split sum.split)

lemma sound_tick_progress: "sound_tick N t \<Longrightarrow> progress (splitlines (fetched_log t)) = Inr p \<Longrightarrow> p \<le> 100"
  using sound_progress [of N "splitlines (fetched_log t)"] by (auto simp: sound_tick_def Let_def)

interpretation percent_loop: loop_contract "iteration cfg" "\<lambda>t. sound_tick N t \<and> row_in_percent t" "keeps percentages" for cfg N
  by unfold_locales (auto intro!: keeps_preorder iteration_rel step_rels dest: sound_tick_progress)

text \<open>The lines logged so far, when every log is a part of one growing log.\<close>

fun logged :: "'v effect list \<Rightarrow> string list" where
  "logged [] = []"
| "logged (Logged j l # es) = l # logged es"
| "logged (_ # es) = logged es"

lemma logged_append [simp]: "logged (es @ fs) = logged es @ logged fs"
  by (induction es rule: logged.induct) simp_all

lemma logged_lines [simp]: "logged (map (Logged j) ls) = ls"
  by (induction ls) simp_all

definition logged_part :: "string list \<Rightarrow> 'v monitor \<Rightarrow> bool" where
  "logged_part full m \<longleftrightarrow> last_log_line m \<le> length full \<and> logged (effects m) = take (last_log_line m) full"

definition one_job :: "'v hive_config \<Rightarrow> 'v monitor \<Rightarrow> bool" where
  "one_job cfg m \<longleftrightarrow> (job_id m \<noteq> None \<longrightarrow> url_truth cfg (tracking_url m)) \<and>
     (\<forall>j l. Logged j l \<in> set (effects m) \<longrightarrow> job_id m = Some j)"

lemma logged_part_parts [step_rels]:
  "step_rel (keeps (logged_part full)) (read_row t)"
  "step_rel (keeps (logged_part full)) (effect_on (Slept s))"
  "step_rel (keeps (logged_part full)) (effect_on Cancelled)"
  "step_rel (keeps (logged_part full)) (note_progress p)"
  "step_rel (keeps (logged_part full)) (note_url cfg ls)"
  "step_rel (keeps (logged_part full)) (commit t)"
  by (auto simp: step_rel_def keeps_def logged_part_def read_row_def effect_on_def note_progress_def note_url_def commit_effect
      split: option.split sum.split)

lemma logged_part_lines: "prefix ls full \<Longrightarrow> step_rel (keeps (logged_part full)) (log_new_lines ls)"
  by (auto simp: step_rel_def keeps_def logged_part_def log_new_lines_def prefix_def)

definition true_transformer :: "'v hive_config \<Rightarrow> bool" where
  "true_transformer cfg \<longleftrightarrow> (case url_transformer cfg of None \<Rightarrow> True | Some v \<Rightarrow> transformer_truth cfg v)"

lemma one_job_parts:
  assumes "true_transformer cfg"
  shows "step_rel (keeps (one_job cfg)) (read_row t)"
    "step_rel (keeps (one_job cfg)) (effect_on (Slept s))"
    "step_rel (keeps (one_job cfg)) (effect_on Cancelled)"
    "step_rel (keeps (one_job cfg)) (note_progress p)"
    "step_rel (keeps (one_job cfg)) (note_url cfg ls)"
    "step_rel (keeps (one_job cfg)) (log_new_lines ls)"
    "step_rel (keeps (one_job cfg)) (commit t)"
  using assms
  by (auto simp: step_rel_def keeps_def one_job_def read_row_def effect_on_def note_progress_def note_url_def commit_effect
      log_new_lines_def truthy_iff true_transformer_def split: option.split sum.split)

interpretation lines_loop:
  loop_contract "iteration cfg" "\<lambda>t. prefix (splitlines (fetched_log t)) full" "keeps (logged_part full)" for cfg full
  by unfold_locales (auto intro!: keeps_preorder iteration_rel step_rels logged_part_lines)

interpretation job_loop:
  loop_contract "iteration cfg" "\<lambda>t. true_transformer cfg" "keeps (one_job cfg)" for cfg
  by unfold_locales (auto intro!: keeps_preorder iteration_rel one_job_parts)

section \<open>Stopped queries\<close>

definition no_cancel :: "'v monitor \<Rightarrow> 'v monitor \<Rightarrow> bool" where
  "no_cancel m m' \<longleftrightarrow> (\<exists>es. effects m' = effects m @ es \<and> Cancelled \<notin> set es)"

lemma no_cancel_preorder: "reflp no_cancel" "transp no_cancel"
proof -
  show "reflp no_cancel" by (rule reflpI) (simp add: no_cancel_def)
  show "transp no_cancel" by (rule transpI) (auto simp: no_cancel_def)
qed

lemma no_cancel_parts [step_rels]:
  "step_rel no_cancel (read_row t)"
  "step_rel no_cancel (effect_on (Slept s))" "step_rel no_cancel (note_progress p)"
  "step_rel no_cancel (note_url cfg ls)" "step_rel no_cancel (log_new_lines ls)" "step_rel no_cancel (commit t)"
  by (auto simp: step_rel_def no_cancel_def read_row_def effect_on_def note_progress_def note_url_def log_new_lines_def
      commit_effect split: option.split sum.split)

text \<open>The state after the row is read.\<close>

definition row_read :: "'v tick \<Rightarrow> 'v monitor \<Rightarrow> 'v monitor" where
  "row_read t m = snd (read_row t m)"

lemma row_read_simps [simp]:
  "effects (row_read t m) = effects m" "tracking_url (row_read t m) = tracking_url m"
  "job_id (row_read t m) = job_id m" "last_log_line (row_read t m) = last_log_line m"
  "row_status t = Inr st \<Longrightarrow> q_progress (row_read t m) = row_progress t (q_progress m)"
  by (simp_all add: row_read_def read_row_def split: sum.split)

lemma iteration_stopped: "row_status t = Inr STOPPED \<Longrightarrow> iteration cfg t m = (case cancel_error t of
    Some e \<Rightarrow> (Inl e, row_read t m) | None \<Rightarrow> (Inr None, (row_read t m)\<lparr>effects := effects m @ [Cancelled]\<rparr>))"
  by (simp add: iteration_def read_row_def row_read_def bindS_def external_def effect_on_def split: option.split)

definition round_of :: "'v hive_config \<Rightarrow> 'v tick \<Rightarrow> ('v monitor, op_state option) step_on" where
  "round_of cfg t = bindS (if fetched_log t = [] then returnS () else handle_log cfg t (fetched_log t))
     (\<lambda>_. bindS (sleep cfg) (\<lambda>_. bindS (lift (polled t)) (\<lambda>s. returnS (Some s))))"

lemma iteration_reads: "row_status t = Inr st \<Longrightarrow> st \<noteq> STOPPED \<Longrightarrow>
    iteration cfg t m = round_of cfg t (row_read t m)"
  by (simp add: iteration_def round_of_def read_row_def row_read_def bindS_def)

lemma iteration_unread: "row_status t = Inl e \<Longrightarrow> iteration cfg t m = (Inl e, m)"
  by (simp add: iteration_def read_row_def bindS_def)

lemma no_cancel_handle_log: "step_rel no_cancel (handle_log cfg t logs)"
  unfolding handle_log_def Let_def by (intro step_rels no_cancel_preorder)

lemma iteration_goes_on:
  assumes "row_status t \<noteq> Inr STOPPED" and "iteration cfg t m = (r, m')"
  shows "no_cancel m m' \<and> (r = Inr (Some s) \<longrightarrow> polled t = Inr s) \<and> r \<noteq> Inr None"
proof (cases "row_status t")
  case (Inl e)
  with assms show ?thesis
    by (auto simp: iteration_unread no_cancel_def)
next
  case (Inr st)
  with assms have run: "round_of cfg t (row_read t m) = (r, m')" by (simp add: iteration_reads)
  have s: "step_rel no_cancel (sleep cfg)"
    unfolding sleep_def by (intro step_rels no_cancel_preorder)
  have "step_rel no_cancel (round_of cfg t)"
    unfolding round_of_def by (intro step_rels no_cancel_preorder s no_cancel_handle_log)
  then have "no_cancel (row_read t m) m'" by (rule step_relD) (rule run)
  moreover have "(r = Inr (Some s) \<longrightarrow> polled t = Inr s) \<and> r \<noteq> Inr None"
    using run by (auto simp: round_of_def bindS_iff lift_def)
  ultimately show ?thesis by (simp add: no_cancel_def)
qed

lemma iteration_running:
  assumes "iteration cfg t m = (Inr (Some s), m')"
  obtains st where "row_status t = Inr st" and "st \<noteq> STOPPED" and "polled t = Inr s"
proof -
  have "row_status t \<noteq> Inr STOPPED" using assms by (auto simp: iteration_stopped split: option.splits)
  then show thesis
    using that assms iteration_goes_on [OF _ assms] by (cases "row_status t") (auto simp: iteration_unread)
qed

definition goes_on :: "(nat \<Rightarrow> 'v tick) \<Rightarrow> nat \<Rightarrow> bool" where
  "goes_on ticks k \<longleftrightarrow> row_status (ticks k) \<noteq> Inr STOPPED \<and> polled (ticks k) \<in> Inr ` set unfinished_states"

text \<open>A user's stop is seen: it is the first thing to end the loop.\<close>

definition stop_seen :: "(nat \<Rightarrow> 'v tick) \<Rightarrow> nat \<Rightarrow> op_state \<Rightarrow> bool" where
  "stop_seen ticks n s \<longleftrightarrow> s \<in> set unfinished_states \<and>
     (\<exists>k \<ge> n. row_status (ticks k) = Inr STOPPED \<and> (\<forall>j. n \<le> j \<and> j < k \<longrightarrow> goes_on ticks j))"

lemma stop_seen_now: "s \<in> set unfinished_states \<Longrightarrow> row_status (ticks n) = Inr STOPPED \<Longrightarrow> stop_seen ticks n s"
  unfolding stop_seen_def by (intro conjI exI [of _ n]) auto

lemma stop_seen_Suc:
  assumes "s \<in> set unfinished_states" and "row_status (ticks n) \<noteq> Inr STOPPED" and "polled (ticks n) = Inr s'"
  shows "stop_seen ticks n s \<longleftrightarrow> stop_seen ticks (Suc n) s'"
proof
  assume "stop_seen ticks n s"
  then obtain k where k: "n \<le> k" "row_status (ticks k) = Inr STOPPED" "\<forall>j. n \<le> j \<and> j < k \<longrightarrow> goes_on ticks j"
    by (auto simp: stop_seen_def)
  with assms(2) have "n < k" by (metis le_neq_implies_less)
  with k have "goes_on ticks n" by simp
  with assms(3) have "s' \<in> set unfinished_states" by (auto simp: goes_on_def)
  with k \<open>n < k\<close> show "stop_seen ticks (Suc n) s'"
    unfolding stop_seen_def by (intro conjI exI [of _ k]) auto
next
  assume "stop_seen ticks (Suc n) s'"
  then obtain k where k: "s' \<in> set unfinished_states" "Suc n \<le> k" "row_status (ticks k) = Inr STOPPED"
    "\<forall>j. Suc n \<le> j \<and> j < k \<longrightarrow> goes_on ticks j"
    by (auto simp: stop_seen_def)
  have "goes_on ticks j" if "n \<le> j" "j < k" for j
    using that k assms(2,3) by (cases "j = n") (auto simp: goes_on_def)
  then show "stop_seen ticks n s"
    unfolding stop_seen_def using assms(1) k by (intro conjI exI [of _ k]) auto
qed

text \<open>
  A loop that returns has cancelled the query as its last effect when a stop was seen, and
  has not cancelled it otherwise.
\<close>

definition cancelled_last :: "'v monitor \<Rightarrow> 'v monitor \<Rightarrow> bool" where
  "cancelled_last m m' \<longleftrightarrow> (\<exists>es. effects m' = effects m @ es @ [Cancelled] \<and> Cancelled \<notin> set es)"

lemma no_cancel_then: "no_cancel m m' \<Longrightarrow> cancelled_last m' m'' \<Longrightarrow> cancelled_last m m''"
proof -
  assume "no_cancel m m'" and "cancelled_last m' m''"
  then obtain es fs where "effects m' = effects m @ es" "effects m'' = effects m' @ fs @ [Cancelled]"
    "Cancelled \<notin> set (es @ fs)" by (auto simp: no_cancel_def cancelled_last_def)
  then show ?thesis unfolding cancelled_last_def by (intro exI [of _ "es @ fs"]) auto
qed

lemma ends_cancelled:
  assumes "ends (iteration cfg) ticks n s m r m'" and "r = Inr ()"
  shows "(if stop_seen ticks n s then cancelled_last m m' else no_cancel m m')"
  using assms
proof (induction rule: ends.induct)
  case (finished s n m)
  then show ?case by (simp add: stop_seen_def no_cancel_def)
next
  case (broken s n m m')
  show ?case
  proof (cases "row_status (ticks n) = Inr STOPPED")
    case True
    then show ?thesis
      using broken stop_seen_now [of s ticks n] iteration_stopped [of "ticks n" cfg m]
      by (auto simp: cancelled_last_def split: option.splits)
  qed (use iteration_goes_on [OF _ broken(2)] in auto)
next
  case (again s n m s' m' r m'')
  show ?case
  proof (cases "row_status (ticks n) = Inr STOPPED")
    case True
    then show ?thesis
      using again(2) iteration_stopped [of "ticks n" cfg m] by (auto split: option.splits)
  next
    case False
    from iteration_goes_on [OF this again(2)] have g: "no_cancel m m'" "polled (ticks n) = Inr s'" by auto
    show ?thesis
      using again.IH [OF again.prems] stop_seen_Suc [of s ticks n s', OF again(1) False g(2)] g(1) no_cancel_then
        transpD [OF no_cancel_preorder(2) g(1)]
      by (auto split: if_splits)
  qed
qed simp

section \<open>An abstract monitor\<close>

text \<open>
  What the loop is for, without logs, URLs and commits: a phase and the best percentage
  reported so far.
\<close>

datatype phase = Watching | Stopped | Ended

definition state_phase :: "op_state \<Rightarrow> phase" where
  "state_phase s = (if s \<in> set unfinished_states then Watching else Ended)"

definition reported :: "'v tick \<Rightarrow> int list" where
  "reported t = (if fetched_log t = [] then []
     else case progress (splitlines (fetched_log t)) of Inl e \<Rightarrow> [] | Inr p \<Rightarrow> [p])"

definition watch :: "'v tick \<Rightarrow> phase \<times> int \<Rightarrow> phase \<times> int" where
  "watch t = (\<lambda>(ph, best).
     if ph \<noteq> Watching then (ph, best)
     else if row_status t = Inr STOPPED then (Stopped, row_progress t best)
     else (case polled t of Inl e \<Rightarrow> Ended | Inr s \<Rightarrow> state_phase s,
           fold max (reported t) (row_progress t best)))"

lemma step_progress:
  "step_rel (\<lambda>m m'. q_progress m' = q_progress m) (note_url cfg ls)"
  "step_rel (\<lambda>m m'. q_progress m' = q_progress m) (log_new_lines ls)"
  "step_rel (\<lambda>m m'. q_progress m' = q_progress m) (commit t)"
  "step_rel (\<lambda>m m'. q_progress m' = q_progress m) (effect_on e)"
  by (auto simp: step_rel_def effect_on_def note_url_def log_new_lines_def
      commit_effect split: option.split sum.split)

lemma same_preorder: "reflp (\<lambda>m m'. f m' = f m)" "transp (\<lambda>m m'. f m' = f m)"
  by (auto intro: reflpI transpI)

lemma iteration_progress:
  assumes "iteration cfg t m = (Inr (Some s), m')"
  shows "watch t (Watching, q_progress m) = (state_phase s, q_progress m')"
proof -
  let ?same = "\<lambda>m m' :: 'a monitor. q_progress m' = q_progress m"
  obtain x where x: "row_status t = Inr x" "x \<noteq> STOPPED" and p: "polled t = Inr s"
    using assms by (rule iteration_running)
  let ?logs = "if fetched_log t = [] then returnS () else handle_log cfg t (fetched_log t)"
  let ?rest = "bindS (sleep cfg) (\<lambda>_. bindS (lift (polled t)) (\<lambda>s. returnS (Some s)))"
  have "bindS ?logs (\<lambda>_. ?rest) (row_read t m) = (Inr (Some s), m')"
    using assms x by (simp add: iteration_reads round_of_def)
  then obtain m1 where m1: "?logs (row_read t m) = (Inr (), m1)" "?rest m1 = (Inr (Some s), m')"
    by (auto simp: bindS_iff)
  have "step_rel ?same ?rest"
    unfolding sleep_def by (intro step_rels same_preorder step_progress)
  then have rest: "q_progress m' = q_progress m1" using m1(2) by (rule step_relD)
  have "q_progress m1 = fold max (reported t) (q_progress (row_read t m))"
  proof (cases "fetched_log t = []")
    case True
    with m1(1) show ?thesis by (simp add: reported_def)
  next
    case False
    let ?ls = "splitlines (fetched_log t)"
    let ?tail = "\<lambda>c1. bindS (note_url cfg ?ls) (\<lambda>c2. bindS (log_new_lines ?ls)
        (\<lambda>_. if c1 \<or> c2 then commit t else returnS ()))"
    from False m1(1) obtain pr where pr: "progress ?ls = Inr pr"
      by (cases "progress ?ls") (auto simp: handle_log_def Let_def bindS_const)
    with False m1(1) have "bindS (note_progress pr) ?tail (row_read t m) = (Inr (), m1)"
      by (simp add: handle_log_def Let_def bindS_const)
    then obtain c1 m0 where m0: "note_progress pr (row_read t m) = (Inr c1, m0)" "?tail c1 m0 = (Inr (), m1)"
      by (auto simp: bindS_iff)
    have "step_rel ?same (?tail c1)" by (intro step_rels same_preorder step_progress)
    then have "q_progress m1 = q_progress m0" using m0(2) by (rule step_relD)
    also have "\<dots> = max pr (q_progress (row_read t m))"
      using m0(1) by (auto simp: note_progress_def max_def split: if_splits)
    finally show ?thesis using False pr by (simp add: reported_def)
  qed
  with rest p x show ?thesis by (simp add: watch_def)
qed

text \<open>A run of the loop, iteration by iteration, is a run of the monitor.\<close>

definition watch_run :: "(nat \<Rightarrow> 'v tick) \<Rightarrow> nat \<Rightarrow> nat \<Rightarrow> phase \<times> int \<Rightarrow> phase \<times> int" where
  "watch_run ticks n k = fold (\<lambda>i. watch (ticks i)) [n..<n + k]"

lemma watch_run_simps:
  "watch_run ticks n 0 a = a"
  "watch_run ticks n (Suc k) a = watch_run ticks (Suc n) k (watch (ticks n) a)"
proof -
  have "[n..<n + Suc k] = n # [Suc n..<Suc n + k]" by (subst upt_conv_Cons) simp_all
  then show "watch_run ticks n (Suc k) a = watch_run ticks (Suc n) k (watch (ticks n) a)"
    unfolding watch_run_def by (simp only: fold_simps)
qed (simp add: watch_run_def)

lemma ends_watch:
  assumes "ends (iteration cfg) ticks n s m r m'" and "r = Inr ()"
  shows "\<exists>k. watch_run ticks n k (state_phase s, q_progress m) =
    (if stop_seen ticks n s then Stopped else Ended, q_progress m')"
  using assms
proof (induction rule: ends.induct)
  case (finished s n m)
  then show ?case by (intro exI [of _ 0]) (simp add: stop_seen_def watch_run_simps state_phase_def)
next
  case (broken s n m m')
  then have "row_status (ticks n) = Inr STOPPED" using iteration_goes_on by blast
  with broken stop_seen_now [of s ticks n] show ?case
    by (intro exI [of _ 1])
      (auto simp: watch_run_simps state_phase_def watch_def iteration_stopped split: option.splits)
next
  case (again s n m s' m' r m'')
  from again(2) obtain x where "row_status (ticks n) = Inr x" "x \<noteq> STOPPED" and p: "polled (ticks n) = Inr s'"
    by (rule iteration_running)
  then have st: "row_status (ticks n) \<noteq> Inr STOPPED" by simp
  from again obtain k where "watch_run ticks (Suc n) k (state_phase s', q_progress m') =
      (if stop_seen ticks (Suc n) s' then Stopped else Ended, q_progress m'')" by blast
  then show ?case
    using iteration_progress [OF again(2)] stop_seen_Suc [of s ticks n s', OF again(1) st p] again(1)
    by (intro exI [of _ "Suc k"]) (simp add: watch_run_simps state_phase_def)
qed simp

section \<open>The lines a run logs\<close>

fun is_logged :: "'v effect \<Rightarrow> bool" where
  "is_logged (Logged j l) = True"
| "is_logged e = False"

fun rounds :: "'v effect list \<Rightarrow> nat" where
  "rounds [] = 0"
| "rounds (Slept s # es) = Suc (rounds es)"
| "rounds (e # es) = rounds es"

lemma rounds_append [simp]: "rounds (es @ fs) = rounds es + rounds fs"
  by (induction es rule: rounds.induct) simp_all

lemma logged_only [simp]: "filter is_logged (map (Logged j) ls) = map (Logged j) ls" "rounds (map (Logged j) ls) = 0"
  by (induction ls) simp_all

text \<open>The id of the job whose tracking URL a log shows: the part of the URL before its last slash.\<close>

definition job_in :: "string list \<Rightarrow> string option" where
  "job_in ls = (case get_tracking_url ls of
     None \<Rightarrow> None
   | Some u \<Rightarrow> if u = [] then None
       else case second_last (split_at ''/'' u) of Inl e \<Rightarrow> None | Inr j \<Rightarrow> Some j)"

text \<open>
  What is to be logged of the logs fetched in turn, each the beginning of one growing log: once
  one of them shows a job, the whole of the longest fetched from then on, under the job's id.
\<close>

definition lines_to_log :: "string list \<Rightarrow> string list list \<Rightarrow> 'v effect list" where
  "lines_to_log full logs = (case dropWhile (\<lambda>ls. job_in ls = None) logs of
     [] \<Rightarrow> []
   | ls # later \<Rightarrow> let j = the (job_in ls) in
       if j = [] then [] else map (Logged j) (take (fold max (map length (ls # later)) 0) full))"

text \<open>How one round changes the job, the number of the lines logged and the lines logged.\<close>

fun log_step :: "string list \<Rightarrow> string option \<times> nat \<times> 'v effect list \<Rightarrow> string option \<times> nat \<times> 'v effect list" where
  "log_step ls (job, n, out) = (let job' = (case job of None \<Rightarrow> job_in ls | Some j \<Rightarrow> Some j) in
     if truthy job' \<and> n < length ls then (job', length ls, out @ map (Logged (the job')) (drop n ls))
     else (job', n, out))"

definition log_state :: "'v monitor \<Rightarrow> string option \<times> nat \<times> 'v effect list" where
  "log_state m = (job_id m, last_log_line m, filter is_logged (effects m))"

lemma map_take_drop: "map f (take n xs) @ map f (drop n xs) = map f xs"
  by (simp add: map_append [symmetric] del: map_append)

lemma log_steps_after:
  assumes "list_all (\<lambda>ls. prefix ls full) logs" and "n \<le> length full"
  shows "snd (snd (fold log_step logs (Some j, n, if j = [] then [] else map (Logged j) (take n full)))) =
    (if j = [] then [] else map (Logged j) (take (fold max (map length logs) n) full))"
  using assms
proof (induction logs arbitrary: n)
  case (Cons ls logs)
  then obtain zs where full: "full = ls @ zs" by (auto simp: prefix_def)
  show ?case
  proof (cases "j \<noteq> [] \<and> n < length ls")
    case True
    then show ?thesis
      using Cons.IH [of "length ls"] Cons.prems by (simp add: truthy_iff full max_absorb1 map_take_drop)
  next
    case False
    then show ?thesis
      using Cons.IH [of n] Cons.prems by (cases "j = []") (auto simp: truthy_iff max_absorb2)
  qed
qed simp

lemma log_steps:
  assumes "list_all (\<lambda>ls. prefix ls full) logs"
  shows "snd (snd (fold log_step logs (None, 0, []))) = (lines_to_log full logs :: 'v effect list)"
  using assms
proof (induction logs)
  case (Cons ls logs)
  show ?case
  proof (cases "job_in ls")
    case None
    then show ?thesis using Cons by (simp add: lines_to_log_def truthy_iff)
  next
    case (Some j)
    have "fold log_step (ls # logs) (None, 0, [] :: 'v effect list) =
        fold log_step (ls # logs) (Some j, 0, if j = [] then [] else map (Logged j) (take 0 full))"
      using Some by (cases "j = []") simp_all
    then show ?thesis
      by (simp only: log_steps_after [OF Cons.prems le0]) (simp add: lines_to_log_def Some)
  qed
qed (simp add: lines_to_log_def)

text \<open>The loop has a job exactly when its tracking URL is set to something true.\<close>

definition tracked :: "'v hive_config \<Rightarrow> 'v monitor \<Rightarrow> bool" where
  "tracked cfg m \<longleftrightarrow> (job_id m = None \<longleftrightarrow> \<not> url_truth cfg (tracking_url m))"

lemma note_url_job:
  assumes "note_url cfg ls m = (Inr c, m')" and "true_transformer cfg" and "tracked cfg m"
  shows "tracked cfg m' \<and> job_id m' = (case job_id m of None \<Rightarrow> job_in ls | Some j \<Rightarrow> Some j) \<and>
    last_log_line m' = last_log_line m \<and> effects m' = effects m"
  using assms
  by (auto simp: note_url_def tracked_def job_in_def true_transformer_def split: if_splits option.splits sum.splits)

lemma log_new_lines_step:
  assumes "log_new_lines ls m = (r, m')"
    and "job_id m = (case job of None \<Rightarrow> job_in ls | Some j \<Rightarrow> Some j)"
  shows "log_state m' = log_step ls (job, last_log_line m, filter is_logged (effects m)) \<and>
    tracked cfg m' = tracked cfg m \<and> rounds (effects m') = rounds (effects m)"
  using assms by (auto simp: log_new_lines_def log_state_def tracked_def Let_def split: if_splits)

lemma quiet_parts:
  "note_progress p m = (r, m') \<Longrightarrow> log_state m' = log_state m \<and> tracked cfg m' = tracked cfg m \<and>
     rounds (effects m') = rounds (effects m)"
  "commit t m = (x, m') \<Longrightarrow> log_state m' = log_state m \<and> tracked cfg m' = tracked cfg m \<and>
     rounds (effects m') = rounds (effects m)"
  by (auto simp: note_progress_def commit_effect log_state_def tracked_def split: if_splits option.splits)

lemma handle_log_lines:
  assumes "handle_log cfg t logs m = (Inr (), m')" and "true_transformer cfg" and "tracked cfg m"
  shows "tracked cfg m' \<and> log_state m' = log_step (splitlines logs) (log_state m) \<and>
    rounds (effects m') = rounds (effects m)"
proof -
  let ?ls = "splitlines logs"
  obtain p c1 c2 m1 m2 m3 where run: "note_progress p m = (Inr c1, m1)" "note_url cfg ?ls m1 = (Inr c2, m2)"
      "log_new_lines ?ls m2 = (Inr (), m3)" "(if c1 \<or> c2 then commit t else returnS ()) m3 = (Inr (), m')"
    using assms(1) by (auto simp: handle_log_def Let_def bindS_iff lift_def)
  have p: "log_state m1 = log_state m \<and> tracked cfg m1 \<and> rounds (effects m1) = rounds (effects m)"
    using quiet_parts(1) [OF run(1)] assms(3) by blast
  then have u: "tracked cfg m2 \<and> job_id m2 = (case job_id m of None \<Rightarrow> job_in ?ls | Some j \<Rightarrow> Some j) \<and>
      last_log_line m2 = last_log_line m \<and> filter is_logged (effects m2) = filter is_logged (effects m) \<and>
      rounds (effects m2) = rounds (effects m)"
    using note_url_job [OF run(2) assms(2)] by (simp add: log_state_def)
  then have l: "log_state m3 = log_step ?ls (log_state m) \<and> tracked cfg m3 \<and> rounds (effects m3) = rounds (effects m)"
    using log_new_lines_step [OF run(3), of "job_id m"] by (simp add: log_state_def)
  then show ?thesis
    using run(4) quiet_parts(2) [of t m3 "Inr ()" m'] by (auto simp: returnS_def split: if_splits)
qed

lemma iteration_lines:
  assumes "iteration cfg t m = (Inr (Some s), m')" and "true_transformer cfg" and "tracked cfg m"
  shows "tracked cfg m' \<and> log_state m' = log_step (splitlines (fetched_log t)) (log_state m) \<and>
    rounds (effects m') = Suc (rounds (effects m))"
proof -
  obtain st where st: "row_status t = Inr st" "st \<noteq> STOPPED" using assms(1) by (rule iteration_running)
  let ?m = "row_read t m"
  have same: "log_state ?m = log_state m" "tracked cfg ?m" "rounds (effects ?m) = rounds (effects m)"
    using assms(3) by (simp_all add: log_state_def tracked_def)
  obtain m1 w where m1: "(if fetched_log t = [] then returnS () else handle_log cfg t (fetched_log t)) ?m = (Inr (), m1)"
      and m': "m' = m1\<lparr>effects := effects m1 @ [Slept w]\<rparr>"
    using assms(1) st
    by (auto simp: iteration_reads round_of_def bindS_iff lift_def sleep_def effect_on_def returnS_def
        simp del: bindS_const)
  have "splitlines [] = []" by code_simp
  moreover have "log_step [] (log_state m) = log_state m"
    by (simp add: log_state_def job_in_def truthy_iff split: option.split)
  ultimately have "tracked cfg m1 \<and> log_state m1 = log_step (splitlines (fetched_log t)) (log_state m) \<and>
      rounds (effects m1) = rounds (effects m)"
    using m1 same handle_log_lines [of cfg t "fetched_log t" ?m m1] assms(2)
    by (auto simp: returnS_def split: if_splits)
  then show ?thesis by (auto simp: m' log_state_def tracked_def)
qed

lemma ends_lines:
  assumes "ends (iteration cfg) ticks n s m r m'" and "r = Inr ()" and "true_transformer cfg" and "tracked cfg m"
  shows "\<exists>k. rounds (effects m') = rounds (effects m) + k \<and>
    log_state m' = fold (\<lambda>i. log_step (splitlines (fetched_log (ticks i)))) [n..<n + k] (log_state m)"
  using assms
proof (induction rule: ends.induct)
  case (broken s n m m')
  then have "row_status (ticks n) = Inr STOPPED" using iteration_goes_on by blast
  with broken show ?case
    by (intro exI [of _ 0]) (auto simp: iteration_stopped log_state_def split: option.splits)
next
  case (again s n m s' m' r m'')
  from iteration_lines [OF again(2) again.prems(2,3)] again.IH [OF again.prems(1,2)]
  obtain k where "rounds (effects m'') = rounds (effects m) + Suc k"
    "log_state m'' = fold (\<lambda>i. log_step (splitlines (fetched_log (ticks i)))) [Suc n..<Suc n + k]
       (log_step (splitlines (fetched_log (ticks n))) (log_state m))" by auto
  moreover have "[n..<n + Suc k] = n # [Suc n..<Suc n + k]" by (subst upt_conv_Cons) simp_all
  ultimately show ?case by (intro exI [of _ "Suc k"]) (simp only: fold_simps)
qed (auto intro: exI [of _ 0])

section \<open>Rounds that let the loop go on\<close>







section \<open>The loop's theorems\<close>

lemma handle_cursor_iff:
  "handle_cursor cfg first ticks m = Some (r, m') \<longleftrightarrow>
   (\<exists>e. first = Inl e \<and> r = Inl e \<and> m' = m) \<or> (\<exists>s. first = Inr s \<and> ends (iteration cfg) ticks 0 s m r m')"
  by (cases first) (auto simp: handle_cursor_def ends_iff)

definition sample_log :: string where
  "sample_log = ''INFO Launching Job 2 out of 4'' @ [CHR 0x0A] @ ''INFO Tracking URL = http://rm/job_7/''"

definition sample_config :: "nat hive_config" where
  "sample_config = \<lparr>url_transformer = Some 0, transformer_truth = (\<lambda>v. True), poll_interval = Some 5\<rparr>"

definition sample_tick :: "nat tick" where
  "sample_tick = \<lparr>row_status = Inr (Other_status ''running''), row_progress = id, row_url = id, cancel_error = None,
     fetched = Inr (Some sample_log), commit_error = None, polled = Inr RUNNING_STATE\<rparr>"

definition sample_ticks :: "nat \<Rightarrow> nat tick" where
  "sample_ticks n = (if n = 2 then sample_tick\<lparr>row_status := Inr STOPPED\<rparr> else sample_tick)"

definition sample_lines :: "string list" where
  "sample_lines = [''INFO Launching Job 2 out of 4'', ''INFO Tracking URL = http://rm/job_7/'']"

definition sample_end :: "nat monitor" where
  "sample_end = \<lparr>q_progress = 25, q_tracking_url = Config_value 0, tracking_url = Config_value 0,
     job_id = Some ''job_7'', last_log_line = 2,
     effects = map (Logged ''job_7'') sample_lines @ [Committed 25 (Config_value 0), Slept 5, Slept 5, Cancelled]\<rparr>"

lemma sample_splitlines: "splitlines sample_log = sample_lines"
  by code_simp

lemma sample_reads:
  "rmatch jobs_stats_r (hd sample_lines) = None" "rmatch jobs_stats_r (last sample_lines) = None"
  "rmatch launching_job_r (hd sample_lines) = Some [(''job_number'', ''2''), (''max_jobs'', ''4'')]"
  "rmatch launching_job_r (last sample_lines) = None"
  "rmatch stage_progress_r (hd sample_lines) = None" "rmatch stage_progress_r (last sample_lines) = None"
  by code_simp+

lemma sample_progress: "progress sample_lines = Inr 25"
proof -
  have l: "sample_lines = [hd sample_lines, last sample_lines]" by code_simp
  have v: "dec_val ''2'' = 2" "dec_val ''4'' = 4" by code_simp+
  have "fl 25 = Inr 25" using fl_nat [of 25] by simp
  then show ?thesis
    unfolding progress_def
    by (subst l) (simp add: read_line_def read_stats_def read_launch_def read_stage_def sample_reads group_int_def v
        no_jobs_def or_one_def percent_def stage_progress_def job_share_def trunc_def)
qed

lemma sample_url: "get_tracking_url sample_lines = Some ''http://rm/job_7/''"
  by code_simp

lemma sample_split: "second_last (split_at ''/'' ''http://rm/job_7/'') = Inr ''job_7''"
  by code_simp

text \<open>The sample run: three polls find the query running, and the user stops it.\<close>

lemma sample_iteration:
  "iteration sample_config sample_tick (watching 0 No_url) = (Inr (Some RUNNING_STATE),
     sample_end\<lparr>effects := map (Logged ''job_7'') sample_lines @ [Committed 25 (Config_value 0), Slept 5]\<rparr>)"
proof -
  have l: "sample_log \<noteq> []" "length sample_lines = 2" by code_simp+
  show ?thesis
    by (simp add: iteration_def read_row_def handle_log_def sample_tick_def sample_config_def sample_end_def watching_def
        fetched_log_def str_or_conv truthy_iff l sample_splitlines sample_progress sample_url sample_split
        bindS_def lift_def note_progress_def note_url_def log_new_lines_def commit_effect sleep_def config_item_def
        effect_on_def)
qed

lemma sample_iteration_again:
  assumes "m = sample_end\<lparr>effects := es\<rparr>"
  shows "iteration sample_config sample_tick m = (Inr (Some RUNNING_STATE), m\<lparr>effects := es @ [Slept 5]\<rparr>)"
proof -
  have l: "sample_log \<noteq> []" "length sample_lines = 2" by code_simp+
  show ?thesis unfolding assms
    by (simp add: iteration_def read_row_def handle_log_def sample_tick_def sample_config_def sample_end_def
        fetched_log_def str_or_conv truthy_iff l sample_splitlines sample_progress
        bindS_def lift_def note_progress_def note_url_def log_new_lines_def sleep_def config_item_def effect_on_def)
qed

lemma sample_run: "handle_cursor sample_config (Inr RUNNING_STATE) sample_ticks (watching 0 No_url) = Some (Inr (), sample_end)"
proof -
  let ?step = "iteration sample_config" and ?es = "map (Logged ''job_7'') sample_lines @ [Committed 25 (Config_value 0), Slept 5]"
  have t: "sample_ticks 0 = sample_tick" "sample_ticks (Suc 0) = sample_tick"
    "sample_ticks (Suc (Suc 0)) = sample_tick\<lparr>row_status := Inr STOPPED\<rparr>" by (simp_all add: sample_ticks_def)
  have u: "RUNNING_STATE \<in> set unfinished_states" by (simp add: unfinished_states_def)
  have third: "?step (sample_tick\<lparr>row_status := Inr STOPPED\<rparr>) (sample_end\<lparr>effects := ?es @ [Slept 5]\<rparr>) =
      (Inr None, sample_end)"
    by (subst iteration_stopped) (simp_all add: sample_tick_def sample_end_def row_read_def read_row_def)
  have "ends ?step sample_ticks (Suc (Suc 0)) RUNNING_STATE (sample_end\<lparr>effects := ?es @ [Slept 5]\<rparr>) (Inr ()) sample_end"
    by (rule ends.broken [OF u]) (simp only: t third)
  then have "ends ?step sample_ticks (Suc 0) RUNNING_STATE (sample_end\<lparr>effects := ?es\<rparr>) (Inr ()) sample_end"
    by (rule ends.again [OF u, rotated]) (simp add: t sample_iteration_again [OF refl])
  then have "ends ?step sample_ticks 0 RUNNING_STATE (watching 0 No_url) (Inr ()) sample_end"
    by (rule ends.again [OF u, rotated]) (simp only: t sample_iteration)
  then show ?thesis by (simp add: handle_cursor_def ends_iff)
qed

lemma sample_stop_seen: "stop_seen sample_ticks 0 RUNNING_STATE"
  unfolding stop_seen_def goes_on_def unfinished_states_def sample_ticks_def sample_tick_def
  by (intro conjI exI [of _ 2]) auto

lemmas run_cases = handle_cursor_iff [THEN iffD1]

text \<open>
  C9. The progress stored with a query never goes back: from the value the row had, over every
  value committed while the loop runs, to the value at the end, it only grows, whatever the
  logs say and however the loop ends, as long as no other writer of the row lowers it.
\<close>

theorem hive_progress_grows:
  assumes "handle_cursor cfg first ticks (watching p u) = Some (r, m')"
    and "\<And>k x. x \<le> row_progress (ticks k) x"
  shows "sorted (p # committed (effects m') @ [q_progress m'])"
proof -
  have "grows (watching p u) m'"
    using run_cases [OF assms(1)] progress_loop.loop_R [of cfg ticks 0 _ "watching p u" r m'] assms(2)
      reflpD [OF grows_refl] by auto
  then show ?thesis by (auto simp: grows_def watching_def)
qed

lemma hive_progress_grows_witness: "sorted (0 # committed (effects sample_end) @ [q_progress sample_end])"
  by (rule hive_progress_grows [OF sample_run]) (simp add: sample_ticks_def sample_tick_def)

text \<open>
  C14. The stored progress is a percentage: when the logs fetched are sound (they agree on the
  number of jobs, launch only jobs up to that number, and report stages in percent) and other
  writers of the row keep its progress between 0 and 100, no rounding of the floats brings the
  progress or any committed value out of the range from 0 to 100.
\<close>

theorem hive_progress_percent:
  assumes "handle_cursor cfg first ticks (watching p u) = Some (r, m')"
    and "\<And>k. sound_tick N (ticks k)" and "\<And>k. row_in_percent (ticks k)" and "0 \<le> p" and "p \<le> 100"
  shows "0 \<le> q_progress m' \<and> q_progress m' \<le> 100 \<and> set (committed (effects m')) \<subseteq> {0..100}"
proof -
  have "keeps percentages (watching p u) m'"
    using run_cases [OF assms(1)] percent_loop.loop_R [of cfg ticks 0 _ "watching p u" r m' N] assms(2,3)
    by (auto simp: keeps_def)
  with assms(4,5) show ?thesis by (simp add: keeps_def percentages_def watching_def)
qed

lemma hive_progress_percent_witness: "q_progress sample_end \<le> 100 \<and> set (committed (effects sample_end)) \<subseteq> {0..100}"
proof -
  have l: "sample_lines = [hd sample_lines, last sample_lines]" by code_simp
  have v: "dec_val ''2'' = 2" "dec_val ''4'' = 4" by code_simp+
  have "list_all (sound_line 4) [hd sample_lines, last sample_lines]"
    by (simp add: sound_line_def line_launch_def line_total_def line_stage_def sample_reads group_int_def v)
  then have "list_all (sound_line 4) sample_lines" using l by simp
  moreover have "sample_log \<noteq> []" by code_simp
  ultimately have "sound_tick 4 (sample_ticks k)" for k
    by (simp add: sound_tick_def sample_ticks_def sample_tick_def fetched_log_def str_or_conv truthy_iff
        sample_splitlines Let_def) (simp add: sample_lines_def)
  moreover have "row_in_percent (sample_ticks k)" for k
    by (simp add: row_in_percent_def sample_ticks_def sample_tick_def)
  ultimately show ?thesis using hive_progress_percent [OF sample_run, of 4] by simp
qed

text \<open>
  C5. The loop over a Hive query implements the abstract monitor: when it returns, its phase and
  the progress it stored are those of the monitor run over the same answers, whatever it did
  about logs, tracking URLs and commits in between.
\<close>

theorem hive_refines_monitor:
  assumes "handle_cursor cfg (Inr s) ticks m = Some (Inr (), m')"
  shows "\<exists>k. watch_run ticks 0 k (state_phase s, q_progress m) =
    (if stop_seen ticks 0 s then Stopped else Ended, q_progress m')"
  using run_cases [OF assms] ends_watch by blast

lemma hive_refines_monitor_witness: "\<exists>k. watch_run sample_ticks 0 k (Watching, 0) = (Stopped, 25)"
  using hive_refines_monitor [OF sample_run] sample_stop_seen
  by (simp add: state_phase_def unfinished_states_def watching_def sample_end_def)

text \<open>
  C11. A user's stop is honoured: when the row is seen stopped before Hive finishes, the loop
  returns with the cancellation of the query as its last effect, done once; in every other
  run that returns, the query is never cancelled.
\<close>

theorem hive_stop_cancels:
  assumes "handle_cursor cfg (Inr s) ticks (watching p u) = Some (Inr (), m')"
  shows "if stop_seen ticks 0 s then (\<exists>es. effects m' = es @ [Cancelled] \<and> Cancelled \<notin> set es)
    else Cancelled \<notin> set (effects m')"
  using run_cases [OF assms] ends_cancelled [of cfg ticks 0 s "watching p u" "Inr ()" m']
  by (auto simp: cancelled_last_def no_cancel_def watching_def)

lemma hive_stop_cancels_witness:
  "\<exists>es. effects sample_end = es @ [Cancelled] \<and> Cancelled \<notin> set es"
  using hive_stop_cancels [OF sample_run] by (simp add: sample_stop_seen)

text \<open>
  However the loop ends, the lines logged are a beginning of the query's log, all under the id of
  one job.
\<close>

lemma hive_logs_beginning:
  assumes "handle_cursor cfg first ticks (watching p u) = Some (r, m')"
    and "\<And>k. prefix (splitlines (fetched_log (ticks k))) full" and "true_transformer cfg"
  shows "logged (effects m') = take (last_log_line m') full \<and>
    (\<forall>j l. Logged j l \<in> set (effects m') \<longrightarrow> job_id m' = Some j)"
proof -
  let ?m = "watching p u"
  have start: "logged_part full ?m" "one_job cfg ?m" by (simp_all add: watching_def logged_part_def one_job_def)
  have kept: "keeps (logged_part full) ?m m' \<and> keeps (one_job cfg) ?m m'"
    if "ends (iteration cfg) ticks 0 s ?m r m'" for s
    using lines_loop.loop_R [OF that assms(2)] job_loop.loop_R [OF that assms(3)] ..
  have "m' = ?m \<or> (\<exists>s. ends (iteration cfg) ticks 0 s ?m r m')" using run_cases [OF assms(1)] by auto
  then have "keeps (logged_part full) ?m m' \<and> keeps (one_job cfg) ?m m'"
    using kept by (auto simp: keeps_def)
  with start show ?thesis by (simp add: keeps_def logged_part_def one_job_def)
qed

text \<open>
  C28. Every line of the query's log is logged, once and in order: when each log fetched is a
  beginning of one growing log, and the configured transformer is true (as functions are), a loop
  that returns has logged exactly this: nothing when no log of its rounds shows a job's tracking
  URL (or the URL's job id is empty), and otherwise, from its first line on, the longest log
  fetched in the round that first shows one or later, each line under that job's id.
\<close>

theorem hive_logs_once:
  assumes "handle_cursor cfg first ticks (watching p u) = Some (Inr (), m')"
    and "\<And>k. prefix (splitlines (fetched_log (ticks k))) full" and "true_transformer cfg"
  shows "filter is_logged (effects m') =
    lines_to_log full (map (\<lambda>k. splitlines (fetched_log (ticks k))) [0..<rounds (effects m')])"
proof -
  let ?m = "watching p u" and ?log = "\<lambda>k. splitlines (fetched_log (ticks k))"
  from run_cases [OF assms(1)] obtain s where run: "ends (iteration cfg) ticks 0 s ?m (Inr ()) m'" by auto
  have start: "tracked cfg ?m" "log_state ?m = (None, 0, [])" "rounds (effects ?m) = 0"
    by (simp_all add: tracked_def log_state_def watching_def)
  from ends_lines [OF run refl assms(3) start(1)] start obtain k where k: "rounds (effects m') = k"
    "log_state m' = fold (\<lambda>i. log_step (?log i)) [0..<k] (None, 0, [])" by auto
  then have "log_state m' = fold log_step (map ?log [0..<k]) (None, 0, [])"
    by (simp add: fold_map comp_def)
  moreover have "filter is_logged (effects m') = snd (snd (log_state m'))" by (simp add: log_state_def)
  ultimately show ?thesis using assms(2) k(1) by (simp add: log_steps list_all_iff)
qed

lemma hive_logs_once_witness: "filter is_logged (effects sample_end) = map (Logged ''job_7'') sample_lines"
proof -
  have "sample_log \<noteq> []" by code_simp
  then have t: "fetched_log (sample_ticks k) = sample_log" for k
    by (simp add: sample_ticks_def sample_tick_def fetched_log_def str_or_conv truthy_iff)
  have r: "rounds (effects sample_end) = 2" by code_simp
  have j: "job_in sample_lines = Some ''job_7''" by (simp add: job_in_def sample_url sample_split)
  have l: "length sample_lines = 2" by code_simp
  have "filter is_logged (effects sample_end) = lines_to_log sample_lines [sample_lines, sample_lines]"
    using hive_logs_once [OF sample_run, of sample_lines]
    by (simp add: t r sample_splitlines true_transformer_def sample_config_def upt_rec)
  also have "\<dots> = map (Logged ''job_7'') sample_lines"
    by (simp add: lines_to_log_def j l)
  finally show ?thesis .
qed

text \<open>
  The tracking URL found in a log is never stored with the query: when nobody else writes the
  column, it is left as it was, or is set to the configured \<open>TRACKING_URL_TRANSFORMER\<close> itself, which is never applied to
  the URL.
\<close>

lemma hive_url_not_stored:
  assumes "handle_cursor cfg first ticks (watching p u) = Some (r, m')"
    and "\<And>k x. row_url (ticks k) x = x"
  shows "q_tracking_url m' = u \<or> Some (q_tracking_url m') = map_option Config_value (url_transformer cfg)"
proof -
  have "url_from cfg (watching p u) m'"
    using run_cases [OF assms(1)] url_loop.loop_R [of cfg ticks 0 _ "watching p u" r m'] assms(2)
      reflpD [OF url_from_refl] by auto
  then show ?thesis by (auto simp: url_from_def watching_def)
qed

lemma hive_url_not_stored_witness:
  "q_tracking_url sample_end = No_url \<or> Some (q_tracking_url sample_end) = map_option Config_value (url_transformer sample_config)"
  by (rule hive_url_not_stored [OF sample_run]) (simp add: sample_ticks_def sample_tick_def)



end
