(* ===== verification/HiveEngine.thy ===== *)
theory HiveEngine
  imports HiveCursor PyJson
begin

text \<open>
  The other operations of the Hive engine specification (\<open>src/superset/hive_minios3.py\<close>): the
  upload of a data frame as a table, the SQL fragments it writes, and what it configures. The
  database engine, the object store, the temporary files and the data frame library are outside:
  steps on a world of type \<open>'w\<close>.
\<close>

section \<open>Services and configuration\<close>

text \<open>A table: its schema and name, and \<open>str(table)\<close>, which Superset defines.\<close>

record hive_table =
  table_schema :: "string option"
  table_name :: string
  table_str :: string

text \<open>The element types of columns the code tells apart, and any other by its name.\<close>

datatype dtype = Bool_dtype | Float64_dtype | Int64_dtype | Object_dtype | Other_dtype string

type_synonym data_frame = "(string \<times> dtype) list"

text \<open>
  \<open>get_df_empty\<close> tells whether the frame of a query is empty; \<open>engine_execute\<close> takes the text
  of the statement and its bound parameters; \<open>temp_file\<close> and \<open>close_temp\<close> open and close a
  temporary file of a directory and a suffix; \<open>directory_func\<close> is the configured function.
\<close>

record 'w hive_services =
  get_engine :: "('w, unit) step_on"
  get_df_empty :: "string \<Rightarrow> ('w, bool) step_on"
  engine_execute :: "string \<Rightarrow> (string \<times> string) list \<Rightarrow> ('w, unit) step_on"
  temp_file :: "string \<Rightarrow> string \<Rightarrow> ('w, string) step_on"
  close_temp :: "string \<Rightarrow> 'w \<Rightarrow> 'w"
  write_parquet :: "string \<Rightarrow> ('w, unit) step_on"
  directory_func :: "string option \<Rightarrow> ('w, string) step_on"
  s3_client :: "string option \<Rightarrow> ('w, unit) step_on"
  s3_upload :: "string \<Rightarrow> string \<Rightarrow> string \<Rightarrow> ('w, unit) step_on"

text \<open>
  The configuration entries; the outer \<open>option\<close> is a missing entry, the inner one a value
  \<open>None\<close>.
\<close>

record upload_config =
  s3_bucket :: "string option option"
  s3_endpoint :: "string option option"
  upload_folder :: "string option"
  has_directory_func :: bool

definition config_entry :: "string \<Rightarrow> 'a option \<Rightarrow> ('w, 'a) step_on" where
  "config_entry k v = (case v of None \<Rightarrow> raiseS (KeyError k) | Some x \<Rightarrow> returnS x)"

section \<open>Uploading a data frame\<close>

definition upload_location :: "string \<Rightarrow> string \<Rightarrow> hive_table \<Rightarrow> string" where
  "upload_location bucket prefix table = path_join ''s3a://'' [bucket, prefix, table_name table]"

definition upload_to_s3 ::
  "'w hive_services \<Rightarrow> upload_config \<Rightarrow> string \<Rightarrow> string \<Rightarrow> hive_table \<Rightarrow> ('w, string) step_on" where
  "upload_to_s3 sv cfg filename upload_prefix table =
     bindS (config_entry ''CSV_TO_HIVE_UPLOAD_S3_BUCKET'' (s3_bucket cfg)) (\<lambda>bucket.
     if \<not> truthy bucket
     then raiseS (PyException [''No upload bucket specified. You can specify one in the config file.''])
     else
       bindS (config_entry ''S3_ENDPOINT'' (s3_endpoint cfg)) (\<lambda>endpoint.
       bindS (s3_client sv endpoint) (\<lambda>_.
       bindS (s3_upload sv filename (the bucket) (path_join upload_prefix [table_name table, basename filename])) (\<lambda>_.
       returnS (upload_location (the bucket) upload_prefix table)))))"

definition get_hive_type :: "dtype \<Rightarrow> string" where
  "get_hive_type d = (case d of Bool_dtype \<Rightarrow> ''BOOLEAN'' | Float64_dtype \<Rightarrow> ''DOUBLE''
     | Int64_dtype \<Rightarrow> ''BIGINT'' | Object_dtype \<Rightarrow> ''STRING'' | Other_dtype n \<Rightarrow> ''STRING'')"

fun join_with :: "string \<Rightarrow> string list \<Rightarrow> string" where
  "join_with sep [] = []"
| "join_with sep [s] = s"
| "join_with sep (s # t # ts) = s @ sep @ join_with sep (t # ts)"

definition schema_definition :: "data_frame \<Rightarrow> string" where
  "schema_definition df = join_with '', '' (map (\<lambda>(n, d). [CHR 0x60] @ n @ [CHR 0x60] @ '' '' @ get_hive_type d) df)"

definition newline :: string where "newline = [CHR 0x0A]"

definition create_table :: "hive_table \<Rightarrow> data_frame \<Rightarrow> string" where
  "create_table table df =
     newline @ ''                    CREATE TABLE '' @ table_str table @ '' ('' @ schema_definition df @ '')'' @
     newline @ ''                    STORED AS PARQUET'' @
     newline @ ''                    LOCATION :location'' @
     newline @ ''                    ''"

definition show_tables :: "hive_table \<Rightarrow> string" where
  "show_tables table =
     (if truthy (table_schema table)
      then ''SHOW TABLES IN '' @ the (table_schema table) @ '' LIKE '' @ [CHR 0x27] @ table_name table @ [CHR 0x27]
      else ''SHOW TABLES LIKE '' @ [CHR 0x27] @ table_name table @ [CHR 0x27])"

text \<open>What happens to a table that is there, by \<open>if_exists\<close>; a word of its own does nothing.\<close>

definition prepare_table :: "'w hive_services \<Rightarrow> hive_table \<Rightarrow> string \<Rightarrow> ('w, unit) step_on" where
  "prepare_table sv table if_exists =
     (if if_exists = ''append'' then raiseS (SupersetException ''Append operation not currently supported'')
      else if if_exists = ''fail'' then
        bindS (get_df_empty sv (show_tables table)) (\<lambda>empty.
        if \<not> empty then raiseS (SupersetException ''Table already exists'') else returnS ())
      else if if_exists = ''replace'' then engine_execute sv (''DROP TABLE IF EXISTS '' @ table_str table) []
      else returnS ())"

text \<open>\<open>with tempfile.NamedTemporaryFile(...) as file\<close>: the file is closed however the body ends.\<close>

definition with_temp_file ::
  "'w hive_services \<Rightarrow> string \<Rightarrow> string \<Rightarrow> (string \<Rightarrow> ('w, 'a) step_on) \<Rightarrow> ('w, 'a) step_on" where
  "with_temp_file sv dir suffix body =
     bindS (temp_file sv dir suffix) (\<lambda>name w. (case body name w of (r, w') \<Rightarrow> (r, close_temp sv name w')))"

definition store_frame ::
  "'w hive_services \<Rightarrow> upload_config \<Rightarrow> hive_table \<Rightarrow> data_frame \<Rightarrow> string \<Rightarrow> ('w, unit) step_on" where
  "store_frame sv cfg table df name =
     bindS (write_parquet sv name) (\<lambda>_.
     bindS (if has_directory_func cfg then returnS () else raiseS (KeyError ''CSV_TO_HIVE_UPLOAD_DIRECTORY_FUNC'')) (\<lambda>_.
     bindS (directory_func sv (table_schema table)) (\<lambda>prefix.
     bindS (upload_to_s3 sv cfg name prefix table) (\<lambda>location.
     engine_execute sv (create_table table df) [(''location'', location)]))))"

definition df_to_sql ::
  "'w hive_services \<Rightarrow> upload_config \<Rightarrow> hive_table \<Rightarrow> data_frame \<Rightarrow> (string \<rightharpoonup> string) \<Rightarrow> ('w, unit) step_on" where
  "df_to_sql sv cfg table df to_sql_kwargs =
     bindS (get_engine sv) (\<lambda>_.
     bindS (config_entry ''if_exists'' (to_sql_kwargs ''if_exists'')) (\<lambda>if_exists.
     bindS (prepare_table sv table if_exists) (\<lambda>_.
     bindS (config_entry ''UPLOAD_FOLDER'' (upload_folder cfg)) (\<lambda>dir.
     with_temp_file sv dir ''.parquet'' (store_frame sv cfg table df)))))"

section \<open>Results of queries\<close>

text \<open>\<open>fetch_data\<close>: a failed operation raises; a query without results has none.\<close>

record 'w hive_cursor =
  poll_operation :: "('w, op_state \<times> string) step_on"
  fetch_rows :: "int option \<Rightarrow> ('w, string list list) step_on"

definition fetch_data :: "'w hive_cursor \<Rightarrow> int option \<Rightarrow> ('w, string list list) step_on" where
  "fetch_data cursor limit =
     bindS (poll_operation cursor) (\<lambda>(state, message).
     if state = ERROR_STATE then raiseS (PyException [''Query error'', message])
     else (\<lambda>w. case fetch_rows cursor limit w of
         (Inl e, w') \<Rightarrow> if e = External ''ProgrammingError'' then (Inr [], w') else (Inl e, w')
       | (Inr rows, w') \<Rightarrow> (Inr rows, w')))"

text \<open>
  \<open>get_function_names\<close>, of the frame \<open>SHOW FUNCTIONS\<close> gives: the column of the expected name,
  or the only one, or nothing.
\<close>

definition show_functions_column :: string where
  "show_functions_column = ''tab_name''"

definition get_function_names :: "(string \<times> string list) list \<Rightarrow> string list" where
  "get_function_names df = (case map_of df show_functions_column of
     Some fs \<Rightarrow> fs
   | None \<Rightarrow> if length df = 1 then snd (hd df) else [])"

text \<open>\<open>max\<close> of the values of a column, and the part of it after the first equals sign.\<close>

fun max_str :: "string list \<Rightarrow> string \<Rightarrow> string" where
  "max_str [] m = m"
| "max_str (s # ss) m = max_str ss (if m < s then s else m)"

definition latest_partition_from_df :: "string list \<Rightarrow> pyexn + string list option" where
  "latest_partition_from_df column = (case column of
     [] \<Rightarrow> Inr None
   | s # ss \<Rightarrow> (let parts = split_at ''='' (max_str ss s)
       in if length parts < 2 then Inl IndexError else Inr (Some [parts ! 1])))"

definition partition_query :: "string \<Rightarrow> string" where
  "partition_query table = ''SHOW PARTITIONS '' @ table"

text \<open>
  \<open>where_latest_partition\<close>: \<open>latest_partition\<close> and the query's \<open>where\<close> are Superset's and
  SQLAlchemy's. The columns are the dicts of the caller.
\<close>

fun where_columns :: "('q \<Rightarrow> string \<Rightarrow> string \<Rightarrow> 'q) \<Rightarrow> string \<Rightarrow> string \<Rightarrow> (string \<times> string) list list \<Rightarrow> 'q \<Rightarrow> 'q" where
  "where_columns wh name v [] q = q"
| "where_columns wh name v (clm # clms) q =
     where_columns wh name v clms (if map_of clm ''name'' = Some name then wh q name v else q)"

definition where_latest_partition ::
  "('q \<Rightarrow> string \<Rightarrow> string \<Rightarrow> 'q) \<Rightarrow> pyexn + string list \<times> string list option \<Rightarrow> 'q
     \<Rightarrow> (string \<times> string) list list option \<Rightarrow> 'q option" where
  "where_latest_partition wh latest q columns = (case latest of
     Inl e \<Rightarrow> None
   | Inr (names, values) \<Rightarrow> (case (values, columns) of
       (Some vs, Some clms) \<Rightarrow> Some (fold (\<lambda>(n, v). where_columns wh n v clms) (zip names vs) q)
     | _ \<Rightarrow> None))"

section \<open>Connections\<close>

text \<open>\<open>urllib.parse.quote(s, safe="")\<close> percent-encodes every byte but the unreserved ones.\<close>

definition unreserved :: "char \<Rightarrow> bool" where
  "unreserved c \<longleftrightarrow> is_digit c \<or> (65 \<le> (of_char c :: nat) \<and> (of_char c :: nat) \<le> 90) \<or>
     (97 \<le> (of_char c :: nat) \<and> (of_char c :: nat) \<le> 122) \<or> c \<in> {CHR ''_'', CHR ''.'', CHR ''-'', CHR 0x7E}"

definition upper_hex :: "nat \<Rightarrow> char" where
  "upper_hex d = (if d < 10 then char_of (48 + d) else char_of (55 + d))"

definition quote_char :: "char \<Rightarrow> string" where
  "quote_char c = (if unreserved c then [c]
     else [CHR ''%'', upper_hex (of_char c div 16), upper_hex (of_char c mod 16)])"

definition url_quote :: "string \<Rightarrow> string" where
  "url_quote s = concat (map quote_char s)"

text \<open>The database part of the URL, replaced by the schema selected, if one is.\<close>

definition adjust_database_uri :: "string \<Rightarrow> string option \<Rightarrow> string" where
  "adjust_database_uri database selected_schema =
     (if truthy selected_schema then url_quote (the selected_schema) else database)"

text \<open>
  \<open>update_impersonation_config\<close>: \<open>backend\<close> is the backend name SQLAlchemy finds in the URI; the
  result is the argument dict after the call.
\<close>

definition update_impersonation_config :: "json \<Rightarrow> string \<Rightarrow> string option \<Rightarrow> pyexn + json" where
  "update_impersonation_config connect_args backend username =
     (case username of
        Some user \<Rightarrow>
          if backend = ''hive'' then
            bindE (py_get connect_args ''configuration'' (JObj [])) (\<lambda>configuration.
            bindE (set_item configuration ''hive.server2.proxy.user'' (JStr user)) (\<lambda>configuration'.
            set_item connect_args ''configuration'' configuration'))
          else Inr connect_args
      | None \<Rightarrow> Inr connect_args)"

text \<open>\<open>is_readonly_query\<close>, given what the parent class and the parsed statement say.\<close>

definition is_readonly_query :: "bool \<Rightarrow> bool \<Rightarrow> bool \<Rightarrow> bool" where
  "is_readonly_query parent_readonly is_set is_show \<longleftrightarrow> parent_readonly \<or> is_set \<or> is_show"

definition has_implicit_cancel :: bool where
  "has_implicit_cancel = True"

text \<open>\<open>execute\<close> passes the statement on, with the keyword \<open>async\<close>.\<close>

definition execute :: "(string \<Rightarrow> (string \<times> bool) list \<Rightarrow> ('w, unit) step_on) \<Rightarrow> string \<Rightarrow> bool \<Rightarrow> ('w, unit) step_on" where
  "execute cursor_execute query asynchronous = cursor_execute query [(''async'', asynchronous)]"

section \<open>What the class hands on\<close>

text \<open>
  \<open>patch\<close> replaces four attributes of the module \<open>pyhive.hive\<close> by those of Superset's copies, once
  all the imports have succeeded; the modules are given by their attributes.
\<close>

record 'o patched_modules =
  patched_TCLIService :: 'o
  patched_constants :: 'o
  patched_ttypes :: 'o
  patched_fetch_logs :: 'o

definition patch :: "pyexn + 'o patched_modules \<Rightarrow> (string \<rightharpoonup> 'o) \<Rightarrow> pyexn + (string \<rightharpoonup> 'o)" where
  "patch imports hive =
     bindE imports (\<lambda>m. Inr (hive(''TCLIService'' \<mapsto> patched_TCLIService m, ''constants'' \<mapsto> patched_constants m,
       ''ttypes'' \<mapsto> patched_ttypes m, ''Cursor.fetch_logs'' \<mapsto> patched_fetch_logs m)))"

text \<open>The methods that the base classes and the inspector answer.\<close>

definition get_all_datasource_names :: "('db \<Rightarrow> string \<Rightarrow> ('w, 'n list) step_on) \<Rightarrow> 'db \<Rightarrow> string \<Rightarrow> ('w, 'n list) step_on" where
  "get_all_datasource_names base_names database datasource_type = base_names database datasource_type"

definition get_columns ::
  "(string \<Rightarrow> string option \<Rightarrow> ('w, 'c list) step_on) \<Rightarrow> string \<Rightarrow> string option \<Rightarrow> ('w, 'c list) step_on" where
  "get_columns inspector_get_columns table schema = inspector_get_columns table schema"

definition get_fields :: "('c list \<Rightarrow> 'f list) \<Rightarrow> 'c list \<Rightarrow> 'f list" where
  "get_fields base_get_fields cols = base_get_fields cols"

record ('db, 'e, 'c) star_args =
  star_database :: 'db
  star_table :: string
  star_engine :: 'e
  star_schema :: "string option"
  star_limit :: int
  star_show_cols :: bool
  star_indent :: bool
  star_latest_partition :: bool
  star_cols :: "'c list option"

text \<open>\<open>select_star\<close> is the method of the class above \<open>PrestoEngineSpec\<close>.\<close>

definition select_star ::
  "(('db, 'e, 'c) star_args \<Rightarrow> ('w, string) step_on) \<Rightarrow> ('db, 'e, 'c) star_args \<Rightarrow> ('w, string) step_on" where
  "select_star above_presto args = above_presto args"

text \<open>Two methods without a body: the first returns \<open>None\<close> for every table, the second leaves the URL as it is.\<close>

definition latest_sub_partition :: "string \<Rightarrow> string option \<Rightarrow> string option" where
  "latest_sub_partition table schema = None"

definition modify_url_for_impersonation :: "'u \<Rightarrow> bool \<Rightarrow> string option \<Rightarrow> 'u" where
  "modify_url_for_impersonation url impersonate_user username = url"

section \<open>Time\<close>

text \<open>A \<open>datetime\<close> without a time zone.\<close>

record datetime =
  year :: nat
  month :: nat
  day :: nat
  hour :: nat
  minute :: nat
  second :: nat
  microsecond :: nat

definition pad :: "nat \<Rightarrow> nat \<Rightarrow> string" where
  "pad w n = replicate (w - length (show_nat n)) (CHR ''0'') @ show_nat n"

definition date_isoformat :: "datetime \<Rightarrow> string" where
  "date_isoformat d = pad 4 (year d) @ ''-'' @ pad 2 (month d) @ ''-'' @ pad 2 (day d)"

definition isoformat :: "datetime \<Rightarrow> string" where
  "isoformat d = date_isoformat d @ '' '' @ pad 2 (hour d) @ '':'' @ pad 2 (minute d) @ '':'' @ pad 2 (second d) @
     ''.'' @ pad 6 (microsecond d)"

text \<open>\<open>target_type.upper()\<close>, compared with the two names; a type outside ASCII is not treated.\<close>

definition upper_char :: "char \<Rightarrow> char" where
  "upper_char c = (if 97 \<le> (of_char c :: nat) \<and> (of_char c :: nat) \<le> 122 then char_of (of_char c - 32 :: nat) else c)"

definition convert_dttm :: "string \<Rightarrow> datetime \<Rightarrow> string option" where
  "convert_dttm target_type dttm =
     (let tt = map upper_char target_type in
      if tt = ''DATE'' then Some (''CAST('' @ [CHR 0x27] @ date_isoformat dttm @ [CHR 0x27] @ '' AS DATE)'')
      else if tt = ''TIMESTAMP'' then Some (''CAST('' @ [CHR 0x27] @ isoformat dttm @ [CHR 0x27] @ '' AS TIMESTAMP)'')
      else None)"

text \<open>The expressions that truncate a column to a time grain; \<open>{col}\<close> stands for the column.\<close>

definition quoted :: "string \<Rightarrow> string" where
  "quoted s = [CHR 0x27] @ s @ [CHR 0x27]"

definition time_grain_expressions :: "(string option \<times> string) list" where
  "time_grain_expressions =
    [(None, ''{col}''),
     (Some ''PT1S'', ''from_unixtime(unix_timestamp({col}), '' @ quoted ''yyyy-MM-dd HH:mm:ss'' @ '')''),
     (Some ''PT1M'', ''from_unixtime(unix_timestamp({col}), '' @ quoted ''yyyy-MM-dd HH:mm:00'' @ '')''),
     (Some ''PT1H'', ''from_unixtime(unix_timestamp({col}), '' @ quoted ''yyyy-MM-dd HH:00:00'' @ '')''),
     (Some ''P1D'', ''from_unixtime(unix_timestamp({col}), '' @ quoted ''yyyy-MM-dd 00:00:00'' @ '')''),
     (Some ''P1W'', ''date_format(date_sub({col}, CAST(7-from_unixtime(unix_timestamp({col}),'' @ quoted ''u'' @
        '') as int)), '' @ quoted ''yyyy-MM-dd 00:00:00'' @ '')''),
     (Some ''P1M'', ''from_unixtime(unix_timestamp({col}), '' @ quoted ''yyyy-MM-01 00:00:00'' @ '')''),
     (Some ''P0.25Y'', ''date_format(add_months(trunc({col}, '' @ quoted ''MM'' @
        ''), -(month({col})-1)%3), '' @ quoted ''yyyy-MM-dd 00:00:00'' @ '')''),
     (Some ''P1Y'', ''from_unixtime(unix_timestamp({col}), '' @ quoted ''yyyy-01-01 00:00:00'' @ '')''),
     (Some ''P1W/1970-01-03T00:00:00Z'', ''date_format(date_add({col}, INT(6-from_unixtime(unix_timestamp({col}), '' @
        quoted ''u'' @ ''))), '' @ quoted ''yyyy-MM-dd 00:00:00'' @ '')''),
     (Some ''1969-12-28T00:00:00Z/P1W'', ''date_format(date_add({col}, -INT(from_unixtime(unix_timestamp({col}), '' @
        quoted ''u'' @ ''))), '' @ quoted ''yyyy-MM-dd 00:00:00'' @ '')'')]"

end
