(* ===== verification/HiveEngineProps.thy ===== *)
theory HiveEngineProps
  imports HiveEngine
begin

text \<open>
  The order of the effects of \<open>df_to_sql\<close>, seen through services that note what they are asked:
  the table is created last, over the place the file was uploaded to; and a table that is to be
  replaced is dropped first.
\<close>

section \<open>Noting the calls\<close>

datatype sql_op = Executed string "(string \<times> string) list" | Uploaded string string string

definition on_world :: "('w, 'a) step_on \<Rightarrow> ('w \<times> sql_op list, 'a) step_on" where
  "on_world f wo = (case f (fst wo) of (r, w) \<Rightarrow> (r, (w, snd wo)))"

definition noting :: "sql_op \<Rightarrow> ('w, 'a) step_on \<Rightarrow> ('w \<times> sql_op list, 'a) step_on" where
  "noting e f wo = (case f (fst wo) of (r, w) \<Rightarrow> (r, (w, snd wo @ [e])))"

definition traced :: "'w hive_services \<Rightarrow> ('w \<times> sql_op list) hive_services" where
  "traced sv = \<lparr>get_engine = on_world (get_engine sv),
     get_df_empty = (\<lambda>q. on_world (get_df_empty sv q)),
     engine_execute = (\<lambda>q bs. noting (Executed q bs) (engine_execute sv q bs)),
     temp_file = (\<lambda>d s. on_world (temp_file sv d s)),
     close_temp = (\<lambda>n wo. (close_temp sv n (fst wo), snd wo)),
     write_parquet = (\<lambda>n. on_world (write_parquet sv n)),
     directory_func = (\<lambda>s. on_world (directory_func sv s)),
     s3_client = (\<lambda>e. on_world (s3_client sv e)),
     s3_upload = (\<lambda>f b k. noting (Uploaded f b k) (s3_upload sv f b k))\<rparr>"

lemma traced_simps [simp]:
  "get_engine (traced sv) = on_world (get_engine sv)"
  "get_df_empty (traced sv) q = on_world (get_df_empty sv q)"
  "engine_execute (traced sv) q bs = noting (Executed q bs) (engine_execute sv q bs)"
  "temp_file (traced sv) d s = on_world (temp_file sv d s)"
  "close_temp (traced sv) n wo = (close_temp sv n (fst wo), snd wo)"
  "write_parquet (traced sv) n = on_world (write_parquet sv n)"
  "directory_func (traced sv) t = on_world (directory_func sv t)"
  "s3_client (traced sv) e = on_world (s3_client sv e)"
  "s3_upload (traced sv) f b k = noting (Uploaded f b k) (s3_upload sv f b k)"
  by (simp_all add: traced_def)

lemma on_world_iff: "on_world f (w, ops) = (r, (w', ops')) \<longleftrightarrow> f w = (r, w') \<and> ops' = ops"
  by (auto simp: on_world_def split: prod.split)

lemma noting_iff: "noting e f (w, ops) = (r, (w', ops')) \<longleftrightarrow> f w = (r, w') \<and> ops' = ops @ [e]"
  by (auto simp: noting_def split: prod.split)

lemma bindS_Inr_iff:
  "bindS m f (w :: 'w \<times> 'o) = (Inr y, (w', ops')) \<longleftrightarrow> (\<exists>x v os. m w = (Inr x, (v, os)) \<and> f x (v, os) = (Inr y, (w', ops')))"
  by (auto simp: bindS_iff)

lemma config_entry_iff [simp]: "config_entry k v w = (Inr x, w') \<longleftrightarrow> v = Some x \<and> w' = w"
  by (auto simp: config_entry_def split: option.split)

lemmas traced_iff = bindS_Inr_iff on_world_iff noting_iff

text \<open>What is noted when the upload and the creation of the table succeed.\<close>

lemma store_frame_ops:
  assumes "store_frame (traced sv) cfg table df name (w, ops) = (Inr (), (w', ops'))"
  shows "\<exists>prefix b. s3_bucket cfg = Some (Some b) \<and> b \<noteq> [] \<and>
    (\<exists>v v'. directory_func sv (table_schema table) v = (Inr prefix, v')) \<and>
    ops' = ops @ [Uploaded name b (path_join prefix [table_name table, basename name]),
      Executed (create_table table df) [(''location'', upload_location b prefix table)]]"
  using assms by (auto simp: store_frame_def upload_to_s3_def traced_iff truthy_iff split: if_splits) blast

lemma prepare_table_ops:
  assumes "prepare_table (traced sv) table how (w, ops) = (Inr (), (w', ops'))"
  shows "ops' = ops @ (if how = ''replace'' then [Executed (''DROP TABLE IF EXISTS '' @ table_str table) []] else []) \<and>
    how \<noteq> ''append''"
  using assms by (auto simp: prepare_table_def traced_iff split: if_splits)

section \<open>Paths\<close>

lemma basename_no_slash: "CHR ''/'' \<notin> set (basename p)"
  unfolding basename_def using set_takeWhileD [of "CHR ''/''" "\<lambda>c. c \<noteq> CHR ''/''" "rev p"] by auto

lemma join_basename:
  assumes "t \<noteq> []" and "\<not> starts_with t ''/''" and "\<not> ends_with t ''/''"
  shows "path_join prefix [t, basename f] = path_join prefix [t] @ ''/'' @ basename f"
proof -
  have b: "\<not> starts_with (basename f) ''/''"
    using basename_no_slash [of f] by (auto simp: starts_with_iff)
  obtain ts c where t: "t = ts @ [c]" using assms(1) by (cases t rule: rev_cases) auto
  have "\<not> ends_with (path_join2 prefix t) ''/''" "path_join2 prefix t \<noteq> []"
    using assms by (auto simp: path_join2_def ends_with_iff t)
  with b show ?thesis by (simp add: path_join_def path_join2_def [of "path_join2 prefix t"])
qed

lemma location_dir:
  assumes "b \<noteq> []" and "\<not> starts_with b ''/''" and "\<not> ends_with b ''/''" and "\<not> starts_with prefix ''/''"
    and "\<not> starts_with t ''/''"
  shows "path_join ''s3a://'' [b, prefix, t] = ''s3a://'' @ b @ ''/'' @ path_join prefix [t]"
proof -
  obtain bs c where b: "b = bs @ [c]" using assms(1) by (cases b rule: rev_cases) auto
  have s: "ends_with ''s3a://'' ''/''" by code_simp
  have 1: "path_join2 ''s3a://'' b = ''s3a://'' @ b" using assms s by (simp add: path_join2_def)
  have "\<not> ends_with (''s3a://'' @ b) ''/''" using assms(3) by (auto simp: ends_with_iff b)
  then have 2: "path_join2 (''s3a://'' @ b) prefix = ''s3a://'' @ b @ ''/'' @ prefix"
    using assms(4) by (simp add: path_join2_def)
  have "ends_with (''s3a://'' @ b @ ''/'' @ prefix) ''/'' \<longleftrightarrow> prefix = [] \<or> ends_with prefix ''/''"
    by (cases prefix rule: rev_cases) (auto simp: ends_with_iff)
  then have "path_join2 (''s3a://'' @ b @ ''/'' @ prefix) t = ''s3a://'' @ b @ ''/'' @ path_join2 prefix t"
    using assms(5) by (auto simp: path_join2_def)
  with 1 2 show ?thesis by (simp add: path_join_def)
qed

definition plain_part :: "string \<Rightarrow> bool" where
  "plain_part s \<longleftrightarrow> s \<noteq> [] \<and> \<not> starts_with s ''/'' \<and> \<not> ends_with s ''/''"

lemma df_to_sql_ops:
  assumes "df_to_sql (traced sv) cfg table df kwargs (w, []) = (Inr (), (w', ops))"
  shows "\<exists>how name prefix b. kwargs ''if_exists'' = Some how \<and> how \<noteq> ''append'' \<and> s3_bucket cfg = Some (Some b) \<and> b \<noteq> [] \<and>
    (\<exists>v v'. directory_func sv (table_schema table) v = (Inr prefix, v')) \<and>
    ops = (if how = ''replace'' then [Executed (''DROP TABLE IF EXISTS '' @ table_str table) []] else []) @
      [Uploaded name b (path_join prefix [table_name table, basename name]),
       Executed (create_table table df) [(''location'', upload_location b prefix table)]]"
proof -
  from assms obtain how w1 w2 os dir where how: "kwargs ''if_exists'' = Some how"
    and prep: "prepare_table (traced sv) table how (w1, []) = (Inr (), (w2, os))"
    and temp: "with_temp_file (traced sv) dir ''.parquet'' (store_frame (traced sv) cfg table df) (w2, os) = (Inr (), (w', ops))"
    unfolding df_to_sql_def by (auto simp: traced_iff)
  from temp obtain name w3 where body:
    "(case store_frame (traced sv) cfg table df name (w3, os) of (r, wo) \<Rightarrow> (r, close_temp (traced sv) name wo)) = (Inr (), (w', ops))"
    unfolding with_temp_file_def by (auto simp: traced_iff)
  obtain r w4 os4 where "store_frame (traced sv) cfg table df name (w3, os) = (r, (w4, os4))" by (metis prod_cases3)
  with body have store: "store_frame (traced sv) cfg table df name (w3, os) = (Inr (), (w4, ops))" by simp
  from store_frame_ops [OF store] prepare_table_ops [OF prep] how show ?thesis by fastforce
qed

text \<open>An absolute prefix makes \<open>os.path.join\<close> forget the bucket.\<close>

lemma absolute_prefix:
  assumes "starts_with prefix ''/''"
  shows "path_join ''s3a://'' [b, prefix, t] \<noteq> ''s3a://'' @ x"
proof -
  have j: "hd (path_join2 p t) = CHR ''/''" if "hd p = CHR ''/''" "p \<noteq> []" for p
    using that by (auto simp: path_join2_def starts_with_iff hd_append)
  have "path_join2 (path_join2 ''s3a://'' b) prefix = prefix" using assms by (simp add: path_join2_def)
  moreover have "hd prefix = CHR ''/''" "prefix \<noteq> []" using assms by (auto simp: starts_with_iff)
  ultimately have "hd (path_join ''s3a://'' [b, prefix, t]) = CHR ''/''" using j by (simp add: path_join_def)
  then show ?thesis by auto
qed

text \<open>
  C25. A data frame that is uploaded without an error, to a bucket and a table whose names are not empty and have no
  slash at their ends: the last two effects are the upload of the file into a folder of the bucket, and
  the statement that creates the table, with its location bound; only \<open>replace\<close> executes anything before, the
  dropping of the old table. The location is the folder of the file exactly when the configured function gave a
  prefix that does not start with a slash.
\<close>

theorem df_table_over_upload:
  assumes "df_to_sql (traced sv) cfg table df kwargs (w, []) = (Inr (), (w', ops))"
    and "s3_bucket cfg = Some (Some b)" and "plain_part b" and "plain_part (table_name table)"
  shows "\<exists>name prefix dir location v v'. directory_func sv (table_schema table) v = (Inr prefix, v') \<and>
    ops = (if kwargs ''if_exists'' = Some ''replace'' then [Executed (''DROP TABLE IF EXISTS '' @ table_str table) []] else []) @
      [Uploaded name b (dir @ ''/'' @ basename name), Executed (create_table table df) [(''location'', location)]] \<and>
    (location = ''s3a://'' @ b @ ''/'' @ dir \<longleftrightarrow> \<not> starts_with prefix ''/'')"
proof -
  from df_to_sql_ops [OF assms(1)] assms(2) obtain how name prefix v v' where h:
    "kwargs ''if_exists'' = Some how" and dir: "directory_func sv (table_schema table) v = (Inr prefix, v')"
    and noted: "ops = (if how = ''replace'' then [Executed (''DROP TABLE IF EXISTS '' @ table_str table) []] else []) @
      [Uploaded name b (path_join prefix [table_name table, basename name]),
       Executed (create_table table df) [(''location'', upload_location b prefix table)]]"
    by auto
  let ?dir = "path_join prefix [table_name table]"
  have "path_join prefix [table_name table, basename name] = ?dir @ ''/'' @ basename name"
    using assms(4) by (intro join_basename) (simp_all add: plain_part_def)
  moreover have "upload_location b prefix table = ''s3a://'' @ b @ ''/'' @ ?dir \<longleftrightarrow> \<not> starts_with prefix ''/''"
    unfolding upload_location_def
    using location_dir [of b prefix "table_name table"] absolute_prefix [of prefix b "table_name table"] assms(3,4)
    by (auto simp: plain_part_def)
  ultimately show ?thesis
    using h dir noted
    by (intro exI [of _ name] exI [of _ prefix] exI [of _ ?dir] exI [of _ "upload_location b prefix table"] exI [of _ v] exI [of _ v']) simp
qed

definition sample_services :: "nat hive_services" where
  "sample_services = \<lparr>get_engine = returnS (), get_df_empty = (\<lambda>q. returnS False),
     engine_execute = (\<lambda>q bs. returnS ()), temp_file = (\<lambda>d s n. (Inr (d @ ''/tmp'' @ show_nat n @ s), Suc n)),
     close_temp = (\<lambda>f n. n), write_parquet = (\<lambda>f. returnS ()), directory_func = (\<lambda>s. returnS ''uploads''),
     s3_client = (\<lambda>e. returnS ()), s3_upload = (\<lambda>f b k. returnS ())\<rparr>"

definition sample_upload_config :: upload_config where
  "sample_upload_config = \<lparr>s3_bucket = Some (Some ''warehouse''), s3_endpoint = Some None, upload_folder = Some ''/data'',
     has_directory_func = True\<rparr>"

definition sample_table :: hive_table where
  "sample_table = \<lparr>table_schema = None, table_name = ''sales'', table_str = ''sales''\<rparr>"

lemma sample_df_run:
  "df_to_sql (traced sample_services) sample_upload_config sample_table [(''id'', Int64_dtype)] [''if_exists'' \<mapsto> ''replace''] (0, []) =
   (Inr (), (1, [Executed ''DROP TABLE IF EXISTS sales'' [], Uploaded ''/data/tmp0.parquet'' ''warehouse'' ''uploads/sales/tmp0.parquet'',
     Executed (create_table sample_table [(''id'', Int64_dtype)]) [(''location'', ''s3a://warehouse/uploads/sales'')]]))"
  by code_simp

lemma df_table_over_upload_witness:
  "\<exists>name dir. [Uploaded ''/data/tmp0.parquet'' ''warehouse'' ''uploads/sales/tmp0.parquet'',
     Executed (create_table sample_table [(''id'', Int64_dtype)]) [(''location'', ''s3a://warehouse/uploads/sales'')]] =
    [Uploaded name ''warehouse'' (dir @ ''/'' @ basename name),
     Executed (create_table sample_table [(''id'', Int64_dtype)]) [(''location'', ''s3a://'' @ ''warehouse'' @ ''/'' @ dir)]]"
proof -
  have p: "plain_part ''warehouse''" "plain_part (table_name sample_table)" "\<not> starts_with ''uploads'' ''/''" by code_simp+
  show ?thesis
    using df_table_over_upload [OF sample_df_run _ p(1,2)] p(3)
    by (auto simp: sample_services_def sample_upload_config_def)
qed

text \<open>What is noted when something fails after a table was dropped.\<close>

lemma bindS_Inl_iff:
  "bindS m f (w :: 'w \<times> 'o) = (Inl e, (w', ops')) \<longleftrightarrow> m w = (Inl e, (w', ops')) \<or>
     (\<exists>x v os. m w = (Inr x, (v, os)) \<and> f x (v, os) = (Inl e, (w', ops')))"
  by (auto simp: bindS_iff)

definition failed_upload :: "'w hive_services \<Rightarrow> string \<Rightarrow> pyexn \<Rightarrow> sql_op list \<Rightarrow> bool" where
  "failed_upload sv create e rest \<longleftrightarrow> rest = [] \<or> (\<exists>n b k. rest = [Uploaded n b k]) \<or>
     (\<exists>n b k l v v'. rest = [Uploaded n b k, Executed create l] \<and> engine_execute sv create l v = (Inl e, v'))"

lemma config_entry_Inl: "config_entry k v w = (Inl e, w') \<Longrightarrow> w' = w"
  by (auto simp: config_entry_def split: option.splits)

lemma upload_fails:
  assumes "upload_to_s3 (traced sv) cfg name prefix table (w, ops) = (Inl e, (w', ops'))"
  shows "ops' = ops \<or> (\<exists>b k. ops' = ops @ [Uploaded name b k])"
  using assms by (auto simp: upload_to_s3_def bindS_Inl_iff traced_iff dest!: config_entry_Inl split: if_splits)

lemma upload_succeeds:
  assumes "upload_to_s3 (traced sv) cfg name prefix table (w, ops) = (Inr l, (w', ops'))"
  shows "\<exists>b k. ops' = ops @ [Uploaded name b k]"
  using assms by (auto simp: upload_to_s3_def traced_iff split: if_splits)

lemma store_frame_fails:
  assumes "store_frame (traced sv) cfg table df name (w, ops) = (Inl e, (w', ops'))"
  shows "\<exists>rest. ops' = ops @ rest \<and> failed_upload sv (create_table table df) e rest"
  using assms unfolding store_frame_def
  by (auto simp: bindS_Inl_iff traced_iff failed_upload_def dest!: upload_fails upload_succeeds split: if_splits)

text \<open>
  C39. Replacing a table is not atomic: once the old table is dropped, a call that ends with an error, whatever it was that
  failed (the folder for uploads, the writing of the file, the configuration, the client, the upload, the creation
  of the table), has dropped the table as its first effect and has created none: the statement that creates the
  table was not executed, or is what raised.
\<close>

theorem df_replace_drops_first:
  assumes "get_engine sv w = (Inr (), w1)" and "kwargs ''if_exists'' = Some ''replace''"
    and "engine_execute sv (''DROP TABLE IF EXISTS '' @ table_str table) [] w1 = (Inr (), w2)"
    and "df_to_sql (traced sv) cfg table df kwargs (w, []) = (Inl e, (w', ops))"
  shows "\<exists>rest. ops = Executed (''DROP TABLE IF EXISTS '' @ table_str table) [] # rest \<and>
    (rest = [] \<or> (\<exists>n b k. rest = [Uploaded n b k]) \<or>
     (\<exists>n b k l v v'. rest = [Uploaded n b k, Executed (create_table table df) l] \<and>
        engine_execute sv (create_table table df) l v = (Inl e, v')))"
proof -
  let ?drop = "Executed (''DROP TABLE IF EXISTS '' @ table_str table) []"
  let ?rest = "bindS (config_entry ''UPLOAD_FOLDER'' (upload_folder cfg)) (\<lambda>dir.
     with_temp_file (traced sv) dir ''.parquet'' (store_frame (traced sv) cfg table df))"
  have "df_to_sql (traced sv) cfg table df kwargs (w, []) = ?rest (w2, [?drop])"
    using assms(1-3) by (simp add: df_to_sql_def prepare_table_def bindS_def on_world_def noting_def config_entry_def returnS_def)
  with assms(4) have run: "?rest (w2, [?drop]) = (Inl e, (w', ops))" by simp
  have "\<exists>rest. ops = [?drop] @ rest \<and> failed_upload sv (create_table table df) e rest"
  proof (cases "upload_folder cfg")
    case None
    with run have "ops = [?drop] @ []" by (auto simp: config_entry_def bindS_def raiseS_def)
    then show ?thesis by (auto simp: failed_upload_def)
  next
    case (Some dir)
    with run have "with_temp_file (traced sv) dir ''.parquet'' (store_frame (traced sv) cfg table df) (w2, [?drop]) = (Inl e, (w', ops))"
      by (simp add: config_entry_def bindS_const)
    then consider "ops = [?drop]"
      | name w3 r v os where "store_frame (traced sv) cfg table df name (w3, [?drop]) = (r, (v, os))" "r = Inl e" "os = ops"
    proof (unfold with_temp_file_def bindS_Inl_iff, elim disjE exE conjE)
      fix name v os
      assume temp: "temp_file (traced sv) dir ''.parquet'' (w2, [?drop]) = (Inr name, (v, os))"
        and body: "(case store_frame (traced sv) cfg table df name (v, os) of (r, wo) \<Rightarrow> (r, close_temp (traced sv) name wo)) = (Inl e, (w', ops))"
      obtain r v' os' where store: "store_frame (traced sv) cfg table df name (v, os) = (r, (v', os'))" by (metis prod_cases3)
      have "os = [?drop]" using temp by (simp add: on_world_iff)
      with store body show thesis using that(2) [of name v r v' os'] by simp
    qed (use that(1) in \<open>simp add: on_world_iff\<close>)
    then show ?thesis
    proof cases
      case 1
      then show ?thesis by (auto simp: failed_upload_def)
    next
      case 2
      with store_frame_fails [of sv cfg table df name w3 "[?drop]" e v ops] show ?thesis by simp
    qed
  qed
  then show ?thesis by (simp add: failed_upload_def)
qed

lemma df_replace_drops_first_witness:
  "\<exists>rest. [Executed ''DROP TABLE IF EXISTS sales'' [], Uploaded ''/data/tmp0.parquet'' ''warehouse'' ''uploads/sales/tmp0.parquet''] =
    Executed (''DROP TABLE IF EXISTS '' @ table_str sample_table) [] # rest \<and> rest \<noteq> []"
proof -
  let ?sv = "sample_services\<lparr>s3_upload := (\<lambda>f b k. raiseS (ClientError ''denied''))\<rparr>"
  have run: "df_to_sql (traced ?sv) sample_upload_config sample_table [] [''if_exists'' \<mapsto> ''replace''] (0, []) =
     (Inl (ClientError ''denied''), (1, [Executed ''DROP TABLE IF EXISTS sales'' [],
       Uploaded ''/data/tmp0.parquet'' ''warehouse'' ''uploads/sales/tmp0.parquet'']))"
    by code_simp
  have "get_engine ?sv 0 = (Inr (), 0)" "engine_execute ?sv (''DROP TABLE IF EXISTS '' @ table_str sample_table) [] 0 = (Inr (), 0)"
    by (simp_all add: sample_services_def)
  from df_replace_drops_first [OF this(1) _ this(2) run] show ?thesis by auto
qed

text \<open>In particular without a bucket to upload to.\<close>

lemma df_replace_no_bucket:
  assumes "get_engine sv w = (Inr (), w1)" and "kwargs ''if_exists'' = Some ''replace''"
    and "engine_execute sv (''DROP TABLE IF EXISTS '' @ table_str table) [] w1 = (Inr (), w2)"
    and "upload_folder cfg = Some dir" and "temp_file sv dir ''.parquet'' w2 = (Inr name, w3)"
    and "write_parquet sv name w3 = (Inr (), w4)" and "has_directory_func cfg"
    and "directory_func sv (table_schema table) w4 = (Inr prefix, w5)"
    and "s3_bucket cfg = Some bucket" and "\<not> truthy bucket"
  shows "df_to_sql (traced sv) cfg table df kwargs (w, []) =
    (Inl (PyException [''No upload bucket specified. You can specify one in the config file.'']),
     (close_temp sv name w5, [Executed (''DROP TABLE IF EXISTS '' @ table_str table) []]))"
  using assms
  by (simp add: df_to_sql_def prepare_table_def with_temp_file_def store_frame_def upload_to_s3_def bindS_def
      on_world_def noting_def config_entry_def returnS_def raiseS_def)

end
