(* ===== verification/HiveSchema.thy ===== *)
theory HiveSchema
  imports HiveEngine
begin

text \<open>
  The columns in the statement that \<open>df_to_sql\<close> of \<open>src/superset/hive_minios3.py\<close> writes: a reader of
  that part of the statement, which finds the columns of the data frame again as long as no column name
  has a backtick; the code does not escape them, and then the statement can say something else.
\<close>

section \<open>Reading columns\<close>

definition backtick :: char where "backtick = CHR 0x60"

definition type_letter :: "char \<Rightarrow> bool" where
  "type_letter c \<longleftrightarrow> 65 \<le> (of_char c :: nat) \<and> (of_char c :: nat) \<le> 90"

text \<open>A column: its name in backticks, a blank and its type; and what follows.\<close>

definition read_column :: "string \<Rightarrow> ((string \<times> string) \<times> string) option" where
  "read_column s =
     (if \<not> starts_with s [backtick] then None
      else let name = takeWhile (\<lambda>c. c \<noteq> backtick) (tl s); r = drop (length name + 1) s in
        if \<not> starts_with r (backtick # '' '') then None
        else Some ((name, takeWhile type_letter (drop 2 r)), dropWhile type_letter (drop 2 r)))"

fun read_columns :: "string \<Rightarrow> (string \<times> string) list option" where
  "read_columns s = (case read_column s of
     None \<Rightarrow> None
   | Some (c, r) \<Rightarrow>
       if r = [] then Some [c]
       else if starts_with r '', '' \<and> length r < length s then map_option ((#) c) (read_columns (drop 2 r))
       else None)"

declare read_columns.simps [simp del]

section \<open>Reading back\<close>

definition column_text :: "string \<times> dtype \<Rightarrow> string" where
  "column_text c = [backtick] @ fst c @ [backtick] @ '' '' @ get_hive_type (snd c)"

lemma schema_columns: "schema_definition df = join_with '', '' (map column_text df)"
  unfolding schema_definition_def
  by (rule arg_cong [where f = "join_with '', ''"]) (simp add: column_text_def backtick_def split_beta)

lemma text_not_nil: "column_text c \<noteq> []"
  by (simp add: column_text_def)

lemma hive_type_letters: "list_all type_letter (get_hive_type d)"
  by (cases d) (simp_all add: get_hive_type_def type_letter_def)

lemma read_column_text:
  assumes "backtick \<notin> set n" and "rest = [] \<or> \<not> type_letter (hd rest)"
  shows "read_column (column_text (n, d) @ rest) = Some ((n, get_hive_type d), rest)"
proof -
  let ?t = "get_hive_type d"
  have t: "takeWhile type_letter (?t @ rest) = ?t" "dropWhile type_letter (?t @ rest) = rest"
    using hive_type_letters [of d] assms(2)
    by (subst takeWhile_append2 dropWhile_append2; cases rest; auto simp: list_all_iff)+
  have n: "takeWhile (\<lambda>c. c \<noteq> backtick) (n @ backtick # u) = n" for u
    using assms(1) by (subst takeWhile_append2) auto
  show ?thesis by (simp add: read_column_def column_text_def starts_with_def Let_def n t)
qed

lemma read_columns_text:
  "list_all (\<lambda>c. backtick \<notin> set (fst c)) df \<Longrightarrow> df \<noteq> [] \<Longrightarrow>
   read_columns (join_with '', '' (map column_text df)) = Some (map (\<lambda>c. (fst c, get_hive_type (snd c))) df)"
proof (induction df rule: induct_list012)
  case (2 c)
  then have "read_column (column_text (fst c, snd c) @ []) = Some ((fst c, get_hive_type (snd c)), [])"
    by (intro read_column_text) simp_all
  then show ?case by (simp add: read_columns.simps [of "column_text c"])
next
  case (3 c c' df)
  let ?more = "join_with '', '' (map column_text (c' # df))"
  define rest where "rest = '', '' @ ?more"
  have "read_column (column_text (fst c, snd c) @ rest) = Some ((fst c, get_hive_type (snd c)), rest)"
    using 3 by (intro read_column_text) (simp_all add: type_letter_def rest_def)
  then have one: "read_column (column_text c @ rest) = Some ((fst c, get_hive_type (snd c)), rest)" by simp
  have r: "starts_with rest '', ''" "length rest < length (column_text c @ rest)" "drop 2 rest = ?more" "rest \<noteq> []"
    by (simp_all add: starts_with_def column_text_def rest_def)
  have joined: "join_with '', '' (map column_text (c # c' # df)) = column_text c @ rest"
    by (simp add: rest_def)
  have more: "read_columns ?more = Some (map (\<lambda>c. (fst c, get_hive_type (snd c))) (c' # df))"
    using 3 by simp
  show ?case
    unfolding joined by (subst read_columns.simps) (simp add: one r more [simplified] text_not_nil)
qed simp

text \<open>
  What Hive's names of types stand for, and which of them keeps the values of a column: an element type
  without a type of its own is stored as text.
\<close>

definition type_of_name :: "string \<Rightarrow> dtype option" where
  "type_of_name t = map_of [(''BOOLEAN'', Bool_dtype), (''DOUBLE'', Float64_dtype), (''BIGINT'', Int64_dtype), (''STRING'', Object_dtype)] t"

fun stored_as :: "dtype \<Rightarrow> dtype" where
  "stored_as (Other_dtype n) = Object_dtype"
| "stored_as d = d"

fun all_some :: "'a option list \<Rightarrow> 'a list option" where
  "all_some [] = Some []"
| "all_some (x # xs) = Option.bind x (\<lambda>y. map_option ((#) y) (all_some xs))"

definition read_schema :: "string \<Rightarrow> data_frame option" where
  "read_schema s = Option.bind (read_columns s) (\<lambda>cs. all_some (map (\<lambda>(n, t). map_option (Pair n) (type_of_name t)) cs))"

lemma type_of_hive_type: "type_of_name (get_hive_type d) = Some (stored_as d)"
  by (cases d) (simp_all add: type_of_name_def get_hive_type_def)

lemma all_some_types:
  "all_some (map (\<lambda>c. map_option (Pair (fst c)) (type_of_name (get_hive_type (snd c)))) df) = Some (map (\<lambda>(n, d). (n, stored_as d)) df)"
  by (induction df) (auto simp: type_of_hive_type)

text \<open>
  C40. The columns written into the statement are the data frame: when no column name has a backtick and there is
  a column, reading them back gives its column names, in order and character for character (blanks, commas and
  parentheses included), each with its element type; a type other than the four that have a Hive type is read back as text.
\<close>

theorem schema_read_back:
  assumes "list_all (\<lambda>c. backtick \<notin> set (fst c)) df" and "df \<noteq> []"
  shows "read_schema (schema_definition df) = Some (map (\<lambda>(n, d). (n, stored_as d)) df)"
proof -
  have "read_columns (schema_definition df) = Some (map (\<lambda>c. (fst c, get_hive_type (snd c))) df)"
    unfolding schema_columns using assms by (rule read_columns_text)
  then show ?thesis by (simp add: read_schema_def comp_def all_some_types)
qed

lemma schema_read_back_witness:
  "read_schema (schema_definition [(''user id'', Int64_dtype), (''price, net'', Float64_dtype), (''when'', Other_dtype ''datetime64'')]) =
     Some [(''user id'', Int64_dtype), (''price, net'', Float64_dtype), (''when'', Object_dtype)]"
  by (subst schema_read_back) (simp_all add: backtick_def)

text \<open>
  The backticks of a column name are not doubled, so two different data frames can get the same columns:
  a name with a backtick ends the quoted name and the rest of it is read as SQL.
\<close>

lemma schema_not_escaped:
  "schema_definition [(''a'' @ [backtick] @ '' BIGINT, '' @ [backtick] @ ''b'', Bool_dtype)] =
   schema_definition [(''a'', Int64_dtype), (''b'', Bool_dtype)]"
  by (simp add: schema_definition_def backtick_def get_hive_type_def)

end
