(* ===== verification/Experiments.thy ===== *)
theory Experiments
  imports PyFloat PyJson
begin

text \<open>
  The two Katib experiments of \<open>src/examples/pipeline_notebook\<close>, \<open>mpi-job-horovod.py\<close> and
  \<open>early-stopping.ipynb\<close>: what they tune, the template of the job each trial runs, and the pipelines
  that launch them. The classes are the fields the code sets of Katib's, and the serialisation
  (\<open>ApiClient().sanitize_for_serialization\<close>) and the launcher component are outside.
\<close>

section \<open>Experiments\<close>

record objective_spec =
  objective_type :: string
  goal :: string
  metric_name :: string
  additional_metrics :: "string list"

record algorithm_spec =
  algorithm_name :: string
  settings :: "(string \<times> string) list"

datatype feasible_space = Range string string "string option" | Choices "string list"

record parameter_spec =
  p_name :: string
  p_type :: string
  p_space :: feasible_space

record trial_parameter =
  t_name :: string
  t_description :: string
  t_reference :: string

record trial_template =
  retain :: bool
  primary_pod_labels :: "(string \<times> string) list"
  primary_container_name :: string
  success_condition :: "string option"
  failure_condition :: "string option"
  trial_parameters :: "trial_parameter list"
  trial_spec :: json

record experiment_spec =
  max_trial_count :: nat
  max_failed_trial_count :: nat
  parallel_trial_count :: nat
  objective :: objective_spec
  algorithm :: algorithm_spec
  early_stopping :: "algorithm_spec option"
  parameters :: "parameter_spec list"
  template :: trial_template

text \<open>What the launcher component is called with, and a container of a pipeline.\<close>

record launch =
  experiment_name :: string
  experiment_namespace :: string
  experiment_json :: json
  timeout_minutes :: nat
  delete_finished :: "bool option"

record container_op =
  op_name :: string
  op_image :: string
  op_command :: "string list"
  op_arguments :: "string list"

text \<open>What the decorator says of a pipeline: its name and its description.\<close>

record pipeline_info =
  pipeline_title :: string
  pipeline_description :: string

definition katib_component_url :: string where
  "katib_component_url =
     ''https://raw.githubusercontent.com/kubeflow/pipelines/master/components/kubeflow/katib-launcher/component.yaml''"

definition best_hp :: "string \<Rightarrow> container_op" where
  "best_hp out = \<lparr>op_name = ''best-hp'', op_image = ''library/bash:4.4.23'', op_command = [''sh'', ''-c''],
     op_arguments = [''echo Best HyperParameters: '' @ out]\<rparr>"

section \<open>The MPI job\<close>

definition mpi_parameters :: "parameter_spec list" where
  "mpi_parameters =
    [\<lparr>p_name = ''lr'', p_type = ''double'', p_space = Range ''0.001'' ''0.003'' None\<rparr>,
     \<lparr>p_name = ''num-steps'', p_type = ''int'', p_space = Range ''50'' ''150'' (Some ''10'')\<rparr>]"

definition mpi_trial_spec :: json where
  "mpi_trial_spec = JObj [
      (''apiVersion'', JStr ''kubeflow.org/v1''),
      (''kind'', JStr ''MPIJob''),
      (''spec'', JObj [
        (''slotsPerWorker'', JInt 1),
        (''cleanPodPolicy'', JStr ''Running''),
        (''mpiReplicaSpecs'', JObj [
          (''Launcher'', JObj [
            (''replicas'', JInt 1),
            (''template'', JObj [
              (''metadata'', JObj [(''annotations'', JObj [(''sidecar.istio.io/inject'', JStr ''false'')])]),
              (''spec'', JObj [
                (''containers'', JList [
                  JObj [
                    (''image'', JStr ''docker.io/kubeflow/mpi-horovod-mnist''),
                    (''name'', JStr ''mpi-launcher''),
                    (''command'', JList [JStr ''mpirun'']),
                    (''args'', JList [
                      JStr ''-np'',
                      JStr ''2'',
                      JStr ''--allow-run-as-root'',
                      JStr ''-bind-to'',
                      JStr ''none'',
                      JStr ''-map-by'',
                      JStr ''slot'',
                      JStr ''-x'',
                      JStr ''LD_LIBRARY_PATH'',
                      JStr ''-x'',
                      JStr ''PATH'',
                      JStr ''-mca'',
                      JStr ''pml'',
                      JStr ''ob1'',
                      JStr ''-mca'',
                      JStr ''btl'',
                      JStr ''^openib'',
                      JStr ''python'',
                      JStr ''/examples/tensorflow_mnist.py'',
                      JStr ''--lr'',
                      JStr ''${trialParameters.learningRate}'',
                      JStr ''--num-steps'',
                      JStr ''${trialParameters.numberSteps}'']),
                    (''resources'', JObj [(''limits'', JObj [(''cpu'', JStr ''500m''), (''memory'', JStr ''2Gi'')])])]])])])]),
          (''Worker'', JObj [
            (''replicas'', JInt 2),
            (''template'', JObj [
              (''metadata'', JObj [(''annotations'', JObj [(''sidecar.istio.io/inject'', JStr ''false'')])]),
              (''spec'', JObj [
                (''containers'', JList [
                  JObj [
                    (''image'', JStr ''docker.io/kubeflow/mpi-horovod-mnist''),
                    (''name'', JStr ''mpi-worker''),
                    (''resources'', JObj [(''limits'', JObj [(''cpu'', JStr ''500m''), (''memory'', JStr ''4Gi'')])])]])])])])])])]"

text \<open>The two conditions are queries over the job's status, with quotes of their own.\<close>

definition condition_query :: "string \<Rightarrow> string" where
  "condition_query t = ''status.conditions.#(type=='' @ [CHR 0x22] @ t @ [CHR 0x22] @ '')#|#(status=='' @
     [CHR 0x22] @ ''True'' @ [CHR 0x22] @ '')#''"

definition mpi_template :: trial_template where
  "mpi_template = \<lparr>retain = False, primary_pod_labels = [(''mpi-job-role'', ''launcher'')],
     primary_container_name = ''mpi-launcher'',
     success_condition = Some (condition_query ''Succeeded''),
     failure_condition = Some (condition_query ''Failed''),
     trial_parameters =
       [\<lparr>t_name = ''learningRate'', t_description = ''Learning rate for the training model'', t_reference = ''lr''\<rparr>,
        \<lparr>t_name = ''numberSteps'', t_description = ''Number of training steps'', t_reference = ''num-steps''\<rparr>],
     trial_spec = mpi_trial_spec\<rparr>"

definition mpi_search :: "objective_spec \<times> algorithm_spec" where
  "mpi_search =
    (\<lparr>objective_type = ''minimize'', goal = ''0.01'', metric_name = ''loss'', additional_metrics = []\<rparr>,
     \<lparr>algorithm_name = ''bayesianoptimization'', settings = [(''random_state'', ''10'')]\<rparr>)"

text \<open>The greatest number of trials, of failed ones, and of those that run at a time.\<close>

definition mpi_counts :: "nat \<times> nat \<times> nat" where
  "mpi_counts = (6, 3, 2)"

definition mpi_experiment :: experiment_spec where
  "mpi_experiment = \<lparr>max_trial_count = fst mpi_counts, max_failed_trial_count = fst (snd mpi_counts),
     parallel_trial_count = snd (snd mpi_counts),
     objective = fst mpi_search, algorithm = snd mpi_search, early_stopping = None, parameters = mpi_parameters, template = mpi_template\<rparr>"

text \<open>
  The pipeline: the call of the launcher, and the container that prints its output. \<open>load\<close> gives
  the launcher's output from the address of its description and the arguments of the call.
\<close>

definition mpi_pipeline :: pipeline_info where
  "mpi_pipeline = \<lparr>pipeline_title = ''Launch Katib MPIJob Experiment'',
     pipeline_description = ''An example to launch Katib Experiment with MPIJob''\<rparr>"

definition mpi_names :: "string \<times> string" where
  "mpi_names = (''mpi-horovod-mnist'', ''anonymous'')"

definition horovod_mnist_hpo :: "(experiment_spec \<Rightarrow> json) \<Rightarrow> (string \<Rightarrow> launch \<Rightarrow> string) \<Rightarrow> launch \<times> container_op" where
  "horovod_mnist_hpo serialize load =
     (let output_of = load katib_component_url;
          op = \<lparr>experiment_name = fst mpi_names, experiment_namespace = snd mpi_names,
          experiment_json = serialize mpi_experiment, timeout_minutes = 60, delete_finished = None\<rparr>
      in (op, best_hp (output_of op)))"

section \<open>Early stopping\<close>

definition median_parameters :: "parameter_spec list" where
  "median_parameters =
    [\<lparr>p_name = ''lr'', p_type = ''double'', p_space = Range ''0.01'' ''0.3'' None\<rparr>,
     \<lparr>p_name = ''num-layers'', p_type = ''int'', p_space = Range ''2'' ''5'' None\<rparr>,
     \<lparr>p_name = ''optimizer'', p_type = ''categorical'', p_space = Choices [''sgd'', ''adam'', ''ftrl'']\<rparr>]"

definition median_trial_spec :: json where
  "median_trial_spec = JObj [
      (''apiVersion'', JStr ''batch/v1''),
      (''kind'', JStr ''Job''),
      (''spec'', JObj [
        (''template'', JObj [
          (''metadata'', JObj [(''annotations'', JObj [(''sidecar.istio.io/inject'', JStr ''false'')])]),
          (''spec'', JObj [
            (''containers'', JList [
              JObj [
                (''name'', JStr ''training-container''),
                (''image'', JStr ''docker.io/kubeflowkatib/mxnet-mnist:v1beta1-e294a90''),
                (''command'', JList [
                  JStr ''python3'',
                  JStr ''/opt/mxnet-mnist/mnist.py'',
                  JStr ''--batch-size=64'',
                  JStr ''--lr=${trialParameters.learningRate}'',
                  JStr ''--num-layers=${trialParameters.numberLayers}'',
                  JStr ''--optimizer=${trialParameters.optimizer}''])]]),
            (''restartPolicy'', JStr ''Never'')])])])]"

definition median_template :: trial_template where
  "median_template = \<lparr>retain = True, primary_pod_labels = [], primary_container_name = ''training-container'',
     success_condition = None, failure_condition = None,
     trial_parameters =
       [\<lparr>t_name = ''learningRate'', t_description = ''Learning rate for the training model'', t_reference = ''lr''\<rparr>,
        \<lparr>t_name = ''numberLayers'', t_description = ''Number of training model layers'', t_reference = ''num-layers''\<rparr>,
        \<lparr>t_name = ''optimizer'', t_description = ''Training model optimizer (sdg, adam or ftrl)'', t_reference = ''optimizer''\<rparr>],
     trial_spec = median_trial_spec\<rparr>"

definition median_search :: "objective_spec \<times> algorithm_spec \<times> algorithm_spec" where
  "median_search =
    (\<lparr>objective_type = ''maximize'', goal = ''0.99'', metric_name = ''Validation-accuracy'', additional_metrics = [''Train-accuracy'']\<rparr>,
     \<lparr>algorithm_name = ''random'', settings = []\<rparr>,
     \<lparr>algorithm_name = ''medianstop'', settings = [(''min_trials_required'', ''2'')]\<rparr>)"

definition median_counts :: "nat \<times> nat \<times> nat" where
  "median_counts = (18, 3, 2)"

definition median_experiment :: experiment_spec where
  "median_experiment = \<lparr>max_trial_count = fst median_counts, max_failed_trial_count = fst (snd median_counts),
     parallel_trial_count = snd (snd median_counts),
     objective = fst median_search, algorithm = fst (snd median_search), early_stopping = Some (snd (snd median_search)),
     parameters = median_parameters, template = median_template\<rparr>"

definition median_names :: "string \<times> string" where
  "median_names = (''median-stop'', ''anonymous'')"

definition median_pipeline :: pipeline_info where
  "median_pipeline = \<lparr>pipeline_title = ''Launch Katib early stopping Experiment'',
     pipeline_description = ''An example to launch Katib Experiment with early stopping''\<rparr>"

definition median_stop :: "(experiment_spec \<Rightarrow> json) \<Rightarrow> (string \<Rightarrow> launch \<Rightarrow> string) \<Rightarrow> launch \<times> container_op" where
  "median_stop serialize load =
     (let output_of = load katib_component_url;
          op = \<lparr>experiment_name = fst median_names, experiment_namespace = snd median_names,
          experiment_json = serialize median_experiment, timeout_minutes = 60, delete_finished = Some False\<rparr>
      in (op, best_hp (output_of op)))"

section \<open>Typing of trial templates\<close>

text \<open>
  A trial's job is the template with every \<open>${trialParameters.x}\<close> replaced. In a well typed
  experiment each placeholder is a trial parameter that stands for a parameter of the search, with
  a space that fits its type and is not empty.
\<close>

definition placeholders :: "string \<Rightarrow> string list" where
  "placeholders s = map (takeWhile (\<lambda>c. c \<noteq> CHR ''}'')) (tl (split_at ''${trialParameters.'' s))"

fun typed :: "(string \<Rightarrow> bool) \<Rightarrow> json \<Rightarrow> bool" where
  "typed \<Gamma> (JStr s) = list_all \<Gamma> (placeholders s)"
| "typed \<Gamma> (JList xs) = list_all (typed \<Gamma>) xs"
| "typed \<Gamma> (JObj kvs) = list_all (\<lambda>p. typed \<Gamma> (snd p)) kvs"
| "typed \<Gamma> _ = True"

text \<open>The value of a decimal literal such as \<open>0.001\<close>.\<close>

definition decimal :: "string \<Rightarrow> rat option" where
  "decimal s = (let w = takeWhile is_digit s; r = dropWhile is_digit s in
     if w = [] then None
     else case r of [] \<Rightarrow> Some (of_nat (dec_val w))
       | c # f \<Rightarrow> if c = CHR ''.'' \<and> f \<noteq> [] \<and> list_all is_digit f
           then Some (of_nat (dec_val w) + of_nat (dec_val f) / 10 ^ length f) else None)"

definition space_fits :: "parameter_spec \<Rightarrow> bool" where
  "space_fits p = (case p_space p of
     Range a b st \<Rightarrow>
       (if p_type p = ''int'' then
          (case (py_int a, py_int b) of (Inr x, Inr y) \<Rightarrow> x \<le> y | _ \<Rightarrow> False) \<and>
          (case st of None \<Rightarrow> True | Some t \<Rightarrow> (case py_int t of Inr z \<Rightarrow> 0 < z | _ \<Rightarrow> False))
        else p_type p = ''double'' \<and> st = None \<and>
          (case (decimal a, decimal b) of (Some x, Some y) \<Rightarrow> x \<le> y | _ \<Rightarrow> False))
   | Choices vs \<Rightarrow> p_type p = ''categorical'' \<and> vs \<noteq> [] \<and> distinct vs)"

definition stands_for :: "experiment_spec \<Rightarrow> string \<Rightarrow> bool" where
  "stands_for e x = list_ex (\<lambda>t. t_name t = x \<and>
     list_ex (\<lambda>p. p_name p = t_reference t \<and> space_fits p) (parameters e)) (trial_parameters (template e))"

definition well_typed :: "experiment_spec \<Rightarrow> bool" where
  "well_typed e \<longleftrightarrow> typed (stands_for e) (trial_spec (template e)) \<and>
     distinct (map p_name (parameters e)) \<and> distinct (map t_name (trial_parameters (template e))) \<and>
     0 < parallel_trial_count e \<and> parallel_trial_count e \<le> max_trial_count e \<and>
     max_failed_trial_count e \<le> max_trial_count e"

text \<open>Typing is sound: no path of a well typed template leads to an unknown placeholder.\<close>

lemma typed_at: "typed \<Gamma> j \<Longrightarrow> json_at j ps = Some v \<Longrightarrow> typed \<Gamma> v"
proof (induction j ps rule: json_at.induct)
  case (2 kvs k ps)
  then obtain w where w: "map_of kvs k = Some w" "json_at w ps = Some v" by (auto split: option.splits)
  with 2 have "typed \<Gamma> w" by (fastforce simp: list_all_iff dest: map_of_SomeD)
  with 2 w show ?case by simp
qed (auto simp: list_all_iff split: if_splits)

lemma typed_str_at: "typed \<Gamma> j \<Longrightarrow> str_at j ps = Some s \<Longrightarrow> x \<in> set (placeholders s) \<Longrightarrow> \<Gamma> x"
  by (auto simp: list_all_iff dest: typed_at split: option.splits json.splits)

text \<open>The placeholders of a template, in the order of the text.\<close>

fun all_placeholders :: "json \<Rightarrow> string list" where
  "all_placeholders (JStr s) = placeholders s"
| "all_placeholders (JList xs) = concat (map all_placeholders xs)"
| "all_placeholders (JObj kvs) = concat (map (\<lambda>p. all_placeholders (snd p)) kvs)"
| "all_placeholders _ = []"

lemma experiments_checked: "well_typed mpi_experiment" "well_typed median_experiment"
  by code_simp+

section \<open>The experiments' properties\<close>

text \<open>
  C15. Both experiments are well typed: wherever a placeholder stands in the job a trial runs, it
  is one of the trial's parameters, and that one stands for a parameter of the search whose space
  fits its type and is not empty.
\<close>

theorem experiments_well_typed:
  assumes "e = mpi_experiment \<or> e = median_experiment"
    and "str_at (trial_spec (template e)) ps = Some s" and "x \<in> set (placeholders s)"
  shows "\<exists>t \<in> set (trial_parameters (template e)). t_name t = x \<and>
    (\<exists>p \<in> set (parameters e). p_name p = t_reference t \<and> space_fits p)"
proof -
  have "typed (stands_for e) (trial_spec (template e))"
    using assms(1) experiments_checked by (auto simp: well_typed_def)
  then have "stands_for e x" using assms(2,3) by (rule typed_str_at)
  then show ?thesis by (auto simp: stands_for_def list_ex_iff)
qed

lemma experiments_well_typed_witness:
  "\<exists>t \<in> set (trial_parameters mpi_template). t_name t = ''numberSteps'' \<and>
    (\<exists>p \<in> set mpi_parameters. p_name p = t_reference t \<and> space_fits p)"
proof -
  have at: "str_at mpi_trial_spec [Key ''spec'', Key ''mpiReplicaSpecs'', Key ''Launcher'', Key ''template'', Key ''spec'',
      Key ''containers'', Idx 0, Key ''args'', Idx 22] = Some ''${trialParameters.numberSteps}''" by code_simp
  have m: "template mpi_experiment = mpi_template" "parameters mpi_experiment = mpi_parameters"
    "trial_spec mpi_template = mpi_trial_spec"
    by (simp_all add: mpi_experiment_def mpi_template_def)
  have "''numberSteps'' \<in> set (placeholders ''${trialParameters.numberSteps}'')" by code_simp
  then show ?thesis by (rule experiments_well_typed [OF disjI1 [OF refl], unfolded m, OF at])
qed

text \<open>
  Nothing is tuned in vain: in both experiments every parameter of the search is what one of
  the trial's parameters stands for, and every one of these has a placeholder in the job.
\<close>

lemma experiments_complete:
  "map t_reference (trial_parameters (template mpi_experiment)) = map p_name (parameters mpi_experiment) \<and>
   all_placeholders (trial_spec (template mpi_experiment)) = map t_name (trial_parameters (template mpi_experiment)) \<and>
   map t_reference (trial_parameters (template median_experiment)) = map p_name (parameters median_experiment) \<and>
   all_placeholders (trial_spec (template median_experiment)) = map t_name (trial_parameters (template median_experiment))"
  by (intro conjI; code_simp)

text \<open>
  The MPI launcher starts as many processes as the workers have slots, and runs in the
  container the trial waits for.
\<close>

lemma mpi_processes_fit:
  "\<exists>launcher n workers slots.
    json_at mpi_trial_spec [Key ''spec'', Key ''mpiReplicaSpecs'', Key ''Launcher'', Key ''template'', Key ''spec'',
      Key ''containers'', Idx 0] = Some launcher \<and>
    str_at launcher [Key ''name''] = Some (primary_container_name mpi_template) \<and>
    str_at launcher [Key ''args'', Idx 0] = Some ''-np'' \<and> str_at launcher [Key ''args'', Idx 1] = Some n \<and>
    json_at mpi_trial_spec [Key ''spec'', Key ''mpiReplicaSpecs'', Key ''Worker'', Key ''replicas''] = Some (JInt workers) \<and>
    json_at mpi_trial_spec [Key ''spec'', Key ''slotsPerWorker''] = Some (JInt slots) \<and>
    py_int n = Inr (workers * slots)"
proof -
  let ?l = "the (json_at mpi_trial_spec [Key ''spec'', Key ''mpiReplicaSpecs'', Key ''Launcher'', Key ''template'',
      Key ''spec'', Key ''containers'', Idx 0])"
  have "py_int ''2'' = Inr (2 * 1)" by code_simp
  then show ?thesis
    by (intro exI [of _ ?l] exI [of _ "''2''"] exI [of _ 2] exI [of _ 1])
      (simp add: mpi_trial_spec_def mpi_template_def)
qed

end
