(* ===== verification/LlavaProxy.thy ===== *)
theory LlavaProxy
  imports PyJson
begin

text \<open>
  The proxy in front of the LLaVA model (\<open>src/examples/api_proxy_llava/docker/apps.py\<close>) and the mock of
  the model's API (\<open>mock_api.py\<close>). Flask has parsed the body of a request; a handler answers with a
  status and a JSON body, or raises, which Flask answers with status 500. The types of
  a query are the module's; which JSON values Pydantic takes for a scalar (a number for a string of digits, say), its
  message and the HTTP call to the model are outside.
\<close>

type_synonym response = "nat \<times> json"

section \<open>The types of a query\<close>

text \<open>
  The fields of the two Pydantic models, with their types; a field with a default may be left out, other
  fields are ignored. \<open>conforms\<close> is the validation: \<open>scalar k v\<close> says whether \<open>v\<close> is taken for a value of the scalar type \<open>k\<close>.
\<close>

datatype scalar = Str_type | Int_type | Float_type | Bool_type

datatype field_type =
    Scalar scalar
  | Dict_type
  | List_of field_type
  | Optional_of field_type
  | Model_of "(string \<times> field_type) list" "(string \<times> field_type) list"

definition messages_model :: field_type where
  "messages_model = Model_of [(''role'', Scalar Str_type), (''content'', List_of Dict_type)] []"

definition query_model :: field_type where
  "query_model = Model_of
     [(''model'', Scalar Str_type),
      (''messages'', List_of messages_model)]
     [(''temperature'', Optional_of (Scalar Float_type)),
      (''top_p'', Optional_of (Scalar Float_type)),
      (''n'', Optional_of (Scalar Int_type)),
      (''stream'', Optional_of (Scalar Bool_type)),
      (''stop'', Optional_of (List_of (Scalar Str_type))),
      (''max_tokens'', Optional_of (Scalar Int_type)),
      (''presence_penalty'', Optional_of (Scalar Float_type)),
      (''frequency_penalty'', Optional_of (Scalar Float_type)),
      (''logit_bias'', Optional_of Dict_type),
      (''user'', Optional_of (Scalar Str_type))]"

fun is_obj :: "json \<Rightarrow> bool" where
  "is_obj (JObj kvs) = True"
| "is_obj _ = False"

fun conforms :: "(scalar \<Rightarrow> json \<Rightarrow> bool) \<Rightarrow> field_type \<Rightarrow> json \<Rightarrow> bool" where
  "conforms scalar (Scalar k) v = scalar k v"
| "conforms scalar Dict_type v = is_obj v"
| "conforms scalar (List_of t) v = (case v of JList vs \<Rightarrow> list_all (conforms scalar t) vs | _ \<Rightarrow> False)"
| "conforms scalar (Optional_of t) v = (v = JNull \<or> conforms scalar t v)"
| "conforms scalar (Model_of required optional) v = (case v of
     JObj kvs \<Rightarrow>
       list_all (\<lambda>(n, t). case map_of kvs n of None \<Rightarrow> False | Some x \<Rightarrow> conforms scalar t x) required \<and>
       list_all (\<lambda>(n, t). case map_of kvs n of None \<Rightarrow> True | Some x \<Rightarrow> conforms scalar t x) optional
   | _ \<Rightarrow> False)"

section \<open>The proxy\<close>

definition minus_embedding :: string where
  "minus_embedding = ''-0.0028842222''"

definition embeddings :: "json \<Rightarrow> response" where
  "embeddings json_data = (200, JObj [
     (''object'', JStr ''list''),
     (''data'', JList [JObj [
        (''object'', JStr ''embedding''),
        (''embedding'', JList (replicate 512 (JFloat minus_embedding))),
        (''index'', JInt 0)]]),
     (''model'', JStr ''text-embedding-ada-002''),
     (''usage'', JObj [(''prompt_tokens'', JInt 8), (''total_tokens'', JInt 8)])])"

definition line_end :: string where "line_end = [CHR 0x0A]"

definition llava_context :: string where
  "llava_context = ''You are LLaVA, a large language and vision assistant trained by UW Madison WAIV Lab. '' @
     ''You are able to understand the visual content that the user provides, '' @
     ''and assist the user with a variety of tasks using natural language. '' @
     ''Follow the instructions carefully and explain your answers in detail.'' @
     ''### Human: Hi!### Assistant: Hi there! How can I help you today?'' @ line_end"

definition llava_prompt :: "string \<Rightarrow> string \<Rightarrow> string" where
  "llava_prompt prompt img = llava_context @ ''### Human: '' @ prompt @ ''  '' @ line_end @
     ''<img src='' @ [CHR 0x22] @ img @ [CHR 0x22] @ ''>### Assistant: ''"

definition model_request :: "string \<Rightarrow> string \<Rightarrow> json" where
  "model_request prompt img = JObj [(''prompt'', JStr (llava_prompt prompt img)), (''max_tokens'', JInt 200),
     (''stop'', JList [JStr (line_end @ ''###'')])]"

text \<open>\<open>query['messages'][0]['content'][0]\<close>, evaluated once for the text and once for the image.\<close>

definition first_content :: "json \<Rightarrow> pyexn + json" where
  "first_content query =
     bindE (py_item query ''messages'') (\<lambda>ms.
     bindE (py_nth ms 0) (\<lambda>m.
     bindE (py_item m ''content'') (\<lambda>cs.
     py_nth cs 0)))"

text \<open>The two values; what the f-string puts in for them is their \<open>str\<close>, whatever they are.\<close>

definition query_parts :: "json \<Rightarrow> pyexn + string \<times> string" where
  "query_parts query =
     bindE (bindE (first_content query) (\<lambda>c. py_item c ''text'')) (\<lambda>prompt.
     bindE (bindE (first_content query) (\<lambda>c. bindE (py_item c ''image_url'') (\<lambda>u. py_item u ''url''))) (\<lambda>img.
     Inr (py_format prompt, py_format img)))"

text \<open>The answer to the client, from the model's answer.\<close>

definition chat_response :: "json \<Rightarrow> pyexn + json" where
  "chat_response r =
     bindE (bindE (py_item r ''choices'') (\<lambda>cs. bindE (py_nth cs 0) (\<lambda>c. py_item c ''text''))) (\<lambda>txt.
     bindE (py_item r ''id'') (\<lambda>id.
     bindE (py_item r ''object'') (\<lambda>object.
     bindE (py_item r ''created'') (\<lambda>created.
     bindE (py_item r ''model'') (\<lambda>model.
     bindE (py_item r ''choices'') (\<lambda>choices.
     bindE (py_item r ''usage'') (\<lambda>usage.
     bindE (bindE (py_nth choices 0) (\<lambda>c. py_item c ''finish_reason'')) (\<lambda>reason.
     Inr (JObj [
       (''id'', id), (''object'', object), (''created'', created), (''model'', model),
       (''system_fingerprint'', JStr ''fp_44709d6fcb''),
       (''choices'', JList [JObj [
          (''index'', JInt 0),
          (''message'', JObj [(''role'', JStr ''assistant''), (''content'', txt)]),
          (''finish_reason'', reason)]]),
       (''usage'', usage)])))))))))"

text \<open>
  \<open>predict\<close>: \<open>message\<close> gives the text of Pydantic's error for a query that does not conform; \<open>post\<close> sends a
  body to an address and gives the JSON of the answer, whatever its status.
\<close>

definition predict ::
  "(scalar \<Rightarrow> json \<Rightarrow> bool) \<Rightarrow> (json \<Rightarrow> string) \<Rightarrow> (string \<Rightarrow> json \<Rightarrow> ('w, json) step_on) \<Rightarrow> string option \<Rightarrow> json \<Rightarrow>
   ('w, response) step_on" where
  "predict scalar message post url query =
     (if \<not> conforms scalar query_model query then returnS (400, JObj [(''error'', JStr (message query))])
      else
          bindS (lift (query_parts query)) (\<lambda>(prompt, img).
          (case url of
             None \<Rightarrow> raiseS TypeError
           | Some u \<Rightarrow>
               bindS (post (u @ ''/api/v1/completions'') (model_request prompt img)) (\<lambda>r.
               bindS (lift (chat_response r)) (\<lambda>body. returnS (200, body))))))"

section \<open>The mock of the model\<close>

definition mock_answer :: json where
  "mock_answer = JObj [
     (''id'', JStr ''mock-id''), (''object'', JStr ''text_completion''), (''created'', JInt 1643723904),
     (''model'', JStr ''mock-model''),
     (''usage'', JObj [(''prompt_tokens'', JInt 8), (''total_tokens'', JInt 8)]),
     (''choices'', JList [JObj [
        (''text'', JStr ''toto''), (''index'', JInt 0), (''logprobs'', JNull), (''finish_reason'', JStr ''stop'')]])]"

definition missing :: "string \<Rightarrow> json \<Rightarrow> pyexn + bool" where
  "missing k data = bindE (py_in k data) (\<lambda>b. Inr (\<not> b))"

text \<open>\<open>a or b\<close> of conditions: the second one is evaluated when the first is false.\<close>

definition orE :: "pyexn + bool \<Rightarrow> pyexn + bool \<Rightarrow> pyexn + bool" where
  "orE a b = bindE a (\<lambda>x. if x then Inr True else b)"

definition completions :: "json \<Rightarrow> pyexn + response" where
  "completions data =
     bindE (orE (Inr (\<not> py_bool data)) (orE (missing ''prompt'' data)
       (orE (missing ''max_tokens'' data) (missing ''stop'' data)))) (\<lambda>bad.
     if bad then Inr (400, JObj [(''error'', JStr ''Missing required parameters'')])
     else Inr (200, mock_answer))"

text \<open>The mock as what the proxy posts to: only its path is served.\<close>

definition mock_post :: "string \<Rightarrow> string \<Rightarrow> json \<Rightarrow> ('w, json) step_on" where
  "mock_post url address body =
     (if address = url @ ''/api/v1/completions'' then lift (bindE (completions body) (\<lambda>(st, b). Inr b))
      else raiseS (External ''not served''))"

section \<open>Properties\<close>

lemma mock_accepts: "completions (model_request prompt img) = Inr (200, mock_answer)"
  by (simp add: completions_def orE_def missing_def model_request_def)

lemma mock_posted: "mock_post url (url @ ''/api/v1/completions'') (model_request prompt img) w = (Inr mock_answer, w)"
  by (simp add: mock_post_def mock_accepts lift_def)

definition mock_reply :: json where
  "mock_reply = JObj [
       (''id'', JStr ''mock-id''), (''object'', JStr ''text_completion''), (''created'', JInt 1643723904),
       (''model'', JStr ''mock-model''), (''system_fingerprint'', JStr ''fp_44709d6fcb''),
       (''choices'', JList [JObj [
          (''index'', JInt 0),
          (''message'', JObj [(''role'', JStr ''assistant''), (''content'', JStr ''toto'')]),
          (''finish_reason'', JStr ''stop'')]]),
       (''usage'', JObj [(''prompt_tokens'', JInt 8), (''total_tokens'', JInt 8)])]"

lemma chat_mock: "chat_response mock_answer = Inr mock_reply"
  by (simp add: chat_response_def mock_answer_def mock_reply_def)

text \<open>What the proxy posts, noted beside the world.\<close>

definition noting_post ::
  "(string \<Rightarrow> json \<Rightarrow> ('w, json) step_on) \<Rightarrow> string \<Rightarrow> json \<Rightarrow> ('w \<times> (string \<times> json) list, json) step_on" where
  "noting_post post address body wp =
     (case post address body (fst wp) of (r, w) \<Rightarrow> (r, (w, snd wp @ [(address, body)])))"

text \<open>Where the text and the address of the image are in a query.\<close>

definition text_of :: "json \<Rightarrow> json option" where
  "text_of query = json_at query [Key ''messages'', Idx 0, Key ''content'', Idx 0, Key ''text'']"

definition image_of :: "json \<Rightarrow> json option" where
  "image_of query = json_at query [Key ''messages'', Idx 0, Key ''content'', Idx 0, Key ''image_url'', Key ''url'']"

text \<open>The fields the handler looks up have their shapes in a query that conforms.\<close>

definition message_shape :: "json \<Rightarrow> bool" where
  "message_shape m = (case py_item m ''content'' of Inr (JList cs) \<Rightarrow> list_all is_obj cs | _ \<Rightarrow> False)"

definition query_shape :: "json \<Rightarrow> bool" where
  "query_shape q = (case py_item q ''messages'' of Inr (JList ms) \<Rightarrow> list_all message_shape ms | _ \<Rightarrow> False)"

lemma required_field:
  "conforms scalar (Model_of required optional) v \<Longrightarrow> (n, t) \<in> set required \<Longrightarrow>
   \<exists>x. py_item v n = Inr x \<and> conforms scalar t x"
  by (cases v) (auto simp: list_all_iff split: option.splits)

lemma list_field: "conforms scalar (List_of t) v \<Longrightarrow> \<exists>vs. v = JList vs \<and> (\<forall>x \<in> set vs. conforms scalar t x)"
  by (cases v) (auto simp: list_all_iff)

lemma conforms_shape:
  assumes "conforms scalar query_model q"
  shows "query_shape q"
proof -
  have m: "message_shape m" if msg: "conforms scalar messages_model m" for m
  proof -
    obtain x where "py_item m ''content'' = Inr x" "conforms scalar (List_of Dict_type) x"
      using required_field [OF msg [unfolded messages_model_def], of "''content''" "List_of Dict_type"] by auto
    then show ?thesis using list_field [of scalar Dict_type x] by (auto simp: message_shape_def list_all_iff)
  qed
  obtain x where "py_item q ''messages'' = Inr x" "conforms scalar (List_of messages_model) x"
    using required_field [OF assms [unfolded query_model_def], of "''messages''" "List_of messages_model"] by auto
  then show ?thesis using list_field [of scalar messages_model x] m by (auto simp: query_shape_def list_all_iff)
qed

text \<open>One choice of the scalars: only the JSON type that is named.\<close>

fun strict_scalar :: "scalar \<Rightarrow> json \<Rightarrow> bool" where
  "strict_scalar Str_type (JStr s) = True"
| "strict_scalar Int_type (JInt i) = True"
| "strict_scalar Float_type (JFloat f) = True"
| "strict_scalar Bool_type (JBool b) = True"
| "strict_scalar k v = False"

definition sample_query :: "json list \<Rightarrow> json" where
  "sample_query cs = JObj [(''model'', JStr ''llava''),
     (''messages'', JList [JObj [(''role'', JStr ''user''), (''content'', JList cs)]])]"

definition sample_content :: "json list" where
  "sample_content = [JObj [(''text'', JStr ''What is this?''), (''image_url'', JObj [(''url'', JStr ''http://a/b.jpg'')])]]"

text \<open>
  A query the validation accepts can still fail: one without messages, or whose first message
  has no content, raises \<open>IndexError\<close> (status 500, not 400), and the model is not asked. The other
  failures of an accepted query before the model is asked are no \<open>IndexError\<close>.
\<close>

lemma query_shape_parts:
  assumes "query_shape query"
  shows "\<exists>ms. py_item query ''messages'' = Inr (JList ms) \<and>
    (ms = [] \<or> (\<exists>cs. py_item (hd ms) ''content'' = Inr (JList cs) \<and> (cs = [] \<or> (\<exists>f. hd cs = JObj f))))"
proof -
  from assms obtain ms where q: "py_item query ''messages'' = Inr (JList ms)" "list_all message_shape ms"
    by (auto simp: query_shape_def split: sum.splits json.splits)
  show ?thesis
  proof (cases ms)
    case (Cons m ms')
    with q obtain cs where m: "py_item m ''content'' = Inr (JList cs)" "list_all is_obj cs"
      by (auto simp: message_shape_def split: sum.splits json.splits)
    then have "cs = [] \<or> (\<exists>f. hd cs = JObj f)" by (cases cs) (auto elim: is_obj.elims)
    with q m Cons show ?thesis by simp
  qed (use q in simp)
qed

lemma content_errors:
  "py_item (JObj f) k = Inl e \<Longrightarrow> e = KeyError k"
  "py_item u k = Inl e \<Longrightarrow> e \<noteq> IndexError"
  by (auto split: option.splits elim: py_item.elims)

lemma parts_errors:
  assumes "first_content query = Inr (JObj f)" and "query_parts query = Inl e"
  shows "e \<noteq> IndexError"
  using assms unfolding query_parts_def by (auto simp: bindE_eq_Inl simp del: py_item.simps dest: content_errors)

lemma llava_accepted_failures:
  assumes "conforms scalar query_model query" and "query_parts query = Inl e"
  shows "predict scalar message post (Some url) query w = (Inl e, w) \<and>
    (e = IndexError \<longleftrightarrow>
      (\<exists>ms. py_item query ''messages'' = Inr (JList ms) \<and>
        (ms = [] \<or> py_item (hd ms) ''content'' = Inr (JList []))))"
proof
  show "predict scalar message post (Some url) query w = (Inl e, w)"
    using assms by (simp add: predict_def bindS_const)
  obtain ms where ms: "py_item query ''messages'' = Inr (JList ms)"
    "ms = [] \<or> (\<exists>cs. py_item (hd ms) ''content'' = Inr (JList cs) \<and> (cs = [] \<or> (\<exists>f. hd cs = JObj f)))"
    using query_shape_parts [OF conforms_shape [OF assms(1)]] by blast
  show "e = IndexError \<longleftrightarrow> (\<exists>ms. py_item query ''messages'' = Inr (JList ms) \<and>
      (ms = [] \<or> py_item (hd ms) ''content'' = Inr (JList [])))"
  proof (cases "ms = [] \<or> py_item (hd ms) ''content'' = Inr (JList [])")
    case True
    then have "first_content query = Inl IndexError"
      using ms by (cases ms) (auto simp: first_content_def)
    then have "e = IndexError" using assms(2) by (simp add: query_parts_def)
    with True ms show ?thesis by auto
  next
    case False
    with ms obtain m ms' cs f where "ms = m # ms'" "py_item m ''content'' = Inr (JList cs)" "cs \<noteq> []" "hd cs = JObj f"
      by (cases ms) auto
    then have "first_content query = Inr (JObj f)"
      using ms(1) by (cases cs) (auto simp: first_content_def)
    with parts_errors [OF _ assms(2)] False ms(1) show ?thesis by auto
  qed
qed

lemma llava_accepted_failures_witness:
  "predict strict_scalar (\<lambda>q. ''invalid'') (mock_post ''http://m'') (Some ''http://m'') (sample_query []) () = (Inl IndexError, ())"
proof -
  have "conforms strict_scalar query_model (sample_query [])" "query_parts (sample_query []) = Inl IndexError" by code_simp+
  then show ?thesis
    using llava_accepted_failures [of strict_scalar "sample_query []" IndexError "\<lambda>q. ''invalid''" "mock_post ''http://m''" "''http://m''" "()"]
    by blast
qed

lemma query_shape_content:
  assumes "query_shape query"
  shows "(case json_at query [Key ''messages'', Idx 0, Key ''content'', Idx 0] of
      None \<Rightarrow> first_content query = Inl IndexError
    | Some c \<Rightarrow> first_content query = Inr c \<and> is_obj c)"
proof -
  obtain ms where ms: "py_item query ''messages'' = Inr (JList ms)"
    "ms = [] \<or> (\<exists>cs. py_item (hd ms) ''content'' = Inr (JList cs) \<and> (cs = [] \<or> (\<exists>f. hd cs = JObj f)))"
    using query_shape_parts [OF assms] by blast
  then obtain q where q: "query = JObj q" "map_of q ''messages'' = Some (JList ms)"
    by (cases query) (auto split: option.splits)
  show ?thesis
  proof (cases ms)
    case Nil
    with q ms(1) show ?thesis by (simp add: first_content_def)
  next
    case (Cons m ms')
    with ms obtain cs where cs: "py_item m ''content'' = Inr (JList cs)" "cs = [] \<or> (\<exists>f. hd cs = JObj f)" by auto
    then obtain mf where m: "m = JObj mf" "map_of mf ''content'' = Some (JList cs)"
      by (cases m) (auto split: option.splits)
    with cs(2) q Cons ms(1) show ?thesis
      by (cases cs) (auto simp: first_content_def)
  qed
qed

lemma item_at: "py_item v k = Inr x \<longleftrightarrow> json_at v [Key k] = Some x"
  by (cases v) (auto split: option.splits)

lemma item_error: "py_item v k = Inl e \<Longrightarrow> e \<in> {IndexError, TypeError} \<union> range KeyError"
  by (cases v) (auto split: option.splits)

lemma parts_found:
  assumes "query_shape query"
  shows "query_parts query = Inr (t, i) \<longleftrightarrow>
    (\<exists>x y. text_of query = Some x \<and> image_of query = Some y \<and> t = py_format x \<and> i = py_format y)"
    and "query_parts query = Inl e \<Longrightarrow> e \<in> {IndexError, TypeError} \<union> range KeyError"
proof -
  let ?c = "json_at query [Key ''messages'', Idx 0, Key ''content'', Idx 0]"
  have "(query_parts query = Inr (t, i) \<longleftrightarrow>
      (\<exists>x y. text_of query = Some x \<and> image_of query = Some y \<and> t = py_format x \<and> i = py_format y)) \<and>
    (query_parts query = Inl e \<longrightarrow> e \<in> {IndexError, TypeError} \<union> range KeyError)"
  proof (cases ?c)
    case None
    have "text_of query = Option.bind ?c (\<lambda>c. json_at c [Key ''text''])"
      unfolding text_of_def json_at_append [symmetric] by simp
    moreover have "query_parts query = Inl IndexError"
      using query_shape_content [OF assms] None by (simp add: query_parts_def)
    ultimately show ?thesis using None by simp
  next
    case (Some c)
    have t_at: "text_of query = json_at c [Key ''text'']" and
      i_at: "image_of query = Option.bind (json_at c [Key ''image_url'']) (\<lambda>u. json_at u [Key ''url''])"
      using json_at_append [of query "[Key ''messages'', Idx 0, Key ''content'', Idx 0]" "[Key ''text'']"]
        json_at_append [of query "[Key ''messages'', Idx 0, Key ''content'', Idx 0]" "[Key ''image_url'', Key ''url'']"]
        json_at_append [of c "[Key ''image_url'']" "[Key ''url'']"] Some
      by (simp_all add: text_of_def image_of_def del: json_at.simps)
    have parts: "query_parts query = bindE (py_item c ''text'') (\<lambda>x.
        bindE (bindE (py_item c ''image_url'') (\<lambda>u. py_item u ''url'')) (\<lambda>y. Inr (py_format x, py_format y)))"
      using query_shape_content [OF assms] Some by (simp add: query_parts_def del: py_item.simps)
    have found: "query_parts query = Inr (t, i) \<longleftrightarrow>
      (\<exists>x y. text_of query = Some x \<and> image_of query = Some y \<and> t = py_format x \<and> i = py_format y)"
      unfolding parts t_at i_at bindE_eq_Inr item_at bind_eq_Some_conv by auto
    have "query_parts query = Inl e \<Longrightarrow> e \<in> {IndexError, TypeError} \<union> range KeyError"
      unfolding parts bindE_eq_Inl using item_error by blast
    with found show ?thesis by blast
  qed
  then show "query_parts query = Inr (t, i) \<longleftrightarrow>
      (\<exists>x y. text_of query = Some x \<and> image_of query = Some y \<and> t = py_format x \<and> i = py_format y)"
    and "query_parts query = Inl e \<Longrightarrow> e \<in> {IndexError, TypeError} \<union> range KeyError" by blast+
qed

text \<open>
  C37. Proxy and mock together, for every query: one that does not conform to the types is answered with
  status 400 and the model is not asked; one that conforms and has a text and an image, of whatever JSON type, makes
  the proxy post exactly one request, whose prompt is the context, the text and the image, and the client gets
  the completion as the message of the assistant; one that conforms but lacks one of the two ends in the
  exception of the lookup, and the model is not asked either.
\<close>

theorem llava_proxy_answers:
  "let answer = predict scalar message (noting_post (mock_post url)) (Some url) query (w, posted)
   in if \<not> conforms scalar query_model query
      then answer = (Inr (400, JObj [(''error'', JStr (message query))]), (w, posted))
      else case (text_of query, image_of query) of
        (Some t, Some i) \<Rightarrow> answer = (Inr (200, mock_reply), (w, posted @ [(url @ ''/api/v1/completions'', JObj [
          (''prompt'', JStr (llava_context @ ''### Human: '' @ py_format t @ ''  '' @ [CHR 0x0A] @
             ''<img src='' @ [CHR 0x22] @ py_format i @ [CHR 0x22] @ ''>### Assistant: '')),
          (''max_tokens'', JInt 200), (''stop'', JList [JStr ([CHR 0x0A] @ ''###'')])])]))
      | _ \<Rightarrow> \<exists>e \<in> {IndexError, TypeError} \<union> range KeyError. answer = (Inl e, (w, posted))"
proof (cases "conforms scalar query_model query")
  case True
  note shape = conforms_shape [OF True]
  let ?answer = "predict scalar message (noting_post (mock_post url)) (Some url) query (w, posted)"
  show ?thesis
  proof (cases "query_parts query")
    case (Inl e)
    then have "?answer = (Inl e, (w, posted))" using True by (simp add: predict_def bindS_const)
    moreover have "text_of query = None \<or> image_of query = None"
      using parts_found(1) [OF shape] Inl by (cases "text_of query"; cases "image_of query") auto
    ultimately show ?thesis
      using parts_found(2) [OF shape Inl] True by (auto simp: Let_def split: option.splits)
  next
    case (Inr pi)
    obtain t i where pi: "pi = (t, i)" by (cases pi)
    then obtain x y where xy: "text_of query = Some x" "image_of query = Some y" "t = py_format x" "i = py_format y"
      using iffD1 [OF parts_found(1) [OF shape] Inr [unfolded pi]] by blast
    have "?answer = (Inr (200, mock_reply), (w, posted @ [(url @ ''/api/v1/completions'', model_request t i)]))"
      using True Inr pi
      by (simp add: predict_def bindS_const bindS_def [of "noting_post u a b" for u a b] noting_post_def mock_posted chat_mock)
    then show ?thesis using True xy by (simp add: Let_def model_request_def llava_prompt_def line_end_def)
  qed
qed (simp add: predict_def Let_def)

lemma llava_proxy_answers_witness:
  "predict strict_scalar (\<lambda>q. ''invalid'') (noting_post (mock_post ''http://m'')) (Some ''http://m'') (sample_query sample_content) ((), []) =
    (Inr (200, mock_reply), ((), [(''http://m/api/v1/completions'', model_request ''What is this?'' ''http://a/b.jpg'')]))"
proof -
  have "conforms strict_scalar query_model (sample_query sample_content)" by code_simp
  moreover have "text_of (sample_query sample_content) = Some (JStr ''What is this?'')"
    "image_of (sample_query sample_content) = Some (JStr ''http://a/b.jpg'')" by code_simp+
  ultimately show ?thesis
    using llava_proxy_answers [of strict_scalar "\<lambda>q. ''invalid''" "''http://m''" "sample_query sample_content" "()" "[]"]
    by (simp add: Let_def model_request_def llava_prompt_def line_end_def)
qed

text \<open>A text that is a list or an object is put into the prompt as Python writes it.\<close>

lemma llava_list_text:
  "query_parts (sample_query [JObj [(''text'', JList [JStr ''it'', JInt 5, JNull]), (''image_url'', JObj [(''url'', JBool True)])]]) =
    Inr ([CHR ''['', CHR 0x27] @ ''it'' @ [CHR 0x27] @ '', 5, None]'', ''True'')"
  by code_simp

text \<open>
  Only the first content of the first message counts: two accepted queries that agree on it get
  the same answer and the same request to the model, whatever else they ask for (further messages, a
  temperature, a number of tokens).
\<close>

lemma llava_first_content_only:
  assumes "conforms scalar query_model q" and "conforms scalar query_model q'" and "first_content q = first_content q'"
  shows "predict scalar message post url q w = predict scalar message post url q' w"
  using assms by (simp add: predict_def query_parts_def)

lemma llava_first_content_only_witness:
  "predict strict_scalar (\<lambda>q. ''invalid'') (mock_post ''http://m'') None (sample_query sample_content) () =
   predict strict_scalar (\<lambda>q. ''invalid'') (mock_post ''http://m'') None (sample_query (sample_content @ [JObj []])) ()"
proof (rule llava_first_content_only)
  show "conforms strict_scalar query_model (sample_query sample_content)" by code_simp
  show "conforms strict_scalar query_model (sample_query (sample_content @ [JObj []]))" by code_simp
  show "first_content (sample_query sample_content) = first_content (sample_query (sample_content @ [JObj []]))" by code_simp
qed

end
