(* ===== verification/ModelServers.thy ===== *)
theory ModelServers
  imports PyJson PyFloat
begin

text \<open>
  The two model servers, \<open>src/examples/kserve-llm/docker/models.py\<close> and
  \<open>src/examples/kserve-fluid/fluid/docker/models.py\<close>: the loading of the model before the first
  request, the choice and the filling of the prompt template, and the answers. The tokenizer, the
  model and the text generation are outside: steps on a world of type \<open>'w\<close>.
\<close>

section \<open>\<open>str.format\<close>\<close>

text \<open>
  \<open>template.format(k=v, ...)\<close>: doubled braces stand for themselves, \<open>{k}\<close> for the value of a
  keyword, also with a conversion, as in \<open>{k!r}\<close>. A field without a name, or with a number, asks for a positional argument, of
  which there are none. Fields with attributes, indexes or format specifications are left open.
\<close>

definition convert :: "string \<Rightarrow> json \<Rightarrow> pyexn + string" where
  "convert conversion v =
     (if conversion = [] \<or> conversion = ''!s'' then Inr (py_format v)
      else if conversion = ''!r'' then Inr (py_repr v)
      else if conversion = ''!a'' then Inr (py_ascii v)
      else Inl (ValueError ''Unknown conversion specifier''))"

definition field_value :: "(string \<rightharpoonup> json) \<Rightarrow> string \<Rightarrow> pyexn + string" where
  "field_value args field =
     (if list_ex (\<lambda>c. c \<in> {CHR ''{'', CHR ''.'', CHR ''['', CHR '':''}) field then Inl Unmodelled
      else let name = takeWhile (\<lambda>c. c \<noteq> CHR ''!'') field; conversion = drop (length name) field
        in if conversion \<noteq> [] \<and> length conversion \<noteq> 2 then Inl (ValueError ''conversion specifier'')
           else if list_all is_digit name then Inl IndexError
           else case args name of None \<Rightarrow> Inl (KeyError name) | Some v \<Rightarrow> convert conversion v)"

function str_format :: "(string \<rightharpoonup> json) \<Rightarrow> string \<Rightarrow> pyexn + string" where
  "str_format args [] = Inr []"
| "str_format args (c # cs) =
     (if c = CHR ''{'' then
        (if starts_with cs ''{'' then bindE (str_format args (tl cs)) (\<lambda>t. Inr (c # t))
         else case dropWhile (\<lambda>d. d \<noteq> CHR ''}'') cs of
           [] \<Rightarrow> Inl (ValueError ''expected } before end of string'')
         | _ # r \<Rightarrow>
             bindE (field_value args (takeWhile (\<lambda>d. d \<noteq> CHR ''}'') cs)) (\<lambda>v.
             bindE (str_format args r) (\<lambda>t. Inr (v @ t))))
      else if c = CHR ''}'' then
        (if starts_with cs ''}'' then bindE (str_format args (tl cs)) (\<lambda>t. Inr (c # t))
         else Inl (ValueError ''single } encountered in format string''))
      else bindE (str_format args cs) (\<lambda>t. Inr (c # t)))"
  by pat_completeness auto
termination
proof (relation "measure (\<lambda>(args, s). length s)")
  fix c :: char and cs r :: string and d v
  assume "dropWhile (\<lambda>d. d \<noteq> CHR ''}'') cs = d # r"
  then have "length (d # r) \<le> length cs" by (metis length_dropWhile_le)
  then show "((args, r), args, c # cs) \<in> measure (\<lambda>(args, s). length s)" for args by simp
qed auto

declare str_format.simps(2) [simp del]

definition no_brace :: "char \<Rightarrow> bool" where
  "no_brace c \<longleftrightarrow> c \<noteq> CHR ''{'' \<and> c \<noteq> CHR ''}''"

lemma format_text: "list_all no_brace s \<Longrightarrow> str_format args (s @ t) = bindE (str_format args t) (\<lambda>r. Inr (s @ r))"
proof (induction s)
  case Nil
  show ?case by (cases "str_format args t") simp_all
next
  case (Cons c s)
  then show ?case by (simp add: str_format.simps(2) no_brace_def bindE_assoc)
qed

lemma format_brace:
  "c = CHR ''{'' \<or> c = CHR ''}'' \<Longrightarrow> str_format args (c # c # t) = bindE (str_format args t) (\<lambda>r. Inr (c # r))"
  by (auto simp: str_format.simps(2) starts_with_def)

lemma format_field:
  assumes "list_all no_brace name" and "name \<noteq> []"
  shows "str_format args (''{'' @ name @ ''}'' @ t) =
    bindE (field_value args name) (\<lambda>v. bindE (str_format args t) (\<lambda>r. Inr (v @ r)))"
proof -
  obtain d ds where n: "name = d # ds" "d \<noteq> CHR ''{''" using assms by (cases name) (auto simp: no_brace_def)
  have t: "\<forall>x \<in> set name. x \<noteq> CHR ''}''" using assms(1) by (auto simp: list_all_iff no_brace_def)
  have "takeWhile (\<lambda>d. d \<noteq> CHR ''}'') (name @ ''}'' @ t) = name" using t by (subst takeWhile_append2) simp_all
  moreover have "dropWhile (\<lambda>d. d \<noteq> CHR ''}'') (name @ ''}'' @ t) = ''}'' @ t" using t by (subst dropWhile_append2) simp_all
  moreover have "\<not> starts_with (name @ ''}'' @ t) ''{''" using n by (simp add: starts_with_def)
  ultimately show ?thesis by (simp add: str_format.simps(2))
qed

section \<open>The servers\<close>

text \<open>The module's globals, and the settings read from the environment when it is loaded.\<close>

record server =
  has_model :: bool
  has_tokenizer :: bool
  model_prompt_template :: "string option"

definition no_model :: server where
  "no_model = \<lparr>has_model = False, has_tokenizer = False, model_prompt_template = None\<rparr>"

record server_env =
  model_url :: string
  model_name :: string
  gpu_enabled :: bool
  load_in_8bit :: bool

definition read_env :: "environ \<Rightarrow> server_env" where
  "read_env env = \<lparr>model_url = env_get_or env ''MODEL_URL'' ''/mnt/models'',
     model_name = env_get_or env ''MODEL_NAME'' ''custom'',
     gpu_enabled = (env_get_or env ''GPU_ENABLED'' ''False'' = ''True''),
     load_in_8bit = (env_get_or env ''LOAD_IN_8BIT'' ''False'' = ''True'')\<rparr>"

definition predict_route :: "server_env \<Rightarrow> string" where
  "predict_route e = ''/v1/models/'' @ model_name e @ '':predict''"

record 'w model_services =
  load_tokenizer :: "string \<Rightarrow> ('w, unit) step_on"
  load_model :: "string \<Rightarrow> bool \<Rightarrow> ('w, unit) step_on"
  generate :: "string \<Rightarrow> int \<Rightarrow> ('w, string) step_on"
  generate_ids :: "json \<Rightarrow> bool \<Rightarrow> json \<Rightarrow> ('w, string) step_on"

text \<open>
  \<open>check_gpu\<close>: what it writes to the log, for each device the memory in gigabytes with one decimal, and
  the device it names. \<open>round\<close> takes the nearest tenth of the float that the division gives, an even one at a
  tie. (The decimal notation is the one below \<open>10 ^ 16\<close>.)
\<close>

record gpu =
  gpu_name :: string
  memory_allocated :: nat
  memory_reserved :: nat

record cuda =
  cuda_available :: bool
  cuda_devices :: "gpu list"

definition gigabytes :: "nat \<Rightarrow> pyexn + string" where
  "gigabytes n = bindE (fl (of_nat n / 1024 ^ 3)) (\<lambda>x.
     let tenths = nat (round_even (10 * x)) in Inr (show_nat (tenths div 10) @ ''.'' @ show_nat (tenths mod 10)))"

fun gpus_log :: "nat \<Rightarrow> gpu list \<Rightarrow> pyexn + string list" where
  "gpus_log i [] = Inr []"
| "gpus_log i (d # ds) =
     bindE (gigabytes (memory_allocated d)) (\<lambda>allocated.
     bindE (gigabytes (memory_reserved d)) (\<lambda>cached.
     bindE (gpus_log (Suc i) ds) (\<lambda>lines.
     Inr ([''Device ID: '' @ show_nat i, ''Device Name: '' @ gpu_name d, ''Memory Usage:'',
           ''Allocated: '' @ allocated @ '' GB'', ''Cached: '' @ cached @ '' GB''] @ lines))))"

definition show_bool :: "bool \<Rightarrow> string" where
  "show_bool b = (if b then ''True'' else ''False'')"

definition check_gpu :: "cuda \<Rightarrow> pyexn + string list \<times> string" where
  "check_gpu c =
     (let device = (if cuda_available c then ''cuda'' else ''cpu'') in
      bindE (if device = ''cuda''
             then bindE (gpus_log 0 (cuda_devices c)) (\<lambda>ls. Inr ((''Device Count: '' @ show_nat (length (cuda_devices c))) # ls))
             else Inr []) (\<lambda>info.
      Inr ([''CUDA is avaiable: '' @ show_bool (cuda_available c), ''Using device: '' @ device] @ info, device)))"

text \<open>The other server has the same function, which returns nothing.\<close>

definition check_gpu_fluid :: "cuda \<Rightarrow> pyexn + string list" where
  "check_gpu_fluid c = bindE (check_gpu c) (\<lambda>(lines, device). Inr lines)"

definition get_prompt_template :: "files \<Rightarrow> string \<Rightarrow> string option" where
  "get_prompt_template fs model_path = fs (path_join model_path [''prompt_template.txt''])"

text \<open>A step of the world, with the globals beside it, and an assignment to the globals.\<close>

definition beside :: "('w, 'a) step_on \<Rightarrow> (server \<times> 'w, 'a) step_on" where
  "beside f sw = (case f (snd sw) of (r, w) \<Rightarrow> (r, (fst sw, w)))"

definition assign :: "(server \<Rightarrow> server) \<Rightarrow> (server \<times> 'w, unit) step_on" where
  "assign g sw = (Inr (), (g (fst sw), snd sw))"

definition loaded :: "server \<Rightarrow> bool" where
  "loaded s \<longleftrightarrow> has_model s \<and> has_tokenizer s"

text \<open>
  \<open>init\<close>, run before the first request. The 8-bit flag is the other server's; this one loads in half
  precision, and neither uses the device that \<open>check_gpu\<close> names.
\<close>

definition init_llm :: "'w model_services \<Rightarrow> cuda \<Rightarrow> files \<Rightarrow> server_env \<Rightarrow> (server \<times> 'w, unit) step_on" where
  "init_llm sv c fs e = bindS (lift (check_gpu c)) (\<lambda>device sw.
     (if loaded (fst sw) then (Inr (), sw)
      else
       bindS (assign (\<lambda>s. s\<lparr>model_prompt_template := get_prompt_template fs (model_url e)\<rparr>)) (\<lambda>_.
       bindS (beside (load_tokenizer sv (model_url e))) (\<lambda>_.
       bindS (assign (\<lambda>s. s\<lparr>has_tokenizer := True\<rparr>)) (\<lambda>_.
       bindS (beside (load_model sv (model_url e) False)) (\<lambda>_.
       assign (\<lambda>s. s\<lparr>has_model := True\<rparr>))))) sw))"

definition init_fluid :: "'w model_services \<Rightarrow> cuda \<Rightarrow> server_env \<Rightarrow> (server \<times> 'w, unit) step_on" where
  "init_fluid sv c e = bindS (lift (check_gpu_fluid c)) (\<lambda>_ sw.
     (if loaded (fst sw) then (Inr (), sw)
      else
       bindS (beside (load_tokenizer sv (model_url e))) (\<lambda>_.
       bindS (assign (\<lambda>s. s\<lparr>has_tokenizer := True\<rparr>)) (\<lambda>_.
       bindS (beside (load_model sv (model_url e) (load_in_8bit e))) (\<lambda>_.
       assign (\<lambda>s. s\<lparr>has_model := True\<rparr>)))) sw))"

section \<open>Answers\<close>

datatype body = Text_body string | Json_body json

text \<open>\<open>dict(x)\<close> of a JSON value; a list of pairs is left open.\<close>

fun to_dict :: "json \<Rightarrow> pyexn + (string \<times> json) list" where
  "to_dict (JObj kvs) = Inr kvs"
| "to_dict (JList xs) = (if xs = [] then Inr [] else Inl Unmodelled)"
| "to_dict (JStr s) = (if s = [] then Inr [] else Inl (ValueError ''dictionary update sequence''))"
| "to_dict _ = Inl TypeError"

definition default_template :: string where
  "default_template = ''[INST] <<SYS>> {system_message} <</SYS>> {prompt} [/INST]''"

definition default_system_message :: string where
  "default_system_message = ''You are a helpful, respectful and honest assistant. Always answer as helpfully as possible, '' @
     ''while being safe.  Your answers should not include any harmful, unethical, racist, sexist, toxic, dangerous, '' @
     ''or illegal content. Please ensure that your responses are socially unbiased and positive in nature. '' @
     ''If a question does not make any sense, or is not factually coherent, explain why instead of answering '' @
     ''something not correct. If you don'' @ [CHR 0x27] @ ''t know the answer to a question, please don'' @ [CHR 0x27] @
     ''t share false information.''"

text \<open>The template and the system message: the request's, the model's, or the default ones.\<close>

definition choose_template :: "(string \<times> json) list \<Rightarrow> string option \<Rightarrow> pyexn + string \<times> string" where
  "choose_template input model_template =
     (case map_of input ''prompt_template'' of
        Some (JStr t) \<Rightarrow> Inr (t, [])
      | Some _ \<Rightarrow> Inl AttributeError
      | None \<Rightarrow> (case model_template of
          Some t \<Rightarrow> Inr (t, [])
        | None \<Rightarrow> Inr (default_template, default_system_message)))"

definition fill_template :: "json \<Rightarrow> string \<times> string \<Rightarrow> pyexn + string" where
  "fill_template prompt ts =
     str_format [''system_message'' \<mapsto> JStr (snd ts), ''prompt'' \<mapsto> prompt] (fst ts)"

text \<open>\<open>min(512, n)\<close> of a JSON value; a float is left open.\<close>

fun at_most_512 :: "json \<Rightarrow> pyexn + int" where
  "at_most_512 (JInt i) = Inr (min 512 i)"
| "at_most_512 (JBool b) = Inr (if b then 1 else 0)"
| "at_most_512 (JFloat f) = Inl Unmodelled"
| "at_most_512 _ = Inl TypeError"

definition get_or :: "(string \<times> json) list \<Rightarrow> string \<Rightarrow> json \<Rightarrow> json" where
  "get_or kvs k d = (case map_of kvs k of None \<Rightarrow> d | Some v \<Rightarrow> v)"

definition result_body :: "string \<Rightarrow> nat \<times> body" where
  "result_body out = (200, Json_body (JObj [(''result'', JStr out)]))"

definition predict_llm :: "(string \<Rightarrow> int \<Rightarrow> ('w, string) step_on) \<Rightarrow> string option \<Rightarrow> json \<Rightarrow> ('w, nat \<times> body) step_on" where
  "predict_llm gen model_template request =
     bindS (lift (to_dict request)) (\<lambda>input.
     case map_of input ''prompt'' of
       None \<Rightarrow> returnS (400, Text_body ''Prompt not found'')
     | Some prompt \<Rightarrow>
         bindS (lift (bindE (choose_template input model_template) (fill_template prompt))) (\<lambda>filled.
         bindS (lift (at_most_512 (get_or input ''result_length'' (JInt 100)))) (\<lambda>n.
         bindS (gen filled n) (\<lambda>out. returnS (result_body out)))))"

definition predict_fluid :: "(json \<Rightarrow> bool \<Rightarrow> json \<Rightarrow> ('w, string) step_on) \<Rightarrow> bool \<Rightarrow> json \<Rightarrow> ('w, nat \<times> body) step_on" where
  "predict_fluid gen_ids gpu request =
     bindS (lift (to_dict request)) (\<lambda>input.
     case map_of input ''prompt'' of
       None \<Rightarrow> returnS (400, Text_body ''Prompt not found'')
     | Some prompt \<Rightarrow>
         bindS (gen_ids prompt gpu (get_or input ''result_length'' (JInt 50))) (\<lambda>out. returnS (result_body out)))"

section \<open>Properties\<close>

lemma default_filled:
  "fill_template (JStr p) (default_template, sys) = Inr (''[INST] <<SYS>> '' @ sys @ '' <</SYS>> '' @ p @ '' [/INST]'')"
proof -
  let ?args = "[''system_message'' \<mapsto> JStr sys, ''prompt'' \<mapsto> JStr p]"
  have t: "default_template = ''[INST] <<SYS>> '' @ ''{'' @ ''system_message'' @ ''}'' @ '' <</SYS>> '' @ ''{'' @ ''prompt'' @ ''}'' @ '' [/INST]''"
    by (simp add: default_template_def)
  have texts: "list_all no_brace ''[INST] <<SYS>> ''" "list_all no_brace '' <</SYS>> ''" "list_all no_brace '' [/INST]''"
    "list_all no_brace ''system_message''" "list_all no_brace ''prompt''" by code_simp+
  have v: "field_value ?args ''system_message'' = Inr sys" "field_value ?args ''prompt'' = Inr p"
    by (simp_all add: field_value_def convert_def is_digit_def)
  have last: "str_format ?args '' [/INST]'' = Inr '' [/INST]''"
    using format_text [OF texts(3), of ?args "[]"] by simp
  show ?thesis
    unfolding fill_template_def fst_conv snd_conv t
    by (simp only: format_text [OF texts(1)] format_text [OF texts(2)] last
        format_field [OF texts(4)] format_field [OF texts(5)] v list.distinct(2) not_False_eq_True simp_thms
        bindE_Inr append_assoc)
qed

text \<open>
  Without a template of the request or of the model, the text sent to the model is the default
  template around the user's prompt, character for character: braces in the prompt are not read as fields.
\<close>

lemma llm_default_prompt:
  assumes "map_of input ''prompt'' = Some (JStr p)" and "map_of input ''prompt_template'' = None"
    and "map_of input ''result_length'' = None"
  shows "predict_llm gen None (JObj input) w =
    bindS (gen (''[INST] <<SYS>> '' @ default_system_message @ '' <</SYS>> '' @ p @ '' [/INST]'') 100)
      (\<lambda>out. returnS (200, Json_body (JObj [(''result'', JStr out)]))) w"
  using assms
  by (simp add: predict_llm_def bindS_const choose_template_def default_filled get_or_def result_body_def)

lemma llm_default_prompt_witness:
  "predict_llm (\<lambda>s n. returnS (drop 560 s)) None (JObj [(''prompt'', JStr ''{x}'')]) () =
    (Inr (200, Json_body (JObj [(''result'',
       JStr (drop 560 (''[INST] <<SYS>> '' @ default_system_message @ '' <</SYS>> '' @ ''{x}'' @ '' [/INST]'')))])), ())"
  by (subst llm_default_prompt [of _ "''{x}''"]) (simp_all add: bindS_const)

text \<open>
  A template as its author means it: texts, in which a brace is written twice, and fields, with a
  conversion or without one.
\<close>

datatype piece = Words string | Field string string

fun piece_text :: "piece \<Rightarrow> string" where
  "piece_text (Words s) = concat (map (\<lambda>c. if no_brace c then [c] else [c, c]) s)"
| "piece_text (Field n conversion) = ''{'' @ n @ conversion @ ''}''"

fun piece_value :: "string \<Rightarrow> json \<Rightarrow> piece \<Rightarrow> string" where
  "piece_value sys prompt (Words s) = s"
| "piece_value sys prompt (Field n conversion) =
     (let v = (if n = ''prompt'' then prompt else JStr sys)
      in if conversion = ''!r'' then py_repr v else if conversion = ''!a'' then py_ascii v else py_format v)"

definition known_field :: "piece \<Rightarrow> bool" where
  "known_field pc \<longleftrightarrow> pc \<in> range Words \<or>
     (\<exists>n \<in> {''prompt'', ''system_message''}. \<exists>c \<in> {[], ''!s'', ''!r'', ''!a''}. pc = Field n c)"

lemma format_words:
  "str_format args (piece_text (Words s) @ t) = bindE (str_format args t) (\<lambda>r. Inr (s @ r))"
proof (induction s)
  case Nil
  show ?case by (cases "str_format args t") simp_all
next
  case (Cons c s)
  show ?case
  proof (cases "no_brace c")
    case True
    with Cons format_text [of "[c]" args "piece_text (Words s) @ t"] show ?thesis by (simp add: bindE_assoc)
  next
    case False
    then have "c = CHR ''{'' \<or> c = CHR ''}''" by (simp add: no_brace_def)
    from format_brace [OF this] Cons False show ?thesis by (simp add: bindE_assoc)
  qed
qed

lemma known_value:
  assumes "known_field (Field n c)"
  shows "field_value [''system_message'' \<mapsto> JStr sys, ''prompt'' \<mapsto> p] (n @ c) = Inr (piece_value sys p (Field n c))"
    and "list_all no_brace (n @ c)" and "n @ c \<noteq> []"
proof -
  have n: "n = ''prompt'' \<or> n = ''system_message''" and c: "c = [] \<or> c = ''!s'' \<or> c = ''!r'' \<or> c = ''!a''"
    using assms by (auto simp: known_field_def)
  have plain: "\<not> list_ex (\<lambda>c. c \<in> {CHR ''{'', CHR ''.'', CHR ''['', CHR '':''}) (n @ c)"
    using n c by (elim disjE; simp)
  have "\<forall>x \<in> set n. x \<noteq> CHR ''!''" using n by (elim disjE; simp)
  moreover have "takeWhile (\<lambda>x. x \<noteq> CHR ''!'') c = []" using c by (elim disjE; simp)
  ultimately have name: "takeWhile (\<lambda>x. x \<noteq> CHR ''!'') (n @ c) = n" by (subst takeWhile_append2) auto
  have "\<not> list_all is_digit n" using n by (elim disjE; simp add: is_digit_def)
  moreover have "c = [] \<or> length c = 2" using c by (elim disjE; simp)
  moreover have "convert c v = Inr (if c = ''!r'' then py_repr v else if c = ''!a'' then py_ascii v else py_format v)" for v
    using c by (elim disjE; simp add: convert_def)
  ultimately show "field_value [''system_message'' \<mapsto> JStr sys, ''prompt'' \<mapsto> p] (n @ c) = Inr (piece_value sys p (Field n c))"
    using n unfolding field_value_def if_not_P [OF plain] name by (auto simp: Let_def)
  show "list_all no_brace (n @ c)" "n @ c \<noteq> []"
    using n c by (elim disjE; simp add: no_brace_def)+
qed

lemma template_filled:
  "list_all known_field ps \<Longrightarrow>
   fill_template p (concat (map piece_text ps), sys) = Inr (concat (map (piece_value sys p) ps))"
proof (induction ps)
  case Nil
  show ?case by (simp add: fill_template_def)
next
  case (Cons pc ps)
  then have IH: "str_format [''system_message'' \<mapsto> JStr sys, ''prompt'' \<mapsto> p] (concat (map piece_text ps)) =
      Inr (concat (map (piece_value sys p) ps))"
    by (simp add: fill_template_def)
  show ?case
  proof (cases pc)
    case (Words s)
    then show ?thesis by (simp add: fill_template_def format_words IH del: piece_text.simps)
  next
    case (Field n c)
    with Cons.prems have known: "known_field (Field n c)" by simp
    from format_field [OF known_value(2,3) [OF known]] show ?thesis
      by (simp add: fill_template_def Field IH known_value(1) [OF known] del: piece_value.simps)
  qed
qed

text \<open>
  C38. When the fields of a template are \<open>{prompt}\<close> and \<open>{system_message}\<close>, also with a conversion as in \<open>{prompt!r}\<close>
  (attributes, indexes and format specifications are not covered), the text sent to the model is its pieces with
  the fields replaced, whether it is the template of the request, of the model or the default one, and whatever the length
  asked for: what the user writes is put in character for character, braces and field names in it are not read
  again, and a template of the request or of the model has an empty system message.
\<close>

theorem llm_prompt_filled:
  assumes "map_of input ''prompt'' = Some p" and "at_most_512 (get_or input ''result_length'' (JInt 100)) = Inr n"
    and "choose_template input model_template = Inr (concat (map piece_text ps), sys)" and "list_all known_field ps"
  shows "predict_llm gen model_template (JObj input) w =
      bindS (gen (concat (map (piece_value sys p) ps)) n) (\<lambda>out. returnS (200, Json_body (JObj [(''result'', JStr out)]))) w \<and>
    (sys = [] \<or> map_of input ''prompt_template'' = None \<and> model_template = None)"
  using assms
  by (auto simp: predict_llm_def bindS_const template_filled result_body_def choose_template_def
      split: option.splits json.splits)

lemma llm_prompt_filled_witness:
  "predict_llm (\<lambda>s n. returnS s) (Some ''<{prompt}>'') (JObj [(''prompt'', JStr ''{{prompt}}''),
      (''prompt_template'', JStr ''{{{prompt}}}{system_message}''), (''result_length'', JInt 7)]) () =
    (Inr (200, Json_body (JObj [(''result'', JStr ''{{{prompt}}}'')])), ())"
proof -
  let ?input = "[(''prompt'', JStr ''{{prompt}}''), (''prompt_template'', JStr ''{{{prompt}}}{system_message}''), (''result_length'', JInt 7)]"
  let ?ps = "[Words ''{'', Field ''prompt'' [], Words ''}'', Field ''system_message'' []]"
  have t: "choose_template ?input (Some ''<{prompt}>'') = Inr (concat (map piece_text ?ps), [])"
    by (simp add: choose_template_def no_brace_def)
  have "list_all known_field ?ps" by (simp add: known_field_def)
  from llm_prompt_filled [OF _ _ t this, of "JStr ''{{prompt}}''" 7 "\<lambda>s n. returnS s" "()"] show ?thesis
    by (simp add: bindS_def get_or_def)
qed

text \<open>The template of a model can ask for the prompt as Python writes it.\<close>

lemma llm_prompt_quoted:
  "fill_template (JStr ''hi'') (''a: {prompt!r}'', []) = Inr (''a: '' @ [CHR 0x27] @ ''hi'' @ [CHR 0x27])"
proof -
  have "py_repr (JStr ''hi'') = [CHR 0x27] @ ''hi'' @ [CHR 0x27]" by code_simp
  then show ?thesis
    using template_filled [of "[Words ''a: '', Field ''prompt'' ''!r'']" "JStr ''hi''" "[]"]
    by (simp add: known_field_def no_brace_def)
qed

text \<open>
  Whatever a request asks for, the model is never asked for more than 512 new tokens: two generators
  that agree up to that bound are not told apart by any request. (The other server passes the length on as
  it came.)
\<close>

lemma llm_tokens_bounded:
  assumes "\<And>s n. n \<le> 512 \<Longrightarrow> gen s n = gen' s n"
  shows "predict_llm gen model_template request w = predict_llm gen' model_template request w"
proof -
  have b: "n \<le> 512" if "at_most_512 v = Inr n" for v n
    using that by (cases v rule: at_most_512.cases) auto
  have "bindS (lift (at_most_512 v)) (\<lambda>n. bindS (gen s n) (\<lambda>out. returnS (result_body out))) =
      bindS (lift (at_most_512 v)) (\<lambda>n. bindS (gen' s n) (\<lambda>out. returnS (result_body out)))" for v s
    using b assms by (cases "at_most_512 v") (auto simp: bindS_const)
  then show ?thesis by (simp add: predict_llm_def cong: option.case_cong)
qed

lemma llm_tokens_bounded_witness:
  "predict_llm (\<lambda>s n. returnS (show_int n)) None (JObj [(''prompt'', JStr ''a''), (''result_length'', JInt 4000)]) () =
   predict_llm (\<lambda>s n. if n \<le> 512 then returnS (show_int n) else raiseS OverflowError) None
     (JObj [(''prompt'', JStr ''a''), (''result_length'', JInt 4000)]) ()"
  by (rule llm_tokens_bounded) simp

text \<open>
  The model is loaded once: after an \<open>init\<close> that returned, of either server, another one changes
  nothing and asks for nothing; and one that failed leaves a server that was not loaded not loaded, so that it
  is tried again.
\<close>

lemmas inits = init_llm_def init_fluid_def bindS_def lift_def beside_def assign_def loaded_def

lemma init_loads:
  assumes "i = init_llm sv c fs e \<or> i = init_fluid sv c e" and "i (s, w) = (r, (s', w'))"
  shows "(has_model s \<longrightarrow> has_tokenizer s) \<longrightarrow> (has_model s' \<longrightarrow> has_tokenizer s')"
    and "r = Inr () \<Longrightarrow> loaded s'" and "has_model s \<longrightarrow> has_tokenizer s \<Longrightarrow> \<not> loaded s \<Longrightarrow> loaded s' \<Longrightarrow> r = Inr ()"
  using assms by (auto simp: inits split: if_splits prod.splits sum.splits)

lemma init_again:
  assumes "i = init_llm sv c fs e \<or> i = init_fluid sv c e" and "i (s, w) = (Inr (), (s', w'))"
  shows "i (s', v) = (Inr (), (s', v))"
  using assms by (auto simp: inits split: if_splits prod.splits sum.splits)

definition sample_model_services :: "nat model_services" where
  "sample_model_services = \<lparr>load_tokenizer = (\<lambda>u n. (Inr (), Suc n)), load_model = (\<lambda>u b n. (Inr (), Suc n)),
     generate = (\<lambda>s k. returnS s), generate_ids = (\<lambda>s b k. returnS [])\<rparr>"

text \<open>Half gigabytes are shown exactly.\<close>

lemma gigabytes_half:
  assumes "i < 2 ^ 51"
  shows "gigabytes (i * 536870912) = Inr (show_nat (i div 2) @ (if even i then ''.0'' else ''.5''))"
proof -
  have "(of_nat (i * 536870912) / 1024 ^ 3 :: rat) = of_nat i / 2" by simp
  then have "gigabytes (i * 536870912) = bindE (Inr (of_nat i / 2)) (\<lambda>x.
     let tenths = nat (round_even (10 * x)) in Inr (show_nat (tenths div 10) @ ''.'' @ show_nat (tenths mod 10)))"
    using fl_half [of i] assms by (simp only: gigabytes_def) simp
  moreover have "nat (round_even (10 * (of_nat i / 2))) = 5 * i"
    using round_even_int [of "int (5 * i)"] by simp
  moreover have "5 * i div 10 = i div 2" "5 * i mod 10 = (if even i then 0 else 5)" by presburger+
  moreover have "show_nat 0 = ''0''" "show_nat 5 = ''5''" by code_simp+
  ultimately show ?thesis by (simp add: Let_def)
qed

definition sample_cuda :: cuda where
  "sample_cuda = \<lparr>cuda_available = True, cuda_devices = [\<lparr>gpu_name = ''A100'', memory_allocated = 1610612736, memory_reserved = 2147483648\<rparr>]\<rparr>"

lemma check_gpu_sample: "check_gpu sample_cuda =
  Inr ([''CUDA is avaiable: True'', ''Using device: cuda'', ''Device Count: 1'', ''Device ID: 0'', ''Device Name: A100'',
        ''Memory Usage:'', ''Allocated: 1.5 GB'', ''Cached: 2.0 GB''], ''cuda'')"
proof -
  have "show_nat (Suc 0) = ''1''" "show_nat 2 = ''2''" "show_nat 0 = ''0''" by code_simp+
  moreover from this have "gigabytes 1610612736 = Inr ''1.5''" "gigabytes 2147483648 = Inr ''2.0''"
    using gigabytes_half [of 3] gigabytes_half [of 4] by simp_all
  ultimately show ?thesis unfolding sample_cuda_def check_gpu_def
    by (simp add: show_bool_def Let_def)
qed

end
