(* ===== verification/ImageTransformer.thy ===== *)
theory ImageTransformer
  imports PyJson
begin

text \<open>
  The image transformer (\<open>src/examples/kafka/docker-image/image_transformer/image_transformer.py\<close>): it
  is called with the notification of an upload, fetches the image for the predictor, and after the
  prediction stores the image under the digit. One object serves all requests, and remembers the
  key of the image between the two calls. The object store and the image library are outside.
\<close>

section \<open>The transformer\<close>

record 'w image_services =
  download_file :: "json \<Rightarrow> string \<Rightarrow> string \<Rightarrow> ('w, unit) step_on"
  upload_file :: "string \<Rightarrow> string \<Rightarrow> string \<Rightarrow> ('w, unit) step_on"
  image_transform :: "string \<Rightarrow> ('w, json) step_on"

text \<open>The attribute \<open>_key\<close>: \<open>None\<close> until the first event; it holds whatever the event holds.\<close>

type_synonym 'w transformer = "json option \<times> 'w"

definition tmp_path :: "json \<Rightarrow> pyexn + string \<times> string" where
  "tmp_path key = (case key of JStr k \<Rightarrow> Inr (''/tmp/'' @ k, k) | _ \<Rightarrow> Inl TypeError)"

definition event_source :: "json \<Rightarrow> pyexn + json" where
  "event_source inputs =
     bindE (py_item inputs ''Records'') (\<lambda>rs. bindE (py_nth rs 0) (\<lambda>r. py_item r ''s3''))"

text \<open>The bucket and the key of an event, which are looked up one after the other.\<close>

definition event_image :: "json \<Rightarrow> pyexn + json \<times> json" where
  "event_image inputs =
     bindE (py_item inputs ''EventName'') (\<lambda>name.
     if name = JStr ''s3:ObjectCreated:Put'' then
       bindE (bindE (event_source inputs) (\<lambda>s. bindE (py_item s ''bucket'') (\<lambda>b. py_item b ''name''))) (\<lambda>bucket.
       bindE (bindE (event_source inputs) (\<lambda>s. bindE (py_item s ''object'') (\<lambda>b. py_item b ''key''))) (\<lambda>key.
       Inr (bucket, key)))
     else Inl (PyException [''unknown event'']))"

definition on_store :: "('w, 'a) step_on \<Rightarrow> ('w transformer, 'a) step_on" where
  "on_store f kw = (case f (snd kw) of (r, w) \<Rightarrow> (r, (fst kw, w)))"

definition set_key :: "json \<Rightarrow> ('w transformer, unit) step_on" where
  "set_key k kw = (Inr (), (Some k, snd kw))"

definition get_key :: "('w transformer, json option) step_on" where
  "get_key kw = (Inr (fst kw), kw)"

definition preprocess :: "'w image_services \<Rightarrow> json \<Rightarrow> ('w transformer, json) step_on" where
  "preprocess sv inputs =
     bindS (lift (event_image inputs)) (\<lambda>(bucket, key).
     bindS (set_key key) (\<lambda>_.
     bindS (lift (tmp_path key)) (\<lambda>(path, k).
     bindS (on_store (download_file sv bucket k path)) (\<lambda>_.
     bindS (on_store (image_transform sv path)) (\<lambda>request.
     returnS (JObj [(''instances'', JList [request])]))))))"

definition predicted_class :: "json \<Rightarrow> pyexn + string" where
  "predicted_class response =
     bindE (bindE (py_item response ''predictions'') (\<lambda>ps. bindE (py_nth ps 0) (\<lambda>p. py_item p ''classes'')))
       (\<lambda>classes. Inr (py_format classes))"

definition postprocess :: "'w image_services \<Rightarrow> json \<Rightarrow> ('w transformer, json) step_on" where
  "postprocess sv response =
     bindS (lift (predicted_class response)) (\<lambda>digit.
     bindS get_key (\<lambda>key.
     bindS (lift (case key of None \<Rightarrow> Inl TypeError | Some k \<Rightarrow> tmp_path k)) (\<lambda>(path, k).
     bindS (on_store (upload_file sv path (''digit-'' @ digit) k)) (\<lambda>_.
     returnS response))))"

section \<open>Interleaved requests\<close>

text \<open>
  The server calls the methods of the one transformer for all requests. A schedule is the calls in the
  order they run; an exception ends its own request only.
\<close>

datatype call = Pre json | Post json

fun call_step :: "'w image_services \<Rightarrow> call \<Rightarrow> ('w transformer, json) step_on" where
  "call_step sv (Pre inputs) = preprocess sv inputs"
| "call_step sv (Post response) = postprocess sv response"

definition run_calls :: "'w image_services \<Rightarrow> call list \<Rightarrow> 'w transformer \<Rightarrow> 'w transformer" where
  "run_calls sv cs kw = fold (\<lambda>c s. snd (call_step sv c s)) cs kw"

text \<open>The key of the last event of a schedule that has one.\<close>

fun last_key :: "call list \<Rightarrow> json option \<Rightarrow> json option" where
  "last_key [] k = k"
| "last_key (Pre inputs # cs) k = last_key cs (case event_image inputs of Inr (b, key) \<Rightarrow> Some key | Inl e \<Rightarrow> k)"
| "last_key (Post response # cs) k = last_key cs k"

lemma same_key: "reflp (\<lambda>s s'. fst s' = fst s)" "transp (\<lambda>s s'. fst s' = fst s)"
  by (auto intro: reflpI transpI)

lemma key_parts [step_rels]:
  "step_rel (\<lambda>s s'. fst s' = fst s) (on_store f)" "step_rel (\<lambda>s s'. fst s' = fst s) get_key"
  by (auto simp: step_rel_def on_store_def get_key_def split: prod.split)

lemma postprocess_key: "fst (snd (postprocess sv response s)) = fst s"
proof -
  have "step_rel (\<lambda>s s'. fst s' = fst s) (postprocess sv response)"
    unfolding postprocess_def by (auto intro!: step_rels same_key split: prod.split)
  then show ?thesis by (cases s) (simp add: step_rel_def)
qed

lemma preprocess_key:
  "fst (snd (preprocess sv inputs s)) = (case event_image inputs of Inr (b, key) \<Rightarrow> Some key | Inl e \<Rightarrow> fst s)"
proof (cases "event_image inputs")
  case (Inr bk)
  obtain bucket key where bk: "bk = (bucket, key)" by fastforce
  let ?rest = "bindS (lift (tmp_path key)) (\<lambda>(path, k). bindS (on_store (download_file sv bucket k path)) (\<lambda>_.
     bindS (on_store (image_transform sv path)) (\<lambda>request. returnS (JObj [(''instances'', JList [request])]))))"
  have "step_rel (\<lambda>s s'. fst s' = fst s) ?rest"
    by (auto intro!: step_rels same_key split: prod.split)
  then have "fst (snd (?rest (Some key, snd s))) = Some key" by (simp add: step_rel_def)
  then show ?thesis using Inr bk by (simp add: preprocess_def bindS_const bindS_def [of "set_key key"] set_key_def)
qed (simp add: preprocess_def bindS_const)

lemma run_calls_key: "fst (run_calls sv cs s) = last_key cs (fst s)"
proof (induction cs arbitrary: s)
  case (Cons c cs)
  then show ?case
    by (cases c) (simp_all add: run_calls_def postprocess_key preprocess_key)
qed (simp add: run_calls_def)

text \<open>
  C30. The image stored after a prediction is the one of the last event the transformer was called
  with, whichever request the prediction answers: in every schedule of calls, a prediction of the class
  \<open>d\<close> uploads to \<open>digit-d\<close> the file of the most recent event, and raises when there was none. So
  when two requests overlap, the second one's image is stored under the first one's digit.
\<close>

theorem image_of_last_event:
  assumes "predicted_class response = Inr d" and "last_key cs None = Some (JStr key)"
    and "run_calls sv cs (None, w) = (k, w')" and "upload_file sv (''/tmp/'' @ key) (''digit-'' @ d) key w' = (Inr (), w'')"
  shows "call_step sv (Post response) (k, w') = (Inr response, (Some (JStr key), w''))"
proof -
  have "k = Some (JStr key)" using run_calls_key [of sv cs "(None, w)"] assms(2,3) by simp
  then show ?thesis
    using assms by (simp add: postprocess_def bindS_const) (simp add: bindS_def get_key_def lift_def tmp_path_def on_store_def)
qed

definition put_event :: "string \<Rightarrow> call" where
  "put_event key = Pre (JObj [(''EventName'', JStr ''s3:ObjectCreated:Put''), (''Records'', JList [JObj [(''s3'',
     JObj [(''bucket'', JObj [(''name'', JStr ''mnist'')]), (''object'', JObj [(''key'', JStr key)])])]])])"

definition prediction :: "int \<Rightarrow> json" where
  "prediction d = JObj [(''predictions'', JList [JObj [(''classes'', JInt d)]])]"

text \<open>Services whose world is the list of the uploads.\<close>

definition noting_uploads :: "(string \<times> string) list image_services" where
  "noting_uploads = \<lparr>download_file = (\<lambda>b k p. returnS ()), upload_file = (\<lambda>p b k us. (Inr (), us @ [(k, b)])),
     image_transform = (\<lambda>p. returnS JNull)\<rparr>"

lemma image_of_last_event_witness:
  "call_step noting_uploads (Post (prediction 7)) (run_calls noting_uploads [put_event ''seven.png'', put_event ''two.png''] (None, [])) =
    (Inr (prediction 7), (Some (JStr ''two.png''), [(''two.png'', ''digit-7'')]))"
proof -
  let ?cs = "[put_event ''seven.png'', put_event ''two.png'']"
  have run: "run_calls noting_uploads ?cs (None, []) = (Some (JStr ''two.png''), [])" by code_simp
  have "predicted_class (prediction 7) = Inr ''7''" by code_simp
  then have "call_step noting_uploads (Post (prediction 7)) (Some (JStr ''two.png''), []) =
      (Inr (prediction 7), (Some (JStr ''two.png''), [(''two.png'', ''digit-7'')]))"
  proof (rule image_of_last_event [OF _ _ run])
    show "last_key ?cs None = Some (JStr ''two.png'')" by code_simp
  qed (simp add: noting_uploads_def)
  with run show ?thesis by simp
qed

text \<open>An upload is made only by a prediction; a prediction before any event raises.\<close>

lemma postprocess_first: "predicted_class response = Inr d \<Longrightarrow> postprocess sv response (None, w) = (Inl TypeError, (None, w))"
  by (simp add: postprocess_def bindS_const) (simp add: bindS_def get_key_def lift_def)

end
