(* ===== verification/SmallExamples.thy ===== *)
theory SmallExamples
  imports PyFloat PyJson
begin

text \<open>
  Two small programs: the recursive training pipeline (\<open>src/examples/pipelines/train_until_good.py\<close>)
  and the knative server (\<open>src/knative-serving/app-test/app.py\<close>).
\<close>

section \<open>Training until the error is low\<close>

text \<open>
  The components the pipeline loads are outside: steps on a world of type \<open>'w\<close>, so that the same component can
  give another result the next time. They are the training of a model with a number of iterations, from a starting
  model or none, the prediction, and the mean squared error of a prediction, which is nothing when it is not a number: no
  comparison with it holds. The engine runs the graph component again while the condition holds.
\<close>

record ('w, 'm, 'd, 'p) components =
  xgboost_train :: "'d \<Rightarrow> 'm option \<Rightarrow> nat \<Rightarrow> 'w \<Rightarrow> 'm \<times> 'w"
  xgboost_predict :: "'d \<Rightarrow> 'm \<Rightarrow> 'w \<Rightarrow> 'p \<times> 'w"
  mean_squared_error :: "'d \<Rightarrow> 'p \<Rightarrow> 'w \<Rightarrow> rat option \<times> 'w"
  chicago_taxi_dataset :: "'w \<Rightarrow> 'd \<times> 'w"
  pandas_transform :: "'d \<Rightarrow> 'w \<Rightarrow> 'd \<times> 'w"
  drop_header :: "'d \<Rightarrow> 'w \<Rightarrow> 'd \<times> 'w"

definition train_more :: "('w, 'm, 'd, 'p) components \<Rightarrow> 'd \<Rightarrow> 'm \<Rightarrow> 'w \<Rightarrow> 'm \<times> 'w" where
  "train_more co training_data starting_model = xgboost_train co training_data (Some starting_model) 50"

definition model_error :: "('w, 'm, 'd, 'p) components \<Rightarrow> 'd \<Rightarrow> 'd \<Rightarrow> 'm \<Rightarrow> 'w \<Rightarrow> rat option \<times> 'w" where
  "model_error co training_data true_values model w =
     (let (predictions, w1) = xgboost_predict co training_data model w
      in mean_squared_error co true_values predictions w1)"

definition too_high :: "rat option \<Rightarrow> bool" where
  "too_high e = (case e of None \<Rightarrow> False | Some x \<Rightarrow> 1 / 100 < x)"

text \<open>The model the recursion ends with, or nothing when it never ends.\<close>

partial_function (option) train_until_low_error ::
  "('w, 'm, 'd, 'p) components \<Rightarrow> 'd \<Rightarrow> 'd \<Rightarrow> 'm \<Rightarrow> 'w \<Rightarrow> ('m \<times> 'w) option" where
  "train_until_low_error co training_data true_values starting_model w =
     (let (model, w1) = train_more co training_data starting_model w;
          (e, w2) = model_error co training_data true_values model w1
      in if too_high e then train_until_low_error co training_data true_values model w2
         else Some (model, w2))"

definition train_until_good_pipeline :: "('w, 'm, 'd, 'p) components \<Rightarrow> 'w \<Rightarrow> ('m \<times> 'w) option" where
  "train_until_good_pipeline co w =
     (let (training_data, w1) = chicago_taxi_dataset co w;
          (true_values_table, w2) = pandas_transform co training_data w1;
          (true_values, w3) = drop_header co true_values_table w2;
          (first_model, w4) = xgboost_train co training_data None 100 w3
      in train_until_low_error co training_data true_values first_model w4)"











section \<open>The knative server\<close>

definition hello_world :: "environ \<Rightarrow> string" where
  "hello_world env = ''Hello '' @ env_get_or env ''TARGET'' ''World'' @ ''!'' @ [CHR 0x0A]"

definition knative_port :: "environ \<Rightarrow> pyexn + int" where
  "knative_port env = (case env ''PORT'' of None \<Rightarrow> Inr 8080 | Some p \<Rightarrow> py_int p)"

end
