(* ===== verification/ExplainQuery.thy ===== *)
theory ExplainQuery
  imports PyFloat PyJson
begin

text \<open>
  The query for an explanation, \<open>src/examples/kfserving/query_explain.py\<close>: the reading of the command
  line, the request that is posted, and what is drawn of the answer. The data set, the HTTP call and
  the colouring of an image are outside.
\<close>

section \<open>The request\<close>

text \<open>
  What the command line asks for, once it is read: the endpoint, whether the input is a file (and then
  which), the number of the test image otherwise, and the parameters merged into the request.
\<close>

datatype explain_input = Input_file string | Test_image int

record explain_query =
  e_endpoint :: string
  e_source :: explain_input
  e_parameters :: json

definition read_arguments :: "string list \<Rightarrow> pyexn + explain_query" where
  "read_arguments argv =
     (if length argv < 3 then Inl (PyException [''No endpoint specified. ''])
      else
        let source = (if 3 < length argv
              then (case py_int (argv ! 3) of Inr i \<Rightarrow> Test_image i | Inl e \<Rightarrow> Input_file (argv ! 2))
              else Test_image 1002)
        in bindE (if 4 < length argv
              then (case loads (argv ! 4) of Inr j \<Rightarrow> Inr j | Inl e \<Rightarrow> Inl (PyException [''Failed to convert to json format. '']))
              else Inr (JObj [])) (\<lambda>ps.
           Inr \<lparr>e_endpoint = argv ! 1, e_source = source, e_parameters = ps\<rparr>))"

text \<open>The digit of a one-hot label: the last position from 1 on that is not zero, or 0.\<close>

fun actual_from :: "nat \<Rightarrow> nat \<Rightarrow> rat list \<Rightarrow> nat" where
  "actual_from x actual [] = actual"
| "actual_from x actual (l # ls) = actual_from (Suc x) (if l \<noteq> 0 then x else actual) ls"

definition actual_label :: "rat list \<Rightarrow> nat" where
  "actual_label labels = actual_from 1 0 (tl labels)"

text \<open>
  The input: a value read from a file, or an image of the data set, an array. Only an array has the
  method \<open>tolist\<close>.
\<close>

datatype explain_data = File_json json | Array json

fun to_list :: "explain_data \<Rightarrow> pyexn + json" where
  "to_list (File_json j) = Inl AttributeError"
| "to_list (Array j) = Inr j"

text \<open>\<open>input_image.update(parameters)\<close>, for parameters that are an object.\<close>

definition explain_request :: "explain_data \<Rightarrow> json \<Rightarrow> pyexn + json" where
  "explain_request inputs ps =
     bindE (to_list inputs) (\<lambda>image.
     let request = [(''instances'', JList [image])] in
     case ps of
       JObj kvs \<Rightarrow> Inr (JObj (AList.updates (map fst kvs) (map snd kvs) request))
     | JList xs \<Rightarrow> if xs = [] then Inr (JObj request) else Inl Unmodelled
     | JStr s \<Rightarrow> if s = [] then Inr (JObj request) else Inl (ValueError ''dictionary update sequence'')
     | _ \<Rightarrow> Inl TypeError)"

text \<open>
  With a third argument that is no number the second argument is the file that is opened, and the
  request cannot be built from what it holds.
\<close>

lemma explain_reads_second_argument:
  assumes "3 < length argv" and "py_int (argv ! 3) = Inl e" and "read_arguments argv = Inr q"
  shows "e_source q = Input_file (argv ! 2) \<and> explain_request (File_json j) (e_parameters q) = Inl AttributeError"
  using assms by (auto simp: read_arguments_def Let_def explain_request_def bindE_eq_Inr)

text \<open>The digit of the data set's one-hot label.\<close>

lemma actual_from_zeros: "list_all (\<lambda>l. l = 0) ls \<Longrightarrow> actual_from x a ls = a"
  by (induction ls arbitrary: x) simp_all

lemma actual_from_append: "actual_from x a (ls @ ms) = actual_from (x + length ls) (actual_from x a ls) ms"
  by (induction ls arbitrary: x a) simp_all

lemma actual_one_hot: "i < n \<Longrightarrow> actual_label ((replicate n 0)[i := 1]) = i"
proof (cases i)
  case 0
  assume "i < n"
  with 0 show ?thesis
    by (cases n) (simp_all add: actual_label_def actual_from_zeros list_all_iff)
next
  case (Suc j)
  assume "i < n"
  with Suc obtain m where n: "n = Suc m" "j < m" by (cases n) auto
  have u: "(replicate m (0 :: rat)) [j := 1] = replicate j 0 @ 1 # replicate (m - Suc j) 0"
    using n(2) by (simp add: upd_conv_take_nth_drop min_def)
  have "actual_label ((replicate n 0)[i := 1]) = actual_from 1 0 ((replicate m 0) [j := 1])"
    using Suc n by (simp add: actual_label_def)
  also have "\<dots> = Suc j"
    unfolding u by (simp add: actual_from_append actual_from_zeros list_all_iff)
  finally show ?thesis using Suc by simp
qed

section \<open>The answer\<close>

text \<open>
  \<open>res.ok\<close> holds when \<open>raise_for_status\<close> would not raise. The headers are the cookie written in the script; the
  line breaks inside the literal are joined, with the indentation of the lines.
\<close>

record http_answer =
  http_status :: nat
  http_json :: "pyexn + json"

definition res_ok :: "http_answer \<Rightarrow> bool" where
  "res_ok res \<longleftrightarrow> \<not> (400 \<le> http_status res \<and> http_status res < 600)"

definition explain_headers :: "(string \<times> string) list" where
  "explain_headers = [(''Cookie'',
     ''_oauth2_proxy=X29hdXRoMl9wcm94eS05ODhjYjVhYmY0ZjA0OGY2 '' @ replicate 15 (CHR '' '') @
     ''YzFjOTkwYzY0MGRiYTc5OC42SlpuNHBLOU9XdFNZX25LQjcxZHV3|'' @ replicate 15 (CHR '' '') @
     ''1652521865|hWbfwhRrs-NljWNfE7pEaoZPpOr98Dryf5ql8pSoooE='')]"

text \<open>
  The data set gives an image, already an array of three colours, and its one-hot label; \<open>label2rgb\<close>
  colours the regions of a mask over the image.
\<close>

record 'w explain_services =
  open_json :: "string \<Rightarrow> pyexn + json"
  test_image :: "int \<Rightarrow> pyexn + json"
  test_label :: "int \<Rightarrow> pyexn + rat list"
  post_json :: "string \<Rightarrow> json \<Rightarrow> (string \<times> string) list \<Rightarrow> ('w, http_answer) step_on"
  label2rgb :: "json \<Rightarrow> json \<Rightarrow> pyexn + json"

definition load_input :: "'w explain_services \<Rightarrow> explain_input \<Rightarrow> pyexn + explain_data \<times> string" where
  "load_input sv source = (case source of
     Input_file f \<Rightarrow> bindE (open_json sv f) (\<lambda>j. Inr (File_json j, ''unk''))
   | Test_image i \<Rightarrow> bindE (test_image sv i) (\<lambda>a. bindE (test_label sv i) (\<lambda>ls. Inr (Array a, show_nat (actual_label ls)))))"

text \<open>What a cell of the figure shows: nothing, or an image under a title.\<close>

datatype drawing = Axis_off | Shown json string

text \<open>
  \<open>len\<close> and the items of an array made of JSON; an array made of a value that is no list has neither. The
  lists are taken to be rectangular, as \<open>np.array\<close> demands.
\<close>

fun np_list :: "json \<Rightarrow> pyexn + json list" where
  "np_list (JList xs) = Inr xs"
| "np_list _ = Inl TypeError"

fun np_at :: "json \<Rightarrow> nat \<Rightarrow> pyexn + json" where
  "np_at (JList xs) i = (if i < length xs then Inr (xs ! i) else Inl IndexError)"
| "np_at _ i = Inl IndexError"

definition label_title :: "json \<Rightarrow> string \<Rightarrow> pyexn + string" where
  "label_title label actual = (case label of
     JInt i \<Rightarrow> Inr (''Positive for '' @ show_int i @ [CHR 0x0A] @ ''Actual '' @ actual)
   | _ \<Rightarrow> Inl Unmodelled)"

definition draw_cell :: "'w explain_services \<Rightarrow> json \<Rightarrow> json \<Rightarrow> json list \<Rightarrow> string \<Rightarrow> nat \<Rightarrow> pyexn + drawing" where
  "draw_cell sv temp masks labels actual i =
     (if length labels \<le> i then Inr Axis_off
      else bindE (np_at masks i) (\<lambda>mask.
           bindE (label2rgb sv mask temp) (\<lambda>image.
           bindE (label_title (labels ! i) actual) (\<lambda>title. Inr (Shown image title)))))"

fun draw_cells :: "'w explain_services \<Rightarrow> json \<Rightarrow> json \<Rightarrow> json list \<Rightarrow> string \<Rightarrow> nat list \<Rightarrow> pyexn + drawing list" where
  "draw_cells sv temp masks labels actual [] = Inr []"
| "draw_cells sv temp masks labels actual (i # is) =
     bindE (draw_cell sv temp masks labels actual i) (\<lambda>d.
     bindE (draw_cells sv temp masks labels actual is) (\<lambda>ds. Inr (d # ds)))"

text \<open>The figure has rows of five cells, as many as the labels need; a figure without rows is refused.\<close>

definition explain_figure :: "'w explain_services \<Rightarrow> string \<Rightarrow> json \<Rightarrow> pyexn + drawing list" where
  "explain_figure sv actual answer =
     bindE (bindE (py_item answer ''explanations'') (\<lambda>e. py_item e ''temp'')) (\<lambda>temp.
     bindE (bindE (py_item answer ''explanations'') (\<lambda>e. py_item e ''masks'')) (\<lambda>masks.
     bindE (bindE (bindE (py_item answer ''explanations'') (\<lambda>e. py_item e ''top_labels'')) np_list) (\<lambda>labels.
     let rows = (length labels + 4) div 5 in
     if rows = 0 then Inl (ValueError ''Number of rows must be a positive integer, not 0'')
     else draw_cells sv temp masks labels actual [0 ..< 5 * rows])))"

text \<open>The script: the figure it shows at the end.\<close>

definition explain_main :: "'w explain_services \<Rightarrow> string list \<Rightarrow> ('w, drawing list) step_on" where
  "explain_main sv argv =
     bindS (lift (read_arguments argv)) (\<lambda>q.
     bindS (lift (load_input sv (e_source q))) (\<lambda>(inputs, actual).
     bindS (lift (explain_request inputs (e_parameters q))) (\<lambda>request.
     bindS (post_json sv (e_endpoint q) request explain_headers) (\<lambda>res.
     if \<not> res_ok res then raiseS (External ''HTTPError'')
     else lift (bindE (http_json res) (explain_figure sv actual))))))"

text \<open>
  A query from a file is never sent, and always ends with an exception: what a file holds has no method
  \<open>tolist\<close>.
\<close>

lemma explain_file_not_sent:
  assumes "3 < length argv" and "py_int (argv ! 3) = Inl e"
  shows "\<exists>x. explain_main sv argv w = (Inl x, w)"
proof (cases "read_arguments argv")
  case (Inl x)
  then show ?thesis by (simp add: explain_main_def bindS_const raiseS_def)
next
  case (Inr q)
  have "e_source q = Input_file (argv ! 2)" using assms Inr by (auto simp: read_arguments_def Let_def bindE_eq_Inr)
  with Inr show ?thesis
    by (cases "open_json sv (argv ! 2)")
      (simp_all add: explain_main_def bindS_const raiseS_def load_input_def explain_request_def)
qed

lemma draw_cells_shown:
  assumes "\<And>i. i \<in> set is \<Longrightarrow> draw_cell sv temp masks labels actual i = Inr (f i)"
  shows "draw_cells sv temp masks labels actual is = Inr (map f is)"
  using assms by (induction "is") simp_all

text \<open>
  Every label is shown, in order, with its own mask over the image, and the cells that are left in the
  last row are switched off, four at the most.
\<close>

lemma explain_shows_labels:
  assumes "py_item answer ''explanations'' = Inr e" and "py_item e ''temp'' = Inr temp"
    and "py_item e ''masks'' = Inr (JList masks)" and "py_item e ''top_labels'' = Inr (JList (map JInt ls))"
    and "ls \<noteq> []" and "length ls \<le> length masks" and "\<And>m. label2rgb sv m temp = Inr (colour m)"
  shows "\<exists>n < 5. explain_figure sv actual answer = Inr (map (\<lambda>(m, l).
      Shown (colour m) (''Positive for '' @ show_int l @ [CHR 0x0A] @ ''Actual '' @ actual)) (zip masks ls) @ replicate n Axis_off)"
proof -
  let ?k = "length ls"
  let ?rows = "(?k + 4) div 5"
  let ?n = "5 * ?rows - ?k"
  let ?title = "\<lambda>l. ''Positive for '' @ show_int l @ [CHR 0x0A] @ ''Actual '' @ actual"
  let ?f = "\<lambda>i. if ?k \<le> i then Axis_off else Shown (colour (masks ! i)) (?title (ls ! i))"
  have k: "0 < ?k" using assms(5) by simp
  have n: "?k \<le> 5 * ?rows" "?n < 5" using div_mod_decomp [of "?k + 4" 5] by linarith+
  have rows: "?rows \<noteq> 0" using n(1) k by (metis le_zero_eq mult_0_right neq0_conv)
  have "draw_cell sv temp (JList masks) (map JInt ls) actual i = Inr (?f i)" for i
    using assms(6,7) by (simp add: draw_cell_def label_title_def)
  then have "draw_cells sv temp (JList masks) (map JInt ls) actual [0 ..< 5 * ?rows] = Inr (map ?f [0 ..< 5 * ?rows])"
    by (intro draw_cells_shown)
  also have "map ?f [0 ..< 5 * ?rows] = map ?f [0 ..< ?k] @ map ?f [?k ..< 5 * ?rows]"
    using upt_add_eq_append [of 0 ?k ?n] n(1) by simp
  also have "map ?f [?k ..< 5 * ?rows] = replicate ?n Axis_off"
    by (intro replicate_eqI) auto
  also have "map ?f [0 ..< ?k] = map (\<lambda>(m, l). Shown (colour m) (?title l)) (zip masks ls)"
    using assms(6) by (intro nth_equalityI) auto
  finally have "explain_figure sv actual answer =
      Inr (map (\<lambda>(m, l). Shown (colour m) (?title l)) (zip masks ls) @ replicate ?n Axis_off)"
    using rows by (simp add: explain_figure_def assms(1-4) Let_def)
  with n(2) show ?thesis by blast
qed

end
