(* ===== verification/CommandLine.thy ===== *)
theory CommandLine
  imports Prelude
begin

text \<open>
  The command lines of three entry points: the download of a model
  (\<open>examples/kserve-fluid/fluid/download_model.py\<close>), the image transformer
  (\<open>examples/kafka/docker-image/image_transformer/__main__.py\<close>) and the llava proxy
  (\<open>examples/api_proxy_llava/docker/models.py\<close>), over the part of \<open>argparse\<close> they use: named options
  with one value each, and the help option.
\<close>

section \<open>\<open>argparse\<close>\<close>

text \<open>An option: what is taken as its value (\<open>type\<close>), its default, and whether it must be given.\<close>

record cli_option =
  opt_string :: string
  opt_accepts :: "string \<Rightarrow> bool"
  opt_default :: "string option"
  opt_required :: bool

definition str_option :: "string \<Rightarrow> string \<Rightarrow> cli_option" where
  "str_option n d = \<lparr>opt_string = n, opt_accepts = (\<lambda>v. True), opt_default = Some d, opt_required = False\<rparr>"

definition required_option :: "string \<Rightarrow> cli_option" where
  "required_option n = \<lparr>opt_string = n, opt_accepts = (\<lambda>v. True), opt_default = None, opt_required = True\<rparr>"

text \<open>
  What an argument is taken for: an option with the value after its equals sign, if it has one, or the
  help, or an option nobody knows, or a value. An option may be abbreviated; an abbreviation of two
  is an error (status 2). Left open are \<open>--\<close> and one-dash clusters that begin with \<open>-h\<close>.
\<close>

datatype arg_kind = Option_arg string "string option" | Help_arg "string option" | Unknown_arg | Value_arg

definition negative_number :: "string \<Rightarrow> bool" where
  "negative_number a =
     (case a of [] \<Rightarrow> False | c # ds \<Rightarrow> c = CHR ''-'' \<and>
        (ds \<noteq> [] \<and> list_all is_digit ds \<or>
         (case dropWhile is_digit ds of [] \<Rightarrow> False | p # es \<Rightarrow> p = CHR ''.'' \<and> es \<noteq> [] \<and> list_all is_digit es)))"

definition as_kind :: "string \<Rightarrow> string option \<Rightarrow> arg_kind" where
  "as_kind name v = (if name = ''--help'' then Help_arg v else Option_arg name v)"

definition classify :: "string list \<Rightarrow> string \<Rightarrow> pyexn + arg_kind" where
  "classify names a =
     (let all = ''--help'' # names;
          (front, back) = (case cut ''='' a of None \<Rightarrow> (a, None) | Some (o', v) \<Rightarrow> (o', Some v));
          matches = List.filter (\<lambda>n. starts_with n front) all
      in if \<not> starts_with a ''-'' then Inr Value_arg
         else if a = ''-h'' then Inr (Help_arg None)
         else if a \<in> set all then Inr (as_kind a None)
         else if a = ''-'' then Inr Value_arg
         else if a = ''--'' \<or> starts_with a ''-h'' then Inl Unmodelled
         else if back \<noteq> None \<and> front \<in> set all then Inr (as_kind front back)
         else if starts_with a ''--'' \<and> length matches > 1 then Inl (SystemExit 2)
         else if starts_with a ''--'' \<and> length matches = 1 then Inr (as_kind (hd matches) back)
         else if negative_number a then Inr Value_arg
         else if CHR '' '' \<in> set a then Inr Value_arg
         else Inr Unknown_arg)"

fun classify_all :: "string list \<Rightarrow> string list \<Rightarrow> pyexn + (string \<times> arg_kind) list" where
  "classify_all names [] = Inr []"
| "classify_all names (a # as) =
     bindE (classify names a) (\<lambda>k. bindE (classify_all names as) (\<lambda>ks. Inr ((a, k) # ks)))"

text \<open>
  The arguments from the left, each with its kind: an option without an equals sign takes the value after
  it. The result is the values given, the last one of an option counting, and the arguments nobody took.
\<close>

fun consume :: "(string \<Rightarrow> string \<Rightarrow> bool) \<Rightarrow> (string \<times> arg_kind) list \<Rightarrow> (string \<rightharpoonup> string) \<Rightarrow>
    pyexn + (string \<rightharpoonup> string) \<times> string list" where
  "consume ok [] given = Inr (given, [])"
| "consume ok ((a, Help_arg v) # ks) given = Inl (SystemExit (if v = None then 0 else 2))"
| "consume ok ((a, Option_arg n (Some v)) # ks) given =
     (if ok n v then consume ok ks (given(n \<mapsto> v)) else Inl (SystemExit 2))"
| "consume ok ((a, Option_arg n None) # (v, Value_arg) # ks) given =
     (if ok n v then consume ok ks (given(n \<mapsto> v)) else Inl (SystemExit 2))"
| "consume ok ((a, Option_arg n None) # ks) given = Inl (SystemExit 2)"
| "consume ok ((a, k) # ks) given = bindE (consume ok ks given) (\<lambda>(g, extra). Inr (g, a # extra))"

text \<open>The value of each option: the one given, or the default; a required one must be given.\<close>

definition accepts :: "cli_option list \<Rightarrow> string \<Rightarrow> string \<Rightarrow> bool" where
  "accepts options n v = list_all (\<lambda>opt. opt_string opt = n \<longrightarrow> opt_accepts opt v) options"

definition parse_known_args :: "cli_option list \<Rightarrow> string list \<Rightarrow> pyexn + (string \<rightharpoonup> string) \<times> string list" where
  "parse_known_args options argv =
     bindE (classify_all (map opt_string options) argv) (\<lambda>ks.
     bindE (consume (accepts options) ks Map.empty) (\<lambda>(given, extra).
     if list_ex (\<lambda>opt. opt_required opt \<and> given (opt_string opt) = None) options then Inl (SystemExit 2)
     else Inr (map_of (List.map_filter (\<lambda>opt. map_option (Pair (opt_string opt)) (opt_default opt)) options) ++ given, extra)))"

definition parse_args :: "cli_option list \<Rightarrow> string list \<Rightarrow> pyexn + (string \<rightharpoonup> string)" where
  "parse_args options argv =
     bindE (parse_known_args options argv) (\<lambda>(values, extra). if extra = [] then Inr values else Inl (SystemExit 2))"

text \<open>
  Options that begin with two dashes, given in full with values that do not begin with a dash, are read
  back, the last value of an option counting.
\<close>

definition plain_value :: "string \<Rightarrow> bool" where
  "plain_value v \<longleftrightarrow> \<not> starts_with v ''-''"

definition option_name :: "string \<Rightarrow> bool" where
  "option_name n \<longleftrightarrow> starts_with n ''--'' \<and> n \<noteq> ''--help''"

definition rendered :: "(string \<times> string) list \<Rightarrow> string list" where
  "rendered kvs = concat (map (\<lambda>(n, v). [n, v]) kvs)"

lemma classify_value: "plain_value v \<Longrightarrow> classify names v = Inr Value_arg"
  by (simp add: classify_def plain_value_def split_beta Let_def)

lemma classify_name:
  assumes "n \<in> set names" and "option_name n"
  shows "classify names n = Inr (Option_arg n None)"
proof -
  obtain r where n: "n = ''--'' @ r" using assms(2) by (auto simp: option_name_def starts_with_iff)
  then have "starts_with n ''-''" "n \<noteq> ''-h''" by (simp_all add: starts_with_def)
  with assms show ?thesis by (simp add: classify_def option_name_def as_kind_def split_beta Let_def)
qed

lemma classify_rendered:
  "\<forall>(n, v) \<in> set kvs. n \<in> set names \<and> option_name n \<and> plain_value v \<Longrightarrow>
   classify_all names (rendered kvs) = Inr (concat (map (\<lambda>(n, v). [(n, Option_arg n None), (v, Value_arg)]) kvs))"
  by (induction kvs) (auto simp: rendered_def classify_name classify_value)

lemma consume_rendered:
  "\<forall>(n, v) \<in> set kvs. ok n v \<Longrightarrow>
   consume ok (concat (map (\<lambda>(n, v). [(n, Option_arg n None), (v, Value_arg)]) kvs)) given = Inr (given ++ map_of (rev kvs), [])"
proof (induction kvs arbitrary: given)
  case Nil
  show ?case by simp
next
  case (Cons kv kvs)
  obtain n v where kv: "kv = (n, v)" by (cases kv)
  from Cons.prems have "ok n v" "\<forall>(n, v) \<in> set kvs. ok n v" by (simp_all add: kv)
  moreover have "given(n \<mapsto> v) ++ m = given ++ [n \<mapsto> v] ++ m" for m
    by (simp add: map_add_def fun_eq_iff split: option.split)
  ultimately show ?case by (simp only: kv Cons.IH list.map prod.case concat.simps append.simps consume.simps if_True rev.simps
      map_of_append map_of.simps map_add_assoc fst_conv snd_conv)
qed

lemma parse_rendered:
  assumes "\<forall>(n, v) \<in> set kvs. n \<in> opt_string ` set options \<and> option_name n \<and> plain_value v \<and> accepts options n v"
    and "\<forall>opt \<in> set options. opt_required opt \<longrightarrow> opt_string opt \<in> fst ` set kvs"
  shows "parse_args options (rendered kvs) =
    Inr (map_of (List.map_filter (\<lambda>opt. map_option (Pair (opt_string opt)) (opt_default opt)) options) ++ map_of (rev kvs))"
proof -
  have "classify_all (map opt_string options) (rendered kvs) =
      Inr (concat (map (\<lambda>(n, v). [(n, Option_arg n None), (v, Value_arg)]) kvs))"
    using assms(1) by (intro classify_rendered) auto
  moreover have "consume (accepts options) (concat (map (\<lambda>(n, v). [(n, Option_arg n None), (v, Value_arg)]) kvs)) Map.empty =
      Inr (map_of (rev kvs), [])"
    using assms(1) consume_rendered [of kvs "accepts options" Map.empty] by auto
  moreover have "\<not> list_ex (\<lambda>opt. opt_required opt \<and> map_of (rev kvs) (opt_string opt) = None) options"
    using assms(2) by (auto simp: list_ex_iff map_of_eq_None_iff)
  ultimately show ?thesis by (simp add: parse_args_def parse_known_args_def)
qed

section \<open>The download of a model\<close>

text \<open>
  \<open>download_model.py\<close>: the directory is made, the snapshot is downloaded below it, and the first of the
  directories of snapshots found there is printed.
\<close>

definition download_options :: "cli_option list" where
  "download_options =
     [str_option ''--model_name'' ''bigscience/bloom-560m'', str_option ''--model_dir'' ''models'', str_option ''--revision'' ''main'']"

record 'w download_services =
  mkdir_exist_ok :: "string \<Rightarrow> ('w, unit) step_on"
  snapshot_download :: "string \<Rightarrow> string \<Rightarrow> string \<Rightarrow> ('w, unit) step_on"
  glob_snapshots :: "string \<Rightarrow> ('w, string list) step_on"

definition export_first :: "string list \<Rightarrow> ('w, string) step_on" where
  "export_first dirs = (case dirs of [] \<Rightarrow> raiseS IndexError | d # ds \<Rightarrow> returnS (''export output_dir='' @ d))"

definition download_main :: "'w download_services \<Rightarrow> string list \<Rightarrow> ('w, string) step_on" where
  "download_main sv argv =
     bindS (lift (parse_args download_options argv)) (\<lambda>args.
     let model_name = the (args ''--model_name''); revision = the (args ''--revision''); model_dir = the (args ''--model_dir'') in
     bindS (mkdir_exist_ok sv model_dir) (\<lambda>_.
     bindS (snapshot_download sv model_name revision model_dir) (\<lambda>_.
     bindS (glob_snapshots sv model_dir) export_first)))"

section \<open>The start of the image transformer\<close>

text \<open>
  \<open>__main__.py\<close>. The options of the parser of \<open>kserve\<close> come first; \<open>add_argument\<close> refuses an option that is
  there already. Arguments nobody knows are left.
\<close>

record transformer_object =
  served_name :: string
  predictor_host :: string
  transformer_ready :: bool
  transformer_key :: "string option"

definition new_transformer :: "string \<Rightarrow> string \<Rightarrow> transformer_object" where
  "new_transformer name host = \<lparr>served_name = name, predictor_host = host, transformer_ready = True, transformer_key = None\<rparr>"

definition add_argument :: "cli_option list \<Rightarrow> cli_option \<Rightarrow> pyexn + cli_option list" where
  "add_argument options opt =
     (if opt_string opt \<in> set (map opt_string options) then Inl (External ''ArgumentError'') else Inr (options @ [opt]))"

definition transformer_main :: "cli_option list \<Rightarrow> string list \<Rightarrow> pyexn + transformer_object" where
  "transformer_main kserve_options argv =
     bindE (add_argument kserve_options (str_option ''--model_name'' ''model'')) (\<lambda>options.
     bindE (add_argument options (required_option ''--predictor_host'')) (\<lambda>options'.
     bindE (parse_known_args options' argv) (\<lambda>(args, extra).
     Inr (new_transformer (the (args ''--model_name'')) (the (args ''--predictor_host''))))))"

section \<open>The start of the llava proxy\<close>

text \<open>
  \<open>models.py\<close> imports \<open>create_aps\<close> from \<open>apps.py\<close>, with the names that module defines; the application would be
  created with the URL given.
\<close>

definition apps_names :: "string list" where
  "apps_names = [''os'', ''Flask'', ''request'', ''logging'', ''signal'', ''SIGINT'', ''requests'', ''BaseModel'',
     ''ValidationError'', ''field_validator'', ''Optional'', ''List'', ''Any'', ''Messages'', ''Query'', ''MODEL_URL'', ''create_app'']"

definition import_name :: "string list \<Rightarrow> string \<Rightarrow> pyexn + unit" where
  "import_name names n = (if n \<in> set names then Inr () else Inl (ImportError n))"

definition llava_main :: "string list \<Rightarrow> string list \<Rightarrow> pyexn + string" where
  "llava_main names argv =
     bindE (import_name names ''create_aps'') (\<lambda>_.
     bindE (parse_known_args [required_option ''--api_url''] argv) (\<lambda>(args, extra). Inr (the (args ''--api_url''))))"

section \<open>What they do\<close>

lemmas parsing = parse_args_def parse_known_args_def classify_def as_kind_def accepts_def str_option_def required_option_def
  starts_with_def cut.simps negative_number_def map_filter_def is_digit_def

text \<open>Without arguments the download uses its three defaults.\<close>

lemma download_defaults: "parse_args download_options [] =
    Inr (Map.empty(''--model_name'' \<mapsto> ''bigscience/bloom-560m'', ''--model_dir'' \<mapsto> ''models'', ''--revision'' \<mapsto> ''main''))"
  by (simp add: download_options_def parsing fun_eq_iff)

text \<open>
  The abbreviation \<open>--model\<close> is an error there, since two options begin with it, and the name of the model
  for the transformer. The transformer does not start without a host.
\<close>

lemma download_model_ambiguous: "download_main sv [''--model'', v] w = (Inl (SystemExit 2), w)"
  by (simp add: download_main_def download_options_def parsing bindS_const)

lemma transformer_model_abbreviated:
  "plain_value m \<Longrightarrow> plain_value h \<Longrightarrow>
   transformer_main [] [''--model'', m, ''--predictor_host'', h] = Inr (new_transformer m h)"
  by (simp add: transformer_main_def add_argument_def parse_known_args_def classify_value) (simp add: parsing)

lemma transformer_needs_host: "transformer_main [] [] = Inl (SystemExit 2)"
  by (simp add: transformer_main_def add_argument_def parsing)

text \<open>With the names \<open>apps.py\<close> defines the proxy never starts.\<close>

lemma llava_never_starts: "llava_main apps_names argv = Inl (ImportError ''create_aps'')"
  by (simp add: llava_main_def import_name_def apps_names_def)

text \<open>
  Whatever the names and the place are, the download with its options written out asks for that model, at
  that revision and below that directory, and prints the first snapshot found there.
\<close>

lemma download_as_asked:
  assumes "plain_value m" and "plain_value d" and "plain_value r"
  shows "download_main sv [''--model_name'', m, ''--model_dir'', d, ''--revision'', r] =
    bindS (mkdir_exist_ok sv d) (\<lambda>_. bindS (snapshot_download sv m r d) (\<lambda>_. bindS (glob_snapshots sv d) export_first))"
proof -
  let ?kvs = "[(''--model_name'', m), (''--model_dir'', d), (''--revision'', r)]"
  have "parse_args download_options (rendered ?kvs) =
      Inr (map_of (List.map_filter (\<lambda>opt. map_option (Pair (opt_string opt)) (opt_default opt)) download_options) ++ map_of (rev ?kvs))"
    using assms by (intro parse_rendered) (simp_all add: download_options_def str_option_def option_name_def starts_with_def accepts_def)
  then show ?thesis by (simp add: download_main_def rendered_def bindS_const)
qed

end
