(* ===== verification/ServerRuns.thy ===== *)
theory ServerRuns
  imports ModelServers
begin

text \<open>
  The two model servers over many requests: Flask runs \<open>init\<close> before the first request, and again
  before the next one as long as it has failed; afterwards requests go to \<open>predict\<close> alone.
\<close>

section \<open>A server with a step before the first request\<close>

text \<open>
  The state is whether \<open>init\<close> has returned, the globals and the world. A request comes with the files as
  they are then; its answer is an exception when one reaches Flask (status 500).
\<close>

type_synonym 'w running = "bool \<times> server \<times> 'w"

type_synonym answer = "pyexn + nat \<times> body"

definition serve ::
    "(server \<times> 'w, unit) step_on \<Rightarrow> (server \<Rightarrow> json \<Rightarrow> ('w, nat \<times> body) step_on) \<Rightarrow> json \<Rightarrow> 'w running \<Rightarrow> answer \<times> 'w running" where
  "serve init predict request st =
     (case st of (started, s, w) \<Rightarrow>
        case (if started then (Inr (), (s, w)) else init (s, w)) of
          (Inl e, (s', w')) \<Rightarrow> (Inl e, (False, s', w'))
        | (Inr u, (s', w')) \<Rightarrow> (case predict s' request w' of (r, w'') \<Rightarrow> (r, (True, s', w''))))"

fun run_server ::
    "('f \<Rightarrow> (server \<times> 'w, unit) step_on) \<Rightarrow> (server \<Rightarrow> json \<Rightarrow> ('w, nat \<times> body) step_on) \<Rightarrow>
     ('f \<times> json) list \<Rightarrow> 'w running \<Rightarrow> answer list \<times> 'w running" where
  "run_server init predict [] st = ([], st)"
| "run_server init predict ((f, request) # rs) st =
     (case serve (init f) predict request st of (r, st') \<Rightarrow>
      case run_server init predict rs st' of (rs', st'') \<Rightarrow> (r # rs', st''))"

definition run_llm :: "'w model_services \<Rightarrow> cuda \<Rightarrow> server_env \<Rightarrow> (files \<times> json) list \<Rightarrow> 'w running \<Rightarrow> answer list \<times> 'w running" where
  "run_llm sv c e = run_server (\<lambda>fs. init_llm sv c fs e) (\<lambda>s. predict_llm (generate sv) (model_prompt_template s))"

definition run_fluid :: "'w model_services \<Rightarrow> cuda \<Rightarrow> server_env \<Rightarrow> (files \<times> json) list \<Rightarrow> 'w running \<Rightarrow> answer list \<times> 'w running" where
  "run_fluid sv c e = run_server (\<lambda>fs. init_fluid sv c e) (\<lambda>s. predict_fluid (generate_ids sv) (gpu_enabled e))"

text \<open>The answers to requests one after another, by a step that is the same for all.\<close>

fun predictions :: "(json \<Rightarrow> ('w, nat \<times> body) step_on) \<Rightarrow> json list \<Rightarrow> 'w \<Rightarrow> answer list \<times> 'w" where
  "predictions predict [] w = ([], w)"
| "predictions predict (request # rs) w =
     (case predict request w of (r, w') \<Rightarrow> case predictions predict rs w' of (rs', w'') \<Rightarrow> (r # rs', w''))"

lemma run_server_append:
  "run_server init predict (rs @ rs') st =
     (case run_server init predict rs st of (a, st') \<Rightarrow> case run_server init predict rs' st' of (a', st'') \<Rightarrow> (a @ a', st''))"
  by (induction rs arbitrary: st) (auto split: prod.split)

lemma run_started:
  "run_server init predict rs (True, s, w) =
     (case predictions (predict s) (map snd rs) w of (a, w') \<Rightarrow> (a, (True, s, w')))"
  by (induction rs arbitrary: w) (auto simp: serve_def split: prod.split)

text \<open>
  What the servers rely on: an \<open>init\<close> that fails leaves the model unset.
\<close>

locale loading_server =
  fixes init :: "'f \<Rightarrow> (server \<times> 'w, unit) step_on"
    and predict :: "server \<Rightarrow> json \<Rightarrow> ('w, nat \<times> body) step_on"
  assumes failed: "init f (s, w) = (Inl x, (s', w')) \<Longrightarrow> \<not> has_model s \<Longrightarrow> \<not> has_model s'"
begin

text \<open>As long as no request has found the model loaded, all have been answered by exceptions.\<close>

lemma run_waiting:
  "run_server init predict rs (False, s, w) = (as, (False, s', w')) \<Longrightarrow> \<not> has_model s \<Longrightarrow>
   \<not> has_model s' \<and> list_all isl as"
proof (induction rs arbitrary: s w as)
  case Nil
  then show ?case by simp
next
  case (Cons r rs)
  obtain f request where r: "r = (f, request)" by (cases r)
  obtain x s1 w1 where i: "init f (s, w) = (x, (s1, w1))" by (cases "init f (s, w)") auto
  show ?case
  proof (cases x)
    case (Inl e)
    with i Cons.prems(2) have "\<not> has_model s1" using failed by blast
    with Cons.IH [of s1 w1 "tl as"] Cons.prems i Inl r show ?thesis
      by (auto simp: serve_def split: prod.splits)
  next
    case (Inr u)
    with Cons.prems i r show ?thesis
      by (auto simp: serve_def run_started split: prod.splits)
  qed
qed

lemma run_first:
  assumes "run_server init predict pre (False, s, w) = (as, (False, s1, w1))"
    and "init f (s1, w1) = (Inr (), (s2, w2))"
  shows "run_server init predict (pre @ (f, request) # post) (False, s, w) =
    (case predictions (predict s2) (request # map snd post) w2 of (as', w3) \<Rightarrow> (as @ as', (True, s2, w3)))"
  using assms by (auto simp: run_server_append serve_def run_started split: prod.split)

end

interpretation llm_server: loading_server "\<lambda>fs. init_llm sv c fs e" "\<lambda>s. predict_llm (generate sv) (model_prompt_template s)"
  for sv :: "'w model_services" and c and e
  by unfold_locales (auto simp: inits split: if_splits prod.splits sum.splits)

interpretation fluid_server: loading_server "\<lambda>fs. init_fluid sv c e" "\<lambda>s. predict_fluid (generate_ids sv) (gpu_enabled e)"
  for sv :: "'w model_services" and c and e
  by unfold_locales (auto simp: inits split: if_splits prod.splits sum.splits)

section \<open>What holds over a run\<close>

lemma init_llm_template:
  assumes "init_llm sv c fs e (s, w) = (Inr (), (s', w'))" and "\<not> has_model s"
  shows "model_prompt_template s' = get_prompt_template fs (model_url e)"
  using assms by (auto simp: inits split: if_splits prod.splits sum.splits)

text \<open>
  C31. Until the model is loaded every request is answered by an exception; the request that loads it
  fixes the template for good: it and all later ones are answered with the template that the file held
  then, whatever becomes of the file, and nothing is loaded again.
\<close>

theorem llm_template_of_load:
  assumes "run_llm sv c e pre (False, no_model, w) = (as, (False, s1, w1))"
    and "init_llm sv c fs e (s1, w1) = (Inr (), (s2, w2))"
  shows "list_all isl as \<and> loaded s2 \<and>
    run_llm sv c e (pre @ (fs, request) # post) (False, no_model, w) =
      (case predictions (predict_llm (generate sv) (get_prompt_template fs (model_url e))) (request # map snd post) w2 of
         (as', w3) \<Rightarrow> (as @ as', (True, s2, w3)))"
proof -
  have waiting: "\<not> has_model s1" "list_all isl as"
    using llm_server.run_waiting [OF assms(1) [unfolded run_llm_def]] by (simp_all add: no_model_def)
  have "model_prompt_template s2 = get_prompt_template fs (model_url e)"
    using init_llm_template [OF assms(2) waiting(1)] .
  with llm_server.run_first [OF assms(1) [unfolded run_llm_def] assms(2)] waiting(2) init_loads(2) [OF disjI1 [OF refl] assms(2)]
  show ?thesis by (simp add: run_llm_def)
qed

text \<open>The other server: the same, with its one way to answer.\<close>

lemma fluid_answers_once_loaded:
  assumes "run_fluid sv c e pre (False, no_model, w) = (as, (False, s1, w1))"
    and "init_fluid sv c e (s1, w1) = (Inr (), (s2, w2))"
  shows "list_all isl as \<and> loaded s2 \<and>
    run_fluid sv c e (pre @ (fs, request) # post) (False, no_model, w) =
      (case predictions (predict_fluid (generate_ids sv) (gpu_enabled e)) (request # map snd post) w2 of
         (as', w3) \<Rightarrow> (as @ as', (True, s2, w3)))"
  using fluid_server.run_first [OF assms(1) [unfolded run_fluid_def] assms(2)] init_loads(2) [OF disjI2 [OF refl] assms(2)]
    fluid_server.run_waiting [OF assms(1) [unfolded run_fluid_def]]
  by (simp add: run_fluid_def no_model_def)

text \<open>A download that fails once, a template file that changes after the load.\<close>

definition flaky_services :: "nat model_services" where
  "flaky_services = \<lparr>load_tokenizer = (\<lambda>u n. (Inr (), Suc n)),
     load_model = (\<lambda>u b n. if n < 2 then (Inl (External ''OSError''), Suc n) else (Inr (), Suc n)),
     generate = (\<lambda>s k n. (Inr s, Suc n)), generate_ids = (\<lambda>s b k. returnS [])\<rparr>"

definition template_file :: "string \<Rightarrow> files" where
  "template_file t = [''/mnt/models/prompt_template.txt'' \<mapsto> t]"

lemma llm_template_of_load_witness:
  "run_llm flaky_services \<lparr>cuda_available = False, cuda_devices = []\<rparr> (read_env Map.empty)
     [(Map.empty, JObj []), (template_file ''a{prompt}'', JObj [(''prompt'', JStr ''x'')]), (template_file ''b'', JObj [(''prompt'', JStr ''y'')])]
     (False, no_model, 0) =
   ([Inl (External ''OSError''), Inr (result_body ''ax''), Inr (result_body ''ay'')],
    (True, \<lparr>has_model = True, has_tokenizer = True, model_prompt_template = Some ''a{prompt}''\<rparr>, 6))"
proof -
  let ?c = "\<lparr>cuda_available = False, cuda_devices = []\<rparr>" and ?e = "read_env Map.empty"
  let ?s1 = "\<lparr>has_model = False, has_tokenizer = True, model_prompt_template = None\<rparr>"
  let ?s2 = "\<lparr>has_model = True, has_tokenizer = True, model_prompt_template = Some ''a{prompt}''\<rparr>"
  have path: "path_join (model_url ?e) [''prompt_template.txt''] = ''/mnt/models/prompt_template.txt''"
    by (simp add: path_join_def path_join2_def read_env_def env_get_or_def starts_with_def ends_with_def)
  note ev = inits check_gpu_def flaky_services_def get_prompt_template_def path no_model_def Let_def template_file_def
  have pre: "run_llm flaky_services ?c ?e [(Map.empty, JObj [])] (False, no_model, 0) = ([Inl (External ''OSError'')], (False, ?s1, 2))"
    by (simp add: run_llm_def serve_def ev)
  have load: "init_llm flaky_services ?c (template_file ''a{prompt}'') ?e (?s1, 2) = (Inr (), (?s2, 4))"
    by (simp add: ev)
  have fill: "predict_llm (generate flaky_services) (Some ''a{prompt}'') (JObj [(''prompt'', JStr p)]) n = (Inr (result_body (''a'' @ p)), Suc n)" for p n
    by (simp add: predict_llm_def choose_template_def fill_template_def str_format.simps field_value_def convert_def is_digit_def
        starts_with_def get_or_def flaky_services_def bindS_def lift_def returnS_def)
  show ?thesis
    using llm_template_of_load [OF pre load, of "JObj [(''prompt'', JStr ''x'')]" "[(template_file ''b'', JObj [(''prompt'', JStr ''y'')])]"]
    by (simp add: fill get_prompt_template_def path) (simp add: template_file_def fill)
qed

end
