(* ===== verification/SeaweedStore.thy ===== *)
theory SeaweedStore
  imports SeaweedLoop SeaweedPolicy
begin

text \<open>
  What the credentials open that \<open>sync_seaweed.py\<close> hands out: the loop around the script, the
  object store behind the IAM interface and the policies together. The store is a parameter still; what
  is relied on is stated of the two calls the script makes.
\<close>

section \<open>The store\<close>

text \<open>
  The store keeps the access keys it has issued, with the user of each, and the policies of each user by
  name. Creating a key gives a new identifier and a secret for the user; a call that fails
  may still have taken effect.
\<close>

record 'w store_view =
  issued :: "'w \<Rightarrow> (json \<times> string \<times> string) list"
  policies :: "'w \<Rightarrow> json \<Rightarrow> string \<rightharpoonup> string"

definition key_ids :: "(json \<times> string \<times> string) list \<Rightarrow> string list" where
  "key_ids ks = map (\<lambda>(u, a, s). a) ks"

definition creates_keys :: "'w iam_client \<Rightarrow> 'w store_view \<Rightarrow> bool" where
  "creates_keys iam st \<longleftrightarrow> (\<forall>u w r w'. create_access_key iam u w = (r, w') \<longrightarrow>
     policies st w' = policies st w \<and>
     (\<exists>a s. a \<notin> set (key_ids (issued st w)) \<and>
        (case r of
           Inr reply \<Rightarrow> issued st w' = issued st w @ [(u, a, s)] \<and>
             access_key_field reply ''AccessKeyId'' = Inr a \<and> access_key_field reply ''SecretAccessKey'' = Inr s
         | Inl e \<Rightarrow> issued st w' \<in> {issued st w, issued st w @ [(u, a, s)]})))"

definition puts_policies :: "'w iam_client \<Rightarrow> 'w store_view \<Rightarrow> bool" where
  "puts_policies iam st \<longleftrightarrow> (\<forall>u name doc w r w'. put_user_policy iam u name doc w = (r, w') \<longrightarrow>
     issued st w' = issued st w \<and>
     policies st w' \<in> {(policies st w)(u := (policies st w u)(name \<mapsto> doc))} \<union>
       (case r of Inr v \<Rightarrow> {} | Inl e \<Rightarrow> {policies st w}))"

text \<open>A request for an object is let through for the key of a user one of whose policies allows it.\<close>

definition opens :: "'w store_view \<Rightarrow> 'w \<Rightarrow> string \<times> string \<Rightarrow> string \<Rightarrow> bool" where
  "opens st w key object_path \<longleftrightarrow>
     (\<exists>u name doc. (u, key) \<in> set (issued st w) \<and> policies st w u name = Some doc \<and> policy_allows doc object_path)"

section \<open>What a call does to the store\<close>

definition policy_name :: "string \<Rightarrow> string" where
  "policy_name ns = ''KubeflowProject'' @ ns"

text \<open>
  Seen from a profile: identifiers stay unique, keys are never taken back, its policies are none but
  the project's, and that one stays.
\<close>

definition store_grows :: "string \<Rightarrow> 'w store_view \<Rightarrow> 'w \<Rightarrow> 'w \<Rightarrow> bool" where
  "store_grows ns st w w' \<longleftrightarrow>
     (distinct (key_ids (issued st w)) \<longrightarrow> distinct (key_ids (issued st w'))) \<and>
     set (issued st w) \<subseteq> set (issued st w') \<and>
     policies st w' (JStr ns) \<in>
       {policies st w (JStr ns), (policies st w (JStr ns))(policy_name ns \<mapsto> dumps (project_policy ns))}"

lemma store_grows_refl [simp]: "store_grows ns st w w"
  by (simp add: store_grows_def)

lemma store_grows_trans: "store_grows ns st w v \<Longrightarrow> store_grows ns st v u \<Longrightarrow> store_grows ns st w u"
  by (auto simp: store_grows_def)

lemma create_grows:
  assumes "creates_keys iam st" and "create_access_key iam u w = (r, w')"
  shows "store_grows ns st w w'"
  using assms(1) [unfolded creates_keys_def, rule_format, OF assms(2)]
  by (cases r) (auto simp: store_grows_def key_ids_def)

lemma put_grows:
  assumes "puts_policies iam st"
    and "put_user_policy iam (JStr m) (policy_name m) (dumps (project_policy m)) w = (r, w')"
  shows "store_grows ns st w w'"
  using assms(1) [unfolded puts_policies_def, rule_format, OF assms(2)]
  by (auto simp: store_grows_def split: sum.splits)

text \<open>A Secret that gives the key of the profile's user, whose policy is there.\<close>

definition good_secret :: "string \<Rightarrow> 'w store_view \<Rightarrow> 'w \<Rightarrow> json \<Rightarrow> bool" where
  "good_secret ns st w r \<longleftrightarrow>
     (\<exists>a s. r = seaweed_secret (JStr ns) a s \<and> (JStr ns, a, s) \<in> set (issued st w)) \<and>
     policies st w (JStr ns) (policy_name ns) = Some (dumps (project_policy ns))"

lemma good_secret_grows: "good_secret ns st w r \<Longrightarrow> store_grows ns st w w' \<Longrightarrow> good_secret ns st w' r"
  by (auto simp: good_secret_def store_grows_def)

lemma credentials_store:
  assumes "creates_keys iam st" and "puts_policies iam st"
    and "create_credentials iam m (JStr m) w = (r, w')"
  shows "store_grows ns st w w'" and "r = Inr secret \<Longrightarrow> good_secret m st w' secret"
proof -
  obtain c w1 where c: "create_access_key iam (JStr m) w = (c, w1)" by fastforce
  obtain p w2 where p: "put_user_policy iam (JStr m) (policy_name m) (dumps (project_policy m)) w1 = (p, w2)" by fastforce
  have "w' = w1 \<or> w' = w2" using assms(3) c p
    by (auto simp: create_credentials_def policy_name_def simp del: dumps.simps split: sum.splits)
  with create_grows [OF assms(1) c] put_grows [OF assms(2) p] show "store_grows ns st w w'" by (blast intro: store_grows_trans)
  assume "r = Inr secret"
  then obtain reply where r: "c = Inr reply" "secret_of_reply (JStr m) reply = Inr secret" "isl p \<longrightarrow> False" "w' = w2"
    using assms(3) c p by (auto simp: create_credentials_def policy_name_def simp del: dumps.simps split: sum.splits)
  obtain a s where k: "issued st w1 = issued st w @ [(JStr m, a, s)]" "access_key_field reply ''AccessKeyId'' = Inr a"
      "access_key_field reply ''SecretAccessKey'' = Inr s"
    using assms(1) [unfolded creates_keys_def, rule_format, OF c] r(1) by auto
  moreover have "issued st w2 = issued st w1"
      "policies st w2 = (policies st w1)(JStr m := (policies st w1 (JStr m))(policy_name m \<mapsto> dumps (project_policy m)))"
    using assms(2) [unfolded puts_policies_def, rule_format, OF p] r(3) by (auto split: sum.splits)
  ultimately show "good_secret m st w' secret"
    using r(2,4) by (auto simp: good_secret_def secret_of_reply_def)
qed

section \<open>The loop\<close>

definition secrets_of :: "json list \<Rightarrow> json set" where
  "secrets_of rs = {r \<in> set rs. group_key r = Some ''Secret.v1''}"

lemma resources_no_secret: "secrets_of (seaweed_resources nss ns) = {}"
  by (auto simp: secrets_of_def seaweed_resources_def)

text \<open>A call never makes up a Secret: it hands on one it has seen, or a new one.\<close>

lemma call_secrets:
  assumes "creates_keys iam st" and "puts_policies iam st" and "parent_name parent = Inr (JStr m)"
    and "sync_seaweed iam parent (observation rs (map fst seaweed_checks)) w = (out, r, w')"
  shows "store_grows ns st w w'"
    and "r = Inr resp \<Longrightarrow> \<forall>x \<in> secrets_of (response_items ''attachments'' resp). x \<in> secrets_of rs \<or> good_secret m st w' x"
proof -
  let ?o = "observation rs (map fst seaweed_checks)"
  have items: "response_items ''attachments'' (seaweed_answer b xs) = xs" for b xs
    by (simp add: response_items_def seaweed_answer_def)
  have off: "w' = w \<and> (r = Inr resp \<longrightarrow> response_items ''attachments'' resp = [])" if "\<not> is_enabled parent"
    using assms(4) that by (auto simp: sync_seaweed_def assms(3) is_enabled_def bindE_eq_Inr response_items_def split: sum.splits)
  have on: "store_grows ns st w w' \<and> (r = Inr resp \<longrightarrow>
      (\<forall>x \<in> secrets_of (response_items ''attachments'' resp). x \<in> secrets_of rs \<or> good_secret m st w' x))" if en: "is_enabled parent"
  proof -
    obtain ready where ready: "all_counts ?o seaweed_checks = Inr ready" using observation_counts by blast
    note enabled = sync_seaweed_enabled [OF assms(3) en [unfolded is_enabled_def] ready, of iam w]
    show ?thesis
    proof (cases "secret_seen m rs")
      case True
      then show ?thesis
      proof (rule seen_lookup)
        fix g found
        assume g: "py_item ?o ''Secret.v1'' = Inr (JObj g)" "py_get (JObj g) (m @ ''/'' @ secret_name) JNull = Inr found"
            "py_bool found" and found: "group_key found = Some ''Secret.v1''" "found \<in> set rs"
        have "w' = w" and "r = Inr (seaweed_answer ready (seaweed_resources m (JStr m) @ [found]))"
          using assms(4) [unfolded enabled attach_existing [OF g]] by simp_all
        with found show ?thesis using resources_no_secret [of m "JStr m"] by (auto simp: items secrets_of_def)
      qed
    next
      case False
      then show ?thesis
      proof (rule unseen_lookup)
        fix g
        assume g: "py_item ?o ''Secret.v1'' = Inr (JObj g)" "py_get (JObj g) (m @ ''/'' @ secret_name) JNull = Inr JNull"
        have "\<not> py_bool JNull" by simp
        note call = assms(4) [unfolded enabled attach_new [OF g this]]
        obtain q where q: "create_credentials iam m (JStr m) w = (q, w')" using call by (auto simp: prod_eq_iff)
        note store = credentials_store [OF assms(1,2) q]
        from call q resources_no_secret [of m "JStr m"] store show ?thesis
          by (cases q) (auto simp: items secrets_of_def)
      qed
    qed
  qed
  show "store_grows ns st w w'" and "r = Inr resp \<Longrightarrow> \<forall>x \<in> secrets_of (response_items ''attachments'' resp). x \<in> secrets_of rs \<or> good_secret m st w' x"
    using on off by (cases "is_enabled parent"; simp add: secrets_of_def)+
qed

text \<open>The invariant of the loop, for a profile.\<close>

definition genuine_secrets :: "string \<Rightarrow> 'w store_view \<Rightarrow> cluster \<times> 'w \<Rightarrow> bool" where
  "genuine_secrets ns st s \<longleftrightarrow> (\<forall>r \<in> secrets_of (objects (fst s) ns). good_secret ns st (snd s) r)"

lemma step_genuine:
  assumes "creates_keys iam st" and "puts_policies iam st" and "seaweed_step iam s e s'"
    and "named_rightly e" and "e \<noteq> Tampered ns" and "genuine_secrets ns st s"
  shows "store_grows ns st (snd s) (snd s') \<and> genuine_secrets ns st s'"
  using assms(3)
proof cases
  case (seaweed_answered parent c m w out resp w')
  then have "parent_name parent = Inr (JStr m)" using assms(4) by simp
  note call = call_secrets [OF assms(1,2) this seaweed_answered(4)]
  have "good_secret ns st w' x"
    if "m = ns" "x \<in> secrets_of (response_items ''attachments'' resp)" for x
    using call(2) [OF refl] that assms(6) good_secret_grows [OF _ call(1)] seaweed_answered(1)
    by (auto simp: genuine_secrets_def)
  with call(1) assms(6) show ?thesis
    unfolding seaweed_answered(1-3) genuine_secrets_def by (auto intro: good_secret_grows)
next
  case (seaweed_failed parent c m w out x w')
  then have "parent_name parent = Inr (JStr m)" using assms(4) by simp
  note call = call_secrets(1) [OF assms(1,2) this seaweed_failed(4)]
  with assms(6) show ?thesis
    unfolding seaweed_failed(1-3) genuine_secrets_def by (auto intro: good_secret_grows)
next
  case (seaweed_lost c w m P)
  with assms(6) show ?thesis by (auto simp: genuine_secrets_def secrets_of_def)
next
  case (seaweed_edited c m f w)
  have "secrets_of (map f (objects c m)) \<subseteq> secrets_of (objects c m)"
  proof
    fix x
    assume "x \<in> secrets_of (map f (objects c m))"
    then obtain r where r: "r \<in> set (objects c m)" "x = f r" "group_key (f r) = Some ''Secret.v1''"
      by (auto simp: secrets_of_def)
    from seaweed_edited(4) r(1) have e: "object_id (f r) = object_id r" "group_key r = Some ''Secret.v1'' \<longrightarrow> f r = r" by blast+
    from e(1) r(3) have "group_key r = Some ''Secret.v1''" by (simp add: object_id_def)
    with e(2) have "f r = r" by blast
    with r show "x \<in> secrets_of (objects c m)" by (simp add: secrets_of_def)
  qed
  with seaweed_edited assms(6) show ?thesis by (auto simp: genuine_secrets_def)
next
  case (seaweed_tampered c m f w)
  with assms(5,6) show ?thesis by (auto simp: genuine_secrets_def)
qed

lemma run_genuine:
  assumes "seaweed_run iam s es s'" and "creates_keys iam st" and "puts_policies iam st"
    and "\<forall>e \<in> set es. named_rightly e \<and> e \<noteq> Tampered ns" and "genuine_secrets ns st s"
  shows "store_grows ns st (snd s) (snd s') \<and> genuine_secrets ns st s'"
  using assms
proof (induction rule: seaweed_run.induct)
  case (seaweed_Nil s)
  then show ?case by simp
next
  case (seaweed_Cons s e s' es s'')
  with step_genuine [OF seaweed_Cons.prems(1,2) seaweed_Cons.hyps(1)] show ?case
    by (auto intro: store_grows_trans)
qed

section \<open>What a Secret opens\<close>

lemma unique_key_user:
  "distinct (key_ids ks) \<Longrightarrow> (u, a, s) \<in> set ks \<Longrightarrow> (u', a, s') \<in> set ks \<Longrightarrow> u' = u"
  by (induction ks) (auto simp: key_ids_def rev_image_eqI)

lemma good_secret_opens:
  assumes "good_secret ns st w r" and "distinct (key_ids (issued st w))" and "dns_label ns"
    and "policies st w (JStr ns) \<in> {Map.empty, [policy_name ns \<mapsto> dumps (project_policy ns)]}"
  shows "\<exists>a s. map_option b64decode (str_at r [Key ''data'', Key ''accesskey'']) = Some (Some a) \<and>
    map_option b64decode (str_at r [Key ''data'', Key ''secretkey'']) = Some (Some s) \<and>
    (\<forall>object_path. opens st w (a, s) object_path \<longleftrightarrow> policy_allows (dumps (project_policy ns)) object_path)"
proof -
  obtain a s where r: "r = seaweed_secret (JStr ns) a s" "(JStr ns, a, s) \<in> set (issued st w)"
      "policies st w (JStr ns) (policy_name ns) = Some (dumps (project_policy ns))"
    using assms(1) by (auto simp: good_secret_def)
  with assms(4) have only: "policies st w (JStr ns) = [policy_name ns \<mapsto> dumps (project_policy ns)]" by auto
  have "u = JStr ns" if "(u, a, s) \<in> set (issued st w)" for u
    using unique_key_user [OF assms(2) r(2) that] by simp
  note user = this
  have "opens st w (a, s) path \<longleftrightarrow> policy_allows (dumps (project_policy ns)) path" for path
  proof
    assume "opens st w (a, s) path"
    then obtain u name doc where u: "(u, a, s) \<in> set (issued st w)" "policies st w u name = Some doc" "policy_allows doc path"
      by (auto simp: opens_def)
    from u(2) [unfolded user [OF u(1)] only] have "doc = dumps (project_policy ns)" by (simp only: fun_upd_apply option.inject option.distinct simp_thms split: if_splits)
    with u(3) show "policy_allows (dumps (project_policy ns)) path" by simp
  next
    assume "policy_allows (dumps (project_policy ns)) path"
    with r(2,3) show "opens st w (a, s) path" unfolding opens_def by blast
  qed
  moreover have "map_option b64decode (str_at r [Key ''data'', Key ''accesskey'']) = Some (Some a)"
      "map_option b64decode (str_at r [Key ''data'', Key ''secretkey'']) = Some (Some s)"
    by (simp_all add: r(1) seaweed_secret_def b64.decode_encode)
  ultimately show ?thesis by blast
qed

text \<open>
  C4. The credentials a profile finds in its Secret, in any run of the loop, whatever fails, is removed
  or edited on the way (short of somebody writing into the Secret itself), and whatever keys the store held
  before, open the private objects of a profile if and only if it is the same profile, and its private
  artifacts and private folder alike. So no Secret is handed out before its policy is in place, and none ever
  holds the key of another user.
\<close>

theorem seaweed_secret_opens_own:
  assumes "creates_keys iam st" and "puts_policies iam st"
    and "distinct (key_ids (issued st w0))" and "policies st w0 (JStr ns) = Map.empty"
    and "seaweed_run iam (empty_cluster, w0) es (c, w)" and "\<forall>e \<in> set es. named_rightly e \<and> e \<noteq> Tampered ns"
    and "r \<in> set (objects c ns)" and "group_key r = Some ''Secret.v1''" and "dns_label ns" and "dns_label other"
  shows "\<exists>a s. map_option b64decode (str_at r [Key ''data'', Key ''accesskey'']) = Some (Some a) \<and>
    map_option b64decode (str_at r [Key ''data'', Key ''secretkey'']) = Some (Some s) \<and>
    (opens st w (a, s) (''mlpipeline/private-artifacts/'' @ other @ ''/'' @ path) \<longleftrightarrow> other = ns) \<and>
    (opens st w (a, s) (''mlpipeline/private/'' @ other @ ''/'' @ path) \<longleftrightarrow> other = ns)"
proof -
  have "genuine_secrets ns st (empty_cluster, w0)" by (simp add: genuine_secrets_def secrets_of_def empty_cluster_def)
  from run_genuine [OF assms(5,1,2,6) this] assms(7,8)
  have good: "store_grows ns st w0 w" "good_secret ns st w r" by (auto simp: genuine_secrets_def secrets_of_def)
  then have "distinct (key_ids (issued st w))"
      "policies st w (JStr ns) \<in> {Map.empty, [policy_name ns \<mapsto> dumps (project_policy ns)]}"
    using assms(3,4) by (auto simp: store_grows_def)
  from good_secret_opens [OF good(2) this(1) assms(9) this(2)] policy_isolates [OF assms(9,10)] show ?thesis by metis
qed

text \<open>A store that numbers its keys, and refuses a key whose number is taken.\<close>

record store =
  store_keys :: "(json \<times> string \<times> string) list"
  store_policies :: "json \<Rightarrow> string \<rightharpoonup> string"

definition store_iam :: "store iam_client" where
  "store_iam = \<lparr>
     create_access_key = (\<lambda>user w.
       let n = show_nat (length (store_keys w)) in
       if ''id'' @ n \<in> set (key_ids (store_keys w)) then (Inl (ClientError ''ServiceFailure''), w)
       else (Inr (JObj [(''AccessKey'', JObj [
               (''AccessKeyId'', JStr (''id'' @ n)), (''SecretAccessKey'', JStr (''secret'' @ n))])]),
             w\<lparr>store_keys := store_keys w @ [(user, ''id'' @ n, ''secret'' @ n)]\<rparr>)),
     put_user_policy = (\<lambda>user name doc w.
       (Inr JNull, w\<lparr>store_policies := (store_policies w)(user := (store_policies w user)(name \<mapsto> doc))\<rparr>))\<rparr>"

definition store_view_of :: "store store_view" where
  "store_view_of = \<lparr>issued = store_keys, policies = store_policies\<rparr>"

definition other_store :: store where
  "other_store = \<lparr>store_keys = [(JStr ''admin'', ''root'', ''root'')], store_policies = (\<lambda>u. Map.empty)\<rparr>"

lemma store_contract: "creates_keys store_iam store_view_of" "puts_policies store_iam store_view_of"
proof -
  have fresh: "\<exists>a. a \<notin> set xs" for xs :: "string list"
    using ex_new_if_finite [OF infinite_UNIV_listI finite_set] by blast
  show "creates_keys store_iam store_view_of"
    using fresh by (auto simp: creates_keys_def store_iam_def store_view_of_def access_key_field_def Let_def)
  show "puts_policies store_iam store_view_of"
    by (auto simp: puts_policies_def store_iam_def store_view_of_def)
qed

theorem seaweed_secret_opens_own_witness:
  "\<exists>c w. seaweed_run store_iam (empty_cluster, other_store) [Answered ''alice'' (enabled_parents ''alice'')] (c, w) \<and>
    (\<exists>r \<in> set (objects c ''alice''). \<exists>a s.
      map_option b64decode (str_at r [Key ''data'', Key ''accesskey'']) = Some (Some a) \<and>
      map_option b64decode (str_at r [Key ''data'', Key ''secretkey'']) = Some (Some s) \<and>
      opens store_view_of w (a, s) ''mlpipeline/private/alice/x'' \<and> \<not> opens store_view_of w (a, s) ''mlpipeline/private/alice-2/x'')"
proof -
  let ?p = "enabled_parents ''alice''" and ?o = "observation [] (map fst seaweed_checks)"
  obtain ready where ready: "all_counts ?o seaweed_checks = Inr ready" using observation_counts by blast
  obtain g where g: "py_item ?o ''Secret.v1'' = Inr (JObj g)" "py_get (JObj g) (''alice'' @ ''/'' @ secret_name) JNull = Inr JNull"
    using unseen_lookup [of "''alice''" "[]"] by (auto simp: secret_seen_def)
  have "''id'' @ show_nat 1 \<notin> set (key_ids (store_keys other_store))" by (simp add: other_store_def key_ids_def)
  then obtain q w where "create_credentials store_iam ''alice'' (JStr ''alice'') other_store = (Inr q, w)"
    by (simp add: create_credentials_def store_iam_def other_store_def secret_of_reply_def access_key_field_def Let_def)
  then obtain out resp where call: "sync_seaweed store_iam ?p ?o other_store = (out, Inr resp, w)"
    by (simp add: sync_seaweed_enabled [OF enabled_parents ready] attach_new [OF g])
  let ?c = "empty_cluster\<lparr>objects := (objects empty_cluster)(''alice'' := response_items ''attachments'' resp),
      profile_status := (profile_status empty_cluster)(''alice'' := json_at resp [Key ''status''])\<rparr>"
  have "objects empty_cluster ''alice'' = []" by (simp add: empty_cluster_def)
  with call have "sync_seaweed store_iam ?p (observation (objects empty_cluster ''alice'') (map fst seaweed_checks)) other_store =
      (out, Inr resp, w)" by simp
  from seaweed_Cons [OF seaweed_answered [OF this] seaweed_Nil]
  have run: "seaweed_run store_iam (empty_cluster, other_store) [Answered ''alice'' ?p] (?c, w)" .
  have "secret_seen ''alice'' (objects ?c ''alice'')" using enabled_call(2) [OF enabled_parents call refl] by simp
  then obtain r where r: "r \<in> set (objects ?c ''alice'')" "group_key r = Some ''Secret.v1''" by (auto simp: secret_seen_def)
  have start: "distinct (key_ids (issued store_view_of other_store))"
      "policies store_view_of other_store (JStr ''alice'') = Map.empty"
    by (simp_all add: store_view_of_def other_store_def key_ids_def)
  have events: "\<forall>e \<in> set [Answered ''alice'' ?p]. named_rightly e \<and> e \<noteq> Tampered ''alice''" by (simp add: enabled_parents)
  have labels: "dns_label ''alice''" "dns_label ''alice-2''" by (simp_all add: dns_label_def is_digit_def)
  note own = seaweed_secret_opens_own [OF store_contract start run events r labels(1), of _ "''x''"]
  from own [OF labels(1)] own [OF labels(2)] obtain a s where
    "map_option b64decode (str_at r [Key ''data'', Key ''accesskey'']) = Some (Some a)"
    "map_option b64decode (str_at r [Key ''data'', Key ''secretkey'']) = Some (Some s)"
    "opens store_view_of w (a, s) ''mlpipeline/private/alice/x''" "\<not> opens store_view_of w (a, s) ''mlpipeline/private/alice-2/x''"
    by auto
  with r(1) run show ?thesis by blast
qed

end
