(* ===== verification/Spec2Isabelle.thy ===== *)
theory Spec2Isabelle
  imports SyncProps SettingsProps VariantProps ReconcileProps SeaweedProps SeaweedPolicy KfpProps
    KfpContextProps KfpSubmit SeaweedLoop HiveProps HiveEngineProps HiveSchema Experiments LlavaProxy ModelServers ImageTransformer SmallExamples ExplainQuery
    CommandLine ServerRuns SeaweedStore
begin

text \<open>
  A verification development for the Python code of kubefrog-kvmserver.

  \<^bold>\<open>The program.\<close> The repository deploys Kubeflow on a virtual machine server. Its own logic is in
  several places. Under \<open>kubeflow/pipelines\<close> there are five versions of the controller script that
  sets a user's profile (a namespace) up for pipelines: an HTTP server which the metacontroller
  calls with the namespace object and the objects it observes, and which answers with a status
  and the objects that shall exist. Under \<open>examples/pipeline_notebook\<close> there is a modified client
  of the pipelines service (\<open>_client.py\<close>, \<open>_credentials.py\<close>) and two Katib experiments that it submits.
  \<open>superset/hive_minios3.py\<close> is the Hive engine of Superset with uploads to an object store. The rest
  are small servers (a proxy in front of the LLaVA model, two model servers, an image
  transformer) and example pipelines.

  \<^bold>\<open>Conventions.\<close> A Python \<open>str\<close> is the list of the bytes of its UTF-8 encoding. An exception is the
  left side of a sum (\<open>pyexn\<close>); \<open>Unmodelled\<close> marks the few inputs whose behaviour is left open,
  as an exception, so that no theorem about a result rests on them. JSON values are a datatype
  whose objects are association lists in insertion order. Code outside the repository
  (the IAM client of botocore, \<open>kfp_server_api\<close>, the Kubernetes and Google helpers, the clock, Hive and
  the database session, the object store, the models) is a parameter: functions on an abstract
  world that may raise, or a sequence of answers.

  \<^bold>\<open>Theories and the code they model.\<close>
  \<^item> \<open>Prelude\<close>: exceptions, sequencing, Python's \<open>or\<close>, environment and files, decimals and \<open>int(s)\<close>,
    the locale \<open>codec\<close> (what a writer and a reader promise each other).
  \<^item> \<open>PyJson\<close>: JSON values, \<open>json.dumps\<close>, \<open>json.loads\<close>, \<open>str\<close>, \<open>repr\<close> and \<open>ascii\<close> of a value; the reader
    inverts the writer. \<open>PyRepr\<close>: the float a literal stands for and the shortest decimal that is read back
    as it. \<open>Unprintable\<close>: the code points \<open>repr\<close> escapes. \<open>Base64\<close>: \<open>b64encode\<close> and a decoder that
    inverts it. \<open>PyJson\<close> and \<open>Base64\<close> interpret \<open>codec\<close>.
  \<^item> \<open>Contract\<close>: what the five scripts share: the reading of the parent, the readiness test, the
    webhook \<open>do_POST\<close>, which reads the body and hands the JSON value to the handler of the script (\<open>handle_body\<close>
    takes the two parts of it by the script's own keys); the vocabulary of Kubernetes objects; the locales
    \<open>namespaced_controller\<close> and \<open>profile_controller\<close> (objects in the parent's namespace, told
    apart by group and name, and as many in each group as the readiness test counts).
  \<^item> \<open>Settings\<close>, \<open>Manifests\<close>, \<open>Sync\<close>: \<open>sync.py\<close>, the deployed script: \<open>get_settings_from_env\<close>,
    \<open>main\<close> and \<open>server_factory\<close>; every object of the answer, key by key; \<open>sync\<close> and \<open>do_POST\<close>.
  \<^item> \<open>SyncVariants\<close>: \<open>sync_new.py\<close>, \<open>sync_old.py\<close>, \<open>sync-debug-frontend.py\<close>, over the same builders.
  \<^item> \<open>SyncSeaweed\<close>: \<open>sync_seaweed.py\<close>, which creates keys and policies through IAM.
  \<^item> \<open>Reconcile\<close>: the loop around a script as a step relation on the cluster (calls with the namespace
    object as it is then, removals, edits), a script that a handler stands for being asked through it with the keys
    of the protocol (\<open>asked\<close>), and the locale \<open>reconciled_script\<close>, interpreted for four scripts. \<open>ReconcileSpec\<close>: an
    abstract machine of the objects held and the report per profile, and that the loop around each
    of the four scripts implements it in both directions (locale \<open>watched_script\<close>).
    \<open>SeaweedLoop\<close>: the same loop around \<open>sync_seaweed.py\<close>, whose steps change the world of IAM too.
    \<open>SeaweedStore\<close>: the object store behind IAM, its keys and policies, as what the two calls promise.
  \<^item> \<open>KfpConfig\<close>, \<open>KfpClient\<close>, \<open>KfpRuns\<close>, \<open>KfpPipelines\<close>: \<open>_credentials.py\<close> and the class \<open>Client\<close> of
    \<open>_client.py\<close>: \<open>_load_config\<close> and the host tests; the context file, health check and experiments;
    pipelines, packages, runs, schedules and waiting; the whole of \<open>__init__\<close>, the names of the
    generated services, the listings and lookups.
  \<^item> \<open>PyFloat\<close>: Python's binary64 floats as rationals, every operation rounded to the nearest value.
  \<^item> \<open>HiveLog\<close>, \<open>HiveCursor\<close>, \<open>HiveEngine\<close>: \<open>hive_minios3.py\<close>: the regular expressions with the
    backtracking of \<open>re.match\<close>, the job tracker \<open>progress\<close>, tracking URLs and error messages; the loop
    \<open>handle_cursor\<close> with its effects, reading the query's row again in every round, as others may have written it
    (\<open>row_progress\<close> and \<open>row_url\<close> of a tick), and the locale \<open>loop_contract\<close> for loops that keep a
    preorder between the states before and after an iteration; the uploads of data frames and the
    SQL fragments.
  \<^item> \<open>Experiments\<close>: the Katib experiments of \<open>mpi-job-horovod.py\<close> and \<open>early-stopping.ipynb\<close>, and a typing
    of trial templates. \<open>LlavaProxy\<close>: \<open>apps.py\<close> and \<open>mock_api.py\<close> of the proxy. \<open>ModelServers\<close>: the two
    \<open>models.py\<close> under \<open>examples/kserve-llm\<close> and \<open>examples/kserve-fluid\<close>, with \<open>str.format\<close>;
    \<open>ServerRuns\<close>: the same over many requests, \<open>init\<close> being tried until it returns (locale \<open>loading_server\<close>).
    \<open>ImageTransformer\<close>: \<open>image_transformer.py\<close> under schedules of overlapping requests.
    \<open>SmallExamples\<close>: \<open>train_until_good.py\<close>, \<open>knative-serving/app-test/app.py\<close>. \<open>ExplainQuery\<close>:
    \<open>query_explain.py\<close>, from its arguments to the figure. \<open>CommandLine\<close>: the part of \<open>argparse\<close> that
    \<open>download_model.py\<close>, the \<open>__main__.py\<close> of the transformer and the \<open>models.py\<close> of the proxy use, and these three.
    Each of these holds its properties or lemmas too.
  \<^item> \<open>Wiring\<close>, \<open>JsonDiff\<close>: predicates over manifests (which Service reaches which Deployment, which
    secret keys a container reads) and the paths at which two answers differ.

  \<^bold>\<open>What is shown.\<close>
  \<^item> \<open>ReconcileProps\<close>: two calls make an enabled profile ready from any state of the cluster, no
    run ever gives a profile objects of another one, and the loop is exactly the abstract machine: ready
    is reported if and only if no wanted object was missing before the call; and that, each asked through its
    handler, \<open>sync_old.py\<close> and \<open>sync-debug-frontend.py\<close> cannot be told from the deployed script, while
    \<open>sync_new.py\<close> works with neither kind of controller.
  \<^item> \<open>SyncProps\<close>: the same for a single call in terms of what is observed; the exact condition of the
    status and of the exceptions; confinement to the namespace; the log does not depend on the
    credentials; the webhook carries \<open>sync\<close> faithfully, from posted bytes to response bytes; the
    objects of an answer fit together.
  \<^item> \<open>SettingsProps\<close>: which environments the server starts in, which argument wins, and that a profile's
    Secret decodes to the credentials of the environment.
  \<^item> \<open>VariantProps\<close>: the other three scripts settle too; that, each under its own keys, two of them answer alike but
    for two values;
    that \<open>sync_new.py\<close> mixes two protocols and drops its debug image; what they rely on.
  \<^item> \<open>SeaweedProps\<close>, \<open>SeaweedLoop\<close>, \<open>SeaweedPolicy\<close>: when IAM is called and with what; what a failure leaves behind;
    that the script never reports ready; how many
    keys a run of the loop asks for; that a policy, read back from its document, reaches
    the private objects of its own profile only and covers the configured artifact places. \<open>SeaweedStore\<close>: that over
    any run the credentials in the Secret of a profile open just its own private objects.
  \<^item> \<open>KfpProps\<close>, \<open>KfpContextProps\<close>: lookup over pages and where it loops; get-or-create; waiting
    ends and what it returns; retries; schedules; package files; the token, the context file, and
    that a client starts where an earlier one left off. \<open>KfpSubmit\<close>: two submissions under one experiment name
    share the experiment, unless the service refuses to create it; the service may refuse any creation.
  \<^item> \<open>HiveLogProps\<close>: the matcher finds a match exactly when there is one; what the job tracker knows
    after a log; that its value is a percentage on sound logs in spite of rounding.
  \<^item> \<open>HiveProps\<close>: the loop over a query refines a monitor of phase and best percentage; its progress only
    grows if nobody else lowers it; a stop is answered by one cancellation; exactly which lines are logged, under which
    job; exactly which rounds end it; that the tracking URL is not stored. The contract \<open>loop_contract\<close> is interpreted on the loop five times.
  \<^item> \<open>HiveEngineProps\<close>: the order of the effects of \<open>df_to_sql\<close>, seen through services that note the calls: the
    table lies over the uploaded folder unless the prefix is an absolute path, and any failure after the drop of a
    replaced table leaves none.
  \<^item> \<open>HiveSchema\<close>: a reader of the columns in the statement \<open>df_to_sql\<close> writes finds the names and the element types
    of the data frame again, unless a name has a backtick; then two data frames can get the same statement.
  \<^item> \<open>LlavaProxy\<close>: what the proxy answers to every query, by the types of its fields, and the prompt it posts.
    \<open>ModelServers\<close>: the text sent to the model, for templates of named fields with or without a conversion.
    \<open>SmallExamples\<close>: the training ends when the error of a round is not above the bound, or is no number. \<open>ServerRuns\<close>: that the request
    which loads the model fixes the prompt template for all later ones. \<open>CommandLine\<close>: written-out options are read
    back. \<open>ExplainQuery\<close>: every label is drawn with its mask.

  \<^bold>\<open>Termination and bounds.\<close> The JSON reader is total: its recursion tests that the rest of the
  input is shorter, a test shown to succeed always. The health check has five attempts, as in
  the code. The loops that may run for ever (the lookup over pages, the waiting loop, the loop over a
  Hive query, the recursive training) are partial functions whose value is \<open>None\<close> when they do not return; that they return is proved
  under hypotheses on the service (finitely many pages) or on the clock (it is not turned back), or it is
  characterised exactly (the Hive query, the training), and that they can run for ever is proved too. The percentage of a Hive query is bounded for logs of
  at most \<open>2 ^ 40\<close> lines and at most \<open>2 ^ 50\<close> jobs, below which the sums of the floats are exact.

  \<^bold>\<open>Not modelled.\<close> Sockets and the HTTP framing below \<open>rfile\<close>, whether a port is free, the
  attributes, indexes and format specifications in the fields of \<open>str.format\<close>, request bodies in UTF-16 or UTF-32, logging and warnings; the
  compilation of a pipeline function, which its only caller never reaches;
  subnormal results of float arithmetic, digits outside ASCII, time zones; packaging (\<open>setup.py\<close>) and the signal handlers;
  the data set and the colouring of images of the explainer query.
\<close>

end
